(* ===== verification/Swap_Prelude.thy ===== *)
theory Swap_Prelude
  imports Main "HOL-Library.Word" "HOL-Library.Sublist"
begin

text \<open>
  What every theory of the development shares: the names of the machine types, results as
  sums (\<open>Inl\<close> an error, \<open>Inr\<close> a value) with the combinators that stand for Rust's
  \<open>?\<close>, \<open>ok_or\<close>, \<open>map_err\<close> and \<open>ensure!\<close>; programs over a state that may
  fail or never return; the parts of Rust's standard library the sources use
  (\<open>checked_mul\<close>, \<open>saturating_add\<close>, \<open>try_from\<close>, \<open>str::trim\<close>,
  \<open>str::strip_prefix\<close>); and the collections of facts the component theories extend.
\<close>

unbundle bit_operations_syntax

named_theorems run_simps \<open>unfolding the combinators of programs\<close>
named_theorems run_elims \<open>what a program that returned must have done\<close>
named_theorems preserve_intros \<open>programs that keep a predicate of the state\<close>

type_synonym u8 = "8 word"
type_synonym u32 = "32 word"
type_synonym u64 = "64 word"
type_synonym i64 = "64 word"
type_synonym bytes = "u8 list"

section \<open>Results\<close>

fun and_then :: "('e + 'a) \<Rightarrow> ('a \<Rightarrow> 'e + 'b) \<Rightarrow> 'e + 'b" where
  "and_then (Inl e) f = Inl e"
| "and_then (Inr a) f = f a"

fun map_err :: "('e \<Rightarrow> 'f) \<Rightarrow> 'e + 'a \<Rightarrow> 'f + 'a" where
  "map_err f (Inl e) = Inl (f e)"
| "map_err f (Inr a) = Inr a"

fun ok_or :: "'e \<Rightarrow> 'a option \<Rightarrow> 'e + 'a" where
  "ok_or e None = Inl e"
| "ok_or e (Some a) = Inr a"

definition ensure :: "bool \<Rightarrow> 'e \<Rightarrow> 'e + unit" where
  "ensure b e = (if b then Inr () else Inl e)"

lemma ensure_simps [simp]: "ensure True e = Inr ()" "ensure False e = Inl e"
  by (simp_all add: ensure_def)

lemma ensure_Inr [simp]: "ensure b e = Inr u \<longleftrightarrow> b"
  by (simp add: ensure_def)

lemma ensure_Inl [simp]: "ensure b e = Inl e' \<longleftrightarrow> \<not> b \<and> e' = e"
  by (auto simp: ensure_def)

lemma and_then_Inr [simp]: "and_then m f = Inr b \<longleftrightarrow> (\<exists>a. m = Inr a \<and> f a = Inr b)"
  by (cases m) auto

lemma and_then_Inl:
  "and_then m f = Inl e \<longleftrightarrow> m = Inl e \<or> (\<exists>a. m = Inr a \<and> f a = Inl e)"
  by (cases m) auto

lemma map_err_Inr [simp]: "map_err f m = Inr b \<longleftrightarrow> m = Inr b"
  by (cases m) auto

lemma map_err_Inr' [simp]: "Inr b = map_err f m \<longleftrightarrow> m = Inr b"
  by (cases m) auto

lemma map_err_Inl: "map_err f m = Inl e \<longleftrightarrow> (\<exists>e'. m = Inl e' \<and> e = f e')"
  by (cases m) auto

lemma ok_or_Inr [simp]: "ok_or e x = Inr b \<longleftrightarrow> x = Some b"
  by (cases x) auto

lemma ok_or_Inl [simp]: "ok_or e x = Inl e' \<longleftrightarrow> x = None \<and> e' = e"
  by (cases x) auto

section \<open>Programs over a state\<close>

text \<open>
  A program takes the state and returns a result with the new state; \<open>None\<close> says that it
  never returns. An error keeps the effects that came before it, as an early return does.
\<close>

type_synonym ('s, 'e, 'a) run = "'s \<Rightarrow> (('e + 'a) \<times> 's) option"

definition return_run :: "'a \<Rightarrow> ('s, 'e, 'a) run" where
  "return_run a = (\<lambda>s. Some (Inr a, s))"

definition fail_run :: "'e \<Rightarrow> ('s, 'e, 'a) run" where
  "fail_run e = (\<lambda>s. Some (Inl e, s))"

definition lift_run :: "'e + 'a \<Rightarrow> ('s, 'e, 'a) run" where
  "lift_run r = (\<lambda>s. Some (r, s))"

definition bind_run ::
  "('s, 'e, 'a) run \<Rightarrow> ('a \<Rightarrow> ('s, 'e, 'b) run) \<Rightarrow> ('s, 'e, 'b) run" where
  "bind_run m f = (\<lambda>s. case m s of
       None \<Rightarrow> None
     | Some (Inl e, s') \<Rightarrow> Some (Inl e, s')
     | Some (Inr a, s') \<Rightarrow> f a s')"

definition map_err_run :: "('e \<Rightarrow> 'f) \<Rightarrow> ('s, 'e, 'a) run \<Rightarrow> ('s, 'f, 'a) run" where
  "map_err_run f m = (\<lambda>s. case m s of
       None \<Rightarrow> None
     | Some (r, s') \<Rightarrow> Some (map_err f r, s'))"

definition ensure_run :: "bool \<Rightarrow> 'e \<Rightarrow> ('s, 'e, unit) run" where
  "ensure_run b e = lift_run (ensure b e)"

lemma return_run_simp [simp]: "return_run a s = Some (Inr a, s)"
  by (simp add: return_run_def)

lemma fail_run_simp [simp]: "fail_run e s = Some (Inl e, s)"
  by (simp add: fail_run_def)

lemma lift_run_simp [simp]: "lift_run r s = Some (r, s)"
  by (simp add: lift_run_def)

lemma ensure_run_simp [simp]: "ensure_run b e s = Some (ensure b e, s)"
  by (simp add: ensure_run_def)

lemma bind_run_Some:
  "bind_run m f s = Some (r, s') \<longleftrightarrow>
     (\<exists>e. m s = Some (Inl e, s') \<and> r = Inl e) \<or>
     (\<exists>a s1. m s = Some (Inr a, s1) \<and> f a s1 = Some (r, s'))"
  by (auto simp: bind_run_def split: option.splits prod.splits sum.splits)

lemma bind_run_Inr:
  "bind_run m f s = Some (Inr b, s') \<longleftrightarrow>
     (\<exists>a s1. m s = Some (Inr a, s1) \<and> f a s1 = Some (Inr b, s'))"
  by (auto simp: bind_run_def split: option.splits prod.splits sum.splits)

lemma bind_run_eval [run_simps]:
  "m s = Some (Inr a, s1) \<Longrightarrow> bind_run m f s = f a s1"
  "m s = Some (Inl e, s1) \<Longrightarrow> bind_run m f s = Some (Inl e, s1)"
  "m s = None \<Longrightarrow> bind_run m f s = None"
  by (simp_all add: bind_run_def)

lemma map_err_run_Some:
  "map_err_run f m s = Some (r, s') \<longleftrightarrow> (\<exists>r'. m s = Some (r', s') \<and> r = map_err f r')"
  by (auto simp: map_err_run_def split: option.splits prod.splits)

lemma map_err_run_Inr [simp]:
  "map_err_run f m s = Some (Inr b, s') \<longleftrightarrow> m s = Some (Inr b, s')"
proof (cases "m s")
  case None
  then show ?thesis by (simp add: map_err_run_def)
next
  case (Some x)
  then show ?thesis by (cases x; cases "fst x") (auto simp: map_err_run_def)
qed

text \<open>A predicate every outcome of the program keeps, errors included.\<close>

definition preserves :: "('s \<Rightarrow> bool) \<Rightarrow> ('s, 'e, 'a) run \<Rightarrow> bool" where
  "preserves I m \<longleftrightarrow> (\<forall>s r s'. I s \<longrightarrow> m s = Some (r, s') \<longrightarrow> I s')"

lemma preservesI: "(\<And>s r s'. I s \<Longrightarrow> m s = Some (r, s') \<Longrightarrow> I s') \<Longrightarrow> preserves I m"
  by (auto simp: preserves_def)

lemma preservesD: "preserves I m \<Longrightarrow> m s = Some (r, s') \<Longrightarrow> I s \<Longrightarrow> I s'"
  by (auto simp: preserves_def)

lemma preserves_lift [preserve_intros]: "preserves I (lift_run r)"
  by (auto simp: preserves_def)

lemma preserves_return [preserve_intros]: "preserves I (return_run a)"
  by (auto simp: preserves_def)

lemma preserves_fail [preserve_intros]: "preserves I (fail_run e)"
  by (auto simp: preserves_def)

lemma preserves_ensure [preserve_intros]: "preserves I (ensure_run b e)"
  by (auto simp: preserves_def)

lemma preserves_bind [preserve_intros]:
  assumes "preserves I m" and "\<And>a. preserves I (f a)"
  shows "preserves I (bind_run m f)"
proof (rule preservesI)
  fix s r s'
  assume "I s" and "bind_run m f s = Some (r, s')"
  then consider e where "m s = Some (Inl e, s')"
    | a s1 where "m s = Some (Inr a, s1)" and "f a s1 = Some (r, s')"
    by (auto simp: bind_run_Some)
  then show "I s'"
    using \<open>I s\<close> assms by cases (blast dest: preservesD)+
qed

lemma preserves_map_err [preserve_intros]: "preserves I m \<Longrightarrow> preserves I (map_err_run f m)"
  by (fastforce simp: preserves_def map_err_run_Some)

lemma preserves_if [preserve_intros]:
  "preserves I m \<Longrightarrow> preserves I n \<Longrightarrow> preserves I (if b then m else n)"
  by simp

section \<open>Rust's integers\<close>

definition checked_mul :: "'n::len word \<Rightarrow> 'n word \<Rightarrow> 'n word option" where
  "checked_mul a b = (if unat a * unat b < 2 ^ LENGTH('n) then Some (a * b) else None)"

definition saturating_add :: "'n::len word \<Rightarrow> 'n word \<Rightarrow> 'n word" where
  "saturating_add a b = (if unat a + unat b < 2 ^ LENGTH('n) then a + b else -1)"

definition u64_try_from :: "int \<Rightarrow> u64 option" where
  "u64_try_from n = (if 0 \<le> n \<and> n < 2 ^ 64 then Some (word_of_int n) else None)"

definition u32_try_from :: "int \<Rightarrow> u32 option" where
  "u32_try_from n = (if 0 \<le> n \<and> n < 2 ^ 32 then Some (word_of_int n) else None)"

lemma checked_mul_Some:
  "checked_mul a b = Some c \<Longrightarrow> unat c = unat a * unat b"
  by (auto simp: checked_mul_def unat_word_ariths split: if_splits)

lemma checked_mul_None:
  fixes a b :: "'n::len word"
  shows "checked_mul a b = None \<longleftrightarrow> 2 ^ LENGTH('n) \<le> unat a * unat b"
  by (auto simp: checked_mul_def)

lemma unat_saturating_add:
  fixes a b :: "'n::len word"
  shows "unat (saturating_add a b) = min (unat a + unat b) (2 ^ LENGTH('n) - 1)"
proof (cases "unat a + unat b < 2 ^ LENGTH('n)")
  case True
  then show ?thesis by (simp add: saturating_add_def unat_word_ariths)
next
  case False
  then have "2 ^ LENGTH('n) - 1 \<le> unat a + unat b" by simp
  with False show ?thesis
    by (simp add: saturating_add_def unsigned_minus_1_eq_mask mask_eq_exp_minus_1 min.absorb2)
qed

lemma u64_try_from_uint [simp]: "u64_try_from (uint w) = Some w"
  using uint_lt2p [of w] by (simp add: u64_try_from_def)

lemma u32_try_from_uint [simp]: "u32_try_from (uint w) = Some w"
  using uint_lt2p [of w] by (simp add: u32_try_from_def)

section \<open>Rust's strings\<close>

text \<open>
  A \<open>String\<close> is its UTF-8 bytes as a list of \<open>char\<close>. The code points of Unicode's
  property White\_Space, which \<open>str::trim\<close> strips, are these byte sequences.
\<close>

definition white_space :: "string list" where
  "white_space = map (map char_of)
     [[9::nat], [10], [11], [12], [13], [32], [194, 133], [194, 160], [225, 154, 128],
      [226, 128, 128], [226, 128, 129], [226, 128, 130], [226, 128, 131], [226, 128, 132],
      [226, 128, 133], [226, 128, 134], [226, 128, 135], [226, 128, 136], [226, 128, 137],
      [226, 128, 138], [226, 128, 168], [226, 128, 169], [226, 128, 175], [226, 129, 159],
      [227, 128, 128]]"

definition strip_prefix :: "string \<Rightarrow> string \<Rightarrow> string option" where
  "strip_prefix p s = (if take (length p) s = p then Some (drop (length p) s) else None)"

function strip_all :: "string list \<Rightarrow> string \<Rightarrow> string" where
  "strip_all ps s =
     (case find (\<lambda>p. p \<noteq> [] \<and> take (length p) s = p) ps of
        None \<Rightarrow> s
      | Some p \<Rightarrow> strip_all ps (drop (length p) s))"
  by pat_completeness auto
termination
proof (relation "measure (\<lambda>(ps, s). length s)")
  fix ps s p
  assume "find (\<lambda>p. p \<noteq> [] \<and> take (length p) s = p) ps = Some p"
  then have "p \<noteq> []" and "take (length p) s = p" by (auto simp: find_Some_iff)
  then have "s \<noteq> []" by auto
  with \<open>p \<noteq> []\<close> show "((ps, drop (length p) s), ps, s) \<in> measure (\<lambda>(ps, s). length s)"
    by (cases s; cases p) auto
qed simp

declare strip_all.simps [simp del]

definition trim :: "string \<Rightarrow> string" where
  "trim s = rev (strip_all (map rev white_space) (rev (strip_all white_space s)))"

text \<open>How \<open>format!\<close> prints an unsigned integer.\<close>

fun decimal :: "nat \<Rightarrow> string" where
  "decimal n = (if n < 10 then [char_of (48 + n)] else decimal (n div 10) @ [char_of (48 + n mod 10)])"

declare decimal.simps [simp del]

lemma strip_prefix_append [simp]: "strip_prefix p (p @ s) = Some s"
  by (simp add: strip_prefix_def)

lemma strip_prefix_Some: "strip_prefix p s = Some t \<longleftrightarrow> s = p @ t"
  by (auto simp: strip_prefix_def) (metis append_take_drop_id)

lemma strip_all_Nil [simp]: "strip_all ps [] = []"
  by (subst strip_all.simps) (auto simp: find_Some_iff split: option.splits)

lemma trim_Nil [simp]: "trim [] = []"
  by (simp add: trim_def)

lemma strip_all_suffix: "suffix (strip_all ps s) s"
proof (induction ps s rule: strip_all.induct)
  case (1 ps s)
  show ?case
  proof (cases "find (\<lambda>p. p \<noteq> [] \<and> take (length p) s = p) ps")
    case None
    then show ?thesis by (simp add: strip_all.simps [of ps s])
  next
    case (Some p)
    with "1.IH" have "suffix (strip_all ps (drop (length p) s)) (drop (length p) s)" by simp
    then have "suffix (strip_all ps (drop (length p) s)) s"
      using suffix_drop suffix_order.trans by blast
    with Some show ?thesis by (simp add: strip_all.simps [of ps s])
  qed
qed

lemma length_strip_all: "length (strip_all ps s) \<le> length s"
  using strip_all_suffix by (rule suffix_length_le)

lemma strip_all_id:
  "(\<And>p. p \<in> set ps \<Longrightarrow> p \<noteq> [] \<Longrightarrow> take (length p) s \<noteq> p) \<Longrightarrow> strip_all ps s = s"
  by (subst strip_all.simps) (auto simp: find_None_iff split: option.splits dest!: find_Some_iff [THEN iffD1])

end
