(* ===== verification/Swap_Types.thy ===== *)
theory Swap_Types
  imports Swap_Prelude
begin

text \<open>
  The data of the program: the persisted records and their enums (\<open>src/swap/mod.rs\<close>) and
  the messages and enums of the gRPC schema (\<open>proto/ln_liquid_swap/v1/swap.proto\<close>), with
  the enum numbers the schema gives. Field names carry a prefix (\<open>sr_\<close>, \<open>qr_\<close>,
  ...) since Isabelle's record fields share one name space.
\<close>

section \<open>Persisted records\<close>

datatype swap_status = Created | Funded | Paid | Claimed | Refunded | Failed

datatype swap_direction = LnToLiquid | LiquidToLn

record swap_record =
  sr_swap_id :: string
  sr_quote_id :: string
  sr_direction :: swap_direction
  sr_bolt11_invoice :: string
  sr_payment_hash :: string
  sr_asset_id :: string
  sr_asset_amount :: u64
  sr_total_price_msat :: u64
  sr_buyer_liquid_address :: string
  sr_fee_subsidy_sats :: u64
  sr_refund_lock_height :: u32
  sr_p2wsh_address :: string
  sr_witness_script_hex :: string
  sr_funding_txid :: string
  sr_asset_vout :: u32
  sr_lbtc_vout :: u32
  sr_min_funding_confs :: u32
  sr_ln_payment_id :: "string option"
  sr_ln_preimage_hex :: "string option"
  sr_claim_txid :: "string option"
  sr_status :: swap_status

record quote_record =
  qr_quote_id :: string
  qr_offer_id :: string
  qr_direction :: swap_direction
  qr_asset_id :: string
  qr_asset_amount :: u64
  qr_min_funding_confs :: u32
  qr_total_price_msat :: u64
  qr_price_msat_per_asset_unit :: u64
  qr_fee_subsidy_sats :: u64
  qr_refund_delta_blocks :: u32
  qr_invoice_expiry_secs :: u32
  qr_max_min_funding_confs :: u32
  qr_swap_id :: "string option"

section \<open>The enums of the schema\<close>

text \<open>
  A protobuf enum travels as an \<open>i32\<close>; reading it back (\<open>try_from\<close>) fails on a number
  the schema does not define.
\<close>

datatype pb_direction = PbDirUnspecified | PbLnToLiquid | PbLiquidToLn

datatype pb_role = PbRoleUnspecified | PbBuyer | PbSeller

datatype pb_status =
  PbStatusUnspecified | PbCreated | PbFunded | PbClaimed | PbRefunded | PbFailed | PbPaid

fun direction_i32 :: "pb_direction \<Rightarrow> int" where
  "direction_i32 PbDirUnspecified = 0"
| "direction_i32 PbLnToLiquid = 1"
| "direction_i32 PbLiquidToLn = 2"

fun role_i32 :: "pb_role \<Rightarrow> int" where
  "role_i32 PbRoleUnspecified = 0"
| "role_i32 PbBuyer = 1"
| "role_i32 PbSeller = 2"

fun status_i32 :: "pb_status \<Rightarrow> int" where
  "status_i32 PbStatusUnspecified = 0"
| "status_i32 PbCreated = 1"
| "status_i32 PbFunded = 2"
| "status_i32 PbClaimed = 3"
| "status_i32 PbRefunded = 4"
| "status_i32 PbFailed = 5"
| "status_i32 PbPaid = 6"

definition direction_try_from :: "int \<Rightarrow> pb_direction option" where
  "direction_try_from n =
     find (\<lambda>d. direction_i32 d = n) [PbDirUnspecified, PbLnToLiquid, PbLiquidToLn]"

definition role_try_from :: "int \<Rightarrow> pb_role option" where
  "role_try_from n = find (\<lambda>r. role_i32 r = n) [PbRoleUnspecified, PbBuyer, PbSeller]"

definition status_try_from :: "int \<Rightarrow> pb_status option" where
  "status_try_from n =
     find (\<lambda>s. status_i32 s = n)
       [PbStatusUnspecified, PbCreated, PbFunded, PbClaimed, PbRefunded, PbFailed, PbPaid]"

lemma direction_roundtrip [simp]: "direction_try_from (direction_i32 d) = Some d"
  by (cases d) (simp_all add: direction_try_from_def)

lemma role_roundtrip [simp]: "role_try_from (role_i32 r) = Some r"
  by (cases r) (simp_all add: role_try_from_def)

lemma status_roundtrip [simp]: "status_try_from (status_i32 s) = Some s"
  by (cases s) (simp_all add: status_try_from_def)

lemma direction_try_from_Some: "direction_try_from n = Some d \<longleftrightarrow> n = direction_i32 d"
  by (cases d) (auto simp: direction_try_from_def split: if_splits)

lemma direction_i32_inject [simp]: "direction_i32 d = direction_i32 d' \<longleftrightarrow> d = d'"
  by (cases d; cases d') simp_all

lemma status_i32_inject [simp]: "status_i32 s = status_i32 s' \<longleftrightarrow> s = s'"
  by (cases s; cases s') simp_all

lemma role_i32_inject [simp]: "role_i32 r = role_i32 r' \<longleftrightarrow> r = r'"
  by (cases r; cases r') simp_all

section \<open>The messages of the schema\<close>

record pb_offer =
  of_asset_id :: string
  of_supported_directions :: "int list"
  of_price_msat_per_asset_unit :: u64
  of_fee_subsidy_sats :: u64
  of_refund_delta_blocks :: u32
  of_invoice_expiry_secs :: u32
  of_max_min_funding_confs :: u32

record pb_parties =
  pa_ln_payer :: int
  pa_ln_payee :: int
  pa_liquid_funder :: int
  pa_liquid_claimer :: int
  pa_liquid_refunder :: int

record pb_quote =
  pq_quote_id :: string
  pq_offer_id :: string
  pq_offer :: "pb_offer option"
  pq_direction :: int
  pq_parties :: "pb_parties option"
  pq_asset_id :: string
  pq_asset_amount :: u64
  pq_min_funding_confs :: u32
  pq_total_price_msat :: u64

record pb_liquid_htlc =
  lh_asset_id :: string
  lh_asset_amount :: u64
  lh_fee_subsidy_sats :: u64
  lh_refund_lock_height :: u32
  lh_p2wsh_address :: string
  lh_witness_script :: bytes
  lh_funding_txid :: string
  lh_asset_vout :: u32
  lh_lbtc_vout :: u32
  lh_min_funding_confs :: u32

record pb_swap =
  ps_swap_id :: string
  ps_quote_id :: string
  ps_direction :: int
  ps_parties :: "pb_parties option"
  ps_bolt11_invoice :: string
  ps_payment_hash :: string
  ps_status :: int
  ps_liquid :: "pb_liquid_htlc option"

record create_quote_request =
  cq_direction :: int
  cq_asset_id :: string
  cq_asset_amount :: u64
  cq_min_funding_confs :: u32

record get_quote_request =
  gq_quote_id :: string

record create_swap_request =
  cs_quote_id :: string
  cs_buyer_liquid_address :: string
  cs_buyer_bolt11_invoice :: string

record get_swap_request =
  gs_swap_id :: string

record create_lightning_payment_request =
  lp_swap_id :: string
  lp_payment_timeout_secs :: u32

record lightning_payment =
  pay_payment_id :: string
  pay_preimage :: bytes

record create_asset_claim_request =
  ac_swap_id :: string
  ac_claim_fee_sats :: u64

record asset_claim =
  ac_claim_txid :: string

end
