(* ===== verification/Sql_Tables.thy ===== *)
theory Sql_Tables
  imports Swap_Prelude "HOL-Library.List_Lexorder" "HOL-Library.Char_ord"
begin

text \<open>
  The SQL that \<open>src/swap/store.rs\<close> sends to SQLite, statement by statement: tables with
  declared columns and rows of values; \<open>INSERT\<close> with defaults, not-null and primary-key
  checks; \<open>SELECT ... WHERE key = ?1\<close>; \<open>UPDATE ... WHERE key = ?1\<close>; \<open>ORDER BY\<close>;
  \<open>ALTER TABLE ADD COLUMN\<close>; and how rusqlite converts values on the way in and out.
  The engine itself may refuse any statement (I/O, lock timeout): each statement takes the
  engine's verdict, \<open>None\<close> when it executes it, and a refused statement changes nothing.
\<close>

section \<open>Values and their order\<close>

datatype sql_value = SqlNull | SqlInt int | SqlText string

text \<open>SQLite sorts NULL before integers before text, text by its bytes.\<close>

instantiation sql_value :: linorder
begin

fun less_eq_sql_value :: "sql_value \<Rightarrow> sql_value \<Rightarrow> bool" where
  "less_eq_sql_value SqlNull _ = True"
| "less_eq_sql_value (SqlInt a) SqlNull = False"
| "less_eq_sql_value (SqlInt a) (SqlInt b) = (a \<le> b)"
| "less_eq_sql_value (SqlInt a) (SqlText _) = True"
| "less_eq_sql_value (SqlText s) (SqlText t) = (s \<le> t)"
| "less_eq_sql_value (SqlText s) _ = False"

definition less_sql_value :: "sql_value \<Rightarrow> sql_value \<Rightarrow> bool" where
  "less_sql_value a b \<longleftrightarrow> a \<le> b \<and> \<not> b \<le> a"

instance
proof
  fix a b c :: sql_value
  show "(a < b) = (a \<le> b \<and> \<not> b \<le> a)" by (rule less_sql_value_def)
  show "a \<le> a" by (cases a) simp_all
  show "a \<le> b \<Longrightarrow> b \<le> c \<Longrightarrow> a \<le> c" by (cases a; cases b; cases c) auto
  show "a \<le> b \<Longrightarrow> b \<le> a \<Longrightarrow> a = b" by (cases a; cases b) auto
  show "a \<le> b \<or> b \<le> a" by (cases a; cases b) auto
qed

end

section \<open>Errors and conversions\<close>

datatype store_error =
    EngineError string
  | NoSuchTable
  | NoSuchColumn string
  | DuplicateColumn string
  | NotNullViolation string
  | UniqueViolation
  | ToSqlConversion
  | InvalidColumnType nat
  | FromSqlConversion nat
  | QuoteMissing string
  | SwapMissing string

text \<open>rusqlite stores an unsigned 64-bit value only when it fits SQLite's signed one.\<close>

definition to_sql_u64 :: "u64 \<Rightarrow> store_error + sql_value" where
  "to_sql_u64 v = (if uint v < 2 ^ 63 then Inr (SqlInt (uint v)) else Inl ToSqlConversion)"

definition to_sql_u32 :: "u32 \<Rightarrow> store_error + sql_value" where
  "to_sql_u32 v = Inr (SqlInt (uint v))"

definition to_sql_text :: "string \<Rightarrow> store_error + sql_value" where
  "to_sql_text s = Inr (SqlText s)"

definition to_sql_opt_text :: "string option \<Rightarrow> store_error + sql_value" where
  "to_sql_opt_text s = Inr (case s of None \<Rightarrow> SqlNull | Some t \<Rightarrow> SqlText t)"

fun bind_params :: "(store_error + sql_value) list \<Rightarrow> store_error + sql_value list" where
  "bind_params [] = Inr []"
| "bind_params (p # ps) = and_then p (\<lambda>v. and_then (bind_params ps) (\<lambda>vs. Inr (v # vs)))"

definition get_i64 :: "sql_value list \<Rightarrow> nat \<Rightarrow> store_error + int" where
  "get_i64 vs i = (case vs ! i of SqlInt n \<Rightarrow> Inr n | _ \<Rightarrow> Inl (InvalidColumnType i))"

definition get_text :: "sql_value list \<Rightarrow> nat \<Rightarrow> store_error + string" where
  "get_text vs i = (case vs ! i of SqlText s \<Rightarrow> Inr s | _ \<Rightarrow> Inl (InvalidColumnType i))"

definition get_opt_text :: "sql_value list \<Rightarrow> nat \<Rightarrow> store_error + string option" where
  "get_opt_text vs i =
     (case vs ! i of SqlNull \<Rightarrow> Inr None | SqlText s \<Rightarrow> Inr (Some s) | SqlInt _ \<Rightarrow> Inl (InvalidColumnType i))"

definition conv_u64 :: "nat \<Rightarrow> int \<Rightarrow> store_error + u64" where
  "conv_u64 i n = ok_or (FromSqlConversion i) (u64_try_from n)"

definition conv_u32 :: "nat \<Rightarrow> int \<Rightarrow> store_error + u32" where
  "conv_u32 i n = ok_or (FromSqlConversion i) (u32_try_from n)"

section \<open>Tables and statements\<close>

record column_decl =
  cd_name :: string
  cd_not_null :: bool
  cd_default :: "sql_value option"
  cd_primary :: bool

type_synonym row = "string \<Rightarrow> sql_value"

record table =
  tb_columns :: "column_decl list"
  tb_rows :: "row list"

definition column_names :: "table \<Rightarrow> string list" where
  "column_names t = map cd_name (tb_columns t)"

text \<open>The value a column gets when the statement does not name it.\<close>

definition default_value :: "table \<Rightarrow> string \<Rightarrow> sql_value" where
  "default_value t c =
     (case find (\<lambda>d. cd_name d = c) (tb_columns t) of
        Some d \<Rightarrow> (case cd_default d of Some v \<Rightarrow> v | None \<Rightarrow> SqlNull)
      | None \<Rightarrow> SqlNull)"

definition new_row :: "table \<Rightarrow> string list \<Rightarrow> sql_value list \<Rightarrow> row" where
  "new_row t cols vs =
     (\<lambda>c. case map_of (zip cols vs) c of Some v \<Rightarrow> v | None \<Rightarrow> default_value t c)"

definition key_taken :: "table \<Rightarrow> row \<Rightarrow> bool" where
  "key_taken t r \<longleftrightarrow>
     list_ex (\<lambda>d. cd_primary d \<and> r (cd_name d) \<noteq> SqlNull \<and>
                list_ex (\<lambda>r'. r' (cd_name d) = r (cd_name d)) (tb_rows t)) (tb_columns t)"

definition exec_insert ::
  "string option \<Rightarrow> string list \<Rightarrow> (store_error + sql_value list) \<Rightarrow> table option
     \<Rightarrow> (store_error + unit) \<times> table option" where
  "exec_insert engine cols params tbl =
     (case tbl of
        None \<Rightarrow> (Inl NoSuchTable, tbl)
      | Some t \<Rightarrow>
          (case find (\<lambda>c. c \<notin> set (column_names t)) cols of
             Some c \<Rightarrow> (Inl (NoSuchColumn c), tbl)
           | None \<Rightarrow>
               (case params of
                  Inl e \<Rightarrow> (Inl e, tbl)
                | Inr vs \<Rightarrow>
                    (case engine of
                       Some e \<Rightarrow> (Inl (EngineError e), tbl)
                     | None \<Rightarrow>
                         let r = new_row t cols vs in
                         (case find (\<lambda>d. cd_not_null d \<and> r (cd_name d) = SqlNull) (tb_columns t) of
                            Some d \<Rightarrow> (Inl (NotNullViolation (cd_name d)), tbl)
                          | None \<Rightarrow>
                              if key_taken t r then (Inl UniqueViolation, tbl)
                              else (Inr (), Some (t\<lparr>tb_rows := tb_rows t @ [r]\<rparr>)))))))"

text \<open>\<open>query_row ... .optional()\<close>: the first row with the key, as the selected values.\<close>

definition query_optional ::
  "string option \<Rightarrow> string list \<Rightarrow> string \<Rightarrow> string \<Rightarrow> table option \<Rightarrow> store_error + sql_value list option" where
  "query_optional engine cols key_col key tbl =
     (case tbl of
        None \<Rightarrow> Inl NoSuchTable
      | Some t \<Rightarrow>
          (case find (\<lambda>c. c \<notin> set (column_names t)) (cols @ [key_col]) of
             Some c \<Rightarrow> Inl (NoSuchColumn c)
           | None \<Rightarrow>
               (case engine of
                  Some e \<Rightarrow> Inl (EngineError e)
                | None \<Rightarrow>
                    Inr (map_option (\<lambda>r. map r cols)
                          (find (\<lambda>r. r key_col = SqlText key) (tb_rows t))))))"

text \<open>An \<open>UPDATE\<close> that sets text values; it returns the number of rows it changed.\<close>

definition exec_update ::
  "string option \<Rightarrow> (string \<times> string) list \<Rightarrow> string \<Rightarrow> string \<Rightarrow> table option
     \<Rightarrow> (store_error + nat) \<times> table option" where
  "exec_update engine sets key_col key tbl =
     (case tbl of
        None \<Rightarrow> (Inl NoSuchTable, tbl)
      | Some t \<Rightarrow>
          (case find (\<lambda>c. c \<notin> set (column_names t)) (map fst sets @ [key_col]) of
             Some c \<Rightarrow> (Inl (NoSuchColumn c), tbl)
           | None \<Rightarrow>
               (case engine of
                  Some e \<Rightarrow> (Inl (EngineError e), tbl)
                | None \<Rightarrow>
                    let hit = (\<lambda>r. r key_col = SqlText key);
                        upd = (\<lambda>r. if hit r then (\<lambda>c. case map_of sets c of Some s \<Rightarrow> SqlText s | None \<Rightarrow> r c) else r)
                    in (Inr (length (filter hit (tb_rows t))),
                        Some (t\<lparr>tb_rows := map upd (tb_rows t)\<rparr>)))))"

text \<open>\<open>SELECT ... ORDER BY key\<close>.\<close>

definition query_ordered ::
  "string option \<Rightarrow> string list \<Rightarrow> string \<Rightarrow> table option \<Rightarrow> store_error + sql_value list list" where
  "query_ordered engine cols key_col tbl =
     (case tbl of
        None \<Rightarrow> Inl NoSuchTable
      | Some t \<Rightarrow>
          (case find (\<lambda>c. c \<notin> set (column_names t)) (cols @ [key_col]) of
             Some c \<Rightarrow> Inl (NoSuchColumn c)
           | None \<Rightarrow>
               (case engine of
                  Some e \<Rightarrow> Inl (EngineError e)
                | None \<Rightarrow> Inr (map (\<lambda>r. map r cols) (sort_key (\<lambda>r. r key_col) (tb_rows t))))))"

definition create_if_missing :: "column_decl list \<Rightarrow> table option \<Rightarrow> table option" where
  "create_if_missing decls tbl =
     (case tbl of None \<Rightarrow> Some \<lparr>tb_columns = decls, tb_rows = []\<rparr> | Some t \<Rightarrow> Some t)"

definition add_column :: "column_decl \<Rightarrow> table \<Rightarrow> table" where
  "add_column d t =
     t\<lparr>tb_columns := tb_columns t @ [d],
       tb_rows := map (\<lambda>r. r(cd_name d := (case cd_default d of Some v \<Rightarrow> v | None \<Rightarrow> SqlNull))) (tb_rows t)\<rparr>"

end
