(* ===== verification/Sql_Records.thy ===== *)
theory Sql_Records
  imports Sql_Tables
begin

text \<open>
  Records kept in a table. \<open>row_codec\<close> is the contract between a Rust struct and the
  columns of its \<open>INSERT\<close> and \<open>SELECT\<close>: what was bound reads back, under the key it was
  bound with. From it follow, once for both tables of the store, what a lookup returns after
  an insert, that the table stays readable, and that listing is complete and in key order.
  \<open>row_update\<close> adds an \<open>UPDATE\<close> of text columns that stands for a field update.
\<close>

section \<open>Tables that fit a statement\<close>

text \<open>
  The table has the statement's columns and one primary key, a text that no two rows share;
  the columns the statement leaves out may be null; no row breaks a not-null column.
\<close>

definition table_fits :: "string list \<Rightarrow> string \<Rightarrow> table \<Rightarrow> bool" where
  "table_fits cols key t \<longleftrightarrow>
     set cols \<subseteq> set (column_names t) \<and>
     filter cd_primary (tb_columns t) \<noteq> [] \<and>
     list_all (\<lambda>d. cd_primary d \<longrightarrow> cd_name d = key) (tb_columns t) \<and>
     list_all (\<lambda>d. cd_not_null d \<longrightarrow> cd_name d \<in> set cols \<or> default_value t (cd_name d) \<noteq> SqlNull)
       (tb_columns t) \<and>
     distinct (map (\<lambda>r. r key) (tb_rows t))"

text \<open>The bound values respect the not-null columns.\<close>

definition not_null_ok :: "table \<Rightarrow> string list \<Rightarrow> sql_value list \<Rightarrow> bool" where
  "not_null_ok t cols vs \<longleftrightarrow>
     list_all (\<lambda>d. cd_not_null d \<longrightarrow> map_of (zip cols vs) (cd_name d) \<noteq> Some SqlNull) (tb_columns t)"

lemma find_missing_None:
  "find (\<lambda>c. c \<notin> A) cols = None \<longleftrightarrow> set cols \<subseteq> A"
  by (auto simp: find_None_iff)

lemma new_row_cols:
  assumes "distinct cols" and "length vs = length cols"
  shows "map (new_row t cols vs) cols = vs"
proof (rule nth_equalityI)
  fix i assume i: "i < length (map (new_row t cols vs) cols)"
  then have "map_of (zip cols vs) (cols ! i) = Some (vs ! i)"
    using assms by (simp add: map_of_zip_nth)
  with i show "map (new_row t cols vs) cols ! i = vs ! i" by (simp add: new_row_def)
qed (use assms in simp)

lemma new_row_other: "length vs = length cols \<Longrightarrow> c \<notin> set cols \<Longrightarrow> new_row t cols vs c = default_value t c"
  by (auto simp: new_row_def split: option.splits dest!: map_of_SomeD set_zip_leftD)

lemma default_value_rows [simp]: "default_value (t\<lparr>tb_rows := rs\<rparr>) c = default_value t c"
  by (simp add: default_value_def)

lemma column_names_rows [simp]: "column_names (t\<lparr>tb_rows := rs\<rparr>) = column_names t"
  by (simp add: column_names_def)

lemma table_fits_rows:
  "table_fits cols key t \<Longrightarrow> distinct (map (\<lambda>r. r key) rs) \<Longrightarrow> table_fits cols key (t\<lparr>tb_rows := rs\<rparr>)"
  by (simp add: table_fits_def)

lemma new_row_not_null:
  assumes "table_fits cols key t" and "length vs = length cols" and "not_null_ok t cols vs"
  shows "find (\<lambda>d. cd_not_null d \<and> new_row t cols vs (cd_name d) = SqlNull) (tb_columns t) = None"
proof -
  have "new_row t cols vs (cd_name d) \<noteq> SqlNull" if "d \<in> set (tb_columns t)" "cd_not_null d" for d
  proof (cases "cd_name d \<in> set cols")
    case True
    then obtain v where v: "map_of (zip cols vs) (cd_name d) = Some v"
      using assms(2) by (metis map_of_zip_is_Some)
    then have "v \<noteq> SqlNull" using assms(3) that by (auto simp: not_null_ok_def list_all_iff)
    with v show ?thesis by (simp add: new_row_def)
  next
    case False
    then show ?thesis
      using assms(1) that by (auto simp: new_row_other [OF assms(2)] table_fits_def list_all_iff)
  qed
  then show ?thesis by (auto simp: find_None_iff)
qed

lemma key_taken_iff:
  assumes "table_fits cols key t" and "r key \<noteq> SqlNull"
  shows "key_taken t r \<longleftrightarrow> (\<exists>r'\<in>set (tb_rows t). r' key = r key)"
proof -
  have "\<exists>d\<in>set (tb_columns t). cd_primary d"
    using assms(1) by (auto simp: table_fits_def filter_empty_conv)
  then show ?thesis
    using assms by (fastforce simp: key_taken_def table_fits_def list_ex_iff list_all_iff)
qed

lemma length_filter_key:
  "distinct (map f xs) \<Longrightarrow> x \<in> set xs \<Longrightarrow> length (filter (\<lambda>y. f y = f x) xs) = 1"
proof (induction xs)
  case (Cons y ys)
  show ?case
  proof (cases "f y = f x")
    case True
    then have "\<forall>z\<in>set ys. f z \<noteq> f x" using Cons.prems(1) by (metis distinct.simps(2) imageI list.set_map list.simps(9))
    then show ?thesis using True by (simp add: filter_empty_conv)
  next
    case False
    then show ?thesis using Cons by auto
  qed
qed simp

section \<open>The contract of a record type\<close>

locale row_codec =
  fixes cols :: "string list" and key :: string
    and encode :: "'r \<Rightarrow> (store_error + sql_value) list"
    and decode :: "sql_value list \<Rightarrow> store_error + 'r"
    and key_of :: "'r \<Rightarrow> string"
    and nullable :: "string list"
  assumes distinct_cols: "distinct cols"
    and length_encode: "length (encode r) = length cols"
    and key_col: "key \<in> set cols"
    and encode_key: "bind_params (encode r) = Inr vs \<Longrightarrow> map_of (zip cols vs) key = Some (SqlText (key_of r))"
    and decode_encode: "bind_params (encode r) = Inr vs \<Longrightarrow> decode vs = Inr r"
    and encode_null: "bind_params (encode r) = Inr vs \<Longrightarrow>
      map_of (zip cols vs) c = Some SqlNull \<Longrightarrow> c \<in> set nullable"
begin

definition holds :: "row \<Rightarrow> 'r \<Rightarrow> bool" where
  "holds row r \<longleftrightarrow> bind_params (encode r) = Inr (map row cols)"

definition table_ok :: "table option \<Rightarrow> bool" where
  "table_ok tbl \<longleftrightarrow>
     (case tbl of None \<Rightarrow> False
      | Some t \<Rightarrow> table_fits cols key t \<and>
          list_all (\<lambda>d. cd_not_null d \<longrightarrow> cd_name d \<notin> set nullable) (tb_columns t) \<and>
          (\<forall>row\<in>set (tb_rows t). \<exists>r. holds row r))"

definition insert_rec :: "string option \<Rightarrow> 'r \<Rightarrow> table option \<Rightarrow> (store_error + unit) \<times> table option" where
  "insert_rec engine r tbl = exec_insert engine cols (bind_params (encode r)) tbl"

definition lookup_rec :: "string option \<Rightarrow> string \<Rightarrow> table option \<Rightarrow> store_error + 'r option" where
  "lookup_rec engine k tbl =
     and_then (query_optional engine cols key k tbl) (\<lambda>found. case found of
       None \<Rightarrow> Inr None
     | Some vs \<Rightarrow> and_then (decode vs) (\<lambda>r. Inr (Some r)))"

fun decode_all :: "sql_value list list \<Rightarrow> store_error + 'r list" where
  "decode_all [] = Inr []"
| "decode_all (vs # vss) = and_then (decode vs) (\<lambda>r. and_then (decode_all vss) (\<lambda>rs. Inr (r # rs)))"

text \<open>The abstraction: the records of the table by key.\<close>

definition records :: "table option \<Rightarrow> string \<Rightarrow> 'r option" where
  "records tbl k = (case lookup_rec None k tbl of Inr x \<Rightarrow> x | Inl _ \<Rightarrow> None)"

lemma length_bound: "bind_params ps = Inr vs \<Longrightarrow> length vs = length ps"
  by (induction ps arbitrary: vs) auto

lemma holds_decode: "holds row r \<Longrightarrow> decode (map row cols) = Inr r"
  by (simp add: holds_def decode_encode)

lemma holds_key: "holds row r \<Longrightarrow> row key = SqlText (key_of r)"
  using encode_key [of r "map row cols"] key_col by (simp add: holds_def map_of_zip_map)

lemma holds_unique: "holds row r \<Longrightarrow> holds row r' \<Longrightarrow> r = r'"
  using holds_decode [of row r] holds_decode [of row r'] by simp

lemma holds_new_row: "bind_params (encode r) = Inr vs \<Longrightarrow> holds (new_row t cols vs) r"
  using length_bound length_encode by (simp add: holds_def new_row_cols distinct_cols)

lemma table_okE:
  assumes "table_ok tbl"
  obtains t where "tbl = Some t" and "table_fits cols key t"
    and "\<And>row. row \<in> set (tb_rows t) \<Longrightarrow> \<exists>r. holds row r"
    and "list_all (\<lambda>d. cd_not_null d \<longrightarrow> cd_name d \<notin> set nullable) (tb_columns t)"
  using assms by (auto simp: table_ok_def split: option.splits)

lemma lookup_table:
  assumes "table_fits cols key t" and "\<And>row. row \<in> set (tb_rows t) \<Longrightarrow> \<exists>r. holds row r"
  shows "lookup_rec None k (Some t) = Inr x \<longleftrightarrow>
     (case x of
        None \<Rightarrow> (\<forall>row\<in>set (tb_rows t). row key \<noteq> SqlText k)
      | Some r \<Rightarrow> (\<exists>row\<in>set (tb_rows t). holds row r \<and> key_of r = k))"
proof -
  have cols: "find (\<lambda>c. c \<notin> set (column_names t)) (cols @ [key]) = None"
    using assms(1) key_col by (auto simp: table_fits_def find_missing_None)
  have inj: "row = row'" if "row \<in> set (tb_rows t)" "row' \<in> set (tb_rows t)" "row key = row' key" for row row'
    using assms(1) that by (auto simp: table_fits_def distinct_map inj_on_def)
  show ?thesis
  proof (cases "find (\<lambda>r. r key = SqlText k) (tb_rows t)")
    case None
    then have none: "\<forall>row\<in>set (tb_rows t). row key \<noteq> SqlText k" by (simp add: find_None_iff)
    then have "lookup_rec None k (Some t) = Inr None"
      using cols None by (simp add: lookup_rec_def query_optional_def)
    then show ?thesis using none holds_key by (auto split: option.splits)
  next
    case (Some row)
    then have row: "row \<in> set (tb_rows t)" "row key = SqlText k" by (auto simp: find_Some_iff)
    then obtain r where r: "holds row r" using assms(2) by blast
    have l: "lookup_rec None k (Some t) = Inr (Some r)"
      using cols Some r by (simp add: lookup_rec_def query_optional_def holds_decode)
    have k: "key_of r = k" using holds_key [OF r] row by simp
    have same: "r' = r" if "row' \<in> set (tb_rows t)" "holds row' r'" "key_of r' = k" for row' r'
    proof -
      have "row' = row" using inj [OF that(1) row(1)] holds_key [OF that(2)] that(3) row(2) by simp
      then show ?thesis using that(2) r holds_unique by simp
    qed
    show ?thesis
    proof (cases x)
      case None
      then show ?thesis using l row by auto
    next
      case (Some r')
      then have "(lookup_rec None k (Some t) = Inr x) = (r = r')" using l by simp
      also have "\<dots> \<longleftrightarrow> (\<exists>row\<in>set (tb_rows t). holds row r' \<and> key_of r' = k)"
        using row(1) r k same by blast
      finally show ?thesis using Some by simp
    qed
  qed
qed

lemma lookup_total: "table_ok tbl \<Longrightarrow> \<exists>x. lookup_rec None k tbl = Inr x"
proof (elim table_okE)
  fix t assume tbl: "tbl = Some t" and t: "table_fits cols key t"
    and h: "\<And>row. row \<in> set (tb_rows t) \<Longrightarrow> \<exists>r. holds row r"
  show ?thesis
  proof (cases "\<forall>row\<in>set (tb_rows t). row key \<noteq> SqlText k")
    case True
    then have "lookup_rec None k tbl = Inr None" using lookup_table [OF t h] by (simp add: tbl)
    then show ?thesis by blast
  next
    case False
    then obtain row where row: "row \<in> set (tb_rows t)" "row key = SqlText k" by blast
    then obtain r where r: "holds row r" using h by blast
    then have "key_of r = k" using holds_key row by fastforce
    then have "lookup_rec None k tbl = Inr (Some r)" using lookup_table [OF t h] row r by (auto simp: tbl)
    then show ?thesis by blast
  qed
qed

lemma lookup_records: "table_ok tbl \<Longrightarrow> lookup_rec None k tbl = Inr (records tbl k)"
  using lookup_total [of tbl k] by (auto simp: records_def)

lemma records_Some:
  assumes "table_ok (Some t)"
  shows "records (Some t) k = Some r \<longleftrightarrow> (\<exists>row\<in>set (tb_rows t). holds row r \<and> key_of r = k)"
  using assms lookup_table [of t k "Some r"] lookup_records [OF assms, of k]
  by (auto simp: table_ok_def)

lemma records_None:
  assumes "table_ok (Some t)"
  shows "records (Some t) k = None \<longleftrightarrow> (\<forall>row\<in>set (tb_rows t). row key \<noteq> SqlText k)"
  using assms lookup_table [of t k None] lookup_records [OF assms, of k]
  by (auto simp: table_ok_def)

lemma records_key: "table_ok tbl \<Longrightarrow> records tbl k = Some r \<Longrightarrow> key_of r = k"
  by (cases tbl) (auto simp: records_Some table_ok_def [of None])

lemma decode_all_map:
  "list_all2 holds rows rs \<Longrightarrow> decode_all (map (\<lambda>row. map row cols) rows) = Inr rs"
  by (induction rule: list_all2_induct) (simp_all add: holds_decode del: and_then_Inr)

section \<open>Inserting\<close>

lemma insert_rec_eq:
  assumes ok: "table_ok (Some t)"
  shows "insert_rec engine r (Some t) =
    (case bind_params (encode r) of
       Inl e \<Rightarrow> (Inl e, Some t)
     | Inr vs \<Rightarrow>
         (case engine of
            Some e \<Rightarrow> (Inl (EngineError e), Some t)
          | None \<Rightarrow>
              if records (Some t) (key_of r) \<noteq> None then (Inl UniqueViolation, Some t)
              else (Inr (), Some (t\<lparr>tb_rows := tb_rows t @ [new_row t cols vs]\<rparr>))))"
proof -
  from ok have fits: "table_fits cols key t"
    and nn: "list_all (\<lambda>d. cd_not_null d \<longrightarrow> cd_name d \<notin> set nullable) (tb_columns t)"
    by (auto elim: table_okE)
  have present: "find (\<lambda>c. c \<notin> set (column_names t)) cols = None"
    using fits by (simp add: table_fits_def find_missing_None)
  show ?thesis
  proof (cases "bind_params (encode r)")
    case (Inl e)
    then show ?thesis by (simp add: insert_rec_def exec_insert_def present)
  next
    case (Inr vs)
    have len: "length vs = length cols" using length_bound [OF Inr] length_encode by simp
    have "not_null_ok t cols vs"
      using nn encode_null [OF Inr] by (auto simp: not_null_ok_def list_all_iff)
    from new_row_not_null [OF fits len this]
    have some: "find (\<lambda>d. cd_not_null d \<and> new_row t cols vs (cd_name d) = SqlNull) (tb_columns t) = None" .
    have k: "new_row t cols vs key = SqlText (key_of r)"
      using holds_key holds_new_row [OF Inr] by blast
    have "key_taken t (new_row t cols vs) \<longleftrightarrow> records (Some t) (key_of r) \<noteq> None"
      using key_taken_iff [OF fits, of "new_row t cols vs"] k records_None [OF ok, of "key_of r"] by auto
    then show ?thesis
      using Inr by (simp add: insert_rec_def exec_insert_def present some Let_def split: option.split)
  qed
qed

lemma table_ok_insert_row:
  assumes ok: "table_ok (Some t)" and r: "bind_params (encode r) = Inr vs"
    and new: "records (Some t) (key_of r) = None"
  shows "table_ok (Some (t\<lparr>tb_rows := tb_rows t @ [new_row t cols vs]\<rparr>))"
proof -
  have h: "holds (new_row t cols vs) r" using r by (rule holds_new_row)
  have "distinct (map (\<lambda>r. r key) (tb_rows t @ [new_row t cols vs]))"
    using ok new holds_key [OF h] records_None [OF ok]
    by (auto simp: table_ok_def table_fits_def)
  then show ?thesis
    using ok h by (auto simp: table_ok_def intro: table_fits_rows)
qed

lemma table_ok_insert: "table_ok tbl \<Longrightarrow> table_ok (snd (insert_rec engine r tbl))"
proof (cases tbl)
  case None
  then show "table_ok tbl \<Longrightarrow> ?thesis" by (simp add: table_ok_def)
next
  case (Some t)
  then show "table_ok tbl \<Longrightarrow> ?thesis"
    by (simp add: insert_rec_eq table_ok_insert_row split: sum.split option.split)
qed

lemma insert_rec_ok_iff:
  assumes "table_ok tbl"
  shows "fst (insert_rec engine r tbl) = Inr () \<longleftrightarrow>
    engine = None \<and> (\<exists>vs. bind_params (encode r) = Inr vs) \<and> records tbl (key_of r) = None"
  using assms
  by (cases tbl)
    (auto simp: insert_rec_eq table_ok_def [of None] split: sum.split option.split)

lemma insert_rec_failed: "fst (insert_rec engine r tbl) \<noteq> Inr () \<Longrightarrow> snd (insert_rec engine r tbl) = tbl"
  by (auto simp: insert_rec_def exec_insert_def Let_def split: option.splits sum.splits if_splits)

lemma records_insert:
  assumes "table_ok tbl" and "fst (insert_rec engine r tbl) = Inr ()"
  shows "records (snd (insert_rec engine r tbl)) = (records tbl)(key_of r \<mapsto> r)"
proof
  fix k
  obtain t where t: "tbl = Some t" using assms(1) by (auto elim: table_okE)
  from assms insert_rec_ok_iff [OF assms(1)] obtain vs
    where vs: "bind_params (encode r) = Inr vs" "engine = None" "records (Some t) (key_of r) = None"
    using t by auto
  let ?t = "t\<lparr>tb_rows := tb_rows t @ [new_row t cols vs]\<rparr>"
  have res: "snd (insert_rec engine r tbl) = Some ?t"
    using assms(1) t vs by (simp add: insert_rec_eq)
  have ok: "table_ok (Some t)" "table_ok (Some ?t)"
    using assms(1) t vs table_ok_insert_row by simp_all
  have h: "holds (new_row t cols vs) r" using vs(1) by (rule holds_new_row)
  show "records (snd (insert_rec engine r tbl)) k = ((records tbl)(key_of r \<mapsto> r)) k"
  proof (cases "k = key_of r")
    case True
    then show ?thesis unfolding res using records_Some [OF ok(2), of k r] h by simp
  next
    case False
    have "records (Some ?t) k = Some x \<longleftrightarrow> records (Some t) k = Some x" for x
      using False h holds_unique by (auto simp: records_Some [OF ok(1)] records_Some [OF ok(2)])
    then have "records (Some ?t) k = records (Some t) k" by (metis option.exhaust)
    then show ?thesis unfolding res using False t by simp
  qed
qed

section \<open>Listing\<close>

lemma list_records:
  assumes ok: "table_ok (Some t)"
  shows "\<exists>rs. query_ordered None cols key (Some t) = Inr (map (\<lambda>r. map r cols) (sort_key (\<lambda>r. r key) (tb_rows t))) \<and>
    decode_all (map (\<lambda>r. map r cols) (sort_key (\<lambda>r. r key) (tb_rows t))) = Inr rs \<and>
    sorted_wrt (<) (map key_of rs) \<and> (\<forall>r. r \<in> set rs \<longleftrightarrow> records (Some t) (key_of r) = Some r)"
proof -
  let ?rows = "sort_key (\<lambda>r. r key) (tb_rows t)"
  have fits: "table_fits cols key t" and h: "\<And>row. row \<in> set (tb_rows t) \<Longrightarrow> \<exists>r. holds row r"
    using ok by (auto elim: table_okE)
  have "find (\<lambda>c. c \<notin> set (column_names t)) (cols @ [key]) = None"
    using fits key_col by (auto simp: table_fits_def find_missing_None)
  then have q: "query_ordered None cols key (Some t) = Inr (map (\<lambda>r. map r cols) ?rows)"
    by (simp add: query_ordered_def)
  have "\<forall>row\<in>set ?rows. \<exists>r. holds row r" using h by simp
  then obtain f where f: "\<forall>row\<in>set ?rows. holds row (f row)" by metis
  define rs where "rs = map f ?rows"
  have all: "list_all2 holds ?rows rs"
    using f by (simp add: rs_def list_all2_map2 list_all2_same)
  have keys: "map (\<lambda>r. SqlText (key_of r)) rs = map (\<lambda>r. r key) ?rows"
    using f holds_key by (auto simp: rs_def holds_key)
  have dist: "distinct (map (\<lambda>r. r key) ?rows)"
    using fits distinct_map [of "\<lambda>r. r key" ?rows] distinct_map [of "\<lambda>r. r key" "tb_rows t"]
    by (simp add: table_fits_def)
  have "sorted (map (\<lambda>r. r key) ?rows)" by simp
  with dist have "sorted_wrt (<) (map (\<lambda>r. r key) ?rows)" by (simp add: strict_sorted_iff)
  then have "sorted_wrt (<) (map (\<lambda>r. SqlText (key_of r)) rs)" by (simp only: keys)
  then have sorted: "sorted_wrt (<) (map key_of rs)"
    by (simp add: sorted_wrt_map less_sql_value_def less_le_not_le)
  have mem: "r \<in> set rs \<longleftrightarrow> records (Some t) (key_of r) = Some r" for r
  proof
    assume "r \<in> set rs"
    then obtain row where "row \<in> set (tb_rows t)" "holds row r" using f by (auto simp: rs_def)
    then show "records (Some t) (key_of r) = Some r" using records_Some [OF ok] by blast
  next
    assume "records (Some t) (key_of r) = Some r"
    then obtain row where row: "row \<in> set (tb_rows t)" "holds row r" using records_Some [OF ok] by blast
    then have "f row = r" using f holds_unique [of row "f row" r] by simp
    with row show "r \<in> set rs" by (force simp: rs_def)
  qed
  show ?thesis using q decode_all_map [OF all] sorted mem by blast
qed

end

section \<open>Updating\<close>

locale row_update = row_codec cols key encode decode key_of nullable
  for cols :: "string list" and key :: string
    and encode :: "'r \<Rightarrow> (store_error + sql_value) list"
    and decode :: "sql_value list \<Rightarrow> store_error + 'r"
    and key_of :: "'r \<Rightarrow> string"
    and nullable :: "string list" +
  fixes sets :: "(string \<times> string) list" and upd :: "'r \<Rightarrow> 'r"
  assumes upd_encode: "bind_params (encode r) = Inr vs \<Longrightarrow>
      bind_params (encode (upd r)) =
        Inr (map2 (\<lambda>c v. case map_of sets c of Some s \<Rightarrow> SqlText s | None \<Rightarrow> v) cols vs)"
    and upd_key: "key_of (upd r) = key_of r"
    and sets_cols: "fst ` set sets \<subseteq> set cols"
    and key_kept: "key \<notin> fst ` set sets"
begin

definition updated :: "row \<Rightarrow> row" where
  "updated row = (\<lambda>c. case map_of sets c of Some s \<Rightarrow> SqlText s | None \<Rightarrow> row c)"

lemma holds_updated: "holds row r \<Longrightarrow> holds (updated row) (upd r)"
  using upd_encode [of r "map row cols"]
  by (simp add: holds_def updated_def map2_map_map [where f = id, simplified])

lemma updated_key [simp]: "updated row key = row key"
proof -
  have "map_of sets key = None" using key_kept by (simp add: map_of_eq_None_iff)
  then show ?thesis by (simp add: updated_def)
qed

definition update_rows :: "string \<Rightarrow> table \<Rightarrow> table" where
  "update_rows k t = t\<lparr>tb_rows := map (\<lambda>r. if r key = SqlText k then updated r else r) (tb_rows t)\<rparr>"

lemma table_ok_update: 
  assumes "table_ok (Some t)" shows "table_ok (Some (update_rows k t))"
proof -
  have "map (\<lambda>r. r key) (map (\<lambda>r. if r key = SqlText k then updated r else r) (tb_rows t)) =
      map (\<lambda>r. r key) (tb_rows t)"
    by auto
  moreover have "distinct (map (\<lambda>r. r key) (tb_rows t))"
    using assms by (auto elim: table_okE simp: table_fits_def)
  moreover have "table_fits cols key t" using assms by (auto elim: table_okE)
  ultimately have "table_fits cols key (update_rows k t)"
    unfolding update_rows_def by (intro table_fits_rows) (simp_all only:)
  then show ?thesis
    using assms by (auto simp: table_ok_def update_rows_def intro: holds_updated)
qed

lemma records_update:
  assumes ok: "table_ok (Some t)"
  shows "records (Some (update_rows k t)) = (records (Some t))(k := map_option upd (records (Some t) k))"
proof
  fix k'
  have ok': "table_ok (Some (update_rows k t))" using ok by (rule table_ok_update)
  let ?f = "(records (Some t))(k := map_option upd (records (Some t) k))"
  show "records (Some (update_rows k t)) k' = ?f k'"
  proof (cases "records (Some t) k'")
    case None
    then have "\<forall>row\<in>set (tb_rows t). row key \<noteq> SqlText k'" by (simp add: records_None [OF ok])
    then have "records (Some (update_rows k t)) k' = None"
      unfolding records_None [OF ok'] by (auto simp: update_rows_def)
    with None show ?thesis by auto
  next
    case (Some r)
    then obtain row where row: "row \<in> set (tb_rows t)" "holds row r" "key_of r = k'"
      by (auto simp: records_Some [OF ok])
    then have key: "row key = SqlText k'" using holds_key by blast
    let ?row = "if row key = SqlText k then updated row else row"
    let ?r = "if k' = k then upd r else r"
    have "?row \<in> set (tb_rows (update_rows k t))" using row by (auto simp: update_rows_def)
    moreover have "holds ?row ?r" using row key holds_updated by auto
    moreover have "key_of ?r = k'" using row upd_key by simp
    ultimately have "records (Some (update_rows k t)) k' = Some ?r"
      using records_Some [OF ok'] by blast
    with Some show ?thesis by auto
  qed
qed

lemma update_count:
  assumes ok: "table_ok (Some t)"
  shows "length (filter (\<lambda>r. r key = SqlText k) (tb_rows t)) = (if records (Some t) k = None then 0 else 1)"
proof (cases "records (Some t) k")
  case None
  then show ?thesis by (simp add: records_None [OF ok])
next
  case (Some r)
  then obtain row where row: "row \<in> set (tb_rows t)" "holds row r" "key_of r = k"
    by (auto simp: records_Some [OF ok])
  then have "row key = SqlText k" using holds_key by blast
  moreover have "distinct (map (\<lambda>r. r key) (tb_rows t))" using ok by (auto elim: table_okE simp: table_fits_def)
  ultimately have "length (filter (\<lambda>r. r key = SqlText k) (tb_rows t)) = 1"
    using row(1) length_filter_key by metis
  with Some show ?thesis by simp
qed

lemma exec_update_eq:
  assumes ok: "table_ok (Some t)"
  shows "exec_update engine sets key k (Some t) =
    (case engine of
       Some e \<Rightarrow> (Inl (EngineError e), Some t)
     | None \<Rightarrow> (Inr (if records (Some t) k = None then 0 else 1), Some (update_rows k t)))"
proof -
  have "set cols \<subseteq> set (column_names t)" using ok by (simp add: table_ok_def table_fits_def)
  then have "find (\<lambda>c. c \<notin> set (column_names t)) (map fst sets @ [key]) = None"
    using sets_cols key_col unfolding find_missing_None by auto
  then show ?thesis
    using update_count [OF ok, of k]
    by (simp add: exec_update_def update_rows_def updated_def Let_def split: option.split)
qed

end

end
