(* ===== verification/Swap_Store.thy ===== *)
theory Swap_Store
  imports Swap_Types Sql_Records
begin

text \<open>
  \<open>src/swap/store.rs\<close>: the quote and swap tables of \<open>SqliteStore\<close>, each operation as
  the statement it runs, and the schema migration of \<open>open\<close>. An operation takes the
  engine's verdict on its statement. The error's context lines, which repeat the call's
  arguments, are left out. The lemmas show both tables to be keyed record tables, so that
  every operation is a lookup or an update of the maps \<open>quotes\<close> and \<open>swaps\<close>.
\<close>

record database =
  db_quotes :: "table option"
  db_swaps :: "table option"
  db_indexes :: "string list"

type_synonym 'a store_op = "(database, store_error, 'a) run"

section \<open>Enums as text\<close>

fun direction_to_str :: "swap_direction \<Rightarrow> string" where
  "direction_to_str LnToLiquid = ''ln_to_liquid''"
| "direction_to_str LiquidToLn = ''liquid_to_ln''"

definition direction_from_str :: "string \<Rightarrow> nat \<Rightarrow> store_error + swap_direction" where
  "direction_from_str s col =
     (if s = ''ln_to_liquid'' then Inr LnToLiquid
      else if s = ''liquid_to_ln'' then Inr LiquidToLn
      else Inl (FromSqlConversion col))"

fun status_to_str :: "swap_status \<Rightarrow> string" where
  "status_to_str Created = ''created''"
| "status_to_str Funded = ''funded''"
| "status_to_str Paid = ''paid''"
| "status_to_str Claimed = ''claimed''"
| "status_to_str Refunded = ''refunded''"
| "status_to_str Failed = ''failed''"

definition status_from_str :: "string \<Rightarrow> nat \<Rightarrow> store_error + swap_status" where
  "status_from_str s col =
     (if s = ''created'' then Inr Created
      else if s = ''funded'' then Inr Funded
      else if s = ''paid'' then Inr Paid
      else if s = ''claimed'' then Inr Claimed
      else if s = ''refunded'' then Inr Refunded
      else if s = ''failed'' then Inr Failed
      else Inl (FromSqlConversion col))"

lemma direction_str_roundtrip [simp]: "direction_from_str (direction_to_str d) col = Inr d"
  by (cases d) (simp_all add: direction_from_str_def)

lemma status_str_roundtrip [simp]: "status_from_str (status_to_str s) col = Inr s"
  by (cases s) (simp_all add: status_from_str_def)

section \<open>Statements on one table\<close>

definition on_quotes ::
  "(table option \<Rightarrow> (store_error + 'a) \<times> table option) \<Rightarrow> 'a store_op" where
  "on_quotes f = (\<lambda>db. let (r, t) = f (db_quotes db) in Some (r, db\<lparr>db_quotes := t\<rparr>))"

definition on_swaps ::
  "(table option \<Rightarrow> (store_error + 'a) \<times> table option) \<Rightarrow> 'a store_op" where
  "on_swaps f = (\<lambda>db. let (r, t) = f (db_swaps db) in Some (r, db\<lparr>db_swaps := t\<rparr>))"

definition one_row :: "nat \<Rightarrow> store_error \<Rightarrow> 'a \<Rightarrow> store_error + 'a" where
  "one_row rows e a = and_then (ensure (rows = 1) e) (\<lambda>_. Inr a)"

section \<open>Quotes\<close>

definition quote_cols :: "string list" where
  "quote_cols =
     [''quote_id'', ''offer_id'', ''direction'', ''asset_id'', ''asset_amount'',
      ''min_funding_confs'', ''total_price_msat'', ''price_msat_per_asset_unit'',
      ''fee_subsidy_sats'', ''refund_delta_blocks'', ''invoice_expiry_secs'',
      ''max_min_funding_confs'', ''swap_id'']"

definition quote_params :: "quote_record \<Rightarrow> (store_error + sql_value) list" where
  "quote_params record =
     [to_sql_text (qr_quote_id record),
      to_sql_text (qr_offer_id record),
      to_sql_text (direction_to_str (qr_direction record)),
      to_sql_text (qr_asset_id record),
      to_sql_u64 (qr_asset_amount record),
      to_sql_u32 (qr_min_funding_confs record),
      to_sql_u64 (qr_total_price_msat record),
      to_sql_u64 (qr_price_msat_per_asset_unit record),
      to_sql_u64 (qr_fee_subsidy_sats record),
      to_sql_u32 (qr_refund_delta_blocks record),
      to_sql_u32 (qr_invoice_expiry_secs record),
      to_sql_u32 (qr_max_min_funding_confs record),
      to_sql_opt_text (qr_swap_id record)]"

definition insert_quote :: "string option \<Rightarrow> quote_record \<Rightarrow> unit store_op" where
  "insert_quote engine record =
     on_quotes (exec_insert engine quote_cols (bind_params (quote_params record)))"

text \<open>The closure \<open>get_quote\<close> hands to \<open>query_row\<close>, in the order it reads the columns.\<close>

definition row_to_quote_record :: "sql_value list \<Rightarrow> store_error + quote_record" where
  "row_to_quote_record row =
     and_then (get_i64 row 4) (\<lambda>asset_amount.
     and_then (get_i64 row 5) (\<lambda>min_funding_confs.
     and_then (get_i64 row 6) (\<lambda>total_price_msat.
     and_then (get_i64 row 7) (\<lambda>price_msat_per_asset_unit.
     and_then (get_i64 row 8) (\<lambda>fee_subsidy_sats.
     and_then (get_i64 row 9) (\<lambda>refund_delta_blocks.
     and_then (get_i64 row 10) (\<lambda>invoice_expiry_secs.
     and_then (get_i64 row 11) (\<lambda>max_min_funding_confs.
     and_then (get_text row 2) (\<lambda>direction_str.
     and_then (direction_from_str direction_str 2) (\<lambda>direction.
     and_then (get_text row 0) (\<lambda>quote_id.
     and_then (get_text row 1) (\<lambda>offer_id.
     and_then (get_text row 3) (\<lambda>asset_id.
     and_then (conv_u64 4 asset_amount) (\<lambda>asset_amount.
     and_then (conv_u32 5 min_funding_confs) (\<lambda>min_funding_confs.
     and_then (conv_u64 6 total_price_msat) (\<lambda>total_price_msat.
     and_then (conv_u64 7 price_msat_per_asset_unit) (\<lambda>price_msat_per_asset_unit.
     and_then (conv_u64 8 fee_subsidy_sats) (\<lambda>fee_subsidy_sats.
     and_then (conv_u32 9 refund_delta_blocks) (\<lambda>refund_delta_blocks.
     and_then (conv_u32 10 invoice_expiry_secs) (\<lambda>invoice_expiry_secs.
     and_then (conv_u32 11 max_min_funding_confs) (\<lambda>max_min_funding_confs.
     and_then (get_opt_text row 12) (\<lambda>swap_id.
       Inr \<lparr>qr_quote_id = quote_id, qr_offer_id = offer_id, qr_direction = direction,
            qr_asset_id = asset_id, qr_asset_amount = asset_amount,
            qr_min_funding_confs = min_funding_confs, qr_total_price_msat = total_price_msat,
            qr_price_msat_per_asset_unit = price_msat_per_asset_unit,
            qr_fee_subsidy_sats = fee_subsidy_sats, qr_refund_delta_blocks = refund_delta_blocks,
            qr_invoice_expiry_secs = invoice_expiry_secs,
            qr_max_min_funding_confs = max_min_funding_confs, qr_swap_id = swap_id\<rparr>))))))))))))))))))))))"

text \<open>\<open>query_row\<close> with its closure, then \<open>optional()\<close>.\<close>

definition read_optional ::
  "(sql_value list \<Rightarrow> store_error + 'r) \<Rightarrow> store_error + sql_value list option \<Rightarrow> store_error + 'r option" where
  "read_optional decode found =
     and_then found (\<lambda>vs. case vs of
       None \<Rightarrow> Inr None
     | Some v \<Rightarrow> and_then (decode v) (\<lambda>r. Inr (Some r)))"

definition get_quote :: "string option \<Rightarrow> string \<Rightarrow> quote_record option store_op" where
  "get_quote engine quote_id =
     on_quotes (\<lambda>t. (read_optional row_to_quote_record
                        (query_optional engine quote_cols ''quote_id'' quote_id t), t))"

definition set_quote_swap_id :: "string option \<Rightarrow> string \<Rightarrow> string \<Rightarrow> unit store_op" where
  "set_quote_swap_id engine quote_id swap_id =
     bind_run (on_quotes (exec_update engine [(''swap_id'', swap_id)] ''quote_id'' quote_id)) (\<lambda>rows.
     lift_run (one_row rows (QuoteMissing quote_id) ()))"

section \<open>Swaps\<close>

definition swap_cols :: "string list" where
  "swap_cols =
     [''swap_id'', ''quote_id'', ''direction'', ''bolt11_invoice'', ''payment_hash'',
      ''asset_id'', ''asset_amount'', ''total_price_msat'', ''buyer_liquid_address'',
      ''fee_subsidy_sats'', ''refund_lock_height'', ''p2wsh_address'', ''witness_script_hex'',
      ''funding_txid'', ''asset_vout'', ''lbtc_vout'', ''min_funding_confs'', ''ln_payment_id'',
      ''ln_preimage_hex'', ''claim_txid'', ''status'']"

definition swap_params :: "swap_record \<Rightarrow> (store_error + sql_value) list" where
  "swap_params record =
     [to_sql_text (sr_swap_id record),
      to_sql_text (sr_quote_id record),
      to_sql_text (direction_to_str (sr_direction record)),
      to_sql_text (sr_bolt11_invoice record),
      to_sql_text (sr_payment_hash record),
      to_sql_text (sr_asset_id record),
      to_sql_u64 (sr_asset_amount record),
      to_sql_u64 (sr_total_price_msat record),
      to_sql_text (sr_buyer_liquid_address record),
      to_sql_u64 (sr_fee_subsidy_sats record),
      to_sql_u32 (sr_refund_lock_height record),
      to_sql_text (sr_p2wsh_address record),
      to_sql_text (sr_witness_script_hex record),
      to_sql_text (sr_funding_txid record),
      to_sql_u32 (sr_asset_vout record),
      to_sql_u32 (sr_lbtc_vout record),
      to_sql_u32 (sr_min_funding_confs record),
      to_sql_opt_text (sr_ln_payment_id record),
      to_sql_opt_text (sr_ln_preimage_hex record),
      to_sql_opt_text (sr_claim_txid record),
      to_sql_text (status_to_str (sr_status record))]"

definition insert_swap :: "string option \<Rightarrow> swap_record \<Rightarrow> unit store_op" where
  "insert_swap engine record =
     on_swaps (exec_insert engine swap_cols (bind_params (swap_params record)))"

definition row_to_swap_record :: "sql_value list \<Rightarrow> store_error + swap_record" where
  "row_to_swap_record row =
     and_then (get_i64 row 6) (\<lambda>asset_amount.
     and_then (get_i64 row 7) (\<lambda>total_price_msat.
     and_then (get_i64 row 9) (\<lambda>fee_subsidy_sats.
     and_then (get_i64 row 10) (\<lambda>refund_lock_height.
     and_then (get_i64 row 14) (\<lambda>asset_vout.
     and_then (get_i64 row 15) (\<lambda>lbtc_vout.
     and_then (get_i64 row 16) (\<lambda>min_funding_confs.
     and_then (get_text row 2) (\<lambda>direction_str.
     and_then (direction_from_str direction_str 2) (\<lambda>direction.
     and_then (get_text row 20) (\<lambda>status_str.
     and_then (status_from_str status_str 20) (\<lambda>status.
     and_then (get_text row 0) (\<lambda>swap_id.
     and_then (get_text row 1) (\<lambda>quote_id.
     and_then (get_text row 3) (\<lambda>bolt11_invoice.
     and_then (get_text row 4) (\<lambda>payment_hash.
     and_then (get_text row 5) (\<lambda>asset_id.
     and_then (conv_u64 6 asset_amount) (\<lambda>asset_amount.
     and_then (conv_u64 7 total_price_msat) (\<lambda>total_price_msat.
     and_then (get_text row 8) (\<lambda>buyer_liquid_address.
     and_then (conv_u64 9 fee_subsidy_sats) (\<lambda>fee_subsidy_sats.
     and_then (conv_u32 10 refund_lock_height) (\<lambda>refund_lock_height.
     and_then (get_text row 11) (\<lambda>p2wsh_address.
     and_then (get_text row 12) (\<lambda>witness_script_hex.
     and_then (get_text row 13) (\<lambda>funding_txid.
     and_then (conv_u32 14 asset_vout) (\<lambda>asset_vout.
     and_then (conv_u32 15 lbtc_vout) (\<lambda>lbtc_vout.
     and_then (conv_u32 16 min_funding_confs) (\<lambda>min_funding_confs.
     and_then (get_opt_text row 17) (\<lambda>ln_payment_id.
     and_then (get_opt_text row 18) (\<lambda>ln_preimage_hex.
     and_then (get_opt_text row 19) (\<lambda>claim_txid.
       Inr \<lparr>sr_swap_id = swap_id, sr_quote_id = quote_id, sr_direction = direction,
            sr_bolt11_invoice = bolt11_invoice, sr_payment_hash = payment_hash,
            sr_asset_id = asset_id, sr_asset_amount = asset_amount,
            sr_total_price_msat = total_price_msat,
            sr_buyer_liquid_address = buyer_liquid_address,
            sr_fee_subsidy_sats = fee_subsidy_sats, sr_refund_lock_height = refund_lock_height,
            sr_p2wsh_address = p2wsh_address, sr_witness_script_hex = witness_script_hex,
            sr_funding_txid = funding_txid, sr_asset_vout = asset_vout, sr_lbtc_vout = lbtc_vout,
            sr_min_funding_confs = min_funding_confs, sr_ln_payment_id = ln_payment_id,
            sr_ln_preimage_hex = ln_preimage_hex, sr_claim_txid = claim_txid,
            sr_status = status\<rparr>))))))))))))))))))))))))))))))"

definition get_swap :: "string option \<Rightarrow> string \<Rightarrow> swap_record option store_op" where
  "get_swap engine swap_id =
     on_swaps (\<lambda>t. (read_optional row_to_swap_record
                       (query_optional engine swap_cols ''swap_id'' swap_id t), t))"

definition update_swap_status :: "string option \<Rightarrow> string \<Rightarrow> swap_status \<Rightarrow> unit store_op" where
  "update_swap_status engine swap_id status =
     bind_run (on_swaps (exec_update engine [(''status'', status_to_str status)] ''swap_id'' swap_id)) (\<lambda>rows.
     lift_run (one_row rows (SwapMissing swap_id) ()))"

definition upsert_swap_payment ::
  "string option \<Rightarrow> string \<Rightarrow> string \<Rightarrow> string \<Rightarrow> swap_status \<Rightarrow> unit store_op" where
  "upsert_swap_payment engine swap_id payment_id preimage_hex status =
     bind_run (on_swaps (exec_update engine
       [(''ln_payment_id'', payment_id), (''ln_preimage_hex'', preimage_hex),
        (''status'', status_to_str status)] ''swap_id'' swap_id)) (\<lambda>rows.
     lift_run (one_row rows (SwapMissing swap_id) ()))"

definition upsert_swap_claim :: "string option \<Rightarrow> string \<Rightarrow> string \<Rightarrow> swap_status \<Rightarrow> unit store_op" where
  "upsert_swap_claim engine swap_id claim_txid status =
     bind_run (on_swaps (exec_update engine
       [(''claim_txid'', claim_txid), (''status'', status_to_str status)] ''swap_id'' swap_id)) (\<lambda>rows.
     lift_run (one_row rows (SwapMissing swap_id) ()))"

text \<open>\<open>for row in rows { out.push(row?) }\<close>.\<close>

fun read_rows :: "sql_value list list \<Rightarrow> store_error + swap_record list" where
  "read_rows [] = Inr []"
| "read_rows (row # rows) =
     and_then (row_to_swap_record row) (\<lambda>r. and_then (read_rows rows) (\<lambda>out. Inr (r # out)))"

definition list_swaps :: "string option \<Rightarrow> swap_record list store_op" where
  "list_swaps engine =
     on_swaps (\<lambda>t. (and_then (query_ordered engine swap_cols ''swap_id'' t) read_rows, t))"

section \<open>Both tables are record tables\<close>

lemmas to_sql_defs = to_sql_u64_def to_sql_u32_def to_sql_text_def to_sql_opt_text_def

lemmas row_read_defs = get_i64_def get_text_def get_opt_text_def conv_u64_def conv_u32_def

lemma u64_sql [simp]: "to_sql_u64 v = Inr x \<longleftrightarrow> uint v < 2 ^ 63 \<and> x = SqlInt (uint v)"
  by (auto simp: to_sql_u64_def)

lemma quote_params_Inr:
  "bind_params (quote_params r) = Inr vs \<longleftrightarrow>
     uint (qr_asset_amount r) < 2 ^ 63 \<and> uint (qr_total_price_msat r) < 2 ^ 63 \<and>
     uint (qr_price_msat_per_asset_unit r) < 2 ^ 63 \<and> uint (qr_fee_subsidy_sats r) < 2 ^ 63 \<and>
     vs = [SqlText (qr_quote_id r), SqlText (qr_offer_id r), SqlText (direction_to_str (qr_direction r)),
           SqlText (qr_asset_id r), SqlInt (uint (qr_asset_amount r)), SqlInt (uint (qr_min_funding_confs r)),
           SqlInt (uint (qr_total_price_msat r)), SqlInt (uint (qr_price_msat_per_asset_unit r)),
           SqlInt (uint (qr_fee_subsidy_sats r)), SqlInt (uint (qr_refund_delta_blocks r)),
           SqlInt (uint (qr_invoice_expiry_secs r)), SqlInt (uint (qr_max_min_funding_confs r)),
           (case qr_swap_id r of None \<Rightarrow> SqlNull | Some t \<Rightarrow> SqlText t)]"
  by (auto simp: quote_params_def to_sql_u32_def to_sql_text_def to_sql_opt_text_def)

lemma swap_params_Inr:
  "bind_params (swap_params r) = Inr vs \<longleftrightarrow>
     uint (sr_asset_amount r) < 2 ^ 63 \<and> uint (sr_total_price_msat r) < 2 ^ 63 \<and>
     uint (sr_fee_subsidy_sats r) < 2 ^ 63 \<and>
     vs = [SqlText (sr_swap_id r), SqlText (sr_quote_id r), SqlText (direction_to_str (sr_direction r)),
           SqlText (sr_bolt11_invoice r), SqlText (sr_payment_hash r), SqlText (sr_asset_id r),
           SqlInt (uint (sr_asset_amount r)), SqlInt (uint (sr_total_price_msat r)),
           SqlText (sr_buyer_liquid_address r), SqlInt (uint (sr_fee_subsidy_sats r)),
           SqlInt (uint (sr_refund_lock_height r)), SqlText (sr_p2wsh_address r),
           SqlText (sr_witness_script_hex r), SqlText (sr_funding_txid r),
           SqlInt (uint (sr_asset_vout r)), SqlInt (uint (sr_lbtc_vout r)),
           SqlInt (uint (sr_min_funding_confs r)),
           (case sr_ln_payment_id r of None \<Rightarrow> SqlNull | Some t \<Rightarrow> SqlText t),
           (case sr_ln_preimage_hex r of None \<Rightarrow> SqlNull | Some t \<Rightarrow> SqlText t),
           (case sr_claim_txid r of None \<Rightarrow> SqlNull | Some t \<Rightarrow> SqlText t),
           SqlText (status_to_str (sr_status r))]"
  by (auto simp: swap_params_def to_sql_u32_def to_sql_text_def to_sql_opt_text_def)

lemma length_params [simp]: "length (quote_params r) = 13" "length (swap_params r') = 21"
  by (simp_all add: quote_params_def swap_params_def)

lemma get_opt_text_case:
  "vs ! i = (case x of None \<Rightarrow> SqlNull | Some t \<Rightarrow> SqlText t) \<Longrightarrow> get_opt_text vs i = Inr x"
  by (cases x) (simp_all add: get_opt_text_def)

lemma row_to_quote_record_params:
  assumes "bind_params (quote_params r) = Inr vs"
  shows "row_to_quote_record vs = Inr r"
  using assms
  by (simp add: quote_params_Inr row_to_quote_record_def get_i64_def get_text_def conv_u64_def
      conv_u32_def get_opt_text_case del: and_then_Inr)

lemma row_to_swap_record_params:
  assumes "bind_params (swap_params r) = Inr vs"
  shows "row_to_swap_record vs = Inr r"
  using assms
  by (simp add: swap_params_Inr row_to_swap_record_def get_i64_def get_text_def conv_u64_def
      conv_u32_def get_opt_text_case del: and_then_Inr)

interpretation quote_rows: row_codec quote_cols "''quote_id''" quote_params row_to_quote_record
  qr_quote_id "[''swap_id'']"
proof
  show "bind_params (quote_params r) = Inr vs \<Longrightarrow>
      map_of (zip quote_cols vs) c = Some SqlNull \<Longrightarrow> c \<in> set [''swap_id'']" for r vs c
    by (auto simp: quote_params_Inr quote_cols_def split: if_splits)
qed (auto simp: quote_cols_def row_to_quote_record_params quote_params_Inr)

interpretation swap_rows: row_codec swap_cols "''swap_id''" swap_params row_to_swap_record
  sr_swap_id "[''ln_payment_id'', ''ln_preimage_hex'', ''claim_txid'']"
proof
  show "bind_params (swap_params r) = Inr vs \<Longrightarrow>
      map_of (zip swap_cols vs) c = Some SqlNull \<Longrightarrow>
      c \<in> set [''ln_payment_id'', ''ln_preimage_hex'', ''claim_txid'']" for r vs c
    by (auto simp: swap_params_Inr swap_cols_def split: if_splits)
qed (auto simp: swap_cols_def row_to_swap_record_params swap_params_Inr)

interpretation quote_link: row_update quote_cols "''quote_id''" quote_params row_to_quote_record
  qr_quote_id "[''swap_id'']" "[(''swap_id'', swap_id)]" "\<lambda>r. r\<lparr>qr_swap_id := Some swap_id\<rparr>"
  for swap_id
  by unfold_locales (auto simp: quote_params_Inr quote_cols_def)

interpretation swap_status: row_update swap_cols "''swap_id''" swap_params row_to_swap_record
  sr_swap_id "[''ln_payment_id'', ''ln_preimage_hex'', ''claim_txid'']"
  "[(''status'', status_to_str status)]" "\<lambda>r. r\<lparr>sr_status := status\<rparr>"
  for status
  by unfold_locales (auto simp: swap_params_Inr swap_cols_def)

interpretation swap_payment: row_update swap_cols "''swap_id''" swap_params row_to_swap_record
  sr_swap_id "[''ln_payment_id'', ''ln_preimage_hex'', ''claim_txid'']"
  "[(''ln_payment_id'', payment_id), (''ln_preimage_hex'', preimage_hex), (''status'', status_to_str status)]"
  "\<lambda>r. r\<lparr>sr_ln_payment_id := Some payment_id, sr_ln_preimage_hex := Some preimage_hex, sr_status := status\<rparr>"
  for payment_id preimage_hex status
  by unfold_locales (auto simp: swap_params_Inr swap_cols_def)

interpretation swap_claim: row_update swap_cols "''swap_id''" swap_params row_to_swap_record
  sr_swap_id "[''ln_payment_id'', ''ln_preimage_hex'', ''claim_txid'']"
  "[(''claim_txid'', claim_txid), (''status'', status_to_str status)]"
  "\<lambda>r. r\<lparr>sr_claim_txid := Some claim_txid, sr_status := status\<rparr>"
  for claim_txid status
  by unfold_locales (auto simp: swap_params_Inr swap_cols_def)

section \<open>The store as two maps\<close>

definition store_ok :: "database \<Rightarrow> bool" where
  "store_ok db \<longleftrightarrow> quote_rows.table_ok (db_quotes db) \<and> swap_rows.table_ok (db_swaps db)"

definition quotes :: "database \<Rightarrow> string \<Rightarrow> quote_record option" where
  "quotes db = quote_rows.records (db_quotes db)"

definition swaps :: "database \<Rightarrow> string \<Rightarrow> swap_record option" where
  "swaps db = swap_rows.records (db_swaps db)"

text \<open>A record whose 64-bit fields fit SQLite's signed integers.\<close>

definition quote_storable :: "quote_record \<Rightarrow> bool" where
  "quote_storable r \<longleftrightarrow>
     uint (qr_asset_amount r) < 2 ^ 63 \<and> uint (qr_total_price_msat r) < 2 ^ 63 \<and>
     uint (qr_price_msat_per_asset_unit r) < 2 ^ 63 \<and> uint (qr_fee_subsidy_sats r) < 2 ^ 63"

definition swap_storable :: "swap_record \<Rightarrow> bool" where
  "swap_storable r \<longleftrightarrow>
     uint (sr_asset_amount r) < 2 ^ 63 \<and> uint (sr_total_price_msat r) < 2 ^ 63 \<and>
     uint (sr_fee_subsidy_sats r) < 2 ^ 63"

lemma store_ok_tables:
  assumes "store_ok db"
  obtains q s where "db_quotes db = Some q" and "quote_rows.table_ok (Some q)"
    and "db_swaps db = Some s" and "swap_rows.table_ok (Some s)"
  using assms unfolding store_ok_def
  by (cases "db_quotes db"; cases "db_swaps db")
    (simp_all add: quote_rows.table_ok_def [of None] swap_rows.table_ok_def [of None])

lemma bind_params_error: "(\<And>e. Inl e \<in> set ps \<Longrightarrow> e = x) \<Longrightarrow> bind_params ps = Inl e \<Longrightarrow> e = x"
  by (induction ps) (auto simp: and_then_Inl)

lemma quote_params_cases:
  "quote_storable r \<and> (\<exists>vs. bind_params (quote_params r) = Inr vs) \<or>
   \<not> quote_storable r \<and> bind_params (quote_params r) = Inl ToSqlConversion"
proof (cases "bind_params (quote_params r)")
  case (Inl e)
  then have "e = ToSqlConversion"
    by (rule bind_params_error [rotated])
      (auto simp: quote_params_def to_sql_defs split: if_splits)
  moreover have "\<not> quote_storable r"
    using quote_params_Inr [of r] Inl by (auto simp: quote_storable_def)
  ultimately show ?thesis using Inl by simp
next
  case (Inr vs)
  then have "quote_storable r" by (simp only: quote_params_Inr quote_storable_def simp_thms)
  then show ?thesis using Inr by simp
qed

lemma swap_params_cases:
  "swap_storable r \<and> (\<exists>vs. bind_params (swap_params r) = Inr vs) \<or>
   \<not> swap_storable r \<and> bind_params (swap_params r) = Inl ToSqlConversion"
proof (cases "bind_params (swap_params r)")
  case (Inl e)
  then have "e = ToSqlConversion"
    by (rule bind_params_error [rotated])
      (auto simp: swap_params_def to_sql_defs split: if_splits)
  moreover have "\<not> swap_storable r"
    using swap_params_Inr [of r] Inl by (auto simp: swap_storable_def)
  ultimately show ?thesis using Inl by simp
next
  case (Inr vs)
  then have "swap_storable r" by (simp only: swap_params_Inr swap_storable_def simp_thms)
  then show ?thesis using Inr by simp
qed

named_theorems store_specs \<open>what each operation does on a well-formed store\<close>

lemma get_quote_ok [store_specs]:
  "store_ok db \<Longrightarrow> get_quote None k db = Some (Inr (quotes db k), db)"
  using quote_rows.lookup_records [of "db_quotes db" k]
  by (simp add: get_quote_def on_quotes_def read_optional_def quote_rows.lookup_rec_def
      store_ok_def quotes_def del: and_then_Inr)

lemma get_swap_ok [store_specs]:
  "store_ok db \<Longrightarrow> get_swap None k db = Some (Inr (swaps db k), db)"
  using swap_rows.lookup_records [of "db_swaps db" k]
  by (simp add: get_swap_def on_swaps_def read_optional_def swap_rows.lookup_rec_def
      store_ok_def swaps_def del: and_then_Inr)

text \<open>Which answer an insert gives.\<close>

definition insert_result :: "string option \<Rightarrow> bool \<Rightarrow> bool \<Rightarrow> store_error + unit" where
  "insert_result engine storable taken =
     (if \<not> storable then Inl ToSqlConversion
      else case engine of
        Some e \<Rightarrow> Inl (EngineError e)
      | None \<Rightarrow> if taken then Inl UniqueViolation else Inr ())"

lemma insert_result_Inr [simp]:
  "insert_result engine storable taken = Inr u \<longleftrightarrow> storable \<and> engine = None \<and> \<not> taken"
  by (auto simp: insert_result_def split: option.splits if_splits)

lemma insert_result_Inr' [simp]:
  "Inr u = insert_result engine storable taken \<longleftrightarrow> storable \<and> engine = None \<and> \<not> taken"
  by (auto simp: insert_result_def split: option.splits if_splits)

lemma insert_quote_ok [store_specs]:
  assumes ok: "store_ok db"
  shows "\<exists>db'. insert_quote engine r db =
      Some (insert_result engine (quote_storable r) (quotes db (qr_quote_id r) \<noteq> None), db') \<and>
    store_ok db' \<and> swaps db' = swaps db \<and>
    quotes db' = (if quote_storable r \<and> engine = None \<and> quotes db (qr_quote_id r) = None
                  then (quotes db)(qr_quote_id r \<mapsto> r) else quotes db)"
proof -
  from ok obtain q where q: "db_quotes db = Some q" and tq: "quote_rows.table_ok (Some q)"
    by (rule store_ok_tables)
  define res where "res = quote_rows.insert_rec engine r (Some q)"
  have run: "insert_quote engine r db = Some (fst res, db\<lparr>db_quotes := snd res\<rparr>)"
    by (simp add: insert_quote_def on_quotes_def q res_def quote_rows.insert_rec_def split_beta)
  have fst: "fst res = insert_result engine (quote_storable r) (quotes db (qr_quote_id r) \<noteq> None)"
    using quote_params_cases [of r]
    by (auto simp: res_def quote_rows.insert_rec_eq [OF tq] insert_result_def quotes_def q split: option.splits)
  have "quote_rows.table_ok (snd res)"
    unfolding res_def using tq by (rule quote_rows.table_ok_insert)
  moreover have "quote_rows.records (snd res) =
      (if fst res = Inr () then (quotes db)(qr_quote_id r \<mapsto> r) else quotes db)"
    using quote_rows.records_insert [OF tq, of engine r] quote_rows.insert_rec_failed [of engine r "Some q"]
    by (auto simp: res_def quotes_def q)
  ultimately show ?thesis
    using ok run fst by (auto simp: store_ok_def quotes_def swaps_def)
qed

lemma insert_swap_ok [store_specs]:
  assumes ok: "store_ok db"
  shows "\<exists>db'. insert_swap engine r db =
      Some (insert_result engine (swap_storable r) (swaps db (sr_swap_id r) \<noteq> None), db') \<and>
    store_ok db' \<and> quotes db' = quotes db \<and>
    swaps db' = (if swap_storable r \<and> engine = None \<and> swaps db (sr_swap_id r) = None
                 then (swaps db)(sr_swap_id r \<mapsto> r) else swaps db)"
proof -
  from ok obtain t where t: "db_swaps db = Some t" and ts: "swap_rows.table_ok (Some t)"
    by (rule store_ok_tables)
  define res where "res = swap_rows.insert_rec engine r (Some t)"
  have run: "insert_swap engine r db = Some (fst res, db\<lparr>db_swaps := snd res\<rparr>)"
    by (simp add: insert_swap_def on_swaps_def t res_def swap_rows.insert_rec_def split_beta)
  have fst: "fst res = insert_result engine (swap_storable r) (swaps db (sr_swap_id r) \<noteq> None)"
    using swap_params_cases [of r]
    by (auto simp: res_def swap_rows.insert_rec_eq [OF ts] insert_result_def swaps_def t split: option.splits)
  have "swap_rows.table_ok (snd res)"
    unfolding res_def using ts by (rule swap_rows.table_ok_insert)
  moreover have "swap_rows.records (snd res) =
      (if fst res = Inr () then (swaps db)(sr_swap_id r \<mapsto> r) else swaps db)"
    using swap_rows.records_insert [OF ts, of engine r] swap_rows.insert_rec_failed [of engine r "Some t"]
    by (auto simp: res_def swaps_def t)
  ultimately show ?thesis
    using ok run fst by (auto simp: store_ok_def quotes_def swaps_def)
qed

text \<open>Which answer an update by key gives.\<close>

definition update_result :: "string option \<Rightarrow> bool \<Rightarrow> store_error \<Rightarrow> store_error + unit" where
  "update_result engine found missing =
     (case engine of Some e \<Rightarrow> Inl (EngineError e) | None \<Rightarrow> if found then Inr () else Inl missing)"

lemma update_result_Inr [simp]:
  "update_result engine found missing = Inr u \<longleftrightarrow> engine = None \<and> found"
  by (auto simp: update_result_def split: option.splits if_splits)

lemma update_result_Inr' [simp]:
  "Inr u = update_result engine found missing \<longleftrightarrow> engine = None \<and> found"
  by (auto simp: update_result_def split: option.splits if_splits)

lemma set_quote_swap_id_ok [store_specs]:
  assumes ok: "store_ok db"
  shows "\<exists>db'. set_quote_swap_id engine k sid db =
      Some (update_result engine (quotes db k \<noteq> None) (QuoteMissing k), db') \<and>
    store_ok db' \<and> swaps db' = swaps db \<and>
    quotes db' = (if engine = None
                  then (quotes db)(k := map_option (\<lambda>r. r\<lparr>qr_swap_id := Some sid\<rparr>) (quotes db k)) else quotes db)"
proof -
  from ok obtain q where q: "db_quotes db = Some q" and tq: "quote_rows.table_ok (Some q)"
    by (rule store_ok_tables)
  show ?thesis
    using ok quote_link.table_ok_update [OF tq, of sid k] quote_link.records_update [OF tq, of sid k]
    by (auto simp: set_quote_swap_id_def on_quotes_def q quote_link.exec_update_eq [OF tq] bind_run_def
        update_result_def one_row_def store_ok_def quotes_def swaps_def split: option.splits if_splits)
qed

lemma update_swap_ok:
  assumes ok: "store_ok db" and t: "db_swaps db = Some t"
    and eq: "f (Some t) = (case engine of
       Some e \<Rightarrow> (Inl (EngineError e), Some t)
     | None \<Rightarrow> (Inr (if swap_rows.records (Some t) k = None then 0 else 1), Some t'))"
    and new: "swap_rows.table_ok (Some t')"
      "swap_rows.records (Some t') = (swap_rows.records (Some t))(k := map_option upd (swap_rows.records (Some t) k))"
  shows "\<exists>db'. bind_run (on_swaps f) (\<lambda>rows. lift_run (one_row rows (SwapMissing k) ())) db =
      Some (update_result engine (swaps db k \<noteq> None) (SwapMissing k), db') \<and>
    store_ok db' \<and> quotes db' = quotes db \<and>
    swaps db' = (if engine = None then (swaps db)(k := map_option upd (swaps db k)) else swaps db)"
  using ok new
  by (auto simp: on_swaps_def t eq bind_run_def update_result_def one_row_def store_ok_def
      quotes_def swaps_def split: option.splits if_splits)

lemma update_swap_status_ok [store_specs]:
  assumes ok: "store_ok db"
  shows "\<exists>db'. update_swap_status engine k st db =
      Some (update_result engine (swaps db k \<noteq> None) (SwapMissing k), db') \<and>
    store_ok db' \<and> quotes db' = quotes db \<and>
    swaps db' = (if engine = None
                 then (swaps db)(k := map_option (\<lambda>r. r\<lparr>sr_status := st\<rparr>) (swaps db k)) else swaps db)"
proof -
  from ok obtain t where t: "db_swaps db = Some t" and ts: "swap_rows.table_ok (Some t)"
    by (rule store_ok_tables)
  show ?thesis unfolding update_swap_status_def
    by (rule update_swap_ok [OF ok t], rule swap_status.exec_update_eq [OF ts],
        rule swap_status.table_ok_update [OF ts], rule swap_status.records_update [OF ts])
qed

lemma upsert_swap_payment_ok [store_specs]:
  assumes ok: "store_ok db"
  shows "\<exists>db'. upsert_swap_payment engine k pid pre st db =
      Some (update_result engine (swaps db k \<noteq> None) (SwapMissing k), db') \<and>
    store_ok db' \<and> quotes db' = quotes db \<and>
    swaps db' = (if engine = None
                 then (swaps db)(k := map_option (\<lambda>r. r\<lparr>sr_ln_payment_id := Some pid,
                        sr_ln_preimage_hex := Some pre, sr_status := st\<rparr>) (swaps db k)) else swaps db)"
proof -
  from ok obtain t where t: "db_swaps db = Some t" and ts: "swap_rows.table_ok (Some t)"
    by (rule store_ok_tables)
  show ?thesis unfolding upsert_swap_payment_def
    by (rule update_swap_ok [OF ok t], rule swap_payment.exec_update_eq [OF ts],
        rule swap_payment.table_ok_update [OF ts], rule swap_payment.records_update [OF ts])
qed

lemma upsert_swap_claim_ok [store_specs]:
  assumes ok: "store_ok db"
  shows "\<exists>db'. upsert_swap_claim engine k txid st db =
      Some (update_result engine (swaps db k \<noteq> None) (SwapMissing k), db') \<and>
    store_ok db' \<and> quotes db' = quotes db \<and>
    swaps db' = (if engine = None
                 then (swaps db)(k := map_option (\<lambda>r. r\<lparr>sr_claim_txid := Some txid, sr_status := st\<rparr>)
                                        (swaps db k)) else swaps db)"
proof -
  from ok obtain t where t: "db_swaps db = Some t" and ts: "swap_rows.table_ok (Some t)"
    by (rule store_ok_tables)
  show ?thesis unfolding upsert_swap_claim_def
    by (rule update_swap_ok [OF ok t], rule swap_claim.exec_update_eq [OF ts],
        rule swap_claim.table_ok_update [OF ts], rule swap_claim.records_update [OF ts])
qed

lemma read_rows_decode_all: "read_rows rows = swap_rows.decode_all rows"
  by (induction rows) simp_all

lemma list_swaps_ok [store_specs]:
  assumes ok: "store_ok db"
  shows "\<exists>rs. list_swaps None db = Some (Inr rs, db) \<and>
    sorted_wrt (<) (map sr_swap_id rs) \<and> (\<forall>r. r \<in> set rs \<longleftrightarrow> swaps db (sr_swap_id r) = Some r)"
proof -
  from ok obtain t where t: "db_swaps db = Some t" and ts: "swap_rows.table_ok (Some t)"
    by (rule store_ok_tables)
  have "db\<lparr>db_swaps := Some t\<rparr> = db" using t by (cases db) simp
  then show ?thesis
    using swap_rows.list_records [OF ts] t
    by (auto simp: list_swaps_def on_swaps_def swaps_def read_rows_decode_all simp del: and_then_Inr)
qed

lemma swaps_id: "store_ok db \<Longrightarrow> swaps db k = Some r \<Longrightarrow> sr_swap_id r = k"
  unfolding store_ok_def swaps_def using swap_rows.records_key by blast

lemma quotes_id: "store_ok db \<Longrightarrow> quotes db k = Some r \<Longrightarrow> qr_quote_id r = k"
  unfolding store_ok_def quotes_def using quote_rows.records_key by blast

text \<open>Reading never changes the store.\<close>

lemma store_reads:
  "get_quote engine k db = Some (rq, db') \<Longrightarrow> db' = db"
  "get_swap engine k db = Some (rs, db') \<Longrightarrow> db' = db"
  "list_swaps engine db = Some (rl, db') \<Longrightarrow> db' = db"
  by (simp_all add: get_quote_def get_swap_def list_swaps_def on_quotes_def on_swaps_def)

end
