(* ===== verification/Script_Num.thy ===== *)
theory Script_Num
  imports Swap_Prelude
begin

text \<open>
  Script numbers. \<open>script_num_bytes\<close> and \<open>script_num_value\<close> are the reference encoding
  and reading (little-endian magnitude, the sign in the top bit of the last byte, as few
  bytes as possible, zero as the empty string); \<open>or_bytes\<close> is the loop of
  \<open>decode_script_num\<close> in \<open>src/liquid/htlc.rs\<close>, shown to compute the same value.
\<close>

section \<open>The reference encoding\<close>

fun magnitude_bytes :: "nat \<Rightarrow> bytes" where
  "magnitude_bytes n = (if n = 0 then [] else of_nat (n mod 256) # magnitude_bytes (n div 256))"

declare magnitude_bytes.simps [simp del]

definition script_num_bytes :: "int \<Rightarrow> bytes" where
  "script_num_bytes n =
     (let m = magnitude_bytes (nat \<bar>n\<bar>) in
      if m = [] then []
      else if 0x80 \<le> last m then m @ [if n < 0 then 0x80 else 0]
      else butlast m @ [if n < 0 then last m OR 0x80 else last m])"

fun bytes_value :: "bytes \<Rightarrow> nat" where
  "bytes_value [] = 0"
| "bytes_value (b # bs) = unat b + 256 * bytes_value bs"

definition script_num_value :: "bytes \<Rightarrow> int" where
  "script_num_value bs =
     (if bs = [] then 0
      else let m = int (bytes_value (butlast bs @ [last bs AND 0x7f]))
           in if last bs AND 0x80 \<noteq> 0 then - m else m)"

section \<open>The loop of the code\<close>

text \<open>\<open>for (i, b) in magnitude.iter().enumerate() { value |= (*b as i64) << (8 * i); }\<close>\<close>

fun or_bytes :: "nat \<Rightarrow> bytes \<Rightarrow> i64 \<Rightarrow> i64" where
  "or_bytes i [] value = value"
| "or_bytes i (b # bs) value = or_bytes (Suc i) bs (value OR push_bit (8 * i) (ucast b))"

section \<open>Single bytes\<close>

lemma unat_byte_lt: "unat (b :: u8) < 256"
  using unsigned_less [of b, where ?'a = nat] by simp

lemma byte_low_bits: "unat (b AND 0x7f :: u8) = unat b mod 128"
proof -
  have "b AND 0x7f = take_bit 7 b"
    by (simp add: take_bit_eq_mask mask_eq_exp_minus_1)
  then show ?thesis by (simp add: unsigned_take_bit_eq) (simp add: take_bit_eq_mod)
qed

lemma byte_sign_bit: "(b AND 0x80 :: u8) \<noteq> 0 \<longleftrightarrow> 128 \<le> unat b"
proof -
  have "b AND 2 ^ 7 \<noteq> 0 \<longleftrightarrow> bit b 7" by (simp only: and_exp_eq_0_iff_not_bit not_not)
  also have "\<dots> \<longleftrightarrow> bit (unat b) 7" by (simp add: bit_unsigned_iff)
  also have "\<dots> \<longleftrightarrow> odd (unat b div 128)" by (simp add: bit_iff_odd)
  finally have "(b AND 0x80 \<noteq> 0) \<longleftrightarrow> odd (unat b div 128)" by simp
  moreover have "unat b div 128 < 2" using unat_byte_lt [of b] by simp
  ultimately show ?thesis by (auto simp: less_2_cases_iff)
qed

lemma byte_set_sign:
  assumes "unat b < 128"
  shows "unat (b OR 0x80 :: u8) = unat b + 128"
proof -
  have "b AND 0x80 = 0" using byte_sign_bit [of b] assms by linarith
  then have "b OR 0x80 = b + 0x80" by (simp add: disjunctive_add_eq_or)
  with assms show ?thesis by (simp add: unat_word_ariths)
qed

section \<open>The loop computes the little-endian value\<close>

lemma or_push_bit_add:
  fixes v :: i64
  assumes "unat v < 2 ^ (8 * i)" and "Suc i \<le> 8"
  shows "unat (v OR push_bit (8 * i) (ucast (b :: u8))) = unat v + 2 ^ (8 * i) * unat b"
proof -
  have "v AND push_bit (8 * i) (ucast b) = 0"
  proof (rule bit_word_eqI)
    fix n
    have "\<not> bit v n" if "8 * i \<le> n"
    proof -
      have "unat v < 2 ^ n"
        using assms(1) that by (meson less_le_trans one_le_numeral power_increasing)
      then have "\<not> bit (unat v) n" by (simp add: bit_iff_odd)
      then show ?thesis by (auto simp: bit_unsigned_iff dest: bit_imp_le_length)
    qed
    then show "bit (v AND push_bit (8 * i) (ucast b)) n = bit 0 n"
      by (auto simp: bit_simps)
  qed
  then have sum: "v OR push_bit (8 * i) (ucast b) = v + push_bit (8 * i) (ucast b)"
    by (simp add: disjunctive_add_eq_or)
  have b: "unat (ucast b :: i64) = unat b"
    using unat_byte_lt [of b] by (simp add: unsigned_ucast_eq take_bit_nat_eq_self)
  have shifted: "2 ^ (8 * i) * unat b + 2 ^ (8 * i) \<le> 2 ^ 64"
  proof -
    have "2 ^ (8 * i) * (unat b + 1) \<le> 2 ^ (8 * i) * (2::nat) ^ 8"
      using unat_byte_lt [of b] by (intro mult_le_mono2) simp
    also have "\<dots> = 2 ^ (8 * Suc i)" by (simp add: power_add)
    also have "\<dots> \<le> 2 ^ 64" using assms(2) by (intro power_increasing) simp_all
    finally show ?thesis by (simp add: algebra_simps)
  qed
  have "(2::nat) ^ (8 * i) * unat b < 2 ^ 64" 
    using shifted zero_less_power [of "2 :: nat" "8 * i"] by linarith
  then have small: "push_bit (8 * i) (unat b) < 2 ^ 64"
    by (simp only: push_bit_eq_mult mult.commute)
  have "unat (push_bit (8 * i) (ucast b :: i64)) = take_bit 64 (push_bit (8 * i) (unat b))"
    by (simp only: unsigned_push_bit_eq b len_bit0 len_num1) simp
  also have "\<dots> = push_bit (8 * i) (unat b)" using small by (rule take_bit_nat_eq_self)
  also have "\<dots> = 2 ^ (8 * i) * unat b" by (simp only: push_bit_eq_mult mult.commute)
  finally have "unat (push_bit (8 * i) (ucast b :: i64)) = 2 ^ (8 * i) * unat b" .
  with shifted assms(1) show ?thesis
    by (simp add: sum unat_word_ariths)
qed

lemma unat_or_bytes:
  assumes "i + length bs \<le> 8" and "unat v < 2 ^ (8 * i)"
  shows "unat (or_bytes i bs v) = unat v + 2 ^ (8 * i) * bytes_value bs"
  using assms
proof (induction bs arbitrary: i v)
  case Nil
  then show ?case by simp
next
  case (Cons b bs)
  let ?v = "v OR push_bit (8 * i) (ucast b)"
  have step: "unat ?v = unat v + 2 ^ (8 * i) * unat b"
    using Cons.prems by (intro or_push_bit_add) simp_all
  have "unat ?v < 2 ^ (8 * i) + 2 ^ (8 * i) * unat b"
    using Cons.prems(2) unfolding step by simp
  also have "\<dots> = 2 ^ (8 * i) * (unat b + 1)" by simp
  also have "\<dots> \<le> 2 ^ (8 * i) * (2::nat) ^ 8"
    using unat_byte_lt [of b] by (intro mult_le_mono2) simp
  also have "\<dots> = 2 ^ (8 * Suc i)" by (simp add: power_add)
  finally have "unat ?v < 2 ^ (8 * Suc i)" .
  then have "unat (or_bytes (Suc i) bs ?v) = unat ?v + 2 ^ (8 * Suc i) * bytes_value bs"
    using Cons.prems by (intro Cons.IH) simp_all
  then show ?case unfolding step by (simp add: power_add distrib_left)
qed

lemma bytes_value_bound: "bytes_value bs < 256 ^ length bs"
proof (induction bs)
  case (Cons b bs)
  have "unat b + 256 * bytes_value bs < 256 * (bytes_value bs + 1)"
    using unat_byte_lt [of b] by simp
  also have "\<dots> \<le> 256 * 256 ^ length bs" using Cons by (intro mult_le_mono2) simp
  finally show ?case by simp
qed simp

lemma bytes_value_append: "bytes_value (bs @ cs) = bytes_value bs + 256 ^ length bs * bytes_value cs"
  by (induction bs) (simp_all add: algebra_simps)

section \<open>Reading back the reference encoding\<close>

lemma bytes_value_magnitude [simp]: "bytes_value (magnitude_bytes n) = n"
proof (induction n rule: magnitude_bytes.induct)
  case (1 n)
  show ?case
  proof (cases "n = 0")
    case True
    then show ?thesis by (simp add: magnitude_bytes.simps)
  next
    case False
    have "unat (of_nat (n mod 256) :: u8) = n mod 256"
      by (simp add: unat_of_nat)
    with False 1 show ?thesis by (simp add: magnitude_bytes.simps [of n])
  qed
qed

lemma magnitude_bytes_eq_Nil [simp]: "magnitude_bytes n = [] \<longleftrightarrow> n = 0"
  by (subst magnitude_bytes.simps) simp

lemma length_magnitude_bytes: "n < 256 ^ k \<Longrightarrow> length (magnitude_bytes n) \<le> k"
proof (induction k arbitrary: n)
  case 0
  then show ?case by simp
next
  case (Suc k)
  then have "n div 256 < 256 ^ k" by (simp add: less_mult_imp_div_less mult.commute)
  from Suc.IH [OF this] show ?case by (subst magnitude_bytes.simps) simp
qed

lemma bytes_value_snoc: "bytes_value (bs @ [b]) = bytes_value bs + 256 ^ length bs * unat b"
  by (simp add: bytes_value_append)

theorem script_num_roundtrip: "script_num_value (script_num_bytes n) = n"
proof -
  let ?m = "magnitude_bytes (nat \<bar>n\<bar>)"
  have val: "int (bytes_value ?m) = \<bar>n\<bar>" by simp
  consider (zero) "?m = []" | (grow) "?m \<noteq> []" "0x80 \<le> last ?m"
    | (fit) "?m \<noteq> []" "\<not> 0x80 \<le> last ?m" by blast
  then show ?thesis
  proof cases
    case zero
    then show ?thesis by (simp add: script_num_bytes_def script_num_value_def)
  next
    case grow
    then show ?thesis using val
      by (auto simp: script_num_bytes_def script_num_value_def Let_def bytes_value_snoc)
  next
    case fit
    then have low: "unat (last ?m) < 128" by (simp add: word_le_nat_alt)
    have snoc: "?m = butlast ?m @ [last ?m]" using fit by simp
    then have "bytes_value ?m = bytes_value (butlast ?m) + 256 ^ length (butlast ?m) * unat (last ?m)"
      by (metis bytes_value_snoc)
    moreover have "(last ?m OR 0x80) AND 0x7f = last ?m"
      using low by (simp only: word_unat_eq_iff byte_low_bits byte_set_sign) simp
    moreover have "last ?m AND 0x7f = last ?m"
      using low by (simp only: word_unat_eq_iff byte_low_bits) simp
    moreover have "(last ?m OR 0x80) AND 0x80 \<noteq> 0"
      using low by (simp only: byte_sign_bit byte_set_sign)
    moreover have "last ?m AND 0x80 = 0" using low byte_sign_bit [of "last ?m"] by linarith
    moreover have "int (bytes_value (butlast ?m @ [last ?m])) = \<bar>n\<bar>"
      using snoc val by simp
    ultimately show ?thesis using fit
      by (auto simp: script_num_bytes_def script_num_value_def Let_def)
  qed
qed

lemma length_script_num_bytes:
  assumes "\<bar>n\<bar> < 2 ^ (8 * Suc k - 1)"
  shows "length (script_num_bytes n) \<le> Suc k"
proof -
  let ?m = "magnitude_bytes (nat \<bar>n\<bar>)"
  have bound: "nat \<bar>n\<bar> < 128 * 256 ^ k"
  proof -
    have "(2::int) ^ (8 * Suc k - 1) = 128 * 256 ^ k"
      by (simp add: power_add power_mult)
    with assms show ?thesis by (simp add: nat_less_iff)
  qed
  then have le: "length ?m \<le> Suc k"
    by (intro length_magnitude_bytes) simp
  show ?thesis
  proof (cases "?m \<noteq> [] \<and> 0x80 \<le> last ?m")
    case True
    have "length ?m \<noteq> Suc k"
    proof
      assume eq: "length ?m = Suc k"
      have "?m = butlast ?m @ [last ?m]" using True by simp
      then have "nat \<bar>n\<bar> = bytes_value (butlast ?m) + 256 ^ length (butlast ?m) * unat (last ?m)"
        by (metis bytes_value_snoc bytes_value_magnitude)
      moreover have "128 \<le> unat (last ?m)" using True by (simp add: word_le_nat_alt)
      ultimately have "256 ^ k * 128 \<le> nat \<bar>n\<bar>"
        using eq mult_le_mono2 [of 128 "unat (last ?m)" "256 ^ k"]
        unfolding length_butlast eq diff_Suc_1 by linarith
      with bound show False by simp
    qed
    with le True show ?thesis by (simp add: script_num_bytes_def Let_def)
  next
    case False
    with le show ?thesis by (auto simp: script_num_bytes_def Let_def)
  qed
qed

end
