(* ===== verification/Htlc_Script.thy ===== *)
theory Htlc_Script
  imports Script_Num
begin

text \<open>
  The HTLC witness script of \<open>src/liquid/htlc.rs\<close>: \<open>HtlcSpec\<close>, the script it
  builds, the parser that reads a script back into a specification, and the script-number
  decoder. The \<open>elements\<close> crate's script builder and instruction iterator are the
  parameter \<open>script_lib\<close>; what the code relies on of them is \<open>script_lib_ok\<close>.
\<close>

section \<open>Opcodes, instructions and the script library\<close>

type_synonym opcode = u8

definition OP_PUSHNUM_NEG1 :: opcode where "OP_PUSHNUM_NEG1 = 0x4f"
definition OP_PUSHNUM_1 :: opcode where "OP_PUSHNUM_1 = 0x51"
definition OP_PUSHNUM_16 :: opcode where "OP_PUSHNUM_16 = 0x60"
definition OP_IF :: opcode where "OP_IF = 0x63"
definition OP_ELSE :: opcode where "OP_ELSE = 0x67"
definition OP_ENDIF :: opcode where "OP_ENDIF = 0x68"
definition OP_DROP :: opcode where "OP_DROP = 0x75"
definition OP_DUP :: opcode where "OP_DUP = 0x76"
definition OP_SIZE :: opcode where "OP_SIZE = 0x82"
definition OP_EQUALVERIFY :: opcode where "OP_EQUALVERIFY = 0x88"
definition OP_SHA256 :: opcode where "OP_SHA256 = 0xa8"
definition OP_HASH160 :: opcode where "OP_HASH160 = 0xa9"
definition OP_CHECKSIG :: opcode where "OP_CHECKSIG = 0xac"
definition OP_CLTV :: opcode where "OP_CLTV = 0xb1"

lemmas opcode_defs =
  OP_PUSHNUM_NEG1_def OP_PUSHNUM_1_def OP_PUSHNUM_16_def OP_IF_def OP_ELSE_def OP_ENDIF_def
  OP_DROP_def OP_DUP_def OP_SIZE_def OP_EQUALVERIFY_def OP_SHA256_def OP_HASH160_def
  OP_CHECKSIG_def OP_CLTV_def

text \<open>One call on the script builder, and one instruction the iterator yields.\<close>

datatype script_item = PushOpcode opcode | PushInt int | PushSlice bytes

datatype instruction = Op opcode | PushBytes bytes

record script_lib =
  sl_build :: "script_item list \<Rightarrow> bytes"
  sl_instructions_minimal :: "bytes \<Rightarrow> (string + instruction) list"

section \<open>Builder calls and the instructions they become\<close>

text \<open>What the instruction iterator yields for one builder call.\<close>

fun item_instruction :: "script_item \<Rightarrow> instruction" where
  "item_instruction (PushOpcode op) = Op op"
| "item_instruction (PushSlice bs) = PushBytes bs"
| "item_instruction (PushInt n) =
     (if n = -1 \<or> (1 \<le> n \<and> n \<le> 16) then Op (word_of_int (0x50 + n))
      else PushBytes (script_num_bytes n))"

text \<open>
  The builder calls the code makes: opcodes that are not pushes, integers of an \<open>i64\<close> and
  slices short enough for a one-byte push length and long enough not to have an opcode of
  their own.
\<close>

fun plain_item :: "script_item \<Rightarrow> bool" where
  "plain_item (PushOpcode op) \<longleftrightarrow> 0x61 \<le> op"
| "plain_item (PushSlice bs) \<longleftrightarrow> 2 \<le> length bs \<and> length bs \<le> 75"
| "plain_item (PushInt n) \<longleftrightarrow> \<bar>n\<bar> < 2 ^ 63"

definition script_lib_ok :: "script_lib \<Rightarrow> bool" where
  "script_lib_ok sl \<longleftrightarrow>
     (\<forall>items. list_all plain_item items \<longrightarrow>
        sl_instructions_minimal sl (sl_build sl items) = map (Inr \<circ> item_instruction) items)"

section \<open>The HTLC specification and its script\<close>

record htlc_spec =
  hs_payment_hash :: bytes
  hs_claimer_pubkey_hash160 :: bytes
  hs_refunder_pubkey_hash160 :: bytes
  hs_refund_lock_height :: u32

text \<open>The array types \<open>[u8; 32]\<close> and \<open>[u8; 20]\<close> of the Rust struct.\<close>

definition htlc_spec_wf :: "htlc_spec \<Rightarrow> bool" where
  "htlc_spec_wf spec \<longleftrightarrow>
     length (hs_payment_hash spec) = 32 \<and>
     length (hs_claimer_pubkey_hash160 spec) = 20 \<and>
     length (hs_refunder_pubkey_hash160 spec) = 20"

definition witness_script_items :: "htlc_spec \<Rightarrow> script_item list" where
  "witness_script_items spec =
     [PushOpcode OP_IF,
      PushOpcode OP_SIZE,
      PushInt 32,
      PushOpcode OP_EQUALVERIFY,
      PushOpcode OP_SHA256,
      PushSlice (hs_payment_hash spec),
      PushOpcode OP_EQUALVERIFY,
      PushOpcode OP_DUP,
      PushOpcode OP_HASH160,
      PushSlice (hs_claimer_pubkey_hash160 spec),
      PushOpcode OP_EQUALVERIFY,
      PushOpcode OP_CHECKSIG,
      PushOpcode OP_ELSE,
      PushInt (uint (hs_refund_lock_height spec)),
      PushOpcode OP_CLTV,
      PushOpcode OP_DROP,
      PushOpcode OP_DUP,
      PushOpcode OP_HASH160,
      PushSlice (hs_refunder_pubkey_hash160 spec),
      PushOpcode OP_EQUALVERIFY,
      PushOpcode OP_CHECKSIG,
      PushOpcode OP_ENDIF]"

definition witness_script :: "script_lib \<Rightarrow> htlc_spec \<Rightarrow> bytes" where
  "witness_script sl spec = sl_build sl (witness_script_items spec)"

section \<open>Parsing a witness script\<close>

datatype htlc_error =
    DecodeInstruction string
  | UnexpectedEnd
  | UnexpectedInstruction opcode instruction
  | UnexpectedOpcodeForNumber opcode
  | ScriptNumberTooLarge nat
  | UnexpectedPush nat instruction
  | UnexpectedPreimageSize i64
  | RefundLockHeightOutOfRange i64
  | TrailingInstructions
  | NotP2wpkh bytes
  | FeeNotBelowSubsidy
  | InvalidRefundLockTime string
  | SighashMessage

type_synonym instr_iter = "(string + instruction) list"

text \<open>\<open>iter.next().transpose()\<close>: the end of the script and a decoding error both fail.\<close>

fun next_instruction :: "instr_iter \<Rightarrow> htlc_error + (instruction \<times> instr_iter)" where
  "next_instruction [] = Inl UnexpectedEnd"
| "next_instruction (Inl e # it) = Inl (DecodeInstruction e)"
| "next_instruction (Inr i # it) = Inr (i, it)"

definition expect_op :: "instruction \<Rightarrow> opcode \<Rightarrow> htlc_error + unit" where
  "expect_op actual expected =
     (case actual of
        Op op \<Rightarrow> if op = expected then Inr () else Inl (UnexpectedInstruction expected actual)
      | PushBytes _ \<Rightarrow> Inl (UnexpectedInstruction expected actual))"

definition decode_script_num :: "bytes \<Rightarrow> htlc_error + i64" where
  "decode_script_num bs =
     (if bs = [] then Inr 0
      else if length bs > 8 then Inl (ScriptNumberTooLarge (length bs))
      else
        let negative = (last bs AND 0x80 \<noteq> 0);
            magnitude = butlast bs @ [last bs AND 0x7f];
            value = or_bytes 0 magnitude 0
        in Inr (if negative then - value else value))"

definition parse_script_num :: "instruction \<Rightarrow> htlc_error + i64" where
  "parse_script_num actual =
     (case actual of
        PushBytes bs \<Rightarrow> decode_script_num bs
      | Op code \<Rightarrow>
          if code = OP_PUSHNUM_NEG1 then Inr (-1)
          else if OP_PUSHNUM_1 \<le> code \<and> code \<le> OP_PUSHNUM_16
            then Inr (ucast (code - OP_PUSHNUM_1 + 1))
          else Inl (UnexpectedOpcodeForNumber code))"

definition expect_push :: "nat \<Rightarrow> instruction \<Rightarrow> htlc_error + bytes" where
  "expect_push n actual =
     (case actual of
        PushBytes bs \<Rightarrow> if length bs = n then Inr bs else Inl (UnexpectedPush n actual)
      | Op _ \<Rightarrow> Inl (UnexpectedPush n actual))"

text \<open>\<open>expect_op(next_instruction(&mut iter)?, op)?\<close> and its two siblings.\<close>

definition next_op :: "instr_iter \<Rightarrow> opcode \<Rightarrow> htlc_error + instr_iter" where
  "next_op it op =
     and_then (next_instruction it) (\<lambda>(i, it'). and_then (expect_op i op) (\<lambda>_. Inr it'))"

definition next_num :: "instr_iter \<Rightarrow> htlc_error + (i64 \<times> instr_iter)" where
  "next_num it =
     and_then (next_instruction it) (\<lambda>(i, it'). and_then (parse_script_num i) (\<lambda>n. Inr (n, it')))"

definition next_push :: "nat \<Rightarrow> instr_iter \<Rightarrow> htlc_error + (bytes \<times> instr_iter)" where
  "next_push k it =
     and_then (next_instruction it) (\<lambda>(i, it'). and_then (expect_push k i) (\<lambda>bs. Inr (bs, it')))"

definition parse_instructions :: "instr_iter \<Rightarrow> htlc_error + htlc_spec" where
  "parse_instructions it =
     and_then (next_op it OP_IF) (\<lambda>it.
     and_then (next_op it OP_SIZE) (\<lambda>it.
     and_then (next_num it) (\<lambda>(size, it).
     and_then (ensure (size = 32) (UnexpectedPreimageSize size)) (\<lambda>_.
     and_then (next_op it OP_EQUALVERIFY) (\<lambda>it.
     and_then (next_op it OP_SHA256) (\<lambda>it.
     and_then (next_push 32 it) (\<lambda>(payment_hash, it).
     and_then (next_op it OP_EQUALVERIFY) (\<lambda>it.
     and_then (next_op it OP_DUP) (\<lambda>it.
     and_then (next_op it OP_HASH160) (\<lambda>it.
     and_then (next_push 20 it) (\<lambda>(claimer, it).
     and_then (next_op it OP_EQUALVERIFY) (\<lambda>it.
     and_then (next_op it OP_CHECKSIG) (\<lambda>it.
     and_then (next_op it OP_ELSE) (\<lambda>it.
     and_then (next_num it) (\<lambda>(height, it).
     and_then (ensure (0 \<le>s height \<and> height \<le>s 0xffffffff) (RefundLockHeightOutOfRange height)) (\<lambda>_.
     and_then (next_op it OP_CLTV) (\<lambda>it.
     and_then (next_op it OP_DROP) (\<lambda>it.
     and_then (next_op it OP_DUP) (\<lambda>it.
     and_then (next_op it OP_HASH160) (\<lambda>it.
     and_then (next_push 20 it) (\<lambda>(refunder, it).
     and_then (next_op it OP_EQUALVERIFY) (\<lambda>it.
     and_then (next_op it OP_CHECKSIG) (\<lambda>it.
     and_then (next_op it OP_ENDIF) (\<lambda>it.
     and_then (ensure (it = []) TrailingInstructions) (\<lambda>_.
       Inr \<lparr>hs_payment_hash = payment_hash,
            hs_claimer_pubkey_hash160 = claimer,
            hs_refunder_pubkey_hash160 = refunder,
            hs_refund_lock_height = ucast height\<rparr>)))))))))))))))))))))))))"

definition parse_witness_script :: "script_lib \<Rightarrow> bytes \<Rightarrow> htlc_error + htlc_spec" where
  "parse_witness_script sl script = parse_instructions (sl_instructions_minimal sl script)"

section \<open>The public key hash of a P2WPKH script\<close>

definition pubkey_hash160_from_p2wpkh_script :: "bytes \<Rightarrow> htlc_error + bytes" where
  "pubkey_hash160_from_p2wpkh_script spk =
     (if length spk \<noteq> 22 \<or> spk ! 0 \<noteq> 0 \<or> spk ! 1 \<noteq> 0x14 then Inl (NotP2wpkh spk)
      else Inr (take 20 (drop 2 spk)))"

section \<open>Script numbers are decoded as the reference reading says\<close>

lemma sint_word_of_int_i64: "- (2 ^ 63) \<le> n \<Longrightarrow> n < 2 ^ 63 \<Longrightarrow> sint (word_of_int n :: i64) = n"
  by (simp add: int_word_sint)

lemma decode_script_num_value:
  assumes "length bs \<le> 8"
  shows "decode_script_num bs = Inr (word_of_int (script_num_value bs))"
    and "\<bar>script_num_value bs\<bar> < 2 ^ 63"
proof -
  let ?m = "butlast bs @ [last bs AND 0x7f]"
  have val: "unat (or_bytes 0 ?m 0) = bytes_value ?m" if "bs \<noteq> []"
    using unat_or_bytes [of 0 ?m 0] that assms by simp
  have bound: "bytes_value ?m < 2 ^ 63" if "bs \<noteq> []"
  proof -
    have "bytes_value ?m = bytes_value (butlast bs) + 256 ^ (length bs - 1) * (unat (last bs) mod 128)"
      by (simp add: bytes_value_snoc byte_low_bits)
    also have "\<dots> < 256 ^ (length bs - 1) + 256 ^ (length bs - 1) * (unat (last bs) mod 128)"
      using bytes_value_bound [of "butlast bs"] by simp
    also have "\<dots> = 256 ^ (length bs - 1) * (unat (last bs) mod 128 + 1)" by simp
    also have "\<dots> \<le> 256 ^ 7 * 128"
    proof (rule mult_le_mono)
      show "(256::nat) ^ (length bs - 1) \<le> 256 ^ 7"
        using assms by (intro power_increasing) simp_all
      have "unat (last bs) mod 128 < 128" by simp
      then show "unat (last bs) mod 128 + 1 \<le> 128" by linarith
    qed
    finally show ?thesis by simp
  qed
  have word: "or_bytes 0 ?m 0 = word_of_int (int (bytes_value ?m))" if "bs \<noteq> []"
    unfolding val [OF that, symmetric] by simp
  show "decode_script_num bs = Inr (word_of_int (script_num_value bs))"
    using assms word by (auto simp: decode_script_num_def script_num_value_def Let_def)
  show "\<bar>script_num_value bs\<bar> < 2 ^ 63"
    using bound by (auto simp: script_num_value_def Let_def)
qed

lemma decode_script_num_too_large:
  "length bs > 8 \<Longrightarrow> decode_script_num bs = Inl (ScriptNumberTooLarge (length bs))"
  by (auto simp: decode_script_num_def)

lemma decode_encoded:
  assumes "\<bar>n\<bar> < 2 ^ 63"
  shows "decode_script_num (script_num_bytes n) = Inr (word_of_int n)"
proof -
  have "length (script_num_bytes n) \<le> Suc 7"
    using assms by (intro length_script_num_bytes) simp
  then show ?thesis by (simp add: decode_script_num_value(1) script_num_roundtrip)
qed

lemma parse_item_number:
  assumes "\<bar>n\<bar> < 2 ^ 63"
  shows "parse_script_num (item_instruction (PushInt n)) = Inr (word_of_int n)"
proof -
  consider "n = -1" | "1 \<le> n" "n \<le> 16" | "n \<noteq> -1" "\<not> (1 \<le> n \<and> n \<le> 16)" by blast
  then show ?thesis
  proof cases
    case 1
    then show ?thesis by (simp add: parse_script_num_def OP_PUSHNUM_NEG1_def)
  next
    case 2
    define c :: u8 where "c = word_of_int (0x50 + n)"
    have c: "uint c = 0x50 + n" using 2 by (simp add: c_def uint_word_of_int del: of_int_add)
    have neg: "c \<noteq> OP_PUSHNUM_NEG1"
      using c 2 by (auto simp: OP_PUSHNUM_NEG1_def)
    have range: "OP_PUSHNUM_1 \<le> c" "c \<le> OP_PUSHNUM_16"
      using c 2 by (simp_all add: word_le_def OP_PUSHNUM_1_def OP_PUSHNUM_16_def)
    have "c - OP_PUSHNUM_1 + 1 = word_of_int n"
      by (simp add: c_def OP_PUSHNUM_1_def)
    then have "ucast (c - OP_PUSHNUM_1 + 1) = (word_of_int n :: i64)"
      using 2 by (simp add: ucast_eq uint_word_of_int)
    moreover have "item_instruction (PushInt n) = Op c"
      using 2 by (simp add: c_def del: of_int_add)
    ultimately show ?thesis using neg range
      by (simp add: parse_script_num_def del: item_instruction.simps)
  next
    case 3
    then show ?thesis using assms by (auto simp: parse_script_num_def decode_encoded)
  qed
qed

section \<open>Parsing what was built\<close>

named_theorems parse_simps

lemma next_op_hit [parse_simps]: "next_op (Inr (item_instruction (PushOpcode op)) # it) op = Inr it"
  by (simp add: next_op_def expect_op_def)

lemma next_num_hit [parse_simps]:
  "\<bar>n\<bar> < 2 ^ 63 \<Longrightarrow> next_num (Inr (item_instruction (PushInt n)) # it) = Inr (word_of_int n, it)"
  by (simp add: next_num_def parse_item_number del: item_instruction.simps)

lemma next_push_hit [parse_simps]:
  "length bs = k \<Longrightarrow> next_push k (Inr (item_instruction (PushSlice bs)) # it) = Inr (bs, it)"
  by (simp add: next_push_def expect_push_def)

lemma plain_witness_script_items:
  "htlc_spec_wf spec \<Longrightarrow> list_all plain_item (witness_script_items spec)"
  using uint_lt2p [of "hs_refund_lock_height spec"]
  by (simp add: htlc_spec_wf_def witness_script_items_def opcode_defs)

lemma sint_height: "sint (ucast (h :: u32) :: i64) = uint h"
proof -
  have "sint (word_of_int (uint h) :: i64) = uint h"
    using uint_lt2p [of h] by (intro sint_word_of_int_i64) (simp_all add: order.trans [OF _ uint_ge_0])
  then show ?thesis by simp
qed

lemma height_in_range: "0 \<le>s (ucast (h :: u32) :: i64) \<and> (ucast h :: i64) \<le>s 0xffffffff"
  using uint_lt2p [of h] by (simp add: word_sle_eq sint_height)

lemma height_cast: "ucast (ucast (h :: u32) :: i64) = h"
  by (rule bit_word_eqI) (simp add: bit_simps)

lemma next_height_hit [parse_simps]:
  "next_num (Inr (item_instruction (PushInt (uint (h :: u32)))) # it) = Inr (ucast h, it)"
  using next_num_hit [of "uint h" it] uint_lt2p [of h] by simp

lemma parse_items:
  assumes "htlc_spec_wf spec"
  shows "parse_instructions (map (Inr \<circ> item_instruction) (witness_script_items spec)) = Inr spec"
  using assms
  by (simp add: parse_instructions_def witness_script_items_def htlc_spec_wf_def parse_simps
      height_in_range height_cast del: item_instruction.simps and_then_Inr)

lemma parse_witness_script_built:
  "script_lib_ok sl \<Longrightarrow> htlc_spec_wf spec \<Longrightarrow> parse_witness_script sl (witness_script sl spec) = Inr spec"
  by (simp add: parse_witness_script_def witness_script_def script_lib_ok_def parse_items
      plain_witness_script_items)

end
