(* ===== verification/Script_Vm.thy ===== *)
theory Script_Vm
  imports Htlc_Script
begin

text \<open>
  What a witness script means on chain: the part of Script's semantics the HTLC script uses
  (conditionals, pushes, \<open>OP_SIZE\<close>, \<open>OP_EQUALVERIFY\<close>, hashes, \<open>OP_CHECKSIG\<close>,
  \<open>OP_CHECKLOCKTIMEVERIFY\<close>), as a stack machine over decoded instructions; any other
  opcode fails. The hashes, the signature check and the spending input's lock time and
  sequence are the context. It is the abstract specification the script built by
  \<open>HtlcSpec::witness_script\<close> is held against: who can spend, and with what.
\<close>

section \<open>The stack machine\<close>

record script_ctx =
  cx_sha256 :: "bytes \<Rightarrow> bytes"
  cx_hash160 :: "bytes \<Rightarrow> bytes"
  cx_checksig :: "bytes \<Rightarrow> bytes \<Rightarrow> bool"
  cx_lock_time :: u32
  cx_sequence :: u32

text \<open>A stack element is false when it is zero, negative zero included.\<close>

fun script_true :: "bytes \<Rightarrow> bool" where
  "script_true [] = False"
| "script_true [b] = (b \<noteq> 0 \<and> b \<noteq> 0x80)"
| "script_true (b # bs) = (b \<noteq> 0 \<or> script_true bs)"

definition lock_time_threshold :: int where
  "lock_time_threshold = 500000000"

text \<open>
  \<open>OP_CHECKLOCKTIMEVERIFY\<close>: the operand is at most five bytes and not negative, operand and
  transaction lock time are both heights or both times, the lock time has been reached, and
  the input is not final.
\<close>

definition cltv_ok :: "script_ctx \<Rightarrow> bytes \<Rightarrow> bool" where
  "cltv_ok cx x \<longleftrightarrow>
     length x \<le> 5 \<and>
     (let n = script_num_value x; t = uint (cx_lock_time cx) in
        0 \<le> n \<and> (t < lock_time_threshold \<longleftrightarrow> n < lock_time_threshold) \<and> n \<le> t \<and>
        cx_sequence cx \<noteq> 0xffffffff)"

definition exec_op :: "script_ctx \<Rightarrow> opcode \<Rightarrow> bytes list \<Rightarrow> bytes list option" where
  "exec_op cx op st =
     (if OP_PUSHNUM_1 \<le> op \<and> op \<le> OP_PUSHNUM_16 then Some (script_num_bytes (uint op - 0x50) # st)
      else if op = OP_PUSHNUM_NEG1 then Some (script_num_bytes (-1) # st)
      else if op = OP_SIZE then
        (case st of x # _ \<Rightarrow> Some (script_num_bytes (int (length x)) # st) | [] \<Rightarrow> None)
      else if op = OP_EQUALVERIFY then
        (case st of x # y # st' \<Rightarrow> if x = y then Some st' else None | _ \<Rightarrow> None)
      else if op = OP_SHA256 then
        (case st of x # st' \<Rightarrow> Some (cx_sha256 cx x # st') | [] \<Rightarrow> None)
      else if op = OP_HASH160 then
        (case st of x # st' \<Rightarrow> Some (cx_hash160 cx x # st') | [] \<Rightarrow> None)
      else if op = OP_DUP then
        (case st of x # _ \<Rightarrow> Some (x # st) | [] \<Rightarrow> None)
      else if op = OP_DROP then
        (case st of _ # st' \<Rightarrow> Some st' | [] \<Rightarrow> None)
      else if op = OP_CLTV then
        (case st of x # _ \<Rightarrow> if cltv_ok cx x then Some st else None | [] \<Rightarrow> None)
      else if op = OP_CHECKSIG then
        (case st of pk # sig # st' \<Rightarrow> Some ((if cx_checksig cx sig pk then [1] else []) # st')
         | _ \<Rightarrow> None)
      else None)"

text \<open>
  The flags say, innermost first, whether each open conditional's current branch runs; the
  flag of a conditional opened inside a branch that does not run is irrelevant.
\<close>

fun run_script :: "script_ctx \<Rightarrow> instruction list \<Rightarrow> bool list \<Rightarrow> bytes list \<Rightarrow> bytes list option" where
  "run_script cx [] flags st = (if flags = [] then Some st else None)"
| "run_script cx (PushBytes bs # is) flags st =
     run_script cx is flags (if list_all id flags then bs # st else st)"
| "run_script cx (Op op # is) flags st =
     (if op = OP_IF then
        (if list_all id flags then
           (case st of x # st' \<Rightarrow> run_script cx is (script_true x # flags) st' | [] \<Rightarrow> None)
         else run_script cx is (False # flags) st)
      else if op = OP_ELSE then
        (case flags of f # fs \<Rightarrow> run_script cx is ((\<not> f) # fs) st | [] \<Rightarrow> None)
      else if op = OP_ENDIF then
        (case flags of f # fs \<Rightarrow> run_script cx is fs st | [] \<Rightarrow> None)
      else if list_all id flags then
        (case exec_op cx op st of Some st' \<Rightarrow> run_script cx is flags st' | None \<Rightarrow> None)
      else run_script cx is flags st)"

text \<open>
  Spending a P2WSH output: the last witness element is the script that hashes to the
  program, the others are the initial stack (the last one on top), and the script must leave
  exactly one element, a true one.
\<close>

definition script_accepts :: "script_ctx \<Rightarrow> instruction list \<Rightarrow> bytes list \<Rightarrow> bool" where
  "script_accepts cx is st \<longleftrightarrow> (\<exists>t. run_script cx is [] st = Some [t] \<and> script_true t)"

fun instructions_of :: "instr_iter \<Rightarrow> instruction list option" where
  "instructions_of [] = Some []"
| "instructions_of (Inl e # it) = None"
| "instructions_of (Inr i # it) = map_option (Cons i) (instructions_of it)"

definition p2wsh_spend_ok :: "script_lib \<Rightarrow> script_ctx \<Rightarrow> bytes \<Rightarrow> bytes list \<Rightarrow> bool" where
  "p2wsh_spend_ok sl cx program witness \<longleftrightarrow>
     witness \<noteq> [] \<and> cx_sha256 cx (last witness) = program \<and>
     (case instructions_of (sl_instructions_minimal sl (last witness)) of
        None \<Rightarrow> False
      | Some is \<Rightarrow> script_accepts cx is (rev (butlast witness)))"

lemma instructions_of_map_Inr [simp]: "instructions_of (map (Inr \<circ> f) xs) = Some (map f xs)"
  by (induction xs) simp_all

section \<open>Who can spend the HTLC\<close>

text \<open>
  The specification. A claim names the claim branch with a true selector, shows a 32-byte
  preimage of the payment hash and a signature by the claimer's key; a refund names the other
  branch with a false selector and shows a signature by the refunder's key once the height is
  reached.
\<close>

definition claim_stack :: "script_ctx \<Rightarrow> htlc_spec \<Rightarrow> bytes list \<Rightarrow> bool" where
  "claim_stack cx spec st \<longleftrightarrow>
     (\<exists>sel preimage pubkey sig.
        st = [sel, preimage, pubkey, sig] \<and> script_true sel \<and>
        length preimage = 32 \<and> cx_sha256 cx preimage = hs_payment_hash spec \<and>
        cx_hash160 cx pubkey = hs_claimer_pubkey_hash160 spec \<and> cx_checksig cx sig pubkey)"

definition height_reached :: "script_ctx \<Rightarrow> u32 \<Rightarrow> bool" where
  "height_reached cx h \<longleftrightarrow>
     (uint (cx_lock_time cx) < lock_time_threshold \<longleftrightarrow> uint h < lock_time_threshold) \<and>
     h \<le> cx_lock_time cx \<and> cx_sequence cx \<noteq> 0xffffffff"

definition refund_stack :: "script_ctx \<Rightarrow> htlc_spec \<Rightarrow> bytes list \<Rightarrow> bool" where
  "refund_stack cx spec st \<longleftrightarrow>
     (\<exists>sel pubkey sig.
        st = [sel, pubkey, sig] \<and> \<not> script_true sel \<and>
        height_reached cx (hs_refund_lock_height spec) \<and>
        cx_hash160 cx pubkey = hs_refunder_pubkey_hash160 spec \<and> cx_checksig cx sig pubkey)"

section \<open>The built script against the specification\<close>

text \<open>The number an integer push leaves, whichever of its two forms the builder picks.\<close>

lemma run_push_int:
  assumes "0 \<le> n" and "list_all id flags"
  shows "run_script cx (item_instruction (PushInt n) # is) flags st =
           run_script cx is flags (script_num_bytes n # st)"
proof (cases "1 \<le> n \<and> n \<le> 16")
  case True
  define c :: u8 where "c = word_of_int (0x50 + n)"
  have c: "uint c = 0x50 + n" using True by (simp add: c_def uint_word_of_int del: of_int_add)
  have item: "item_instruction (PushInt n) = Op c"
    using True by (simp add: c_def del: of_int_add)
  have "c \<noteq> OP_IF" "c \<noteq> OP_ELSE" "c \<noteq> OP_ENDIF"
    using c True by (auto simp: opcode_defs)
  moreover have "OP_PUSHNUM_1 \<le> c" "c \<le> OP_PUSHNUM_16"
    using c True by (simp_all add: word_le_def opcode_defs)
  ultimately show ?thesis
    using assms(2) c by (simp add: item exec_op_def del: item_instruction.simps)
next
  case False
  with assms show ?thesis by auto
qed

lemma run_skip_int:
  assumes "\<not> list_all id flags"
  shows "run_script cx (item_instruction (PushInt n) # is) flags st = run_script cx is flags st"
proof (cases "n = -1 \<or> 1 \<le> n \<and> n \<le> 16")
  case True
  define c :: u8 where "c = word_of_int (0x50 + n)"
  have c: "uint c = 0x50 + n" using True by (auto simp: c_def uint_word_of_int simp del: of_int_add)
  have item: "item_instruction (PushInt n) = Op c"
    using True by (simp add: c_def del: of_int_add)
  have "c \<noteq> OP_IF" "c \<noteq> OP_ELSE" "c \<noteq> OP_ENDIF"
    using c True by (auto simp: opcode_defs)
  with assms show ?thesis by (simp add: item del: item_instruction.simps)
next
  case False
  with assms show ?thesis by auto
qed

lemma cltv_ok_height:
  "cltv_ok cx (script_num_bytes (uint (h :: u32))) \<longleftrightarrow> height_reached cx h"
proof -
  have "length (script_num_bytes (uint h)) \<le> Suc 4"
    using uint_lt2p [of h] by (intro length_script_num_bytes) simp
  then show ?thesis
    by (auto simp: cltv_ok_def height_reached_def script_num_roundtrip word_le_def Let_def)
qed

lemma script_num_bytes_inject: "script_num_bytes m = script_num_bytes n \<longleftrightarrow> m = n"
  by (metis script_num_roundtrip)

named_theorems vm_simps

lemma exec_op_simps [vm_simps]:
  "exec_op cx OP_SIZE st = (case st of x # _ \<Rightarrow> Some (script_num_bytes (int (length x)) # st) | [] \<Rightarrow> None)"
  "exec_op cx OP_EQUALVERIFY st = (case st of x # y # st' \<Rightarrow> if x = y then Some st' else None | _ \<Rightarrow> None)"
  "exec_op cx OP_SHA256 st = (case st of x # st' \<Rightarrow> Some (cx_sha256 cx x # st') | [] \<Rightarrow> None)"
  "exec_op cx OP_HASH160 st = (case st of x # st' \<Rightarrow> Some (cx_hash160 cx x # st') | [] \<Rightarrow> None)"
  "exec_op cx OP_DUP st = (case st of x # _ \<Rightarrow> Some (x # st) | [] \<Rightarrow> None)"
  "exec_op cx OP_DROP st = (case st of _ # st' \<Rightarrow> Some st' | [] \<Rightarrow> None)"
  "exec_op cx OP_CLTV st = (case st of x # _ \<Rightarrow> if cltv_ok cx x then Some st else None | [] \<Rightarrow> None)"
  "exec_op cx OP_CHECKSIG st =
     (case st of pk # sig # st' \<Rightarrow> Some ((if cx_checksig cx sig pk then [1] else []) # st') | _ \<Rightarrow> None)"
  by (simp_all add: exec_op_def opcode_defs)

lemma opcodes_distinct [vm_simps]:
  "OP_SIZE \<noteq> OP_IF" "OP_SIZE \<noteq> OP_ELSE" "OP_SIZE \<noteq> OP_ENDIF"
  "OP_EQUALVERIFY \<noteq> OP_IF" "OP_EQUALVERIFY \<noteq> OP_ELSE" "OP_EQUALVERIFY \<noteq> OP_ENDIF"
  "OP_SHA256 \<noteq> OP_IF" "OP_SHA256 \<noteq> OP_ELSE" "OP_SHA256 \<noteq> OP_ENDIF"
  "OP_HASH160 \<noteq> OP_IF" "OP_HASH160 \<noteq> OP_ELSE" "OP_HASH160 \<noteq> OP_ENDIF"
  "OP_DUP \<noteq> OP_IF" "OP_DUP \<noteq> OP_ELSE" "OP_DUP \<noteq> OP_ENDIF"
  "OP_DROP \<noteq> OP_IF" "OP_DROP \<noteq> OP_ELSE" "OP_DROP \<noteq> OP_ENDIF"
  "OP_CLTV \<noteq> OP_IF" "OP_CLTV \<noteq> OP_ELSE" "OP_CLTV \<noteq> OP_ENDIF"
  "OP_CHECKSIG \<noteq> OP_IF" "OP_CHECKSIG \<noteq> OP_ELSE" "OP_CHECKSIG \<noteq> OP_ENDIF"
  "OP_ELSE \<noteq> OP_IF" "OP_ENDIF \<noteq> OP_IF" "OP_ENDIF \<noteq> OP_ELSE"
  by (simp_all add: opcode_defs)

lemmas run_vm = vm_simps run_push_int run_skip_int

definition script_of :: "htlc_spec \<Rightarrow> instruction list" where
  "script_of spec = map item_instruction (witness_script_items spec)"

lemma stack3_cases:
  obtains "st = []" | a where "st = [a]" | a b where "st = [a, b]"
  | a b c where "st = [a, b, c]" | a b c d rest where "st = a # b # c # d # rest"
  by (metis list.exhaust)

lemma length_32: "script_num_bytes 32 = script_num_bytes (int (length x)) \<longleftrightarrow> length x = 32"
  by (auto simp: script_num_bytes_inject)

lemma run_claim_branch:
  "script_true sel \<Longrightarrow> run_script cx (script_of spec) [] (sel # st) =
     (case st of
        preimage # pubkey # sig # rest \<Rightarrow>
          if length preimage = 32 \<and> hs_payment_hash spec = cx_sha256 cx preimage \<and>
             hs_claimer_pubkey_hash160 spec = cx_hash160 cx pubkey
          then Some ((if cx_checksig cx sig pubkey then [1] else []) # rest) else None
      | _ \<Rightarrow> None)"
  by (cases st rule: stack3_cases)
    (simp_all add: script_of_def witness_script_items_def run_vm length_32
      del: item_instruction.simps(3))

lemma run_refund_branch:
  "\<not> script_true sel \<Longrightarrow> run_script cx (script_of spec) [] (sel # st) =
     (case st of
        pubkey # sig # rest \<Rightarrow>
          if height_reached cx (hs_refund_lock_height spec) \<and>
             hs_refunder_pubkey_hash160 spec = cx_hash160 cx pubkey
          then Some ((if cx_checksig cx sig pubkey then [1] else []) # rest) else None
      | _ \<Rightarrow> None)"
  by (cases st rule: stack3_cases)
    (simp_all add: script_of_def witness_script_items_def run_vm cltv_ok_height
      del: item_instruction.simps(3))

lemma accepts_claim_branch:
  "script_true sel \<Longrightarrow>
     script_accepts cx (script_of spec) (sel # st) \<longleftrightarrow> claim_stack cx spec (sel # st)"
  by (cases st rule: stack3_cases)
    (auto simp: script_accepts_def run_claim_branch claim_stack_def split: if_splits)

lemma accepts_refund_branch:
  "\<not> script_true sel \<Longrightarrow>
     script_accepts cx (script_of spec) (sel # st) \<longleftrightarrow> refund_stack cx spec (sel # st)"
  by (cases st rule: stack3_cases)
    (auto simp: script_accepts_def run_refund_branch refund_stack_def split: if_splits)

lemma script_accepts_iff:
  "script_accepts cx (script_of spec) st \<longleftrightarrow> claim_stack cx spec st \<or> refund_stack cx spec st"
proof (cases st)
  case Nil
  then show ?thesis
    by (simp add: script_accepts_def script_of_def witness_script_items_def claim_stack_def refund_stack_def)
next
  case (Cons sel rest)
  show ?thesis
  proof (cases "script_true sel")
    case True
    then show ?thesis using Cons by (auto simp: accepts_claim_branch refund_stack_def)
  next
    case False
    then show ?thesis using Cons by (auto simp: accepts_refund_branch claim_stack_def)
  qed
qed

end
