(* ===== verification/Elements_Data.thy ===== *)
theory Elements_Data
  imports Swap_Prelude
begin

text \<open>
  The values of the \<open>elements\<close> and \<open>secp256k1\<close> crates the sources build and take
  apart (transactions, outputs, addresses), with the fields the sources use, and those
  crates' functions as the parameter \<open>crypto_lib\<close>. What the code relies on of them,
  all documented behaviour of the crates, is \<open>crypto_lib_ok\<close>. Opaque values (ids, keys,
  signatures) are their bytes.
\<close>

type_synonym txid = bytes
type_synonym asset_id = bytes
type_synonym secret_key = bytes

text \<open>
  An address as far as the sources look at it: its network parameters, its script and its
  text. Equality of the parameters is equality of their names.
\<close>

record address =
  ad_params :: string
  ad_script_pubkey :: bytes
  ad_string :: string

datatype conf_asset = Asset_Null | Asset_Explicit asset_id | Asset_Confidential bytes
datatype conf_value = Value_Null | Value_Explicit u64 | Value_Confidential bytes
datatype conf_nonce = Nonce_Null | Nonce_Explicit bytes | Nonce_Confidential bytes
datatype asset_issuance = Issuance_Null | Issuance bytes

record outpoint =
  pt_txid :: txid
  pt_vout :: u32

record txin =
  ti_previous_output :: outpoint
  ti_is_pegin :: bool
  ti_script_sig :: bytes
  ti_sequence :: u32
  ti_asset_issuance :: asset_issuance
  ti_script_witness :: "bytes list"

record txout =
  to_asset :: conf_asset
  to_value :: conf_value
  to_nonce :: conf_nonce
  to_script_pubkey :: bytes
  to_witness :: "bytes list"

record tx =
  tx_version :: u32
  tx_lock_time :: u32
  tx_input :: "txin list"
  tx_output :: "txout list"

definition SEQUENCE_MAX :: u32 where "SEQUENCE_MAX = 0xffffffff"
definition SEQUENCE_ENABLE_LOCKTIME_NO_RBF :: u32 where
  "SEQUENCE_ENABLE_LOCKTIME_NO_RBF = 0xfffffffe"
definition SIGHASH_ALL :: u32 where "SIGHASH_ALL = 1"

record crypto_lib =
  cl_sha256 :: "bytes \<Rightarrow> bytes"
  cl_hash160 :: "bytes \<Rightarrow> bytes"
  cl_segwitv0_sighash :: "tx \<Rightarrow> nat \<Rightarrow> bytes \<Rightarrow> conf_value \<Rightarrow> u32 \<Rightarrow> bytes"
  cl_message_from_digest :: "bytes \<Rightarrow> string + bytes"
  cl_sign_ecdsa :: "bytes \<Rightarrow> secret_key \<Rightarrow> bytes"
  cl_verify_ecdsa :: "bytes \<Rightarrow> bytes \<Rightarrow> bytes \<Rightarrow> bool"
  cl_public_key :: "secret_key \<Rightarrow> bytes"
  cl_locktime_from_height :: "u32 \<Rightarrow> string + u32"
  cl_new_fee :: "u64 \<Rightarrow> asset_id \<Rightarrow> txout"

text \<open>The transaction with its input witnesses emptied: what a segwit signature commits to.\<close>

definition strip_witnesses :: "tx \<Rightarrow> tx" where
  "strip_witnesses t = t\<lparr>tx_input := map (\<lambda>i. i\<lparr>ti_script_witness := []\<rparr>) (tx_input t)\<rparr>"

definition crypto_lib_ok :: "crypto_lib \<Rightarrow> bool" where
  "crypto_lib_ok cl \<longleftrightarrow>
     (\<forall>t i script v ty. cl_segwitv0_sighash cl t i script v ty =
        cl_segwitv0_sighash cl (strip_witnesses t) i script v ty) \<and>
     (\<forall>t i script v ty. length (cl_segwitv0_sighash cl t i script v ty) = 32) \<and>
     (\<forall>d. length d = 32 \<longrightarrow> cl_message_from_digest cl d = Inr d) \<and>
     (\<forall>m k. cl_verify_ecdsa cl (cl_public_key cl k) m (cl_sign_ecdsa cl m k)) \<and>
     (\<forall>h. h < 500000000 \<longrightarrow> cl_locktime_from_height cl h = Inr h) \<and>
     (\<forall>h. \<not> h < 500000000 \<longrightarrow> (\<exists>e. cl_locktime_from_height cl h = Inl e)) \<and>
     (\<forall>v a. cl_new_fee cl v a =
        \<lparr>to_asset = Asset_Explicit a, to_value = Value_Explicit v, to_nonce = Nonce_Null,
         to_script_pubkey = [], to_witness = []\<rparr>) \<and>
     (\<forall>bs. length (cl_sha256 cl bs) = 32) \<and> (\<forall>bs. length (cl_hash160 cl bs) = 20)"

lemma crypto_lib_okD:
  assumes "crypto_lib_ok cl"
  shows "cl_segwitv0_sighash cl (strip_witnesses t) i script v ty = cl_segwitv0_sighash cl t i script v ty"
    and "length (cl_segwitv0_sighash cl t i script v ty) = 32"
    and "length d = 32 \<Longrightarrow> cl_message_from_digest cl d = Inr d"
    and "cl_verify_ecdsa cl (cl_public_key cl k) m (cl_sign_ecdsa cl m k)"
    and "h < 500000000 \<Longrightarrow> cl_locktime_from_height cl h = Inr h"
    and "\<not> h < 500000000 \<Longrightarrow> \<exists>e. cl_locktime_from_height cl h = Inl e"
    and "cl_new_fee cl f a =
        \<lparr>to_asset = Asset_Explicit a, to_value = Value_Explicit f, to_nonce = Nonce_Null,
         to_script_pubkey = [], to_witness = []\<rparr>"
    and "length (cl_sha256 cl bs) = 32"
    and "length (cl_hash160 cl bs) = 20"
  using assms unfolding crypto_lib_ok_def by metis+

text \<open>A library for which the laws hold, used by the witnesses of the properties.\<close>

definition pad_to :: "nat \<Rightarrow> bytes \<Rightarrow> bytes" where
  "pad_to n bs = take n (bs @ replicate n 0)"

definition toy_crypto :: crypto_lib where
  "toy_crypto =
     \<lparr>cl_sha256 = pad_to 32, cl_hash160 = pad_to 20,
      cl_segwitv0_sighash = (\<lambda>t i script v ty. pad_to 32 [of_nat i]),
      cl_message_from_digest = (\<lambda>d. if length d = 32 then Inr d else Inl ''length''),
      cl_sign_ecdsa = (\<lambda>m k. k @ m),
      cl_verify_ecdsa = (\<lambda>pk m s. s = pk @ m),
      cl_public_key = id,
      cl_locktime_from_height = (\<lambda>h. if h < 500000000 then Inr h else Inl ''height''),
      cl_new_fee = (\<lambda>v a.
        \<lparr>to_asset = Asset_Explicit a, to_value = Value_Explicit v, to_nonce = Nonce_Null,
         to_script_pubkey = [], to_witness = []\<rparr>)\<rparr>"

lemma length_pad_to [simp]: "length (pad_to n bs) = n"
  by (simp add: pad_to_def)

lemma toy_crypto_ok: "crypto_lib_ok toy_crypto"
  by (simp add: crypto_lib_ok_def toy_crypto_def)

end
