(* ===== verification/Htlc_Tx.thy ===== *)
theory Htlc_Tx
  imports Script_Vm Elements_Data
begin

text \<open>
  The spends of the HTLC in \<open>src/liquid/htlc.rs\<close>: \<open>HtlcFunding\<close>, the claim and the
  refund transaction and the segwit signature they carry. The locale \<open>htlc_spend\<close> is what
  both builders promise; the lemmas about amounts and inputs are proved once inside it.
\<close>

record htlc_funding =
  hf_funding_txid :: txid
  hf_asset_vout :: u32
  hf_lbtc_vout :: u32
  hf_asset_id :: asset_id
  hf_asset_amount :: u64
  hf_policy_asset :: asset_id
  hf_fee_subsidy_sats :: u64

definition segwit_v0_sign ::
  "crypto_lib \<Rightarrow> tx \<Rightarrow> nat \<Rightarrow> bytes \<Rightarrow> u64 \<Rightarrow> secret_key \<Rightarrow> u32 \<Rightarrow> htlc_error + bytes" where
  "segwit_v0_sign cl t input_index script_code value secret_key sighash_type =
     (let sighash = cl_segwitv0_sighash cl t input_index script_code (Value_Explicit value) sighash_type in
      and_then (map_err (\<lambda>_. SighashMessage) (cl_message_from_digest cl sighash)) (\<lambda>msg.
        Inr (cl_sign_ecdsa cl msg secret_key @ [ucast sighash_type])))"

text \<open>The two inputs and three outputs, written out twice in the source.\<close>

definition spend_input :: "htlc_funding \<Rightarrow> u32 \<Rightarrow> u32 \<Rightarrow> txin" where
  "spend_input funding vout sequence =
     \<lparr>ti_previous_output = \<lparr>pt_txid = hf_funding_txid funding, pt_vout = vout\<rparr>,
      ti_is_pegin = False, ti_script_sig = [], ti_sequence = sequence,
      ti_asset_issuance = Issuance_Null, ti_script_witness = []\<rparr>"

definition explicit_output :: "asset_id \<Rightarrow> u64 \<Rightarrow> bytes \<Rightarrow> txout" where
  "explicit_output asset value spk =
     \<lparr>to_asset = Asset_Explicit asset, to_value = Value_Explicit value, to_nonce = Nonce_Null,
      to_script_pubkey = spk, to_witness = []\<rparr>"

definition spend_tx :: "crypto_lib \<Rightarrow> htlc_funding \<Rightarrow> bytes \<Rightarrow> u64 \<Rightarrow> u32 \<Rightarrow> u32 \<Rightarrow> tx" where
  "spend_tx cl funding spk fee_sats sequence lock_time =
     \<lparr>tx_version = 2, tx_lock_time = lock_time,
      tx_input = [spend_input funding (hf_asset_vout funding) sequence,
                  spend_input funding (hf_lbtc_vout funding) sequence],
      tx_output = [explicit_output (hf_asset_id funding) (hf_asset_amount funding) spk,
                   explicit_output (hf_policy_asset funding) (hf_fee_subsidy_sats funding - fee_sats) spk,
                   cl_new_fee cl fee_sats (hf_policy_asset funding)]\<rparr>"

definition set_witnesses :: "tx \<Rightarrow> bytes list \<Rightarrow> bytes list \<Rightarrow> tx" where
  "set_witnesses t w0 w1 =
     t\<lparr>tx_input := [(tx_input t ! 0)\<lparr>ti_script_witness := w0\<rparr>,
                    (tx_input t ! 1)\<lparr>ti_script_witness := w1\<rparr>]\<rparr>"

definition claim_tx_from_witness_script ::
  "crypto_lib \<Rightarrow> bytes \<Rightarrow> htlc_funding \<Rightarrow> address \<Rightarrow> secret_key \<Rightarrow> bytes \<Rightarrow> u64 \<Rightarrow> htlc_error + tx" where
  "claim_tx_from_witness_script cl script funding receive secret_key preimage fee_sats =
     and_then (ensure (fee_sats < hf_fee_subsidy_sats funding) FeeNotBelowSubsidy) (\<lambda>_.
     let t = spend_tx cl funding (ad_script_pubkey receive) fee_sats SEQUENCE_MAX 0 in
     and_then (segwit_v0_sign cl t 0 script (hf_asset_amount funding) secret_key SIGHASH_ALL) (\<lambda>asset_sig.
     and_then (segwit_v0_sign cl t 1 script (hf_fee_subsidy_sats funding) secret_key SIGHASH_ALL) (\<lambda>lbtc_sig.
     let pubkey = cl_public_key cl secret_key in
     Inr (set_witnesses t
            [asset_sig, pubkey, preimage, [1], script]
            [lbtc_sig, pubkey, preimage, [1], script]))))"

definition refund_tx_from_witness_script ::
  "crypto_lib \<Rightarrow> bytes \<Rightarrow> u32 \<Rightarrow> htlc_funding \<Rightarrow> address \<Rightarrow> secret_key \<Rightarrow> u64 \<Rightarrow> htlc_error + tx" where
  "refund_tx_from_witness_script cl script refund_lock_height funding receive secret_key fee_sats =
     and_then (ensure (fee_sats < hf_fee_subsidy_sats funding) FeeNotBelowSubsidy) (\<lambda>_.
     and_then (map_err InvalidRefundLockTime (cl_locktime_from_height cl refund_lock_height)) (\<lambda>lock_time.
     let t = spend_tx cl funding (ad_script_pubkey receive) fee_sats SEQUENCE_ENABLE_LOCKTIME_NO_RBF lock_time in
     and_then (segwit_v0_sign cl t 0 script (hf_asset_amount funding) secret_key SIGHASH_ALL) (\<lambda>asset_sig.
     and_then (segwit_v0_sign cl t 1 script (hf_fee_subsidy_sats funding) secret_key SIGHASH_ALL) (\<lambda>lbtc_sig.
     let pubkey = cl_public_key cl secret_key in
     Inr (set_witnesses t
            [asset_sig, pubkey, [], script]
            [lbtc_sig, pubkey, [], script])))))"

definition claim_tx ::
  "script_lib \<Rightarrow> crypto_lib \<Rightarrow> htlc_spec \<Rightarrow> htlc_funding \<Rightarrow> address \<Rightarrow> secret_key \<Rightarrow> bytes \<Rightarrow> u64 \<Rightarrow> htlc_error + tx" where
  "claim_tx sl cl spec funding receive secret_key preimage fee_sats =
     claim_tx_from_witness_script cl (witness_script sl spec) funding receive secret_key preimage fee_sats"

definition refund_tx ::
  "script_lib \<Rightarrow> crypto_lib \<Rightarrow> htlc_spec \<Rightarrow> htlc_funding \<Rightarrow> address \<Rightarrow> secret_key \<Rightarrow> u64 \<Rightarrow> htlc_error + tx" where
  "refund_tx sl cl spec funding receive secret_key fee_sats =
     refund_tx_from_witness_script cl (witness_script sl spec) (hs_refund_lock_height spec)
       funding receive secret_key fee_sats"

definition sha256_preimage :: "crypto_lib \<Rightarrow> bytes \<Rightarrow> bytes" where
  "sha256_preimage cl preimage = cl_sha256 cl preimage"

definition pubkey_hash160 :: "crypto_lib \<Rightarrow> bytes \<Rightarrow> bytes" where
  "pubkey_hash160 cl pubkey_bytes = cl_hash160 cl pubkey_bytes"

definition pubkey_hash160_from_p2wpkh_address :: "address \<Rightarrow> htlc_error + bytes" where
  "pubkey_hash160_from_p2wpkh_address address =
     pubkey_hash160_from_p2wpkh_script (ad_script_pubkey address)"

section \<open>What both builders promise\<close>

text \<open>The amount of an asset the explicit outputs of a transaction pay.\<close>

fun explicit_amount :: "asset_id \<Rightarrow> txout \<Rightarrow> nat" where
  "explicit_amount a out =
     (case (to_asset out, to_value out) of
        (Asset_Explicit b, Value_Explicit v) \<Rightarrow> if a = b then unat v else 0
      | _ \<Rightarrow> 0)"

definition paid_out :: "asset_id \<Rightarrow> tx \<Rightarrow> nat" where
  "paid_out a t = sum_list (map (explicit_amount a) (tx_output t))"

text \<open>The amount of an asset the two HTLC outputs hold.\<close>

definition locked_in :: "asset_id \<Rightarrow> htlc_funding \<Rightarrow> nat" where
  "locked_in a funding =
     (if a = hf_asset_id funding then unat (hf_asset_amount funding) else 0) +
     (if a = hf_policy_asset funding then unat (hf_fee_subsidy_sats funding) else 0)"

definition spends_htlc_outputs :: "htlc_funding \<Rightarrow> tx \<Rightarrow> bool" where
  "spends_htlc_outputs funding t \<longleftrightarrow>
     map ti_previous_output (tx_input t) =
       [\<lparr>pt_txid = hf_funding_txid funding, pt_vout = hf_asset_vout funding\<rparr>,
        \<lparr>pt_txid = hf_funding_txid funding, pt_vout = hf_lbtc_vout funding\<rparr>]"

locale htlc_spend =
  fixes cl :: crypto_lib
    and build :: "bytes \<Rightarrow> htlc_funding \<Rightarrow> address \<Rightarrow> secret_key \<Rightarrow> u64 \<Rightarrow> htlc_error + tx"
  assumes built: "build script funding receive key fee = Inr t \<Longrightarrow>
      fee < hf_fee_subsidy_sats funding \<and>
      (\<exists>sequence lock_time w0 w1.
         t = set_witnesses (spend_tx cl funding (ad_script_pubkey receive) fee sequence lock_time) w0 w1)"
    and refused: "\<not> fee < hf_fee_subsidy_sats funding \<Longrightarrow>
      build script funding receive key fee = Inl FeeNotBelowSubsidy"
begin

lemma fee_below_subsidy:
  "build script funding receive key fee = Inr t \<Longrightarrow> fee < hf_fee_subsidy_sats funding"
  using built by blast

lemma spends_both: "build script funding receive key fee = Inr t \<Longrightarrow> spends_htlc_outputs funding t"
  by (drule built)
    (auto simp: spends_htlc_outputs_def set_witnesses_def spend_tx_def spend_input_def)

lemma conserves:
  assumes "crypto_lib_ok cl" and "build script funding receive key fee = Inr t"
  shows "paid_out a t = locked_in a funding"
proof -
  have fee: "fee < hf_fee_subsidy_sats funding" using assms(2) by (rule fee_below_subsidy)
  then have "unat (hf_fee_subsidy_sats funding - fee) + unat fee = unat (hf_fee_subsidy_sats funding)"
    by (simp add: unat_sub word_less_nat_alt less_imp_le word_le_nat_alt)
  then show ?thesis using built [OF assms(2)]
    by (auto simp: paid_out_def locked_in_def set_witnesses_def spend_tx_def explicit_output_def
        crypto_lib_okD(7) [OF assms(1)])
qed

lemma pays_receiver:
  assumes "build script funding receive key fee = Inr t"
  shows "take 2 (tx_output t) =
    [explicit_output (hf_asset_id funding) (hf_asset_amount funding) (ad_script_pubkey receive),
     explicit_output (hf_policy_asset funding) (hf_fee_subsidy_sats funding - fee) (ad_script_pubkey receive)]"
  using built [OF assms] by (auto simp: set_witnesses_def spend_tx_def)

end

lemma claim_tx_Inr:
  "claim_tx_from_witness_script cl script funding receive key preimage fee = Inr t \<longleftrightarrow>
     fee < hf_fee_subsidy_sats funding \<and>
     (\<exists>s0 s1. let u = spend_tx cl funding (ad_script_pubkey receive) fee SEQUENCE_MAX 0;
                  pk = cl_public_key cl key in
        segwit_v0_sign cl u 0 script (hf_asset_amount funding) key SIGHASH_ALL = Inr s0 \<and>
        segwit_v0_sign cl u 1 script (hf_fee_subsidy_sats funding) key SIGHASH_ALL = Inr s1 \<and>
        t = set_witnesses u [s0, pk, preimage, [1], script] [s1, pk, preimage, [1], script])"
  by (auto simp: claim_tx_from_witness_script_def Let_def)

lemma refund_tx_Inr:
  "refund_tx_from_witness_script cl script h funding receive key fee = Inr t \<longleftrightarrow>
     fee < hf_fee_subsidy_sats funding \<and>
     (\<exists>lt s0 s1. cl_locktime_from_height cl h = Inr lt \<and>
       (let u = spend_tx cl funding (ad_script_pubkey receive) fee SEQUENCE_ENABLE_LOCKTIME_NO_RBF lt;
            pk = cl_public_key cl key in
        segwit_v0_sign cl u 0 script (hf_asset_amount funding) key SIGHASH_ALL = Inr s0 \<and>
        segwit_v0_sign cl u 1 script (hf_fee_subsidy_sats funding) key SIGHASH_ALL = Inr s1 \<and>
        t = set_witnesses u [s0, pk, [], script] [s1, pk, [], script]))"
  by (auto simp: refund_tx_from_witness_script_def Let_def)

interpretation claim: htlc_spend cl
  "\<lambda>script funding receive key fee. claim_tx_from_witness_script cl script funding receive key preimage fee"
  for cl preimage
  by unfold_locales (auto simp: claim_tx_Inr Let_def, simp add: claim_tx_from_witness_script_def)

interpretation refund: htlc_spend cl
  "\<lambda>script funding receive key fee. refund_tx_from_witness_script cl script h funding receive key fee"
  for cl h
  by unfold_locales (auto simp: refund_tx_Inr Let_def, simp add: refund_tx_from_witness_script_def)

section \<open>The spends against the script\<close>

text \<open>The context in which input \<open>i\<close> of a transaction, spending \<open>v\<close>, runs its script.\<close>

definition input_ctx :: "crypto_lib \<Rightarrow> tx \<Rightarrow> nat \<Rightarrow> bytes \<Rightarrow> u64 \<Rightarrow> script_ctx" where
  "input_ctx cl t i script v =
     \<lparr>cx_sha256 = cl_sha256 cl, cx_hash160 = cl_hash160 cl,
      cx_checksig = (\<lambda>sig pubkey. sig \<noteq> [] \<and>
        (case cl_message_from_digest cl
                (cl_segwitv0_sighash cl t i script (Value_Explicit v) (ucast (last sig))) of
           Inl _ \<Rightarrow> False
         | Inr msg \<Rightarrow> cl_verify_ecdsa cl pubkey msg (butlast sig))),
      cx_lock_time = tx_lock_time t,
      cx_sequence = ti_sequence (tx_input t ! i)\<rparr>"

definition input_spends :: "script_lib \<Rightarrow> crypto_lib \<Rightarrow> tx \<Rightarrow> nat \<Rightarrow> bytes \<Rightarrow> u64 \<Rightarrow> bool" where
  "input_spends sl cl t i script v \<longleftrightarrow>
     p2wsh_spend_ok sl (input_ctx cl t i script v) (cl_sha256 cl script)
       (ti_script_witness (tx_input t ! i))"

text \<open>Both HTLC outputs, the asset's and the fee subsidy's, are spent by valid witnesses.\<close>

definition spends_htlc :: "script_lib \<Rightarrow> crypto_lib \<Rightarrow> htlc_funding \<Rightarrow> bytes \<Rightarrow> tx \<Rightarrow> bool" where
  "spends_htlc sl cl funding script t \<longleftrightarrow>
     spends_htlc_outputs funding t \<and>
     input_spends sl cl t 0 script (hf_asset_amount funding) \<and>
     input_spends sl cl t 1 script (hf_fee_subsidy_sats funding)"

lemma strip_set_witnesses [simp]:
  "strip_witnesses (set_witnesses (spend_tx cl funding spk fee sequence lock_time) w0 w1) =
     spend_tx cl funding spk fee sequence lock_time"
  by (simp add: strip_witnesses_def set_witnesses_def spend_tx_def spend_input_def)

lemma segwit_v0_sign_ok:
  assumes "crypto_lib_ok cl"
  shows "segwit_v0_sign cl t i script v key ty =
     Inr (cl_sign_ecdsa cl (cl_segwitv0_sighash cl t i script (Value_Explicit v) ty) key @ [ucast ty])"
  by (simp add: segwit_v0_sign_def Let_def crypto_lib_okD [OF assms])

lemma ucast_sighash_all [simp]: "ucast (ucast SIGHASH_ALL :: u8) = SIGHASH_ALL"
  by (simp add: SIGHASH_ALL_def)

lemma signature_checks:
  assumes "crypto_lib_ok cl" and "strip_witnesses t = u"
    and "segwit_v0_sign cl u i script v key SIGHASH_ALL = Inr s"
  shows "cx_checksig (input_ctx cl t i script v) s (cl_public_key cl key)"
  using assms(2,3) crypto_lib_okD(1) [OF assms(1), of t, symmetric]
  by (auto simp: input_ctx_def segwit_v0_sign_ok [OF assms(1)] crypto_lib_okD [OF assms(1)])

lemma script_of_witness_script:
  "script_lib_ok sl \<Longrightarrow> htlc_spec_wf spec \<Longrightarrow>
     instructions_of (sl_instructions_minimal sl (witness_script sl spec)) = Some (script_of spec)"
  by (simp add: script_lib_ok_def witness_script_def plain_witness_script_items script_of_def)

lemma p2wsh_spend_htlc:
  assumes "script_lib_ok sl" and "htlc_spec_wf spec"
  shows "p2wsh_spend_ok sl cx (cx_sha256 cx (witness_script sl spec)) (w @ [witness_script sl spec]) \<longleftrightarrow>
     claim_stack cx spec (rev w) \<or> refund_stack cx spec (rev w)"
  by (simp add: p2wsh_spend_ok_def script_of_witness_script [OF assms] script_accepts_iff)

lemma set_witnesses_simps [simp]:
  "ti_script_witness (tx_input (set_witnesses t w0 w1) ! 0) = w0"
  "ti_script_witness (tx_input (set_witnesses t w0 w1) ! Suc 0) = w1"
  "tx_lock_time (set_witnesses t w0 w1) = tx_lock_time t"
  by (simp_all add: set_witnesses_def)

lemma set_witnesses_sequence [simp]:
  "i < 2 \<Longrightarrow> ti_sequence (tx_input (set_witnesses (spend_tx cl funding spk fee sq lt) w0 w1) ! i) = sq"
  by (auto simp: set_witnesses_def spend_tx_def spend_input_def less_2_cases_iff)

lemma input_ctx_simps [simp]:
  "cx_sha256 (input_ctx cl t i script v) = cl_sha256 cl"
  "cx_hash160 (input_ctx cl t i script v) = cl_hash160 cl"
  "cx_lock_time (input_ctx cl t i script v) = tx_lock_time t"
  "cx_sequence (input_ctx cl t i script v) = ti_sequence (tx_input t ! i)"
  by (simp_all add: input_ctx_def)

lemma spend_tx_lock_time [simp]: "tx_lock_time (spend_tx cl funding spk fee sq lt) = lt"
  by (simp add: spend_tx_def)

lemma input_spends_claim:
  assumes "script_lib_ok sl" and "htlc_spec_wf spec" and "length preimage = 32"
    and "cl_sha256 cl preimage = hs_payment_hash spec"
    and "cl_hash160 cl pk = hs_claimer_pubkey_hash160 spec"
    and "cx_checksig (input_ctx cl t i (witness_script sl spec) v) s pk"
    and "ti_script_witness (tx_input t ! i) = [s, pk, preimage, [1], witness_script sl spec]"
  shows "input_spends sl cl t i (witness_script sl spec) v"
proof -
  let ?cx = "input_ctx cl t i (witness_script sl spec) v"
  have "claim_stack ?cx spec (rev [s, pk, preimage, [1]])"
    using assms by (simp add: claim_stack_def)
  then have "p2wsh_spend_ok sl ?cx (cx_sha256 ?cx (witness_script sl spec))
               ([s, pk, preimage, [1]] @ [witness_script sl spec])"
    by (simp only: p2wsh_spend_htlc [OF assms(1,2)] simp_thms)
  then show ?thesis using assms(7) by (simp add: input_spends_def)
qed

lemma input_spends_refund:
  assumes "script_lib_ok sl" and "htlc_spec_wf spec"
    and "height_reached (input_ctx cl t i (witness_script sl spec) v) (hs_refund_lock_height spec)"
    and "cl_hash160 cl pk = hs_refunder_pubkey_hash160 spec"
    and "cx_checksig (input_ctx cl t i (witness_script sl spec) v) s pk"
    and "ti_script_witness (tx_input t ! i) = [s, pk, [], witness_script sl spec]"
  shows "input_spends sl cl t i (witness_script sl spec) v"
proof -
  let ?cx = "input_ctx cl t i (witness_script sl spec) v"
  have "refund_stack ?cx spec (rev [s, pk, []])"
    using assms by (simp add: refund_stack_def)
  then have "p2wsh_spend_ok sl ?cx (cx_sha256 ?cx (witness_script sl spec))
               ([s, pk, []] @ [witness_script sl spec])"
    by (simp only: p2wsh_spend_htlc [OF assms(1,2)] simp_thms)
  then show ?thesis using assms(6) by (simp add: input_spends_def)
qed

lemma claim_tx_spends:
  assumes "script_lib_ok sl" and "crypto_lib_ok cl" and "htlc_spec_wf spec"
    and "length preimage = 32" and "cl_sha256 cl preimage = hs_payment_hash spec"
    and "cl_hash160 cl (cl_public_key cl key) = hs_claimer_pubkey_hash160 spec"
    and "claim_tx_from_witness_script cl (witness_script sl spec) funding receive key preimage fee = Inr t"
  shows "spends_htlc sl cl funding (witness_script sl spec) t"
proof -
  have checks: "segwit_v0_sign cl u i script v key SIGHASH_ALL = Inr s \<Longrightarrow> strip_witnesses t' = u \<Longrightarrow>
      cx_checksig (input_ctx cl t' i script v) s (cl_public_key cl key)" for u i script v s t'
    using signature_checks [OF assms(2)] by blast
  from assms(7) show ?thesis
    unfolding spends_htlc_def
    by (auto simp: claim_tx_Inr Let_def claim.spends_both [OF assms(7)]
        intro!: input_spends_claim [OF assms(1,3,4,5,6)] checks)
qed

lemma refund_tx_spends:
  assumes "script_lib_ok sl" and "crypto_lib_ok cl" and "htlc_spec_wf spec"
    and "cl_hash160 cl (cl_public_key cl key) = hs_refunder_pubkey_hash160 spec"
    and "refund_tx_from_witness_script cl (witness_script sl spec) (hs_refund_lock_height spec)
           funding receive key fee = Inr t"
  shows "spends_htlc sl cl funding (witness_script sl spec) t"
    and "tx_lock_time t = hs_refund_lock_height spec"
proof -
  let ?h = "hs_refund_lock_height spec"
  have checks: "segwit_v0_sign cl u i script v key SIGHASH_ALL = Inr s \<Longrightarrow> strip_witnesses t' = u \<Longrightarrow>
      cx_checksig (input_ctx cl t' i script v) s (cl_public_key cl key)" for u i script v s t'
    using signature_checks [OF assms(2)] by blast
  have lt: "lt = ?h" if "cl_locktime_from_height cl ?h = Inr lt" for lt
    using that crypto_lib_okD(5,6) [OF assms(2), of ?h] by fastforce
  have reached: "height_reached (input_ctx cl t' i script v) ?h"
    if "tx_lock_time t' = ?h" "ti_sequence (tx_input t' ! i) = SEQUENCE_ENABLE_LOCKTIME_NO_RBF"
    for t' i script v
    using that by (simp add: height_reached_def SEQUENCE_ENABLE_LOCKTIME_NO_RBF_def)
  from assms(5) show "spends_htlc sl cl funding (witness_script sl spec) t"
    unfolding spends_htlc_def
    by (auto simp: refund_tx_Inr Let_def refund.spends_both [OF assms(5)] dest!: lt
        intro!: input_spends_refund [OF assms(1,3) _ assms(4)] checks reached)
  from assms(5) show "tx_lock_time t = ?h"
    by (auto simp: refund_tx_Inr Let_def dest!: lt)
qed

lemma claim_tx_total:
  assumes "crypto_lib_ok cl" and "fee < hf_fee_subsidy_sats funding"
  shows "\<exists>t. claim_tx_from_witness_script cl script funding receive key preimage fee = Inr t"
  using assms(2) by (auto simp: claim_tx_Inr Let_def segwit_v0_sign_ok [OF assms(1)])

lemma refund_tx_total_iff:
  assumes "crypto_lib_ok cl"
  shows "(\<exists>t. refund_tx_from_witness_script cl script h funding receive key fee = Inr t) \<longleftrightarrow>
     fee < hf_fee_subsidy_sats funding \<and> h < 500000000"
proof (cases "h < 500000000")
  case True
  then show ?thesis
    by (simp add: refund_tx_Inr Let_def segwit_v0_sign_ok [OF assms] crypto_lib_okD(5) [OF assms])
next
  case False
  then obtain e where "cl_locktime_from_height cl h = Inl e"
    using crypto_lib_okD(6) [OF assms] by blast
  with False show ?thesis by (simp add: refund_tx_Inr)
qed

end
