(* ===== verification/Swap_Env.thy ===== *)
theory Swap_Env
  imports Swap_Store Htlc_Tx
begin

text \<open>
  Everything the program calls and does not define, as one record of parameters: the crates'
  pure functions (hex, parsers, key derivation) and the effects on the outer world (Liquid
  wallet and Electrum server, LDK node, clock, UUIDs, SQLite's verdicts), which is an opaque
  state of type \<open>'w\<close>. The program's own state is the database beside that world. What is
  relied on of the parameters is \<open>env_ok\<close>, documented behaviour of the libraries.
\<close>

section \<open>Errors with context\<close>

datatype anyhow =
    CStore store_error
  | CHtlc htlc_error
  | CLib string
  | CMsg string
  | Context string anyhow

section \<open>Values of the external crates\<close>

text \<open>A parsed BOLT11 invoice: its hash, amount and expiry (nanoseconds since the epoch).\<close>

record bolt11_invoice =
  in_payment_hash :: bytes
  in_amount_msat :: "u64 option"
  in_expires_at :: "nat option"

datatype payment_kind = OnchainKind | Bolt11Kind "string option" | OtherKind

record ln_payment =
  py_id :: string
  py_direction :: int
  py_status :: int
  py_kind :: "payment_kind option option"

record history =
  hy_txid :: txid
  hy_height :: "32 word"

type_synonym ('w, 'a) effect = "'w \<Rightarrow> (string + 'a) \<times> 'w"

section \<open>The parameters\<close>

record 'w env =
  ev_script :: script_lib
  ev_crypto :: crypto_lib
  ev_hex_encode :: "bytes \<Rightarrow> string"
  ev_hex_decode :: "string \<Rightarrow> string + bytes"
  ev_encode_offer :: "pb_offer \<Rightarrow> bytes"
  ev_asset_from_str :: "string \<Rightarrow> string + asset_id"
  ev_asset_to_string :: "asset_id \<Rightarrow> string"
  ev_txid_from_str :: "string \<Rightarrow> string + txid"
  ev_txid_to_string :: "txid \<Rightarrow> string"
  ev_address_from_str :: "string \<Rightarrow> string + address"
  ev_script_from_str :: "string \<Rightarrow> string + bytes"
  ev_p2wsh :: "bytes \<Rightarrow> string \<Rightarrow> address"
  ev_invoice_from_str :: "string \<Rightarrow> string + bolt11_invoice"
  ev_header_to_str :: "bytes \<Rightarrow> string option"
  ev_header_value :: "string \<Rightarrow> bytes option"
  ev_child_from_normal_idx :: "u32 \<Rightarrow> string + u32"
  ev_derive_xprv :: "u32 list \<Rightarrow> string + secret_key"
  ev_address_params :: string
  ev_policy_asset :: asset_id
  ev_outbound :: int
  ev_succeeded :: int
  ev_signer_xpub :: "string \<Rightarrow> string + string"
  ev_parse_descriptor :: "string \<Rightarrow> string + bytes"
  ev_wollet_with_persist :: "bytes \<Rightarrow> string \<Rightarrow> ('w, unit) effect"
  ev_electrum_url :: "string \<Rightarrow> string + bytes"
  ev_electrum_connect :: "bytes \<Rightarrow> ('w, unit) effect"
  ev_full_scan :: "('w, unit) effect"
  ev_tip_height :: "'w \<Rightarrow> u32"
  ev_wallet_address :: "'w \<Rightarrow> u32 \<Rightarrow> string + address"
  ev_wallet_balance :: "'w \<Rightarrow> string + (asset_id \<Rightarrow> u64 option)"
  ev_tx_builder :: "'w \<Rightarrow> bytes"
  ev_add_recipient :: "bytes \<Rightarrow> address \<Rightarrow> u64 \<Rightarrow> asset_id \<Rightarrow> string + bytes"
  ev_finish :: "bytes \<Rightarrow> string + bytes"
  ev_sign :: "bytes \<Rightarrow> string + (u32 \<times> bytes)"
  ev_finalize :: "'w \<Rightarrow> bytes \<Rightarrow> string + tx"
  ev_broadcast :: "tx \<Rightarrow> ('w, txid) effect"
  ev_scripts_history :: "bytes list \<Rightarrow> ('w, history list list) effect"
  ev_get_transactions :: "txid list \<Rightarrow> ('w, tx list) effect"
  ev_bolt11_receive :: "u64 option \<Rightarrow> string \<Rightarrow> u32 \<Rightarrow> ('w, string) effect"
  ev_bolt11_send :: "string \<Rightarrow> u64 option \<Rightarrow> ('w, string) effect"
  ev_list_payments :: "string option \<Rightarrow> ('w, ln_payment list) effect"
  ev_instant :: "'w \<Rightarrow> nat"
  ev_sleep :: "nat \<Rightarrow> 'w \<Rightarrow> 'w"
  ev_unix_time :: "'w \<Rightarrow> int"
  ev_uuid :: "'w \<Rightarrow> string \<times> 'w"
  ev_sql :: "'w \<Rightarrow> string option \<times> 'w"

section \<open>The state and its programs\<close>

record 'w sys =
  sy_db :: database
  sy_world :: 'w

type_synonym ('w, 'a) io = "('w sys, anyhow, 'a) run"

definition effect_run :: "('w, 'a) effect \<Rightarrow> ('w, 'a) io" where
  "effect_run f = (\<lambda>s. let (r, w) = f (sy_world s) in Some (map_err CLib r, s\<lparr>sy_world := w\<rparr>))"

definition read_world :: "('w \<Rightarrow> 'a) \<Rightarrow> ('w sys, 'e, 'a) run" where
  "read_world f = (\<lambda>s. Some (Inr (f (sy_world s)), s))"

definition lib_run :: "string + 'a \<Rightarrow> ('w, 'a) io" where
  "lib_run r = lift_run (map_err CLib r)"

definition uuid_run :: "'w env \<Rightarrow> ('w sys, 'e, string) run" where
  "uuid_run ev = (\<lambda>s. let (u, w) = ev_uuid ev (sy_world s) in Some (Inr u, s\<lparr>sy_world := w\<rparr>))"

text \<open>A call on the locked store; the engine's verdict comes from the world.\<close>

definition store_run :: "'w env \<Rightarrow> (string option \<Rightarrow> 'a store_op) \<Rightarrow> ('w, 'a) io" where
  "store_run ev op = (\<lambda>s.
     let (verdict, w) = ev_sql ev (sy_world s) in
     case op verdict (sy_db s) of
       None \<Rightarrow> None
     | Some (r, db) \<Rightarrow> Some (map_err CStore r, \<lparr>sy_db = db, sy_world = w\<rparr>))"

definition ctx :: "string \<Rightarrow> ('w, 'a) io \<Rightarrow> ('w, 'a) io" where
  "ctx c m = map_err_run (Context c) m"

section \<open>The documented behaviour relied on\<close>

text \<open>
  Hex and ids read back as they were printed; reading the clock is monotone over every
  effect and a sleep lasts at least as long as asked.
\<close>

definition keeps_time :: "'w env \<Rightarrow> ('w, 'a) effect \<Rightarrow> bool" where
  "keeps_time ev f \<longleftrightarrow> (\<forall>w. ev_instant ev w \<le> ev_instant ev (snd (f w)))"

definition clock_ok :: "'w env \<Rightarrow> bool" where
  "clock_ok ev \<longleftrightarrow>
     keeps_time ev (ev_full_scan ev) \<and>
     (\<forall>scripts. keeps_time ev (ev_scripts_history ev scripts)) \<and>
     (\<forall>page. keeps_time ev (ev_list_payments ev page)) \<and>
     (\<forall>d w. ev_instant ev w + d \<le> ev_instant ev (ev_sleep ev d w))"

definition codecs_ok :: "'w env \<Rightarrow> bool" where
  "codecs_ok ev \<longleftrightarrow>
     (\<forall>bs. ev_hex_decode ev (ev_hex_encode ev bs) = Inr bs) \<and>
     (\<forall>a. ev_asset_from_str ev (ev_asset_to_string ev a) = Inr a) \<and>
     (\<forall>t. ev_txid_from_str ev (ev_txid_to_string ev t) = Inr t) \<and>
     (\<forall>bs. ev_script_from_str ev (ev_hex_encode ev bs) = Inr bs)"

lemma codecs_okD:
  assumes "codecs_ok ev"
  shows "ev_hex_decode ev (ev_hex_encode ev bs) = Inr bs"
    and "ev_asset_from_str ev (ev_asset_to_string ev a) = Inr a"
    and "ev_txid_from_str ev (ev_txid_to_string ev t) = Inr t"
    and "ev_script_from_str ev (ev_hex_encode ev bs) = Inr bs"
  using assms by (simp_all add: codecs_ok_def)

section \<open>What programs keep\<close>

lemma effect_run_Some [simp]:
  "effect_run f s = Some (map_err CLib (fst (f (sy_world s))), s\<lparr>sy_world := snd (f (sy_world s))\<rparr>)"
  by (simp add: effect_run_def split_beta Let_def)

lemma read_world_Some [simp]: "read_world f s = Some (Inr (f (sy_world s)), s)"
  by (simp add: read_world_def)

lemma uuid_run_Some [simp]:
  "uuid_run ev s = Some (Inr (fst (ev_uuid ev (sy_world s))), s\<lparr>sy_world := snd (ev_uuid ev (sy_world s))\<rparr>)"
  by (simp add: uuid_run_def split_beta Let_def)

lemma lib_run_Some [simp]: "lib_run r s = Some (map_err CLib r, s)"
  by (simp add: lib_run_def)

lemma ctx_Some: "ctx c m s = Some (r, s') \<longleftrightarrow> (\<exists>r'. m s = Some (r', s') \<and> r = map_err (Context c) r')"
  by (simp add: ctx_def map_err_run_Some)

lemma ctx_Inr [simp]: "ctx c m s = Some (Inr a, s') \<longleftrightarrow> m s = Some (Inr a, s')"
  by (simp add: ctx_def)

lemma preserves_ctx [preserve_intros]: "preserves I m \<Longrightarrow> preserves I (ctx c m)"
  unfolding ctx_def by (rule preserves_map_err)

text \<open>A predicate of the database alone is kept by everything but the store's own writes.\<close>

definition on_db :: "(database \<Rightarrow> bool) \<Rightarrow> 'w sys \<Rightarrow> bool" where
  "on_db P s \<longleftrightarrow> P (sy_db s)"

lemma preserves_effect [preserve_intros]: "preserves (on_db P) (effect_run f)"
  by (auto simp: preserves_def on_db_def)

lemma preserves_read [preserve_intros]: "preserves I (read_world f)"
  by (auto simp: preserves_def)

lemma preserves_uuid [preserve_intros]: "preserves (on_db P) (uuid_run ev)"
  by (auto simp: preserves_def on_db_def)

lemma preserves_lib [preserve_intros]: "preserves I (lib_run r)"
  unfolding lib_run_def by (rule preserves_lift)

lemma store_run_Some:
  "store_run ev op s = Some (r, s') \<longleftrightarrow>
     (\<exists>r' db. op (fst (ev_sql ev (sy_world s))) (sy_db s) = Some (r', db) \<and> r = map_err CStore r' \<and>
        s' = \<lparr>sy_db = db, sy_world = snd (ev_sql ev (sy_world s))\<rparr>)"
  by (auto simp: store_run_def split_beta Let_def split: option.splits)

lemma preserves_store_run:
  "(\<And>v. preserves P (op v)) \<Longrightarrow> preserves (on_db P) (store_run ev op)"
  by (auto simp: preserves_def on_db_def store_run_Some)

lemma preserves_get_quote [preserve_intros]: "preserves (on_db P) (store_run ev (\<lambda>v. get_quote v k))"
  by (rule preserves_store_run) (auto simp: preserves_def dest: store_reads)

lemma preserves_get_swap [preserve_intros]: "preserves (on_db P) (store_run ev (\<lambda>v. get_swap v k))"
  by (rule preserves_store_run) (auto simp: preserves_def dest: store_reads)

lemma preserves_list_swaps [preserve_intros]: "preserves (on_db P) (store_run ev list_swaps)"
  by (rule preserves_store_run) (auto simp: preserves_def dest: store_reads)

lemma preserves_option [preserve_intros]:
  "preserves I m \<Longrightarrow> (\<And>a. preserves I (f a)) \<Longrightarrow> preserves I (case x of None \<Rightarrow> m | Some a \<Rightarrow> f a)"
  by (cases x) auto

lemma preserves_prod [preserve_intros]:
  "(\<And>a b. preserves I (f a b)) \<Longrightarrow> preserves I (case x of (a, b) \<Rightarrow> f a b)"
  by (cases x) auto

lemma preserves_Let [preserve_intros]: "(\<And>a. preserves I (f a)) \<Longrightarrow> preserves I (let a = x in f a)"
  by simp

lemma preserves_direction [preserve_intros]:
  "preserves I m \<Longrightarrow> preserves I n \<Longrightarrow> preserves I (case d of LnToLiquid \<Rightarrow> m | LiquidToLn \<Rightarrow> n)"
  by (cases d) auto

text \<open>The well-formed store is kept by the store's writes.\<close>

lemma preserves_store_ok:
  "preserves store_ok (insert_quote v r)"
  "preserves store_ok (insert_swap v r')"
  "preserves store_ok (set_quote_swap_id v k k')"
  "preserves store_ok (update_swap_status v k st)"
  "preserves store_ok (upsert_swap_payment v k p h st)"
  "preserves store_ok (upsert_swap_claim v k t st)"
proof -
  show "preserves store_ok (insert_quote v r)"
    using insert_quote_ok by (intro preservesI) (metis option.inject prod.inject)
  show "preserves store_ok (insert_swap v r')"
    using insert_swap_ok by (intro preservesI) (metis option.inject prod.inject)
  show "preserves store_ok (set_quote_swap_id v k k')"
    using set_quote_swap_id_ok by (intro preservesI) (metis option.inject prod.inject)
  show "preserves store_ok (update_swap_status v k st)"
    using update_swap_status_ok by (intro preservesI) (metis option.inject prod.inject)
  show "preserves store_ok (upsert_swap_payment v k p h st)"
    using upsert_swap_payment_ok by (intro preservesI) (metis option.inject prod.inject)
  show "preserves store_ok (upsert_swap_claim v k t st)"
    using upsert_swap_claim_ok by (intro preservesI) (metis option.inject prod.inject)
qed

end
