(* ===== verification/Polling.thy ===== *)
theory Polling
  imports Swap_Env
begin

text \<open>
  The loop the program waits with, three times over: try, stop on a result or an error,
  give up at the deadline, else sleep and try again. It may run forever when the clock
  stands still, so it is a partial function; the locale \<open>deadline_loop\<close> proves once that it
  returns when the clock advances, and what it then returned.
\<close>

partial_function (option) poll_loop ::
  "('s, 'e, 'a option) run \<Rightarrow> ('s \<Rightarrow> bool) \<Rightarrow> 'e \<Rightarrow> ('s \<Rightarrow> 's) \<Rightarrow> 's \<Rightarrow> (('e + 'a) \<times> 's) option" where
  "poll_loop attempt expired timed_out sleep s =
     (case attempt s of
        None \<Rightarrow> None
      | Some (Inl e, s') \<Rightarrow> Some (Inl e, s')
      | Some (Inr (Some a), s') \<Rightarrow> Some (Inr a, s')
      | Some (Inr None, s') \<Rightarrow>
          if expired s' then Some (Inl timed_out, s')
          else poll_loop attempt expired timed_out sleep (sleep s'))"

lemma poll_loop_step:
  "attempt s = Some (Inl e, s') \<Longrightarrow> poll_loop attempt expired timed_out sleep s = Some (Inl e, s')"
  "attempt s = Some (Inr (Some a), s') \<Longrightarrow> poll_loop attempt expired timed_out sleep s = Some (Inr a, s')"
  "attempt s = Some (Inr None, s') \<Longrightarrow> expired s' \<Longrightarrow>
     poll_loop attempt expired timed_out sleep s = Some (Inl timed_out, s')"
  "attempt s = Some (Inr None, s') \<Longrightarrow> \<not> expired s' \<Longrightarrow>
     poll_loop attempt expired timed_out sleep s = poll_loop attempt expired timed_out sleep (sleep s')"
  by (subst poll_loop.simps, simp)+

lemma poll_loop_induct [consumes 1, case_names failed found late again]:
  assumes "poll_loop attempt expired timed_out sleep s = Some (r, s')"
    and "\<And>s e s1. attempt s = Some (Inl e, s1) \<Longrightarrow> P s (Inl e, s1)"
    and "\<And>s a s1. attempt s = Some (Inr (Some a), s1) \<Longrightarrow> P s (Inr a, s1)"
    and "\<And>s s1. attempt s = Some (Inr None, s1) \<Longrightarrow> expired s1 \<Longrightarrow> P s (Inl timed_out, s1)"
    and "\<And>s s1 y. attempt s = Some (Inr None, s1) \<Longrightarrow> \<not> expired s1 \<Longrightarrow> P (sleep s1) y \<Longrightarrow> P s y"
  shows "P s (r, s')"
proof -
  let ?P = "\<lambda>a e t sl s y. a = attempt \<longrightarrow> e = expired \<longrightarrow> t = timed_out \<longrightarrow> sl = sleep \<longrightarrow> P s y"
  have "?P attempt expired timed_out sleep s (r, s')"
  proof (rule poll_loop.raw_induct [where P = ?P, OF _ assms(1)], intro impI)
    fix loop a e t sl s y
    assume hyp: "\<And>a e t sl s y. loop a e t sl s = Some y \<Longrightarrow> ?P a e t sl s y"
      and body: "(case a s of None \<Rightarrow> None | Some (Inl e, s') \<Rightarrow> Some (Inl e, s')
        | Some (Inr None, s') \<Rightarrow> if e s' then Some (Inl t, s') else loop a e t sl (sl s')
        | Some (Inr (Some a), s') \<Rightarrow> Some (Inr a, s')) = Some y"
      and args: "a = attempt" "e = expired" "t = timed_out" "sl = sleep"
    have again: "P (sleep s1) y" if "loop attempt expired timed_out sleep (sleep s1) = Some y" for s1
      using hyp [OF that] by simp
    show "P s y"
      using body unfolding args
      by (auto intro: assms(2-5) again split: option.splits prod.splits sum.splits if_splits)
  qed
  then show ?thesis by simp
qed

lemma preserves_poll_loop [preserve_intros]:
  assumes "preserves I attempt" and "\<And>s. I s \<Longrightarrow> I (sleep s)"
  shows "preserves I (poll_loop attempt expired timed_out sleep)"
proof (rule preservesI)
  fix s r s'
  assume I: "I s" and run: "poll_loop attempt expired timed_out sleep s = Some (r, s')"
  from run have "I s \<longrightarrow> I (snd (r, s'))"
  proof (induction rule: poll_loop_induct)
    case (again s s1 y)
    then show ?case using assms by (auto dest: preservesD)
  qed (auto dest: preservesD [OF assms(1)])
  then show "I s'" using I by simp
qed

section \<open>The loop against a deadline\<close>

text \<open>\<open>steady\<close> stands for a clock that never runs back and sleeps that last.\<close>

locale deadline_loop =
  fixes attempt :: "('s, 'e, 'a option) run"
    and clock :: "'s \<Rightarrow> nat" and deadline :: nat
    and timed_out :: 'e and sleep :: "'s \<Rightarrow> 's" and nap :: nat
    and steady :: bool
  assumes attempt_returns: "attempt s \<noteq> None"
    and attempt_time: "steady \<Longrightarrow> attempt s = Some (r, s') \<Longrightarrow> clock s \<le> clock s'"
    and sleep_time: "steady \<Longrightarrow> clock s + nap \<le> clock (sleep s)"
    and nap_pos: "0 < nap"
begin

abbreviation loop :: "'s \<Rightarrow> (('e + 'a) \<times> 's) option" where
  "loop \<equiv> poll_loop attempt (\<lambda>s. deadline \<le> clock s) timed_out sleep"

lemma returns: "steady \<Longrightarrow> \<exists>r s'. loop s = Some (r, s')"
proof (induction "deadline - clock s" arbitrary: s rule: less_induct)
  case less
  obtain r s1 where at: "attempt s = Some (r, s1)" using attempt_returns [of s] by auto
  show ?case
  proof (cases "\<exists>e. r = Inl e")
    case True
    then obtain e where "attempt s = Some (Inl e, s1)" using at by blast
    then have "loop s = Some (Inl e, s1)" by (rule poll_loop_step(1))
    then show ?thesis by blast
  next
    case False
    then obtain x where x: "r = Inr x" by (cases r) auto
    show ?thesis
    proof (cases x)
      case (Some a)
      with at x have "attempt s = Some (Inr (Some a), s1)" by simp
      then have "loop s = Some (Inr a, s1)" by (rule poll_loop_step(2))
      then show ?thesis by blast
    next
      case None
      with at x have at: "attempt s = Some (Inr None, s1)" by simp
      show ?thesis
      proof (cases "deadline \<le> clock s1")
        case True
        then have "loop s = Some (Inl timed_out, s1)" by (rule poll_loop_step(3) [where attempt = attempt and s = s, OF at])
        then show ?thesis by blast
      next
        case False
        have "clock s + nap \<le> clock (sleep s1)"
          using attempt_time [OF less.prems at] sleep_time [OF less.prems, of s1] by simp
        then have "deadline - clock (sleep s1) < deadline - clock s"
          using False nap_pos attempt_time [OF less.prems at] by simp
        from less.hyps [OF this less.prems] obtain r s' where "loop (sleep s1) = Some (r, s')" by blast
        then have "loop s = Some (r, s')" by (subst poll_loop_step(4) [where attempt = attempt and s = s, OF at]) (simp_all only: False simp_thms)
        then show ?thesis by blast
      qed
    qed
  qed
qed

lemma timeout_late:
  "loop s = Some (Inl timed_out, s') \<Longrightarrow>
     deadline \<le> clock s' \<or> (\<exists>s0. attempt s0 = Some (Inl timed_out, s'))"
proof (drule poll_loop_induct [where P = "\<lambda>s (r, s'). r = Inl timed_out \<longrightarrow>
    deadline \<le> clock s' \<or> (\<exists>s0. attempt s0 = Some (Inl timed_out, s'))"])
qed auto

lemma found_from_attempt: "loop s = Some (Inr a, s') \<Longrightarrow> \<exists>s0. attempt s0 = Some (Inr (Some a), s')"
proof (drule poll_loop_induct [where P = "\<lambda>s (r, s'). \<forall>a. r = Inr a \<longrightarrow> (\<exists>s0. attempt s0 = Some (Inr (Some a), s'))"])
qed auto

end

end
