(* ===== verification/Lightning.thy ===== *)
theory Lightning
  imports Polling
begin

text \<open>
  The Lightning side: \<open>src/lightning/invoice.rs\<close> reads a BOLT11 invoice and
  \<open>src/lightning/ldk.rs\<close> is the client of the LDK node. Times are in nanoseconds.
\<close>

definition SECOND :: nat where "SECOND = 1000000000"

definition MILLISECOND :: nat where "MILLISECOND = 1000000"

section \<open>Invoices\<close>

definition parse_bolt11 :: "'w env \<Rightarrow> string \<Rightarrow> anyhow + bolt11_invoice" where
  "parse_bolt11 ev invoice =
     map_err (\<lambda>e. CMsg (''parse BOLT11 invoice: '' @ e)) (ev_invoice_from_str ev invoice)"

definition payment_hash_from_bolt11 :: "'w env \<Rightarrow> string \<Rightarrow> anyhow + bytes" where
  "payment_hash_from_bolt11 ev invoice =
     and_then (parse_bolt11 ev invoice) (\<lambda>i. Inr (in_payment_hash i))"

definition amount_msat_from_bolt11 :: "'w env \<Rightarrow> string \<Rightarrow> anyhow + u64 option" where
  "amount_msat_from_bolt11 ev invoice =
     and_then (parse_bolt11 ev invoice) (\<lambda>i. Inr (in_amount_msat i))"

text \<open>An invoice without a representable expiry never expires; a clock before 1970 reads as 0.\<close>

definition is_expired_bolt11 :: "'w env \<Rightarrow> string \<Rightarrow> int \<Rightarrow> anyhow + bool" where
  "is_expired_bolt11 ev invoice unix_time =
     and_then (parse_bolt11 ev invoice) (\<lambda>i.
       case in_expires_at i of
         None \<Rightarrow> Inr False
       | Some expires_at \<Rightarrow> Inr (int expires_at \<le> (if unix_time < 0 then 0 else unix_time)))"

section \<open>The LDK client\<close>

definition create_invoice :: "'w env \<Rightarrow> u64 \<Rightarrow> string \<Rightarrow> u32 \<Rightarrow> ('w, string) io" where
  "create_invoice ev amount_msat description expiry_secs =
     ctx ''Bolt11Receive'' (effect_run (ev_bolt11_receive ev (Some amount_msat) description expiry_secs))"

definition pay_invoice :: "'w env \<Rightarrow> string \<Rightarrow> ('w, string) io" where
  "pay_invoice ev invoice = ctx ''Bolt11Send'' (effect_run (ev_bolt11_send ev invoice None))"

text \<open>\<open>matches!(p.kind..., Some(Kind::Bolt11(_)))\<close>.\<close>

definition is_bolt11 :: "ln_payment \<Rightarrow> bool" where
  "is_bolt11 p = (case py_kind p of Some (Some (Bolt11Kind _)) \<Rightarrow> True | _ \<Rightarrow> False)"

definition preimage_of :: "ln_payment \<Rightarrow> string option" where
  "preimage_of p = (case py_kind p of Some (Some (Bolt11Kind preimage)) \<Rightarrow> preimage | _ \<Rightarrow> None)"

text \<open>
  One round of \<open>wait_preimage\<close>: the first payment with the id, if it is a succeeded outbound
  BOLT11 payment, must carry a 32-byte preimage.
\<close>

definition settled_payment :: "'w env \<Rightarrow> string \<Rightarrow> ln_payment list \<Rightarrow> ln_payment option" where
  "settled_payment ev payment_id payments =
     (case find (\<lambda>p. py_id p = payment_id) payments of
        None \<Rightarrow> None
      | Some p \<Rightarrow>
          if py_direction p = ev_outbound ev \<and> py_status p = ev_succeeded ev \<and> is_bolt11 p then Some p else None)"

definition read_preimage :: "'w env \<Rightarrow> ln_payment \<Rightarrow> anyhow + bytes" where
  "read_preimage ev p =
     and_then (ok_or (CMsg ''missing payment preimage'') (preimage_of p)) (\<lambda>preimage_hex.
     and_then (map_err (\<lambda>e. Context ''decode preimage hex'' (CLib e)) (ev_hex_decode ev preimage_hex)) (\<lambda>bs.
     and_then (ensure (length bs = 32) (CMsg ''preimage must be 32 bytes'')) (\<lambda>_. Inr bs)))"

definition try_preimage :: "'w env \<Rightarrow> string \<Rightarrow> ('w, bytes option) io" where
  "try_preimage ev payment_id =
     bind_run (ctx ''ListPayments'' (effect_run (ev_list_payments ev None))) (\<lambda>payments.
     case settled_payment ev payment_id payments of
       None \<Rightarrow> return_run None
     | Some p \<Rightarrow> lift_run (and_then (read_preimage ev p) (\<lambda>bs. Inr (Some bs))))"

definition wait_preimage :: "'w env \<Rightarrow> string \<Rightarrow> nat \<Rightarrow> ('w, bytes) io" where
  "wait_preimage ev payment_id timeout =
     bind_run (read_world (ev_instant ev)) (\<lambda>now.
     let deadline = now + timeout in
     poll_loop (try_preimage ev payment_id)
       (\<lambda>s. deadline \<le> ev_instant ev (sy_world s))
       (CMsg (''timeout waiting for preimage: payment_id='' @ payment_id))
       (\<lambda>s. s\<lparr>sy_world := ev_sleep ev (200 * MILLISECOND) (sy_world s)\<rparr>))"

section \<open>What they do\<close>

lemma preserves_create_invoice [preserve_intros]: "preserves (on_db P) (create_invoice ev a d e)"
  unfolding create_invoice_def by (intro preserve_intros)

lemma preserves_pay_invoice [preserve_intros]: "preserves (on_db P) (pay_invoice ev i)"
  unfolding pay_invoice_def by (intro preserve_intros)

lemma preserves_try_preimage [preserve_intros]: "preserves (on_db P) (try_preimage ev pid)"
  unfolding try_preimage_def by (intro preserve_intros)

lemma preserves_wait_preimage [preserve_intros]: "preserves (on_db P) (wait_preimage ev pid t)"
  unfolding wait_preimage_def by (intro preserve_intros) (simp add: on_db_def)

lemma try_preimage_clock:
  "clock_ok ev \<Longrightarrow> try_preimage ev pid s = Some (r, s') \<Longrightarrow>
     ev_instant ev (sy_world s) \<le> ev_instant ev (sy_world s')"
  by (auto simp: try_preimage_def bind_run_Some ctx_Some clock_ok_def keeps_time_def split: option.splits)

lemma try_preimage_returns: "try_preimage ev pid s \<noteq> None"
  by (auto simp: try_preimage_def bind_run_def ctx_def map_err_run_def split: option.splits sum.splits)

text \<open>The interface of the waiting loop on \<open>wait_preimage\<close>.\<close>

interpretation preimage: deadline_loop "try_preimage ev pid" "\<lambda>s. ev_instant ev (sy_world s)" deadline
  timed_out "\<lambda>s. s\<lparr>sy_world := ev_sleep ev (200 * MILLISECOND) (sy_world s)\<rparr>" "200 * MILLISECOND"
  "clock_ok ev"
  for ev pid deadline timed_out
  by unfold_locales
    (auto simp: try_preimage_returns MILLISECOND_def intro: try_preimage_clock, simp add: clock_ok_def)

lemma wait_preimage_returns:
  "clock_ok ev \<Longrightarrow> \<exists>r s'. wait_preimage ev pid t s = Some (r, s')"
  using preimage.returns by (simp add: wait_preimage_def bind_run_def)

lemma wait_preimage_found:
  assumes "wait_preimage ev pid t s = Some (Inr preimage, s')"
  shows "length preimage = 32"
    and "\<exists>w payments p. fst (ev_list_payments ev None w) = Inr payments \<and>
           settled_payment ev pid payments = Some p \<and> read_preimage ev p = Inr preimage"
proof -
  from assms have "poll_loop (try_preimage ev pid) (\<lambda>s'. ev_instant ev (sy_world s) + t \<le> ev_instant ev (sy_world s'))
      (CMsg (''timeout waiting for preimage: payment_id='' @ pid))
      (\<lambda>s. s\<lparr>sy_world := ev_sleep ev (200 * MILLISECOND) (sy_world s)\<rparr>) s = Some (Inr preimage, s')"
    by (simp add: wait_preimage_def bind_run_Some)
  then have "\<exists>s0. try_preimage ev pid s0 = Some (Inr (Some preimage), s')"
    by (rule preimage.found_from_attempt)
  then obtain w payments p where
    l: "fst (ev_list_payments ev None w) = Inr payments"
      "settled_payment ev pid payments = Some p" "read_preimage ev p = Inr preimage"
    by (auto simp: try_preimage_def bind_run_Some split: option.splits)
  then show "\<exists>w payments p. fst (ev_list_payments ev None w) = Inr payments \<and>
           settled_payment ev pid payments = Some p \<and> read_preimage ev p = Inr preimage" by blast
  show "length preimage = 32" using l(3) by (auto simp: read_preimage_def)
qed

end
