(* ===== verification/Liquid_Wallet.thy ===== *)
theory Liquid_Wallet
  imports Lightning
begin

text \<open>
  The Liquid side: \<open>src/liquid/wallet.rs\<close>, the wallet over an LWK wollet and an Electrum
  client, and \<open>src/liquid/keys.rs\<close>. The wollet's state is part of the outer world.
\<close>

section \<open>Opening\<close>

definition electrum_client :: "'w env \<Rightarrow> string \<Rightarrow> ('w, unit) io" where
  "electrum_client ev url =
     (let endpoint = strip_all [''tcp://''] url in
      bind_run (ctx (''parse electrum url '' @ endpoint) (lib_run (ev_electrum_url ev endpoint))) (\<lambda>electrum_url.
      ctx ''create electrum client'' (effect_run (ev_electrum_connect ev electrum_url))))"

definition sync :: "'w env \<Rightarrow> ('w, unit) io" where
  "sync ev = ctx ''sync wollet via electrum'' (effect_run (ev_full_scan ev))"

definition wallet_descriptor :: "string \<Rightarrow> string \<Rightarrow> string" where
  "wallet_descriptor slip77_key xpub = ''ct(slip77('' @ slip77_key @ ''),elwpkh('' @ xpub @ ''/*))''"

definition wallet_new :: "'w env \<Rightarrow> string \<Rightarrow> string \<Rightarrow> string \<Rightarrow> string \<Rightarrow> ('w, unit) io" where
  "wallet_new ev mnemonic slip77_key electrum_url persist_dir =
     bind_run (ctx ''create SwSigner'' (lib_run (ev_signer_xpub ev mnemonic))) (\<lambda>xpub.
     bind_run (ctx ''parse wollet descriptor''
                (lib_run (ev_parse_descriptor ev (wallet_descriptor slip77_key xpub)))) (\<lambda>descriptor.
     bind_run (ctx ''create wollet'' (effect_run (ev_wollet_with_persist ev descriptor persist_dir))) (\<lambda>_.
     bind_run (ctx ''create electrum client'' (electrum_client ev electrum_url)) (\<lambda>_.
     ctx ''initial sync'' (sync ev)))))"

section \<open>Reading the wallet\<close>

definition balance :: "'w env \<Rightarrow> asset_id \<Rightarrow> ('w, u64) io" where
  "balance ev asset =
     bind_run (read_world (ev_wallet_balance ev)) (\<lambda>r.
     bind_run (ctx ''get wollet balance'' (lib_run r)) (\<lambda>balances.
     return_run (case balances asset of Some v \<Rightarrow> v | None \<Rightarrow> 0)))"

definition tip_height :: "'w env \<Rightarrow> ('w sys, 'e, u32) run" where
  "tip_height ev = read_world (ev_tip_height ev)"

definition address_at :: "'w env \<Rightarrow> u32 \<Rightarrow> ('w, address) io" where
  "address_at ev index =
     bind_run (read_world (\<lambda>w. ev_wallet_address ev w index)) (\<lambda>r.
     ctx ''get wollet address'' (lib_run r))"

definition derive_secret_key :: "'w env \<Rightarrow> u32 \<Rightarrow> ('w, secret_key) io" where
  "derive_secret_key ev index =
     bind_run (ctx ''invalid derivation index'' (lib_run (ev_child_from_normal_idx ev index))) (\<lambda>child.
     ctx ''derive xprv'' (lib_run (ev_derive_xprv ev [child])))"

section \<open>Funding an HTLC\<close>

text \<open>
  The search for the two HTLC outputs: \<open>for (vout, output) in tx.output.iter().enumerate()\<close>.
  The asset is tested first, so an output in the policy asset counts as the asset's when the
  two are the same.
\<close>

fun find_vouts ::
  "bytes \<Rightarrow> asset_id \<Rightarrow> asset_id \<Rightarrow> nat \<Rightarrow> txout list \<Rightarrow> u32 option \<Rightarrow> u32 option \<Rightarrow> u32 option \<times> u32 option" where
  "find_vouts htlc_spk asset_id policy_asset vout [] asset_vout lbtc_vout = (asset_vout, lbtc_vout)"
| "find_vouts htlc_spk asset_id policy_asset vout (output # outputs) asset_vout lbtc_vout =
     (if to_script_pubkey output \<noteq> htlc_spk
      then find_vouts htlc_spk asset_id policy_asset (Suc vout) outputs asset_vout lbtc_vout
      else if to_asset output = Asset_Explicit asset_id
      then find_vouts htlc_spk asset_id policy_asset (Suc vout) outputs (Some (of_nat vout)) lbtc_vout
      else if to_asset output = Asset_Explicit policy_asset
      then find_vouts htlc_spk asset_id policy_asset (Suc vout) outputs asset_vout (Some (of_nat vout))
      else find_vouts htlc_spk asset_id policy_asset (Suc vout) outputs asset_vout lbtc_vout)"

definition build_and_broadcast_funding ::
  "'w env \<Rightarrow> address \<Rightarrow> asset_id \<Rightarrow> u64 \<Rightarrow> u64 \<Rightarrow> ('w, tx \<times> txid \<times> u32 \<times> u32) io" where
  "build_and_broadcast_funding ev htlc_address asset_id asset_amount fee_subsidy_sats =
     bind_run (ctx ''sync wallet before building funding tx'' (sync ev)) (\<lambda>_.
     let policy_asset = ev_policy_asset ev in
     bind_run (read_world (ev_tx_builder ev)) (\<lambda>builder.
     bind_run (ctx ''add htlc asset output''
                (lib_run (ev_add_recipient ev builder htlc_address asset_amount asset_id))) (\<lambda>builder.
     bind_run (ctx ''add htlc lbtc subsidy output''
                (lib_run (ev_add_recipient ev builder htlc_address fee_subsidy_sats policy_asset))) (\<lambda>builder.
     bind_run (ctx ''finalize funding pset'' (lib_run (ev_finish ev builder))) (\<lambda>pset.
     bind_run (ctx ''sign funding pset'' (lib_run (ev_sign ev pset))) (\<lambda>(sigs, pset).
     bind_run (ensure_run (0 < sigs) (CMsg ''no signatures added for funding'')) (\<lambda>_.
     bind_run (read_world (\<lambda>w. ev_finalize ev w pset)) (\<lambda>finalized.
     bind_run (ctx ''finalize funding tx'' (lib_run finalized)) (\<lambda>tx.
     bind_run (ctx ''broadcast funding tx'' (effect_run (ev_broadcast ev tx))) (\<lambda>txid.
     case find_vouts (ad_script_pubkey htlc_address) asset_id policy_asset 0 (tx_output tx) None None of
       (asset_vout, lbtc_vout) \<Rightarrow>
         bind_run (lift_run (ok_or (CMsg ''asset htlc output not found'') asset_vout)) (\<lambda>asset_vout.
         bind_run (lift_run (ok_or (CMsg ''lbtc htlc output not found'') lbtc_vout)) (\<lambda>lbtc_vout.
         return_run (tx, txid, asset_vout, lbtc_vout)))))))))))))"

section \<open>Confirmations\<close>

text \<open>\<open>tip - height + 1\<close> once the history has the transaction at a positive height.\<close>

definition confirmations :: "u32 \<Rightarrow> history list \<Rightarrow> txid \<Rightarrow> u32 option" where
  "confirmations tip history txid =
     (case find (\<lambda>h. hy_txid h = txid) history of
        None \<Rightarrow> None
      | Some entry \<Rightarrow>
          if sint (hy_height entry) \<le> 0 then Some 0
          else
            let height = hy_height entry in
            if tip < height then Some 0 else Some (tip - height + 1))"

definition tx_confirmations_for_script :: "'w env \<Rightarrow> bytes \<Rightarrow> txid \<Rightarrow> ('w, u32 option) io" where
  "tx_confirmations_for_script ev script_pubkey txid =
     bind_run (ctx ''get script history'' (effect_run (ev_scripts_history ev [script_pubkey]))) (\<lambda>histories.
     bind_run (tip_height ev) (\<lambda>tip.
     return_run (confirmations tip (if histories = [] then [] else last histories) txid)))"

text \<open>One round of the two waiting loops: sync, then look for enough confirmations.\<close>

definition try_confirmations :: "string \<Rightarrow> 'w env \<Rightarrow> bytes \<Rightarrow> txid \<Rightarrow> u32 \<Rightarrow> ('w, u32 option) io" where
  "try_confirmations what ev script_pubkey txid min_confs =
     bind_run (ctx ''sync wallet'' (sync ev)) (\<lambda>_.
     bind_run (ctx what (tx_confirmations_for_script ev script_pubkey txid)) (\<lambda>confs.
     return_run (case confs of
         Some c \<Rightarrow> if min_confs \<le> c then Some c else None
       | None \<Rightarrow> None)))"

definition wait_confirmations :: "string \<Rightarrow> string \<Rightarrow> 'w env \<Rightarrow> bytes \<Rightarrow> txid \<Rightarrow> u32 \<Rightarrow> nat \<Rightarrow> ('w, u32) io" where
  "wait_confirmations what late ev script_pubkey txid min_confs timeout =
     bind_run (read_world (ev_instant ev)) (\<lambda>now.
     let deadline = now + timeout in
     poll_loop (try_confirmations what ev script_pubkey txid min_confs)
       (\<lambda>s. deadline \<le> ev_instant ev (sy_world s))
       (CMsg (late @ ev_txid_to_string ev txid @ '' min_confs='' @ decimal (unat min_confs)))
       (\<lambda>s. s\<lparr>sy_world := ev_sleep ev (500 * MILLISECOND) (sy_world s)\<rparr>))"

definition wait_for_tx_confirmations_for_script :: "'w env \<Rightarrow> bytes \<Rightarrow> txid \<Rightarrow> u32 \<Rightarrow> nat \<Rightarrow> ('w, u32) io" where
  "wait_for_tx_confirmations_for_script =
     wait_confirmations ''get tx confirmations'' ''timeout waiting for confirmations: txid=''"

definition broadcast_transaction :: "'w env \<Rightarrow> tx \<Rightarrow> ('w, txid) io" where
  "broadcast_transaction ev tx = ctx ''broadcast tx'' (effect_run (ev_broadcast ev tx))"

definition get_transaction :: "'w env \<Rightarrow> txid \<Rightarrow> ('w, tx) io" where
  "get_transaction ev txid =
     bind_run (ctx ''get transaction'' (effect_run (ev_get_transactions ev [txid]))) (\<lambda>txs.
     lift_run (if txs = [] then Inl (CMsg ''transaction not found'') else Inr (last txs)))"

section \<open>What they keep\<close>

lemma preserves_sync [preserve_intros]: "preserves (on_db P) (sync ev)"
  unfolding sync_def by (intro preserve_intros)

lemma preserves_tip_height [preserve_intros]: "preserves I (tip_height ev)"
  unfolding tip_height_def by (intro preserve_intros)

lemma preserves_address_at [preserve_intros]: "preserves (on_db P) (address_at ev i)"
  unfolding address_at_def by (intro preserve_intros)

lemma preserves_derive [preserve_intros]: "preserves (on_db P) (derive_secret_key ev i)"
  unfolding derive_secret_key_def by (intro preserve_intros)

lemma preserves_broadcast [preserve_intros]: "preserves (on_db P) (broadcast_transaction ev t)"
  unfolding broadcast_transaction_def by (intro preserve_intros)

lemma preserves_funding [preserve_intros]: "preserves (on_db P) (build_and_broadcast_funding ev a b c d)"
  unfolding build_and_broadcast_funding_def by (intro preserve_intros)

lemma preserves_try_confirmations [preserve_intros]: "preserves (on_db P) (try_confirmations what ev spk t c)"
  unfolding try_confirmations_def tx_confirmations_for_script_def by (intro preserve_intros)

lemma preserves_wait_confirmations [preserve_intros]:
  "preserves (on_db P) (wait_confirmations what late ev spk t c d)"
  unfolding wait_confirmations_def by (intro preserve_intros) (simp add: on_db_def)

section \<open>The waiting loop\<close>

lemma try_confirmations_returns: "try_confirmations what ev spk t c s \<noteq> None"
  by (auto simp: try_confirmations_def tx_confirmations_for_script_def sync_def tip_height_def bind_run_def
      ctx_def map_err_run_def split: option.splits sum.splits prod.splits)

lemma try_confirmations_clock:
  assumes "clock_ok ev" and run: "try_confirmations what ev spk t c s = Some (r, s')"
  shows "ev_instant ev (sy_world s) \<le> ev_instant ev (sy_world s')"
proof -
  have time: "ev_instant ev w \<le> ev_instant ev (snd (ev_full_scan ev w))"
    "ev_instant ev w \<le> ev_instant ev (snd (ev_scripts_history ev scripts w))" for w scripts
    using assms(1) by (simp_all add: clock_ok_def keeps_time_def)
  have trans: "ev_instant ev w \<le> ev_instant ev (snd (ev_scripts_history ev scripts (snd (ev_full_scan ev w))))"
    for w scripts using time order_trans by blast
  show ?thesis
    using run time trans
    by (auto simp: try_confirmations_def tx_confirmations_for_script_def sync_def tip_height_def bind_run_Some ctx_Some)
qed

interpretation confirmed: deadline_loop "try_confirmations what ev spk txid min_confs"
  "\<lambda>s. ev_instant ev (sy_world s)" deadline timed_out
  "\<lambda>s. s\<lparr>sy_world := ev_sleep ev (500 * MILLISECOND) (sy_world s)\<rparr>" "500 * MILLISECOND" "clock_ok ev"
  for what ev spk txid min_confs deadline timed_out
  by unfold_locales
    (auto simp: try_confirmations_returns MILLISECOND_def intro: try_confirmations_clock, simp add: clock_ok_def)

lemma wait_confirmations_returns:
  "clock_ok ev \<Longrightarrow> \<exists>r s'. wait_confirmations what late ev spk txid c t s = Some (r, s')"
  using confirmed.returns by (simp add: wait_confirmations_def bind_run_def)

text \<open>The history the Electrum server answers for a script in the world \<open>w\<close>.\<close>

definition answered_history :: "'w env \<Rightarrow> bytes \<Rightarrow> 'w \<Rightarrow> history list \<Rightarrow> bool" where
  "answered_history ev script_pubkey w history \<longleftrightarrow>
     (\<exists>histories. fst (ev_scripts_history ev [script_pubkey] w) = Inr histories \<and>
        history = (if histories = [] then [] else last histories))"

lemma tx_confirmations_Inr:
  "tx_confirmations_for_script ev spk txid s = Some (Inr c, s') \<Longrightarrow>
     \<exists>history. answered_history ev spk (sy_world s) history \<and>
       sy_world s' = snd (ev_scripts_history ev [spk] (sy_world s)) \<and>
       c = confirmations (ev_tip_height ev (sy_world s')) history txid"
  by (fastforce simp: tx_confirmations_for_script_def tip_height_def bind_run_Inr answered_history_def)

text \<open>
  An answered wait ends with the server's history of the script, in which the transaction has
  the answered confirmations at the tip.
\<close>

definition confirmed_at :: "'w env \<Rightarrow> bytes \<Rightarrow> txid \<Rightarrow> u32 \<Rightarrow> 'w \<Rightarrow> 'w \<Rightarrow> bool" where
  "confirmed_at ev script_pubkey txid confs w w' \<longleftrightarrow>
     w' = snd (ev_scripts_history ev [script_pubkey] w) \<and>
     (\<exists>history. answered_history ev script_pubkey w history \<and>
        confirmations (ev_tip_height ev w') history txid = Some confs)"

lemma wait_confirmations_found:
  assumes "wait_confirmations what late ev spk txid min_confs t s = Some (Inr confs, s')"
  shows "min_confs \<le> confs" and "\<exists>w. confirmed_at ev spk txid confs w (sy_world s')"
proof -
  from assms have "poll_loop (try_confirmations what ev spk txid min_confs)
      (\<lambda>s'. ev_instant ev (sy_world s) + t \<le> ev_instant ev (sy_world s'))
      (CMsg (late @ ev_txid_to_string ev txid @ '' min_confs='' @ decimal (unat min_confs)))
      (\<lambda>s. s\<lparr>sy_world := ev_sleep ev (500 * MILLISECOND) (sy_world s)\<rparr>) s = Some (Inr confs, s')"
    by (simp add: wait_confirmations_def bind_run_Some)
  then have "\<exists>s0. try_confirmations what ev spk txid min_confs s0 = Some (Inr (Some confs), s')"
    by (rule confirmed.found_from_attempt)
  then obtain s1 c0 where c0: "tx_confirmations_for_script ev spk txid s1 = Some (Inr c0, s')"
    and enough: "(case c0 of Some c \<Rightarrow> if min_confs \<le> c then Some c else None | None \<Rightarrow> None) = Some confs"
    by (auto simp: try_confirmations_def bind_run_Inr)
  show "min_confs \<le> confs" using enough by (auto split: option.splits if_splits)
  have "c0 = Some confs" using enough by (auto split: option.splits if_splits)
  then show "\<exists>w. confirmed_at ev spk txid confs w (sy_world s')"
    using tx_confirmations_Inr [OF c0] unfolding confirmed_at_def by metis
qed

section \<open>Counting confirmations\<close>

text \<open>The count never wraps around: a transaction in block \<open>h\<close> has \<open>tip - h + 1\<close> of them.\<close>

lemma confirmations_exact:
  assumes "find (\<lambda>h. hy_txid h = txid) history = Some entry"
  shows "map_option uint (confirmations tip history txid) =
     Some (if sint (hy_height entry) \<le> 0 \<or> uint tip < sint (hy_height entry) then 0
           else uint tip - sint (hy_height entry) + 1)"
proof (cases "sint (hy_height entry) \<le> 0")
  case True
  then show ?thesis using assms by (simp add: confirmations_def)
next
  case False
  then have pos: "uint (hy_height entry) = sint (hy_height entry)" "0 < uint (hy_height entry)"
    using False sint_lt [of "hy_height entry"]
    by (simp_all add: uint_sint take_bit_int_eq_self del: uint_sint [symmetric])
  show ?thesis
  proof (cases "tip < hy_height entry")
    case True
    then show ?thesis using assms False pos by (simp add: confirmations_def word_less_def)
  next
    case le: False
    have "uint (tip - hy_height entry) = uint tip - uint (hy_height entry)"
      using le by (simp add: uint_sub_if' word_less_def)
    then have "uint (tip - hy_height entry + 1) = uint tip - uint (hy_height entry) + 1"
      using pos(2) uint_lt2p [of tip] by (simp add: uint_plus_if')
    then show ?thesis using assms False le pos by (simp add: confirmations_def word_less_def)
  qed
qed

section \<open>The funding outputs\<close>

lemma find_vouts_same_asset: "find_vouts spk a a n outs av None = (x, y) \<Longrightarrow> y = None"
  by (induction outs arbitrary: n av) (auto split: if_splits)

definition pays :: "bytes \<Rightarrow> asset_id \<Rightarrow> txout \<Rightarrow> bool" where
  "pays spk a out \<longleftrightarrow> to_script_pubkey out = spk \<and> to_asset out = Asset_Explicit a"

lemma find_vouts_sound:
  assumes "find_vouts spk a p n outs av lv = (Some i, Some j)" and "n + length outs \<le> 2 ^ 32"
  shows "(av = Some i \<or> (\<exists>k < length outs. unat i = n + k \<and> pays spk a (outs ! k))) \<and>
         (lv = Some j \<or> (\<exists>k < length outs. unat j = n + k \<and> pays spk p (outs ! k)))"
  using assms
proof (induction outs arbitrary: n av lv)
  case Nil
  then show ?case by simp
next
  case (Cons out outs)
  have n: "unat (of_nat n :: u32) = n" using Cons.prems(2) by (simp add: unat_of_nat)
  have shift: "(\<exists>k < length (out # outs). unat x = n + k \<and> pays spk q ((out # outs) ! k)) \<longleftrightarrow>
      unat x = n \<and> pays spk q out \<or> (\<exists>k < length outs. unat x = Suc n + k \<and> pays spk q (outs ! k))"
    for x :: u32 and q
    by (auto simp: less_Suc_eq_0_disj)
  have IH: "find_vouts spk a p (Suc n) outs av' lv' = (Some i, Some j) \<Longrightarrow>
      (av' = Some i \<or> (\<exists>k < length outs. unat i = Suc n + k \<and> pays spk a (outs ! k))) \<and>
      (lv' = Some j \<or> (\<exists>k < length outs. unat j = Suc n + k \<and> pays spk p (outs ! k)))" for av' lv'
    using Cons.IH [of "Suc n" av' lv'] Cons.prems(2) by simp
  show ?case
    unfolding shift using Cons.prems(1) IH n
    by (auto simp: pays_def split: if_splits)
qed

lemma find_vouts_mono: "\<exists>x y. find_vouts spk a p n outs (Some av) (Some lv) = (Some x, Some y)"
  by (induction outs arbitrary: n av lv) auto

lemma find_vouts_lbtc:
  "\<exists>out\<in>set outs. pays spk p out \<Longrightarrow> a \<noteq> p \<Longrightarrow>
     \<exists>x y. find_vouts spk a p n outs (Some av) lv = (Some x, Some y)"
proof (induction outs arbitrary: n av lv)
  case (Cons out outs)
  then consider "pays spk p out" | "\<exists>out\<in>set outs. pays spk p out" by auto
  then show ?case
  proof cases
    case 1
    then show ?thesis using Cons.prems(2) find_vouts_mono by (simp add: pays_def)
  next
    case 2
    from Cons.IH [OF this Cons.prems(2)] show ?thesis by simp
  qed
qed simp

lemma find_vouts_asset:
  "\<exists>out\<in>set outs. pays spk a out \<Longrightarrow> a \<noteq> p \<Longrightarrow>
     \<exists>x y. find_vouts spk a p n outs av (Some lv) = (Some x, Some y)"
proof (induction outs arbitrary: n av lv)
  case (Cons out outs)
  then consider "pays spk a out" | "\<exists>out\<in>set outs. pays spk a out" by auto
  then show ?case
  proof cases
    case 1
    then show ?thesis using Cons.prems(2) find_vouts_mono by (simp add: pays_def)
  next
    case 2
    from Cons.IH [OF this Cons.prems(2)] show ?thesis by simp
  qed
qed simp

lemma find_vouts_complete:
  "\<exists>out\<in>set outs. pays spk a out \<Longrightarrow> \<exists>out\<in>set outs. pays spk p out \<Longrightarrow> a \<noteq> p \<Longrightarrow>
     \<exists>x y. find_vouts spk a p n outs av lv = (Some x, Some y)"
proof (induction outs arbitrary: n av lv)
  case (Cons out outs)
  then consider "pays spk a out" "\<exists>out\<in>set outs. pays spk p out"
    | "pays spk p out" "\<exists>out\<in>set outs. pays spk a out"
    | "\<exists>out\<in>set outs. pays spk p out" "\<exists>out\<in>set outs. pays spk a out"
    by (auto simp: pays_def)
  then show ?case
  proof cases
    case 1
    then show ?thesis using Cons.prems(3) find_vouts_lbtc [OF 1(2)] by (simp add: pays_def)
  next
    case 2
    then show ?thesis using Cons.prems(3) find_vouts_asset [OF 2(2)] by (simp add: pays_def)
  next
    case 3
    from Cons.IH [OF 3(2,1) Cons.prems(3)] show ?thesis by simp
  qed
qed simp

lemma funding_result:
  assumes "build_and_broadcast_funding ev addr a amount fee s = Some (Inr (t, txid, i, j), s')"
  shows "find_vouts (ad_script_pubkey addr) a (ev_policy_asset ev) 0 (tx_output t) None None = (Some i, Some j)"
    and "\<exists>w. fst (ev_broadcast ev t w) = Inr txid"
  using assms
  by (auto simp: build_and_broadcast_funding_def bind_run_Inr Let_def split_beta prod_eq_iff)

lemma funding_same_asset:
  "build_and_broadcast_funding ev addr (ev_policy_asset ev) amount fee s \<noteq> Some (Inr x, s')"
  using funding_result(1) [of ev addr "ev_policy_asset ev" amount fee s] find_vouts_same_asset
  by (metis option.distinct(1) prod_cases4)

end
