(* ===== verification/Service_Auth.thy ===== *)
theory Service_Auth
  imports Liquid_Wallet
begin

text \<open>
  The parts of \<open>src/swap/service.rs\<close> every handler uses: the configuration, gRPC statuses,
  bearer-token authentication and roles, the current offer and its id, and the messages made
  from stored records.
\<close>

section \<open>Statuses and requests\<close>

datatype status_code =
  Unauthenticated | PermissionDenied | InvalidArgument | FailedPrecondition | NotFound | Internal

text \<open>A fixed message, or a prefix followed by the printed error.\<close>

datatype status_message = Text string | Caused string anyhow

text \<open>What a handler answers when it does not answer with a message; it may also panic.\<close>

datatype status = Status status_code status_message | Panicked string

record 'm request =
  rq_metadata :: "string \<Rightarrow> bytes option"
  rq_message :: 'm

record swap_service_config =
  cf_sell_asset_id :: asset_id
  cf_price_msat_per_asset_unit :: u64
  cf_fee_subsidy_sats :: u64
  cf_refund_delta_blocks :: u32
  cf_invoice_expiry_secs :: u32
  cf_seller_key_index :: u32
  cf_buyer_key_index :: u32
  cf_seller_token :: string
  cf_buyer_token :: string

type_synonym ('w, 'a) handler = "('w sys, status, 'a) run"

definition MAX_MIN_FUNDING_CONFS :: u32 where "MAX_MIN_FUNDING_CONFS = 6"

definition DEFAULT_PAYMENT_TIMEOUT_SECS :: u64 where "DEFAULT_PAYMENT_TIMEOUT_SECS = 60"

definition DEFAULT_CLAIM_FEE_SATS :: u64 where "DEFAULT_CLAIM_FEE_SATS = 500"

section \<open>Authentication\<close>

datatype caller_role = BuyerCaller | SellerCaller

datatype auth_error =
    MissingBearerToken
  | InvalidBearerToken
  | SellerRoleRequired
  | BuyerRoleRequired
  | SwapRoleRequired string

fun status_from_auth :: "auth_error \<Rightarrow> status" where
  "status_from_auth MissingBearerToken = Status Unauthenticated (Text ''missing bearer token'')"
| "status_from_auth InvalidBearerToken = Status Unauthenticated (Text ''invalid bearer token'')"
| "status_from_auth SellerRoleRequired = Status PermissionDenied (Text ''seller role required'')"
| "status_from_auth BuyerRoleRequired = Status PermissionDenied (Text ''buyer role required'')"
| "status_from_auth (SwapRoleRequired what) = Status PermissionDenied (Text (what @ '' role required''))"

definition authorization_bearer_token :: "'w env \<Rightarrow> (string \<Rightarrow> bytes option) \<Rightarrow> string option" where
  "authorization_bearer_token ev metadata =
     Option.bind (metadata ''authorization'') (\<lambda>value.
     Option.bind (ev_header_to_str ev value) (\<lambda>header.
     strip_prefix ''Bearer '' header))"

definition require_authenticated :: "'w env \<Rightarrow> swap_service_config \<Rightarrow> 'm request \<Rightarrow> auth_error + caller_role" where
  "require_authenticated ev cfg request =
     and_then (ok_or MissingBearerToken (authorization_bearer_token ev (rq_metadata request))) (\<lambda>token.
     if token = cf_seller_token cfg then Inr SellerCaller
     else if token = cf_buyer_token cfg then Inr BuyerCaller
     else Inl InvalidBearerToken)"

definition require_seller :: "'w env \<Rightarrow> swap_service_config \<Rightarrow> 'm request \<Rightarrow> auth_error + unit" where
  "require_seller ev cfg request =
     and_then (require_authenticated ev cfg request) (\<lambda>role.
     if role \<noteq> SellerCaller then Inl SellerRoleRequired else Inr ())"

definition require_buyer :: "'w env \<Rightarrow> swap_service_config \<Rightarrow> 'm request \<Rightarrow> auth_error + unit" where
  "require_buyer ev cfg request =
     and_then (require_authenticated ev cfg request) (\<lambda>role.
     if role \<noteq> BuyerCaller then Inl BuyerRoleRequired else Inr ())"

section \<open>Directions and roles\<close>

fun direction_to_proto :: "swap_direction \<Rightarrow> pb_direction" where
  "direction_to_proto LnToLiquid = PbLnToLiquid"
| "direction_to_proto LiquidToLn = PbLiquidToLn"

fun parties_for_direction :: "pb_direction \<Rightarrow> pb_parties" where
  "parties_for_direction PbLnToLiquid =
     \<lparr>pa_ln_payer = role_i32 PbBuyer, pa_ln_payee = role_i32 PbSeller,
      pa_liquid_funder = role_i32 PbSeller, pa_liquid_claimer = role_i32 PbBuyer,
      pa_liquid_refunder = role_i32 PbSeller\<rparr>"
| "parties_for_direction PbLiquidToLn =
     \<lparr>pa_ln_payer = role_i32 PbSeller, pa_ln_payee = role_i32 PbBuyer,
      pa_liquid_funder = role_i32 PbBuyer, pa_liquid_claimer = role_i32 PbSeller,
      pa_liquid_refunder = role_i32 PbBuyer\<rparr>"
| "parties_for_direction PbDirUnspecified =
     \<lparr>pa_ln_payer = role_i32 PbRoleUnspecified, pa_ln_payee = role_i32 PbRoleUnspecified,
      pa_liquid_funder = role_i32 PbRoleUnspecified, pa_liquid_claimer = role_i32 PbRoleUnspecified,
      pa_liquid_refunder = role_i32 PbRoleUnspecified\<rparr>"

definition require_swap_role :: "caller_role \<Rightarrow> pb_role \<Rightarrow> string \<Rightarrow> auth_error + unit" where
  "require_swap_role caller required what =
     (case (caller, required) of
        (BuyerCaller, PbBuyer) \<Rightarrow> Inr ()
      | (SellerCaller, PbSeller) \<Rightarrow> Inr ()
      | _ \<Rightarrow> Inl (SwapRoleRequired what))"

text \<open>\<open>SwapRole::try_from(...).unwrap_or(Unspecified)\<close>.\<close>

definition role_or_unspecified :: "int \<Rightarrow> pb_role" where
  "role_or_unspecified n = (case role_try_from n of Some r \<Rightarrow> r | None \<Rightarrow> PbRoleUnspecified)"

lemma direction_to_proto_inject [simp]: "direction_to_proto d = direction_to_proto d' \<longleftrightarrow> d = d'"
  by (cases d; cases d') simp_all

section \<open>Offers\<close>

definition supported_directions :: "int list" where
  "supported_directions = [direction_i32 PbLnToLiquid, direction_i32 PbLiquidToLn]"

definition current_offer :: "'w env \<Rightarrow> swap_service_config \<Rightarrow> pb_offer" where
  "current_offer ev cfg =
     \<lparr>of_asset_id = ev_asset_to_string ev (cf_sell_asset_id cfg),
      of_supported_directions = supported_directions,
      of_price_msat_per_asset_unit = cf_price_msat_per_asset_unit cfg,
      of_fee_subsidy_sats = cf_fee_subsidy_sats cfg,
      of_refund_delta_blocks = cf_refund_delta_blocks cfg,
      of_invoice_expiry_secs = cf_invoice_expiry_secs cfg,
      of_max_min_funding_confs = MAX_MIN_FUNDING_CONFS\<rparr>"

definition offer_id :: "'w env \<Rightarrow> pb_offer \<Rightarrow> string" where
  "offer_id ev offer = ev_hex_encode ev (cl_sha256 (ev_crypto ev) (ev_encode_offer ev offer))"

section \<open>Records as messages\<close>

definition quote_record_to_proto :: "quote_record \<Rightarrow> pb_quote" where
  "quote_record_to_proto record =
     (let direction = direction_to_proto (qr_direction record) in
      \<lparr>pq_quote_id = qr_quote_id record, pq_offer_id = qr_offer_id record,
       pq_offer = Some
         \<lparr>of_asset_id = qr_asset_id record, of_supported_directions = supported_directions,
          of_price_msat_per_asset_unit = qr_price_msat_per_asset_unit record,
          of_fee_subsidy_sats = qr_fee_subsidy_sats record,
          of_refund_delta_blocks = qr_refund_delta_blocks record,
          of_invoice_expiry_secs = qr_invoice_expiry_secs record,
          of_max_min_funding_confs = qr_max_min_funding_confs record\<rparr>,
       pq_direction = direction_i32 direction,
       pq_parties = Some (parties_for_direction direction),
       pq_asset_id = qr_asset_id record, pq_asset_amount = qr_asset_amount record,
       pq_min_funding_confs = qr_min_funding_confs record,
       pq_total_price_msat = qr_total_price_msat record\<rparr>)"

fun status_to_proto :: "swap_status \<Rightarrow> pb_status" where
  "status_to_proto Created = PbCreated"
| "status_to_proto Funded = PbFunded"
| "status_to_proto Paid = PbPaid"
| "status_to_proto Claimed = PbClaimed"
| "status_to_proto Refunded = PbRefunded"
| "status_to_proto Failed = PbFailed"

definition swap_record_to_proto :: "'w env \<Rightarrow> swap_record \<Rightarrow> anyhow + pb_swap" where
  "swap_record_to_proto ev record =
     (let status = status_i32 (status_to_proto (sr_status record)) in
      and_then (map_err (\<lambda>e. Context ''decode witness_script_hex'' (CLib e))
                 (ev_hex_decode ev (sr_witness_script_hex record))) (\<lambda>witness_script.
      let direction = direction_to_proto (sr_direction record) in
      Inr \<lparr>ps_swap_id = sr_swap_id record, ps_quote_id = sr_quote_id record,
           ps_direction = direction_i32 direction,
           ps_parties = Some (parties_for_direction direction),
           ps_bolt11_invoice = sr_bolt11_invoice record,
           ps_payment_hash = sr_payment_hash record,
           ps_status = status,
           ps_liquid = Some
             \<lparr>lh_asset_id = sr_asset_id record, lh_asset_amount = sr_asset_amount record,
              lh_fee_subsidy_sats = sr_fee_subsidy_sats record,
              lh_refund_lock_height = sr_refund_lock_height record,
              lh_p2wsh_address = sr_p2wsh_address record,
              lh_witness_script = witness_script,
              lh_funding_txid = sr_funding_txid record,
              lh_asset_vout = sr_asset_vout record, lh_lbtc_vout = sr_lbtc_vout record,
              lh_min_funding_confs = sr_min_funding_confs record\<rparr>\<rparr>))"

section \<open>Lifting into handlers\<close>

definition authorized :: "auth_error + 'a \<Rightarrow> ('w, 'a) handler" where
  "authorized r = lift_run (map_err status_from_auth r)"

definition internal :: "string \<Rightarrow> ('w, 'a) io \<Rightarrow> ('w, 'a) handler" where
  "internal what m = map_err_run (\<lambda>e. Status Internal (Caused what e)) m"

definition invalid :: "string \<Rightarrow> anyhow + 'a \<Rightarrow> ('w, 'a) handler" where
  "invalid what r = lift_run (map_err (\<lambda>e. Status InvalidArgument (Caused what e)) r)"

definition require :: "bool \<Rightarrow> status_code \<Rightarrow> string \<Rightarrow> ('w, unit) handler" where
  "require b code message = ensure_run b (Status code (Text message))"

lemma preserves_internal [preserve_intros]: "preserves I m \<Longrightarrow> preserves I (internal c m)"
  unfolding internal_def by (rule preserves_map_err)

lemma preserves_authorized [preserve_intros]: "preserves I (authorized r)"
  unfolding authorized_def by (rule preserves_lift)

lemma preserves_invalid [preserve_intros]: "preserves I (invalid c r)"
  unfolding invalid_def by (rule preserves_lift)

lemma preserves_require [preserve_intros]: "preserves I (require b c m)"
  unfolding require_def by (rule preserves_ensure)

lemma authorized_run [simp]: "authorized r s = Some (map_err status_from_auth r, s)"
  by (simp add: authorized_def)

lemma invalid_run [simp]: "invalid c r s = Some (map_err (\<lambda>e. Status InvalidArgument (Caused c e)) r, s)"
  by (simp add: invalid_def)

lemma require_run [simp]: "require b code m s = Some (ensure b (Status code (Text m)), s)"
  by (simp add: require_def)

lemma internal_Inr [simp]: "internal c m s = Some (Inr a, s') \<longleftrightarrow> m s = Some (Inr a, s')"
  by (simp add: internal_def)

lemma internal_Some:
  "internal c m s = Some (r, s') \<longleftrightarrow>
     (\<exists>r'. m s = Some (r', s') \<and> r = map_err (\<lambda>e. Status Internal (Caused c e)) r')"
  by (simp add: internal_def map_err_run_Some)

section \<open>Authentication, characterised\<close>

text \<open>What the header carries: the token of a request that has a bearer token.\<close>

definition presents_token :: "'w env \<Rightarrow> 'm request \<Rightarrow> string \<Rightarrow> bool" where
  "presents_token ev request token \<longleftrightarrow>
     (\<exists>value. rq_metadata request ''authorization'' = Some value \<and>
        ev_header_to_str ev value = Some (''Bearer '' @ token))"

lemma bearer_token_Some:
  "authorization_bearer_token ev (rq_metadata request) = Some token \<longleftrightarrow> presents_token ev request token"
  by (auto simp: authorization_bearer_token_def presents_token_def Option.bind_eq_Some_conv strip_prefix_Some)

lemma presents_token_unique: "presents_token ev request t \<Longrightarrow> presents_token ev request t' \<Longrightarrow> t = t'"
  by (auto simp: presents_token_def)

lemma require_seller_iff:
  "require_seller ev cfg request = Inr () \<longleftrightarrow> presents_token ev request (cf_seller_token cfg)"
  by (cases "authorization_bearer_token ev (rq_metadata request)")
    (auto simp: require_seller_def require_authenticated_def simp flip: bearer_token_Some)

lemma require_buyer_iff:
  "require_buyer ev cfg request = Inr () \<longleftrightarrow>
     presents_token ev request (cf_buyer_token cfg) \<and> cf_buyer_token cfg \<noteq> cf_seller_token cfg"
  by (cases "authorization_bearer_token ev (rq_metadata request)")
    (auto simp: require_buyer_def require_authenticated_def simp flip: bearer_token_Some)

lemma require_authenticated_iff:
  "require_authenticated ev cfg request = Inr role \<longleftrightarrow>
     (role = SellerCaller \<and> presents_token ev request (cf_seller_token cfg)) \<or>
     (role = BuyerCaller \<and> presents_token ev request (cf_buyer_token cfg) \<and>
        cf_buyer_token cfg \<noteq> cf_seller_token cfg)"
  by (cases "authorization_bearer_token ev (rq_metadata request)")
    (auto simp: require_authenticated_def simp flip: bearer_token_Some)

lemma require_swap_role_iff:
  "require_swap_role caller required what = Inr () \<longleftrightarrow>
     (caller = BuyerCaller \<and> required = PbBuyer) \<or> (caller = SellerCaller \<and> required = PbSeller)"
  by (cases caller; cases required) (simp_all add: require_swap_role_def)

lemma role_or_unspecified_roundtrip [simp]: "role_or_unspecified (role_i32 r) = r"
  by (simp add: role_or_unspecified_def)

end
