(* ===== verification/Quote_Service.thy ===== *)
theory Quote_Service
  imports Service_Auth
begin

text \<open>
  The read-only and quoting handlers of \<open>src/swap/service.rs\<close>: \<open>create_quote\<close>,
  \<open>get_quote\<close> and \<open>get_swap\<close>, whole, with their guards in the code's order.
\<close>

section \<open>The handlers\<close>

definition quoted_direction :: "int \<Rightarrow> status + swap_direction" where
  "quoted_direction n =
     (case direction_try_from n of
        None \<Rightarrow> Inl (Status InvalidArgument (Text ''direction must be a valid SwapDirection''))
      | Some PbDirUnspecified \<Rightarrow> Inl (Status InvalidArgument (Text ''direction is required''))
      | Some PbLnToLiquid \<Rightarrow> Inr LnToLiquid
      | Some PbLiquidToLn \<Rightarrow> Inr LiquidToLn)"

definition create_quote ::
  "'w env \<Rightarrow> swap_service_config \<Rightarrow> create_quote_request request \<Rightarrow> ('w, pb_quote) handler" where
  "create_quote ev cfg request =
     bind_run (authorized (require_seller ev cfg request)) (\<lambda>_.
     let req = rq_message request in
     bind_run (lift_run (quoted_direction (cq_direction req))) (\<lambda>direction.
     let asset_amount = cq_asset_amount req in
     bind_run (require (asset_amount \<noteq> 0) InvalidArgument ''asset_amount must be > 0'') (\<lambda>_.
     bind_run (invalid ''invalid asset_id: '' (map_err CLib (ev_asset_from_str ev (cq_asset_id req)))) (\<lambda>asset_id.
     bind_run (require (asset_id = cf_sell_asset_id cfg) FailedPrecondition ''unsupported asset_id'') (\<lambda>_.
     let min_funding_confs = cq_min_funding_confs req in
     bind_run (require (\<not> MAX_MIN_FUNDING_CONFS < min_funding_confs) InvalidArgument
                 (''min_funding_confs must be <= '' @ decimal (unat MAX_MIN_FUNDING_CONFS))) (\<lambda>_.
     let offer = current_offer ev cfg in
     bind_run (require (direction_i32 (direction_to_proto direction) \<in> set (of_supported_directions offer))
                 FailedPrecondition ''unsupported direction'') (\<lambda>_.
     let the_offer_id = offer_id ev offer in
     bind_run (lift_run (ok_or (Status InvalidArgument (Text ''total_price_msat overflow''))
                 (checked_mul asset_amount (of_price_msat_per_asset_unit offer)))) (\<lambda>total_price_msat.
     bind_run (uuid_run ev) (\<lambda>quote_id.
     let record =
       \<lparr>qr_quote_id = quote_id, qr_offer_id = the_offer_id, qr_direction = direction,
        qr_asset_id = of_asset_id offer, qr_asset_amount = asset_amount,
        qr_min_funding_confs = min_funding_confs, qr_total_price_msat = total_price_msat,
        qr_price_msat_per_asset_unit = of_price_msat_per_asset_unit offer,
        qr_fee_subsidy_sats = of_fee_subsidy_sats offer,
        qr_refund_delta_blocks = of_refund_delta_blocks offer,
        qr_invoice_expiry_secs = of_invoice_expiry_secs offer,
        qr_max_min_funding_confs = of_max_min_funding_confs offer, qr_swap_id = None\<rparr> in
     bind_run (internal ''persist quote: '' (store_run ev (\<lambda>v. insert_quote v record))) (\<lambda>_.
     return_run (quote_record_to_proto record)))))))))))"

definition get_quote_rpc ::
  "'w env \<Rightarrow> swap_service_config \<Rightarrow> get_quote_request request \<Rightarrow> ('w, pb_quote) handler" where
  "get_quote_rpc ev cfg request =
     bind_run (authorized (require_authenticated ev cfg request)) (\<lambda>_.
     let req = rq_message request in
     bind_run (require (trim (gq_quote_id req) \<noteq> []) InvalidArgument ''quote_id is required'') (\<lambda>_.
     bind_run (internal ''get quote: '' (store_run ev (\<lambda>v. get_quote v (gq_quote_id req)))) (\<lambda>found.
     bind_run (lift_run (ok_or (Status NotFound (Text ''quote not found'')) found)) (\<lambda>record.
     return_run (quote_record_to_proto record)))))"

definition get_swap_rpc ::
  "'w env \<Rightarrow> swap_service_config \<Rightarrow> get_swap_request request \<Rightarrow> ('w, pb_swap) handler" where
  "get_swap_rpc ev cfg request =
     bind_run (authorized (require_authenticated ev cfg request)) (\<lambda>_.
     let req = rq_message request in
     bind_run (require (trim (gs_swap_id req) \<noteq> []) InvalidArgument ''swap_id is required'') (\<lambda>_.
     bind_run (internal ''get swap: '' (store_run ev (\<lambda>v. get_swap v (gs_swap_id req)))) (\<lambda>found.
     bind_run (lift_run (ok_or (Status NotFound (Text ''swap not found'')) found)) (\<lambda>record.
     internal ''encode swap: '' (lift_run (swap_record_to_proto ev record))))))"

section \<open>What they do\<close>

lemma preserves_get_quote_rpc: "preserves (on_db P) (get_quote_rpc ev cfg request)"
  unfolding get_quote_rpc_def by (intro preserve_intros)

lemma preserves_get_swap_rpc: "preserves (on_db P) (get_swap_rpc ev cfg request)"
  unfolding get_swap_rpc_def by (intro preserve_intros)

lemma preserves_create_quote: "preserves (on_db store_ok) (create_quote ev cfg request)"
  unfolding create_quote_def
  by (intro preserve_intros preserves_store_run preserves_store_ok)

text \<open>The record a successful \<open>create_quote\<close> stores: the offer's terms and the exact price.\<close>

definition quote_of_request ::
  "'w env \<Rightarrow> swap_service_config \<Rightarrow> create_quote_request \<Rightarrow> swap_direction \<Rightarrow> u64 \<Rightarrow> string \<Rightarrow> quote_record" where
  "quote_of_request ev cfg req direction price quote_id =
     \<lparr>qr_quote_id = quote_id, qr_offer_id = offer_id ev (current_offer ev cfg), qr_direction = direction,
      qr_asset_id = ev_asset_to_string ev (cf_sell_asset_id cfg), qr_asset_amount = cq_asset_amount req,
      qr_min_funding_confs = cq_min_funding_confs req, qr_total_price_msat = price,
      qr_price_msat_per_asset_unit = cf_price_msat_per_asset_unit cfg,
      qr_fee_subsidy_sats = cf_fee_subsidy_sats cfg, qr_refund_delta_blocks = cf_refund_delta_blocks cfg,
      qr_invoice_expiry_secs = cf_invoice_expiry_secs cfg,
      qr_max_min_funding_confs = MAX_MIN_FUNDING_CONFS, qr_swap_id = None\<rparr>"

text \<open>When \<open>create_quote\<close> accepts a request, apart from what the store says.\<close>

definition quote_acceptable ::
  "'w env \<Rightarrow> swap_service_config \<Rightarrow> create_quote_request \<Rightarrow> swap_direction \<Rightarrow> bool" where
  "quote_acceptable ev cfg req direction \<longleftrightarrow>
     cq_direction req = direction_i32 (direction_to_proto direction) \<and>
     cq_asset_amount req \<noteq> 0 \<and>
     ev_asset_from_str ev (cq_asset_id req) = Inr (cf_sell_asset_id cfg) \<and>
     cq_min_funding_confs req \<le> MAX_MIN_FUNDING_CONFS \<and>
     unat (cq_asset_amount req) * unat (cf_price_msat_per_asset_unit cfg) < 2 ^ 64"

lemma quoted_direction_Inr: "quoted_direction n = Inr d \<longleftrightarrow> n = direction_i32 (direction_to_proto d)"
  by (cases d; auto simp: quoted_direction_def direction_try_from_Some split: option.splits pb_direction.splits)
    (metis direction_roundtrip option.distinct(1) direction_i32.simps)+

lemma supported_direction: "direction_i32 (direction_to_proto d) \<in> set supported_directions"
  by (cases d) (simp_all add: supported_directions_def)

lemma checked_mul_iff:
  "checked_mul a b = Some c \<longleftrightarrow> unat a * unat b < 2 ^ LENGTH('n) \<and> c = a * b" for a b c :: "'n::len word"
  by (auto simp: checked_mul_def)

text \<open>Exactly when a quote is made, and what is stored and answered.\<close>

lemma create_quote_Inr:
  "create_quote ev cfg request s = Some (Inr quote, s') \<longleftrightarrow>
     presents_token ev request (cf_seller_token cfg) \<and>
     (\<exists>direction. quote_acceptable ev cfg (rq_message request) direction \<and>
       (let (quote_id, w) = ev_uuid ev (sy_world s);
            record = quote_of_request ev cfg (rq_message request) direction
              (cq_asset_amount (rq_message request) * cf_price_msat_per_asset_unit cfg) quote_id;
            (verdict, w') = ev_sql ev w
        in \<exists>db. insert_quote verdict record (sy_db s) = Some (Inr (), db) \<and>
             quote = quote_record_to_proto record \<and> s' = \<lparr>sy_db = db, sy_world = w'\<rparr>))"
  by (auto simp: create_quote_def bind_run_Inr Let_def split_beta require_seller_iff quoted_direction_Inr
      quote_acceptable_def checked_mul_iff store_run_Some current_offer_def supported_direction
      quote_of_request_def linorder_not_less)

end
