(* ===== verification/Swap_Service.thy ===== *)
theory Swap_Service
  imports Quote_Service
begin

text \<open>
  The handlers of \<open>src/swap/service.rs\<close> that move value: \<open>create_swap\<close>,
  \<open>create_lightning_payment\<close> and \<open>create_asset_claim\<close>. Each is cut where it releases its
  locks (checking, then invoice and funding, then waiting and marking; checking, then paying;
  checking, then claiming) and is the composition of its parts in the code's order.
\<close>

section \<open>CreateSwap: the checks\<close>

text \<open>What the checks leave: the quote, the parsed address and the buyer's key hash.\<close>

record swap_plan =
  sp_quote :: quote_record
  sp_address :: address
  sp_buyer_hash :: bytes

text \<open>The checks on a quote that no swap uses yet.\<close>

definition check_unused_quote ::
  "'w env \<Rightarrow> swap_service_config \<Rightarrow> create_swap_request \<Rightarrow> quote_record \<Rightarrow> ('w, swap_plan) handler" where
  "check_unused_quote ev cfg req quote =
     bind_run (require (offer_id ev (current_offer ev cfg) = qr_offer_id quote) FailedPrecondition
                 ''offer changed since quoting; retry CreateQuote'') (\<lambda>_.
     bind_run (invalid ''invalid asset_id: '' (map_err CLib (ev_asset_from_str ev (qr_asset_id quote)))) (\<lambda>asset_id.
     bind_run (require (asset_id = cf_sell_asset_id cfg) FailedPrecondition ''unsupported asset_id'') (\<lambda>_.
     bind_run (invalid ''invalid buyer_liquid_address: ''
                (map_err CLib (ev_address_from_str ev (cs_buyer_liquid_address req)))) (\<lambda>buyer_liquid_address.
     bind_run (require (\<not> MAX_MIN_FUNDING_CONFS < qr_min_funding_confs quote) InvalidArgument
                 (''min_funding_confs must be <= '' @ decimal (unat MAX_MIN_FUNDING_CONFS))) (\<lambda>_.
     bind_run (invalid ''buyer_liquid_address must be a P2WPKH address: ''
                (map_err CHtlc (pubkey_hash160_from_p2wpkh_address buyer_liquid_address))) (\<lambda>buyer_hash.
     bind_run (require (ad_params buyer_liquid_address = ev_address_params ev) InvalidArgument
                 ''buyer_liquid_address network mismatch'') (\<lambda>_.
     return_run \<lparr>sp_quote = quote, sp_address = buyer_liquid_address, sp_buyer_hash = buyer_hash\<rparr>)))))))"

definition existing_swap :: "'w env \<Rightarrow> string \<Rightarrow> ('w, pb_swap) handler" where
  "existing_swap ev existing_swap_id =
     bind_run (internal ''get swap: '' (store_run ev (\<lambda>v. get_swap v existing_swap_id))) (\<lambda>found.
     bind_run (lift_run (ok_or (Status Internal (Text ''quote refers to missing swap'')) found)) (\<lambda>record.
     internal ''encode swap: '' (lift_run (swap_record_to_proto ev record))))"

text \<open>
  The stored quote decides: an already linked swap is answered as it is (\<open>Inl\<close>), otherwise
  the request is checked (\<open>Inr\<close>).
\<close>

definition check_create_swap ::
  "'w env \<Rightarrow> swap_service_config \<Rightarrow> create_swap_request request \<Rightarrow> ('w, pb_swap + swap_plan) handler" where
  "check_create_swap ev cfg request =
     bind_run (authorized (require_buyer ev cfg request)) (\<lambda>_.
     let req = rq_message request in
     bind_run (require (trim (cs_quote_id req) \<noteq> []) InvalidArgument ''quote_id is required'') (\<lambda>_.
     bind_run (require (trim (cs_buyer_liquid_address req) \<noteq> []) InvalidArgument
                 ''buyer_liquid_address is required'') (\<lambda>_.
     bind_run (internal ''get quote: '' (store_run ev (\<lambda>v. get_quote v (cs_quote_id req)))) (\<lambda>found.
     bind_run (lift_run (ok_or (Status NotFound (Text ''quote not found'')) found)) (\<lambda>quote.
     case qr_swap_id quote of
       Some existing_swap_id \<Rightarrow>
         bind_run (existing_swap ev existing_swap_id) (\<lambda>swap. return_run (Inl swap))
     | None \<Rightarrow>
         bind_run (check_unused_quote ev cfg req quote) (\<lambda>plan. return_run (Inr plan)))))))"

section \<open>CreateSwap: the invoice\<close>

definition swap_invoice ::
  "'w env \<Rightarrow> create_swap_request \<Rightarrow> quote_record \<Rightarrow> string \<Rightarrow> ('w, string \<times> bytes) handler" where
  "swap_invoice ev req quote swap_id =
     (case qr_direction quote of
        LnToLiquid \<Rightarrow>
          bind_run (require (trim (cs_buyer_bolt11_invoice req) = []) InvalidArgument
                      ''buyer_bolt11_invoice must be empty for LN_TO_LIQUID swaps'') (\<lambda>_.
          bind_run (internal ''create invoice: ''
                     (create_invoice ev (qr_total_price_msat quote) (''swap:'' @ swap_id)
                        (qr_invoice_expiry_secs quote))) (\<lambda>invoice.
          bind_run (internal ''parse invoice: '' (lift_run (payment_hash_from_bolt11 ev invoice))) (\<lambda>payment_hash.
          return_run (invoice, payment_hash))))
      | LiquidToLn \<Rightarrow>
          let buyer_invoice = trim (cs_buyer_bolt11_invoice req) in
          bind_run (require (buyer_invoice \<noteq> []) InvalidArgument
                      ''buyer_bolt11_invoice is required for LIQUID_TO_LN swaps'') (\<lambda>_.
          bind_run (invalid ''invalid invoice: '' (amount_msat_from_bolt11 ev buyer_invoice)) (\<lambda>amount_msat.
          bind_run (lift_run (ok_or (Status InvalidArgument (Text ''buyer_bolt11_invoice must specify amount''))
                               amount_msat)) (\<lambda>amount_msat.
          bind_run (require (amount_msat = qr_total_price_msat quote) InvalidArgument
                      (''buyer_bolt11_invoice amount mismatch: expected '' @
                       decimal (unat (qr_total_price_msat quote)) @ '' msat, got '' @
                       decimal (unat amount_msat) @ '' msat'')) (\<lambda>_.
          bind_run (read_world (ev_unix_time ev)) (\<lambda>now.
          bind_run (invalid ''invalid invoice: '' (is_expired_bolt11 ev buyer_invoice now)) (\<lambda>expired.
          bind_run (require (\<not> expired) InvalidArgument ''buyer_bolt11_invoice is already expired'') (\<lambda>_.
          bind_run (invalid ''invalid invoice: '' (payment_hash_from_bolt11 ev buyer_invoice)) (\<lambda>payment_hash.
          return_run (buyer_invoice, payment_hash))))))))))"

section \<open>CreateSwap: funding and recording\<close>

text \<open>The HTLC of a swap: who claims and who refunds follows the direction.\<close>

definition swap_htlc :: "swap_direction \<Rightarrow> bytes \<Rightarrow> bytes \<Rightarrow> bytes \<Rightarrow> u32 \<Rightarrow> htlc_spec" where
  "swap_htlc direction payment_hash buyer_hash seller_hash refund_lock_height =
     (let (claimer, refunder) = (case direction of
            LnToLiquid \<Rightarrow> (buyer_hash, seller_hash)
          | LiquidToLn \<Rightarrow> (seller_hash, buyer_hash)) in
      \<lparr>hs_payment_hash = payment_hash, hs_claimer_pubkey_hash160 = claimer,
       hs_refunder_pubkey_hash160 = refunder, hs_refund_lock_height = refund_lock_height\<rparr>)"

definition p2wsh_address :: "'w env \<Rightarrow> htlc_spec \<Rightarrow> string \<Rightarrow> address" where
  "p2wsh_address ev spec params = ev_p2wsh ev (witness_script (ev_script ev) spec) params"

text \<open>The task up to the record it will store.\<close>

definition fund_swap ::
  "'w env \<Rightarrow> swap_service_config \<Rightarrow> swap_plan \<Rightarrow> string \<Rightarrow> string \<Rightarrow> bytes \<Rightarrow> ('w, swap_record \<times> bytes \<times> txid) io" where
  "fund_swap ev cfg plan swap_id invoice payment_hash =
     (let quote = sp_quote plan; direction = qr_direction quote in
      bind_run (ctx ''sync wallet'' (sync ev)) (\<lambda>_.
      bind_run (tip_height ev) (\<lambda>tip.
      let refund_lock_height = saturating_add tip (cf_refund_delta_blocks cfg) in
      bind_run (ctx ''get seller refund address'' (address_at ev (cf_seller_key_index cfg))) (\<lambda>seller_refund_address.
      bind_run (ctx ''extract seller pubkey hash''
                 (lift_run (map_err CHtlc (pubkey_hash160_from_p2wpkh_address seller_refund_address)))) (\<lambda>seller_hash.
      let spec = swap_htlc direction payment_hash (sp_buyer_hash plan) seller_hash refund_lock_height;
          script = witness_script (ev_script ev) spec;
          htlc_address = p2wsh_address ev spec (ev_address_params ev) in
      bind_run (ctx ''fund htlc''
                 (build_and_broadcast_funding ev htlc_address (cf_sell_asset_id cfg)
                    (qr_asset_amount quote) (cf_fee_subsidy_sats cfg))) (\<lambda>(_, funding_txid, asset_vout, lbtc_vout).
      let record =
        \<lparr>sr_swap_id = swap_id, sr_quote_id = qr_quote_id quote, sr_direction = direction,
         sr_bolt11_invoice = invoice, sr_payment_hash = ev_hex_encode ev payment_hash,
         sr_asset_id = ev_asset_to_string ev (cf_sell_asset_id cfg),
         sr_asset_amount = qr_asset_amount quote, sr_total_price_msat = qr_total_price_msat quote,
         sr_buyer_liquid_address = ad_string (sp_address plan),
         sr_fee_subsidy_sats = cf_fee_subsidy_sats cfg, sr_refund_lock_height = refund_lock_height,
         sr_p2wsh_address = ad_string htlc_address,
         sr_witness_script_hex = ev_hex_encode ev script,
         sr_funding_txid = ev_txid_to_string ev funding_txid,
         sr_asset_vout = asset_vout, sr_lbtc_vout = lbtc_vout,
         sr_min_funding_confs = qr_min_funding_confs quote,
         sr_ln_payment_id = None, sr_ln_preimage_hex = None, sr_claim_txid = None,
         sr_status = Created\<rparr> in
      return_run (record, ad_script_pubkey htlc_address, funding_txid)))))))"

text \<open>Funding, then the two writes under the store lock.\<close>

definition fund_and_record ::
  "'w env \<Rightarrow> swap_service_config \<Rightarrow> swap_plan \<Rightarrow> string \<Rightarrow> string \<Rightarrow> bytes \<Rightarrow> ('w, swap_record \<times> bytes \<times> txid) io" where
  "fund_and_record ev cfg plan swap_id invoice payment_hash =
     bind_run (fund_swap ev cfg plan swap_id invoice payment_hash) (\<lambda>(record, htlc_spk, funding_txid).
     bind_run (ctx ''persist swap'' (store_run ev (\<lambda>v. insert_swap v record))) (\<lambda>_.
     bind_run (ctx ''link quote to swap''
                (store_run ev (\<lambda>v. set_quote_swap_id v (qr_quote_id (sp_quote plan)) swap_id))) (\<lambda>_.
     return_run (record, htlc_spk, funding_txid))))"

section \<open>CreateSwap: waiting and marking\<close>

definition wait_for_funding_confirmations :: "'w env \<Rightarrow> bytes \<Rightarrow> txid \<Rightarrow> u32 \<Rightarrow> nat \<Rightarrow> ('w, u32) io" where
  "wait_for_funding_confirmations =
     wait_confirmations ''get funding tx confirmations'' ''timeout waiting funding confirmations: txid=''"

definition mark_funded :: "'w env \<Rightarrow> swap_record \<Rightarrow> ('w, swap_record) io" where
  "mark_funded ev record =
     bind_run (ctx ''update swap status'' (store_run ev (\<lambda>v. update_swap_status v (sr_swap_id record) Funded))) (\<lambda>_.
     return_run (record\<lparr>sr_status := Funded\<rparr>))"

text \<open>What the task does once the swap is on record: wait at most 300 seconds, then mark.\<close>

definition confirm_funded :: "'w env \<Rightarrow> swap_record \<Rightarrow> bytes \<Rightarrow> txid \<Rightarrow> u32 \<Rightarrow> ('w, swap_record) io" where
  "confirm_funded ev record htlc_spk funding_txid min_confs =
     bind_run (ctx ''wait funding confirmations''
                (wait_for_funding_confirmations ev htlc_spk funding_txid min_confs (300 * SECOND))) (\<lambda>_.
     mark_funded ev record)"

text \<open>The blocking task.\<close>

definition create_swap_task ::
  "'w env \<Rightarrow> swap_service_config \<Rightarrow> swap_plan \<Rightarrow> string \<Rightarrow> string \<Rightarrow> bytes \<Rightarrow> ('w, swap_record) io" where
  "create_swap_task ev cfg plan swap_id invoice payment_hash =
     bind_run (fund_and_record ev cfg plan swap_id invoice payment_hash) (\<lambda>(record, htlc_spk, funding_txid).
     confirm_funded ev record htlc_spk funding_txid (qr_min_funding_confs (sp_quote plan)))"

lemmas create_swap_task_parts = create_swap_task_def confirm_funded_def

definition create_swap ::
  "'w env \<Rightarrow> swap_service_config \<Rightarrow> create_swap_request request \<Rightarrow> ('w, pb_swap) handler" where
  "create_swap ev cfg request =
     bind_run (check_create_swap ev cfg request) (\<lambda>checked.
     case checked of
       Inl swap \<Rightarrow> return_run swap
     | Inr plan \<Rightarrow>
         bind_run (uuid_run ev) (\<lambda>swap_id.
         bind_run (swap_invoice ev (rq_message request) (sp_quote plan) swap_id) (\<lambda>(invoice, payment_hash).
         bind_run (internal ''create swap: '' (create_swap_task ev cfg plan swap_id invoice payment_hash)) (\<lambda>record.
         internal ''encode swap: '' (lift_run (swap_record_to_proto ev record))))))"

section \<open>CreateLightningPayment\<close>

text \<open>The part the two handlers on a swap share: authenticate, find the swap, check the role.\<close>

definition load_swap ::
  "'w env \<Rightarrow> swap_service_config \<Rightarrow> 'm request \<Rightarrow> string \<Rightarrow> ('w, caller_role \<times> swap_record) handler" where
  "load_swap ev cfg request swap_id =
     bind_run (authorized (require_authenticated ev cfg request)) (\<lambda>caller.
     bind_run (require (trim swap_id \<noteq> []) InvalidArgument ''swap_id is required'') (\<lambda>_.
     bind_run (internal ''get swap: '' (store_run ev (\<lambda>v. get_swap v swap_id))) (\<lambda>found.
     bind_run (lift_run (ok_or (Status NotFound (Text ''swap not found'')) found)) (\<lambda>record.
     return_run (caller, record)))))"

definition payment_timeout :: "u32 \<Rightarrow> nat" where
  "payment_timeout secs =
     (if secs = 0 then unat DEFAULT_PAYMENT_TIMEOUT_SECS else unat secs) * SECOND"

definition hash_matches :: "'w env \<Rightarrow> swap_record \<Rightarrow> bytes \<Rightarrow> ('w, unit) handler" where
  "hash_matches ev record preimage =
     bind_run (internal [] (lib_run (ev_hex_decode ev (sr_payment_hash record)))) (\<lambda>expected_payment_hash.
     bind_run (require (length expected_payment_hash = 32) Internal ''payment_hash must be 32 bytes'') (\<lambda>_.
     require (sha256_preimage (ev_crypto ev) preimage = expected_payment_hash) Internal
       ''preimage hash mismatch''))"

text \<open>Paying: from the swap that is funded and not yet paid to the persisted preimage.\<close>

definition pay_swap :: "'w env \<Rightarrow> swap_record \<Rightarrow> u32 \<Rightarrow> ('w, lightning_payment) handler" where
  "pay_swap ev record timeout_secs =
     bind_run (internal ''pay invoice: '' (pay_invoice ev (sr_bolt11_invoice record))) (\<lambda>payment_id.
     bind_run (internal ''wait preimage: '' (wait_preimage ev payment_id (payment_timeout timeout_secs))) (\<lambda>preimage.
     bind_run (hash_matches ev record preimage) (\<lambda>_.
     let preimage_hex = ev_hex_encode ev preimage in
     bind_run (internal ''persist payment: ''
                (store_run ev (\<lambda>v. upsert_swap_payment v (sr_swap_id record) payment_id preimage_hex Paid))) (\<lambda>_.
     lift_run (case ev_hex_decode ev preimage_hex of
         Inl _ \<Rightarrow> Inl (Panicked ''hex encoding/decoding of preimage must roundtrip'')
       | Inr bs \<Rightarrow> Inr \<lparr>pay_payment_id = payment_id, pay_preimage = bs\<rparr>)))))"

text \<open>
  The checks before paying: a payment on record is answered again (\<open>Inl\<close>), otherwise the
  swap must be funded (\<open>Inr\<close>).
\<close>

definition check_payment ::
  "'w env \<Rightarrow> swap_service_config \<Rightarrow> create_lightning_payment_request request \<Rightarrow> ('w, lightning_payment + swap_record) handler" where
  "check_payment ev cfg request =
     bind_run (load_swap ev cfg request (lp_swap_id (rq_message request))) (\<lambda>(caller, record).
      let parties = parties_for_direction (direction_to_proto (sr_direction record));
          ln_payer = role_or_unspecified (pa_ln_payer parties) in
      bind_run (authorized (require_swap_role caller ln_payer ''ln_payer'')) (\<lambda>_.
      case (sr_ln_payment_id record, sr_ln_preimage_hex record) of
        (Some payment_id, Some preimage_hex) \<Rightarrow>
          bind_run (internal ''decode preimage_hex: '' (lib_run (ev_hex_decode ev preimage_hex))) (\<lambda>preimage.
          return_run (Inl \<lparr>pay_payment_id = payment_id, pay_preimage = preimage\<rparr>))
      | _ \<Rightarrow>
          bind_run (require (sr_status record = Funded) FailedPrecondition ''swap is not funded'') (\<lambda>_.
          return_run (Inr record))))"

definition create_lightning_payment ::
  "'w env \<Rightarrow> swap_service_config \<Rightarrow> create_lightning_payment_request request \<Rightarrow> ('w, lightning_payment) handler" where
  "create_lightning_payment ev cfg request =
     bind_run (check_payment ev cfg request) (\<lambda>checked.
     case checked of
       Inl payment \<Rightarrow> return_run payment
     | Inr record \<Rightarrow> pay_swap ev record (lp_payment_timeout_secs (rq_message request)))"

section \<open>CreateAssetClaim\<close>

definition claim_task ::
  "'w env \<Rightarrow> swap_service_config \<Rightarrow> swap_record \<Rightarrow> bytes \<Rightarrow> u64 \<Rightarrow> ('w, string) io" where
  "claim_task ev cfg record preimage claim_fee_sats =
     bind_run (ctx ''sync liquid wallet'' (sync ev)) (\<lambda>_.
     let (claimer_key_index, expected_address) = (case sr_direction record of
           LnToLiquid \<Rightarrow> (cf_buyer_key_index cfg, Some (sr_buyer_liquid_address record))
         | LiquidToLn \<Rightarrow> (cf_seller_key_index cfg, None)) in
     bind_run (ctx ''get claimer receive address'' (address_at ev claimer_key_index)) (\<lambda>claimer_receive.
     bind_run (ensure_run (case expected_address of
                   Some expected \<Rightarrow> ad_string claimer_receive = expected | None \<Rightarrow> True)
                 (CMsg ''buyer_liquid_address mismatch'')) (\<lambda>_.
     bind_run (ctx ''derive claimer secret key'' (derive_secret_key ev claimer_key_index)) (\<lambda>claimer_secret_key.
     bind_run (lift_run (map_err (\<lambda>e. CMsg (''parse witness_script_hex: '' @ e))
                 (ev_script_from_str ev (sr_witness_script_hex record)))) (\<lambda>script.
     bind_run (ctx ''parse funding_txid'' (lib_run (ev_txid_from_str ev (sr_funding_txid record)))) (\<lambda>funding_txid.
     bind_run (ctx ''parse asset_id'' (lib_run (ev_asset_from_str ev (sr_asset_id record)))) (\<lambda>asset_id.
     let funding =
       \<lparr>hf_funding_txid = funding_txid, hf_asset_vout = sr_asset_vout record,
        hf_lbtc_vout = sr_lbtc_vout record, hf_asset_id = asset_id,
        hf_asset_amount = sr_asset_amount record, hf_policy_asset = ev_policy_asset ev,
        hf_fee_subsidy_sats = sr_fee_subsidy_sats record\<rparr> in
     bind_run (ctx ''build claim tx''
                (lift_run (map_err CHtlc (claim_tx_from_witness_script (ev_crypto ev) script funding
                   claimer_receive claimer_secret_key preimage claim_fee_sats)))) (\<lambda>tx.
     bind_run (ctx ''broadcast claim tx'' (broadcast_transaction ev tx)) (\<lambda>txid.
     bind_run (ctx ''persist claim''
                (store_run ev (\<lambda>v. upsert_swap_claim v (sr_swap_id record) (ev_txid_to_string ev txid) Claimed))) (\<lambda>_.
     return_run (ev_txid_to_string ev txid)))))))))))"

text \<open>
  The checks before claiming: a claim on record is answered again (\<open>Inl\<close>), otherwise the
  preimage must be on record (\<open>Inr\<close>).
\<close>

definition check_claim ::
  "'w env \<Rightarrow> swap_service_config \<Rightarrow> create_asset_claim_request request \<Rightarrow> ('w, asset_claim + swap_record \<times> bytes) handler" where
  "check_claim ev cfg request =
     bind_run (load_swap ev cfg request (ac_swap_id (rq_message request))) (\<lambda>(caller, record).
      let parties = parties_for_direction (direction_to_proto (sr_direction record));
          liquid_claimer = role_or_unspecified (pa_liquid_claimer parties) in
      bind_run (authorized (require_swap_role caller liquid_claimer ''liquid_claimer'')) (\<lambda>_.
      case sr_claim_txid record of
        Some claim_txid \<Rightarrow> return_run (Inl \<lparr>ac_claim_txid = claim_txid\<rparr>)
      | None \<Rightarrow>
          bind_run (lift_run (ok_or (Status FailedPrecondition (Text ''swap has not been paid yet''))
                      (sr_ln_preimage_hex record))) (\<lambda>preimage_hex.
          bind_run (internal ''decode preimage_hex: '' (lib_run (ev_hex_decode ev preimage_hex))) (\<lambda>preimage.
          bind_run (require (length preimage = 32) Internal ''preimage must be 32 bytes'') (\<lambda>_.
          return_run (Inr (record, preimage)))))))"

definition claim_fee :: "create_asset_claim_request \<Rightarrow> u64" where
  "claim_fee req = (if ac_claim_fee_sats req = 0 then DEFAULT_CLAIM_FEE_SATS else ac_claim_fee_sats req)"

definition create_asset_claim ::
  "'w env \<Rightarrow> swap_service_config \<Rightarrow> create_asset_claim_request request \<Rightarrow> ('w, asset_claim) handler" where
  "create_asset_claim ev cfg request =
     bind_run (check_claim ev cfg request) (\<lambda>checked.
     case checked of
       Inl claim \<Rightarrow> return_run claim
     | Inr (record, preimage) \<Rightarrow>
         bind_run (internal ''claim asset: ''
                     (claim_task ev cfg record preimage (claim_fee (rq_message request)))) (\<lambda>claim_txid.
         return_run \<lparr>ac_claim_txid = claim_txid\<rparr>))"

section \<open>The handlers in one piece\<close>

lemma create_lightning_payment_unfold:
  "create_lightning_payment ev cfg request =
     (let req = rq_message request in
      bind_run (load_swap ev cfg request (lp_swap_id req)) (\<lambda>(caller, record).
      let parties = parties_for_direction (direction_to_proto (sr_direction record));
          ln_payer = role_or_unspecified (pa_ln_payer parties) in
      bind_run (authorized (require_swap_role caller ln_payer ''ln_payer'')) (\<lambda>_.
      case (sr_ln_payment_id record, sr_ln_preimage_hex record) of
        (Some payment_id, Some preimage_hex) \<Rightarrow>
          bind_run (internal ''decode preimage_hex: '' (lib_run (ev_hex_decode ev preimage_hex))) (\<lambda>preimage.
          return_run \<lparr>pay_payment_id = payment_id, pay_preimage = preimage\<rparr>)
      | _ \<Rightarrow>
          bind_run (require (sr_status record = Funded) FailedPrecondition ''swap is not funded'') (\<lambda>_.
          pay_swap ev record (lp_payment_timeout_secs req)))))"
  by (rule ext) (simp add: create_lightning_payment_def check_payment_def bind_run_def Let_def
      split: option.split sum.split prod.split)

lemma create_asset_claim_unfold:
  "create_asset_claim ev cfg request =
     (let req = rq_message request in
      bind_run (load_swap ev cfg request (ac_swap_id req)) (\<lambda>(caller, record).
      let parties = parties_for_direction (direction_to_proto (sr_direction record));
          liquid_claimer = role_or_unspecified (pa_liquid_claimer parties) in
      bind_run (authorized (require_swap_role caller liquid_claimer ''liquid_claimer'')) (\<lambda>_.
      case sr_claim_txid record of
        Some claim_txid \<Rightarrow> return_run \<lparr>ac_claim_txid = claim_txid\<rparr>
      | None \<Rightarrow>
          bind_run (lift_run (ok_or (Status FailedPrecondition (Text ''swap has not been paid yet''))
                      (sr_ln_preimage_hex record))) (\<lambda>preimage_hex.
          bind_run (internal ''decode preimage_hex: '' (lib_run (ev_hex_decode ev preimage_hex))) (\<lambda>preimage.
          bind_run (require (length preimage = 32) Internal ''preimage must be 32 bytes'') (\<lambda>_.
          let claim_fee_sats = (if ac_claim_fee_sats req = 0 then DEFAULT_CLAIM_FEE_SATS
                                else ac_claim_fee_sats req) in
          bind_run (internal ''claim asset: '' (claim_task ev cfg record preimage claim_fee_sats)) (\<lambda>claim_txid.
          return_run \<lparr>ac_claim_txid = claim_txid\<rparr>)))))))"
  by (rule ext) (simp add: create_asset_claim_def check_claim_def claim_fee_def bind_run_def Let_def
      split: option.split sum.split prod.split)

end
