(* ===== verification/Store_Schema.thy ===== *)
theory Store_Schema
  imports Swap_Store
begin

text \<open>
  \<open>SqliteStore::open\<close> of \<open>src/swap/store.rs\<close>: creating the tables and indexes and
  adding the columns older databases lack. The engine gives a verdict for each statement, by
  the statement's place in the migration. The lemmas show what a fresh, an up-to-date and an
  older database become, and that one older form can not be opened.
\<close>

section \<open>The schema\<close>

definition text_column :: "string \<Rightarrow> column_decl" where
  "text_column n = \<lparr>cd_name = n, cd_not_null = False, cd_default = None, cd_primary = False\<rparr>"

definition required_column :: "string \<Rightarrow> column_decl" where
  "required_column n = \<lparr>cd_name = n, cd_not_null = True, cd_default = None, cd_primary = False\<rparr>"

definition default_column :: "string \<Rightarrow> sql_value \<Rightarrow> column_decl" where
  "default_column n v = \<lparr>cd_name = n, cd_not_null = True, cd_default = Some v, cd_primary = False\<rparr>"

definition key_column :: "string \<Rightarrow> column_decl" where
  "key_column n = \<lparr>cd_name = n, cd_not_null = False, cd_default = None, cd_primary = True\<rparr>"

definition quotes_decls :: "column_decl list" where
  "quotes_decls =
     [key_column ''quote_id'', required_column ''offer_id'', required_column ''direction'',
      required_column ''asset_id'', required_column ''asset_amount'',
      required_column ''min_funding_confs'', required_column ''total_price_msat'',
      required_column ''price_msat_per_asset_unit'', required_column ''fee_subsidy_sats'',
      required_column ''refund_delta_blocks'', required_column ''invoice_expiry_secs'',
      required_column ''max_min_funding_confs'', text_column ''swap_id'']"

definition swaps_decls :: "column_decl list" where
  "swaps_decls =
     [key_column ''swap_id'', default_column ''quote_id'' (SqlText ''''),
      required_column ''direction'', required_column ''bolt11_invoice'',
      required_column ''payment_hash'', required_column ''asset_id'',
      required_column ''asset_amount'', default_column ''total_price_msat'' (SqlInt 0),
      required_column ''buyer_liquid_address'', required_column ''fee_subsidy_sats'',
      required_column ''refund_lock_height'', required_column ''p2wsh_address'',
      required_column ''witness_script_hex'', required_column ''funding_txid'',
      required_column ''asset_vout'', required_column ''lbtc_vout'',
      required_column ''min_funding_confs'', text_column ''ln_payment_id'',
      text_column ''ln_preimage_hex'', text_column ''claim_txid'', required_column ''status'']"

section \<open>The statements\<close>

definition executed :: "string option \<Rightarrow> 'a \<Rightarrow> 'a \<Rightarrow> (store_error + unit) \<times> 'a" where
  "executed engine before after =
     (case engine of Some e \<Rightarrow> (Inl (EngineError e), before) | None \<Rightarrow> (Inr (), after))"

definition create_table :: "string option \<Rightarrow> column_decl list \<Rightarrow> table option \<Rightarrow> (store_error + unit) \<times> table option" where
  "create_table engine decls tbl = executed engine tbl (create_if_missing decls tbl)"

definition create_index :: "string option \<Rightarrow> string \<Rightarrow> string \<Rightarrow> (database \<Rightarrow> table option) \<Rightarrow> unit store_op" where
  "create_index engine name col tbl_of = (\<lambda>db.
     case tbl_of db of
       None \<Rightarrow> Some (Inl NoSuchTable, db)
     | Some t \<Rightarrow>
         if name \<in> set (db_indexes db) then Some (Inr (), db)
         else if col \<notin> set (column_names t) then Some (Inl (NoSuchColumn col), db)
         else Some (executed engine db (db\<lparr>db_indexes := name # db_indexes db\<rparr>)))"

text \<open>\<open>PRAGMA table_info\<close>: the column names, none when there is no such table.\<close>

definition table_columns :: "string option \<Rightarrow> table option \<Rightarrow> store_error + string list" where
  "table_columns engine tbl =
     (case engine of
        Some e \<Rightarrow> Inl (EngineError e)
      | None \<Rightarrow> Inr (case tbl of None \<Rightarrow> [] | Some t \<Rightarrow> column_names t))"

definition alter_add_column :: "string option \<Rightarrow> column_decl \<Rightarrow> table option \<Rightarrow> (store_error + unit) \<times> table option" where
  "alter_add_column engine d tbl =
     (case tbl of
        None \<Rightarrow> (Inl NoSuchTable, tbl)
      | Some t \<Rightarrow>
          if cd_name d \<in> set (column_names t) then (Inl (DuplicateColumn (cd_name d)), tbl)
          else if cd_not_null d \<and> (cd_default d = None \<or> cd_default d = Some SqlNull) \<and> tb_rows t \<noteq> []
            then (Inl (NotNullViolation (cd_name d)), tbl)
          else executed engine tbl (Some (add_column d t)))"

definition ensure_column :: "string option \<Rightarrow> string list \<Rightarrow> column_decl \<Rightarrow> table option \<Rightarrow> (store_error + unit) \<times> table option" where
  "ensure_column engine columns d tbl =
     (if cd_name d \<in> set columns then (Inr (), tbl) else alter_add_column engine d tbl)"

section \<open>The migration\<close>

definition migrated_swap_columns :: "column_decl list" where
  "migrated_swap_columns =
     [default_column ''quote_id'' (SqlText ''''),
      default_column ''direction'' (SqlText ''ln_to_liquid''),
      default_column ''total_price_msat'' (SqlInt 0),
      default_column ''buyer_liquid_address'' (SqlText ''''),
      text_column ''ln_payment_id'', text_column ''ln_preimage_hex'', text_column ''claim_txid'']"

definition migrated_quote_columns :: "column_decl list" where
  "migrated_quote_columns =
     [default_column ''direction'' (SqlText ''ln_to_liquid''), text_column ''swap_id'']"

text \<open>The run of \<open>ensure_column(...)?\<close> calls over one table, numbered from \<open>i\<close>.\<close>

fun ensure_each ::
  "(nat \<Rightarrow> string option) \<Rightarrow> nat \<Rightarrow> string list \<Rightarrow> column_decl list \<Rightarrow> table option \<Rightarrow> (store_error + unit) \<times> table option" where
  "ensure_each engine i columns [] tbl = (Inr (), tbl)"
| "ensure_each engine i columns (d # ds) tbl =
     (case ensure_column (engine i) columns d tbl of
        (Inl e, tbl') \<Rightarrow> (Inl e, tbl')
      | (Inr _, tbl') \<Rightarrow> ensure_each engine (Suc i) columns ds tbl')"

definition ensure_columns :: "(nat \<Rightarrow> string option) \<Rightarrow> unit store_op" where
  "ensure_columns engine =
     bind_run (on_swaps (\<lambda>t. (table_columns (engine 4) t, t))) (\<lambda>swaps_cols.
     bind_run (on_swaps (ensure_each engine 5 swaps_cols migrated_swap_columns)) (\<lambda>_.
     bind_run (on_quotes (\<lambda>t. (table_columns (engine 12) t, t))) (\<lambda>quotes_cols.
     on_quotes (ensure_each engine 13 quotes_cols migrated_quote_columns))))"

definition migrate :: "(nat \<Rightarrow> string option) \<Rightarrow> unit store_op" where
  "migrate engine =
     bind_run (on_quotes (create_table (engine 0) quotes_decls)) (\<lambda>_.
     bind_run (create_index (engine 1) ''quotes_swap_id_idx'' ''swap_id'' db_quotes) (\<lambda>_.
     bind_run (on_swaps (create_table (engine 2) swaps_decls)) (\<lambda>_.
     bind_run (create_index (engine 3) ''swaps_status_idx'' ''status'' db_swaps) (\<lambda>_.
     ensure_columns engine))))"

text \<open>
  \<open>open\<close>: the directory of the path, when it has one, the connection, its busy timeout and
  its pragmas can each fail (\<open>os i\<close>); then the migration.
\<close>

definition os_step :: "string option \<Rightarrow> unit store_op" where
  "os_step verdict = lift_run (case verdict of Some e \<Rightarrow> Inl (EngineError e) | None \<Rightarrow> Inr ())"

definition open_store :: "bool \<Rightarrow> (nat \<Rightarrow> string option) \<Rightarrow> (nat \<Rightarrow> string option) \<Rightarrow> unit store_op" where
  "open_store has_parent os engine =
     bind_run (if has_parent then os_step (os 0) else return_run ()) (\<lambda>_.
     bind_run (os_step (os 1)) (\<lambda>_.
     bind_run (os_step (os 2)) (\<lambda>_.
     bind_run (os_step (os 3)) (\<lambda>_.
     migrate engine))))"

section \<open>What the migration does\<close>

definition empty_database :: database where
  "empty_database = \<lparr>db_quotes = None, db_swaps = None, db_indexes = []\<rparr>"

lemmas column_defs = text_column_def required_column_def default_column_def key_column_def

lemma quotes_decls_names: "map cd_name quotes_decls = quote_cols"
  by (simp add: quotes_decls_def quote_cols_def column_defs)

lemma swaps_decls_names: "map cd_name swaps_decls = swap_cols"
  by (simp add: swaps_decls_def swap_cols_def column_defs)

lemma fresh_quotes_ok: "quote_rows.table_ok (Some \<lparr>tb_columns = quotes_decls, tb_rows = []\<rparr>)"
  by (simp add: quote_rows.table_ok_def table_fits_def column_names_def quotes_decls_names)
    (simp add: quotes_decls_def quote_cols_def column_defs)

lemma fresh_swaps_ok: "swap_rows.table_ok (Some \<lparr>tb_columns = swaps_decls, tb_rows = []\<rparr>)"
  by (simp add: swap_rows.table_ok_def table_fits_def column_names_def swaps_decls_names)
    (simp add: swaps_decls_def swap_cols_def column_defs)

lemma ensure_each_present:
  "list_all (\<lambda>d. cd_name d \<in> set columns) ds \<Longrightarrow> ensure_each engine i columns ds tbl = (Inr (), tbl)"
  by (induction ds arbitrary: i) (simp_all add: ensure_column_def)

lemma migrated_names:
  "list_all (\<lambda>d. cd_name d \<in> set swap_cols) migrated_swap_columns"
  "list_all (\<lambda>d. cd_name d \<in> set quote_cols) migrated_quote_columns"
  by (simp_all add: migrated_swap_columns_def migrated_quote_columns_def swap_cols_def quote_cols_def column_defs)

lemma list_all_subset: "list_all (\<lambda>d. f d \<in> A) ds \<Longrightarrow> A \<subseteq> B \<Longrightarrow> list_all (\<lambda>d. f d \<in> B) ds"
  by (auto simp: list_all_iff)

text \<open>A database that already has every column and index is left alone.\<close>

lemma migrate_current:
  assumes ok: "store_ok db" and ix: "{''quotes_swap_id_idx'', ''swaps_status_idx''} \<subseteq> set (db_indexes db)"
    and engine: "\<And>i. engine i = None"
  shows "migrate engine db = Some (Inr (), db)"
proof -
  from ok obtain q s where q: "db_quotes db = Some q" and s: "db_swaps db = Some s"
    and sub: "set quote_cols \<subseteq> set (column_names q)" "set swap_cols \<subseteq> set (column_names s)"
    by (rule store_ok_tables)
      (simp add: quote_rows.table_ok_def swap_rows.table_ok_def table_fits_def)
  have "db\<lparr>db_quotes := Some q\<rparr> = db" "db\<lparr>db_swaps := Some s\<rparr> = db" using q s by simp_all
  moreover note list_all_subset [OF migrated_names(1) sub(2)] list_all_subset [OF migrated_names(2) sub(1)]
  ultimately show ?thesis using ix
    by (simp add: migrate_def ensure_columns_def bind_run_def on_quotes_def on_swaps_def q s
        create_table_def executed_def engine create_if_missing_def create_index_def table_columns_def
        ensure_each_present)
qed

lemma migrate_fresh_db:
  assumes engine: "\<And>i. engine i = None"
  shows "migrate engine empty_database =
    Some (Inr (), \<lparr>db_quotes = Some \<lparr>tb_columns = quotes_decls, tb_rows = []\<rparr>,
                   db_swaps = Some \<lparr>tb_columns = swaps_decls, tb_rows = []\<rparr>,
                   db_indexes = [''swaps_status_idx'', ''quotes_swap_id_idx'']\<rparr>)"
proof -
  let ?q = "\<lparr>tb_columns = quotes_decls, tb_rows = []\<rparr>" and ?s = "\<lparr>tb_columns = swaps_decls, tb_rows = []\<rparr>"
  have names: "column_names ?q = quote_cols" "column_names ?s = swap_cols"
    by (simp_all add: column_names_def quotes_decls_names swaps_decls_names)
  have cols: "''swap_id'' \<in> set quote_cols" "''status'' \<in> set swap_cols"
    by (simp_all add: quote_cols_def swap_cols_def)
  show ?thesis
    by (simp add: migrate_def ensure_columns_def bind_run_def on_quotes_def on_swaps_def empty_database_def
        create_table_def executed_def engine create_if_missing_def create_index_def table_columns_def
        names cols ensure_each_present migrated_names)
qed

text \<open>
  The index over \<open>quotes(swap_id)\<close> is created before the column it needs is added, so a
  database whose quotes table lacks that column never gets it.
\<close>

lemma migrate_needs_quote_swap_id:
  assumes "db_quotes db = Some q" and "''swap_id'' \<notin> set (column_names q)"
    and "''quotes_swap_id_idx'' \<notin> set (db_indexes db)" and "migrate engine db = Some (r, db')"
  shows "r \<noteq> Inr ()" and "db_quotes db' = Some q"
  using assms
  by (auto simp: migrate_def bind_run_def on_quotes_def create_table_def executed_def
      create_if_missing_def create_index_def split: option.splits if_splits)

section \<open>Upgrading older tables\<close>

text \<open>
  A table of an earlier version lacks columns. Its rows are to be read with given values in
  place of the columns it lacks.
\<close>

definition with_values :: "(string \<rightharpoonup> sql_value) \<Rightarrow> table \<Rightarrow> row \<Rightarrow> row" where
  "with_values vals t row =
     (\<lambda>c. if c \<in> set (column_names t) then row c else case vals c of Some v \<Rightarrow> v | None \<Rightarrow> row c)"

text \<open>The values the columns a later version added stand for in older rows.\<close>

definition later_swap_values :: "string \<rightharpoonup> sql_value" where
  "later_swap_values =
     [''quote_id'' \<mapsto> SqlText [], ''direction'' \<mapsto> SqlText ''ln_to_liquid'', ''total_price_msat'' \<mapsto> SqlInt 0,
      ''buyer_liquid_address'' \<mapsto> SqlText [], ''ln_payment_id'' \<mapsto> SqlNull, ''ln_preimage_hex'' \<mapsto> SqlNull,
      ''claim_txid'' \<mapsto> SqlNull]"

definition later_quote_values :: "string \<rightharpoonup> sql_value" where
  "later_quote_values = [''direction'' \<mapsto> SqlText ''ln_to_liquid'', ''swap_id'' \<mapsto> SqlNull]"

definition addable :: "column_decl \<Rightarrow> bool" where
  "addable d \<longleftrightarrow> \<not> cd_not_null d \<or> (\<exists>v. cd_default d = Some v \<and> v \<noteq> SqlNull)"

definition added_value :: "column_decl \<Rightarrow> sql_value" where
  "added_value d = (case cd_default d of Some v \<Rightarrow> v | None \<Rightarrow> SqlNull)"

definition added_values :: "column_decl list \<Rightarrow> string \<rightharpoonup> sql_value" where
  "added_values ds = map_of (map (\<lambda>d. (cd_name d, added_value d)) ds)"

lemma added_swap_values: "added_values migrated_swap_columns = later_swap_values"
  by (simp add: added_values_def migrated_swap_columns_def later_swap_values_def added_value_def column_defs fun_eq_iff)

lemma added_quote_values: "added_values migrated_quote_columns = later_quote_values"
  by (simp add: added_values_def migrated_quote_columns_def later_quote_values_def added_value_def column_defs fun_eq_iff)

lemma add_column_names [simp]: "column_names (add_column d t) = column_names t @ [cd_name d]"
  by (simp add: column_names_def add_column_def)

lemma fold_add_columns:
  "tb_columns (fold add_column ds t) = tb_columns t @ ds"
  "column_names (fold add_column ds t) = column_names t @ map cd_name ds"
  by (induction ds arbitrary: t) (simp_all add: add_column_def, simp_all add: column_names_def)

lemma added_values_Cons: "added_values (d # ds) = (added_values ds)(cd_name d \<mapsto> added_value d)"
  by (simp add: added_values_def)

lemma added_values_None: "cd_name d \<notin> cd_name ` set ds \<Longrightarrow> added_values ds (cd_name d) = None"
  by (auto simp: added_values_def map_of_eq_None_iff)

lemma fold_add_rows:
  assumes "distinct (map cd_name ds)" and "\<And>d. d \<in> set ds \<Longrightarrow> cd_name d \<notin> set (column_names t)"
  shows "tb_rows (fold add_column ds t) = map (with_values (added_values ds) t) (tb_rows t)"
  using assms
proof (induction ds arbitrary: t)
  case Nil
  have "with_values (added_values []) t row = row" for row by (simp add: with_values_def added_values_def fun_eq_iff)
  then show ?case by (simp add: map_idI)
next
  case (Cons d ds)
  have new: "cd_name d \<notin> set (column_names t)" "cd_name d \<notin> cd_name ` set ds" using Cons.prems by auto
  have fresh: "cd_name d' \<notin> set (column_names (add_column d t))" if "d' \<in> set ds" for d'
    using that Cons.prems by (auto simp: image_iff)
  have "with_values (added_values ds) (add_column d t) (row(cd_name d := added_value d)) =
      with_values (added_values (d # ds)) t row" for row
    using new added_values_None [OF new(2)]
    by (auto simp: with_values_def added_values_Cons fun_eq_iff split: option.split)
  moreover have "tb_rows (add_column d t) = map (\<lambda>row. row(cd_name d := added_value d)) (tb_rows t)"
    by (simp add: add_column_def added_value_def)
  ultimately show ?case using Cons.IH [of "add_column d t"] Cons.prems fresh by simp
qed

lemma ensure_each_adds:
  assumes "\<And>i. engine i = None" and "distinct (map cd_name ds)" and "list_all addable ds"
    and "\<And>d. d \<in> set ds \<Longrightarrow> cd_name d \<notin> set columns \<Longrightarrow> cd_name d \<notin> set (column_names t)"
  shows "ensure_each engine i columns ds (Some t) =
     (Inr (), Some (fold add_column (filter (\<lambda>d. cd_name d \<notin> set columns) ds) t))"
  using assms(2-4)
proof (induction ds arbitrary: i t)
  case (Cons d ds)
  show ?case
  proof (cases "cd_name d \<in> set columns")
    case True
    then show ?thesis using Cons by (simp add: ensure_column_def)
  next
    case False
    then have "cd_name d \<notin> set (column_names t)" using Cons.prems by simp
    then have "ensure_column (engine i) columns d (Some t) = (Inr (), Some (add_column d t))"
      using False Cons.prems(2) assms(1)
      by (auto simp: ensure_column_def alter_add_column_def executed_def addable_def)
    moreover have "ensure_each engine (Suc i) columns ds (Some (add_column d t)) =
        (Inr (), Some (fold add_column (filter (\<lambda>d. cd_name d \<notin> set columns) ds) (add_column d t)))"
      using Cons.prems by (intro Cons.IH) (auto, metis imageI)
    ultimately show ?thesis using False by simp
  qed
qed simp

context row_codec
begin

text \<open>An older table: what it lacks is among the later columns, and its rows read with their values.\<close>

definition older_table :: "(string \<rightharpoonup> sql_value) \<Rightarrow> table \<Rightarrow> bool" where
  "older_table vals t \<longleftrightarrow>
     set cols \<subseteq> set (column_names t) \<union> dom vals \<and> key \<in> set (column_names t) \<and>
     filter cd_primary (tb_columns t) \<noteq> [] \<and>
     list_all (\<lambda>d. cd_primary d \<longrightarrow> cd_name d = key) (tb_columns t) \<and>
     list_all (\<lambda>d. cd_not_null d \<longrightarrow> cd_name d \<in> set cols \<and> cd_name d \<notin> set nullable) (tb_columns t) \<and>
     distinct (map (\<lambda>r. r key) (tb_rows t)) \<and>
     (\<forall>row\<in>set (tb_rows t). \<exists>r. holds (with_values vals t row) r)"

text \<open>Columns that can be added to it.\<close>

definition later_columns :: "column_decl list \<Rightarrow> bool" where
  "later_columns ds \<longleftrightarrow>
     distinct (map cd_name ds) \<and> list_all addable ds \<and> list_all (\<lambda>d. \<not> cd_primary d) ds \<and>
     list_all (\<lambda>d. cd_not_null d \<longrightarrow> cd_name d \<in> set cols \<and> cd_name d \<notin> set nullable) ds"

lemma older_upgrade:
  fixes t :: table
  defines "new ds \<equiv> filter (\<lambda>d. cd_name d \<notin> set (column_names t)) ds"
  assumes engine: "\<And>i. engine i = None" and old: "older_table (added_values ds) t" and ds: "later_columns ds"
  shows "\<exists>t'. ensure_each engine i (column_names t) ds (Some t) = (Inr (), Some t') \<and> table_ok (Some t') \<and>
    (\<forall>k r. records (Some t') k = Some r \<longleftrightarrow>
       (\<exists>row\<in>set (tb_rows t). holds (with_values (added_values ds) t row) r \<and> key_of r = k))"
proof -
  let ?t = "fold add_column (new ds) t"
  have run: "ensure_each engine i (column_names t) ds (Some t) = (Inr (), Some ?t)"
    unfolding new_def using ds by (intro ensure_each_adds engine) (auto simp: later_columns_def)
  have dist: "distinct (map cd_name (new ds))"
    using ds by (auto simp: later_columns_def new_def distinct_map inj_on_def)
  have vals: "added_values (new ds) c = (if c \<in> set (column_names t) then None else added_values ds c)" for c
    unfolding new_def by (induction ds) (auto simp: added_values_def)
  have "with_values (added_values (new ds)) t = with_values (added_values ds) t"
    by (auto simp: with_values_def vals fun_eq_iff)
  then have rows: "tb_rows ?t = map (with_values (added_values ds) t) (tb_rows t)"
    using fold_add_rows [OF dist, of t] by (simp add: new_def)
  have keys: "with_values (added_values ds) t row key = row key" for row
    using old by (simp add: older_table_def with_values_def)
  have "dom (added_values ds) = cd_name ` set ds" by (auto simp: added_values_def dom_map_of_conv_image_fst image_image)
  then have "set cols \<subseteq> set (column_names ?t)"
    using old by (auto simp: older_table_def fold_add_columns new_def)
  then have ok: "table_ok (Some ?t)"
    using old ds
    by (simp add: table_ok_def table_fits_def older_table_def later_columns_def fold_add_columns rows keys o_def)
      (auto simp: list_all_iff new_def)
  from run ok show ?thesis
    by (intro exI [of _ ?t]) (auto simp: records_Some [OF ok] rows)
qed

lemma older_names: "older_table vals t \<Longrightarrow> c \<in> set cols \<Longrightarrow> c \<notin> dom vals \<Longrightarrow> c \<in> set (column_names t)"
  by (auto simp: older_table_def)

end

lemma later_swap_columns: "swap_rows.later_columns migrated_swap_columns"
  unfolding swap_rows.later_columns_def
  by (simp add: migrated_swap_columns_def column_defs addable_def swap_cols_def)

lemma later_quote_columns: "quote_rows.later_columns migrated_quote_columns"
  unfolding quote_rows.later_columns_def
  by (simp add: migrated_quote_columns_def column_defs addable_def quote_cols_def)

text \<open>A table with every column is one of them.\<close>

lemma fresh_quotes_older: "quote_rows.older_table later_quote_values \<lparr>tb_columns = quotes_decls, tb_rows = []\<rparr>"
  unfolding quote_rows.older_table_def column_names_def
  by (simp add: quotes_decls_def quote_cols_def column_defs)

text \<open>
  A file of an earlier version: a swaps table, and a quotes table if quotes were there, with
  \<open>swap_id\<close> since the index on it needs that column.
\<close>

definition older_file :: "database \<Rightarrow> bool" where
  "older_file db \<longleftrightarrow>
     (\<exists>s. db_swaps db = Some s \<and> swap_rows.older_table later_swap_values s) \<and>
     (\<forall>q. db_quotes db = Some q \<longrightarrow>
        quote_rows.older_table later_quote_values q \<and> ''swap_id'' \<in> set (column_names q))"

text \<open>What its rows stand for.\<close>

definition old_swap :: "database \<Rightarrow> string \<Rightarrow> swap_record \<Rightarrow> bool" where
  "old_swap db k r \<longleftrightarrow>
     (\<exists>s row. db_swaps db = Some s \<and> row \<in> set (tb_rows s) \<and>
        swap_rows.holds (with_values later_swap_values s row) r \<and> sr_swap_id r = k)"

definition old_quote :: "database \<Rightarrow> string \<Rightarrow> quote_record \<Rightarrow> bool" where
  "old_quote db k r \<longleftrightarrow>
     (\<exists>q row. db_quotes db = Some q \<and> row \<in> set (tb_rows q) \<and>
        quote_rows.holds (with_values later_quote_values q row) r \<and> qr_quote_id r = k)"

lemma migrate_upgrade:
  assumes engine: "\<And>i. engine i = None" and older: "older_file db"
  shows "\<exists>db'. migrate engine db = Some (Inr (), db') \<and> store_ok db' \<and>
    (\<forall>k r. swaps db' k = Some r \<longleftrightarrow> old_swap db k r) \<and> (\<forall>k r. quotes db' k = Some r \<longleftrightarrow> old_quote db k r)"
proof -
  obtain s where s: "db_swaps db = Some s" "swap_rows.older_table later_swap_values s"
    using older unfolding older_file_def by blast
  define q where "q = (case db_quotes db of Some q \<Rightarrow> q | None \<Rightarrow> \<lparr>tb_columns = quotes_decls, tb_rows = []\<rparr>)"
  have "''swap_id'' \<in> set (map cd_name quotes_decls)" by (simp add: quotes_decls_names) (simp add: quote_cols_def)
  then have q: "quote_rows.older_table later_quote_values q" "''swap_id'' \<in> set (column_names q)"
    using older fresh_quotes_older
    by (auto simp: older_file_def q_def column_names_def split: option.splits)
  have made: "create_if_missing quotes_decls (db_quotes db) = Some q"
    by (simp add: create_if_missing_def q_def split: option.split)
  have quotes_of: "old_quote db k r \<longleftrightarrow>
      (\<exists>row\<in>set (tb_rows q). quote_rows.holds (with_values later_quote_values q row) r \<and> qr_quote_id r = k)" for k r
    by (auto simp: old_quote_def q_def split: option.splits)
  have status: "''status'' \<in> set (column_names s)"
    by (rule swap_rows.older_names [OF s(2)]) (simp_all add: swap_cols_def later_swap_values_def)
  obtain s' where s': "ensure_each engine 5 (column_names s) migrated_swap_columns (Some s) = (Inr (), Some s')"
    "swap_rows.table_ok (Some s')"
    "\<forall>k r. swap_rows.records (Some s') k = Some r \<longleftrightarrow>
       (\<exists>row\<in>set (tb_rows s). swap_rows.holds (with_values later_swap_values s row) r \<and> sr_swap_id r = k)"
    using swap_rows.older_upgrade [OF _ _ later_swap_columns, where engine = engine and t = s and i = 5, OF engine] s(2) by (auto simp: added_swap_values)
  obtain q' where q': "ensure_each engine 13 (column_names q) migrated_quote_columns (Some q) = (Inr (), Some q')"
    "quote_rows.table_ok (Some q')"
    "\<forall>k r. quote_rows.records (Some q') k = Some r \<longleftrightarrow>
       (\<exists>row\<in>set (tb_rows q). quote_rows.holds (with_values later_quote_values q row) r \<and> qr_quote_id r = k)"
    using quote_rows.older_upgrade [OF _ _ later_quote_columns, where engine = engine and t = q and i = 13, OF engine] q(1) by (auto simp: added_quote_values)
  define add where "add name ix = (if name \<in> set ix then ix else name # ix)" for name :: string and ix
  have index: "create_index None name col tbl_of db' = Some (Inr (), db'\<lparr>db_indexes := add name (db_indexes db')\<rparr>)"
    if "tbl_of db' = Some t" "col \<in> set (column_names t)" for name col tbl_of db' t
    using that by (simp add: create_index_def add_def executed_def engine)
  let ?ix = "add ''swaps_status_idx'' (add ''quotes_swap_id_idx'' (db_indexes db))"
  have "create_if_missing swaps_decls (Some s) = Some s" by (simp add: create_if_missing_def)
  then have run: "migrate engine db = Some (Inr (), db\<lparr>db_quotes := Some q', db_swaps := Some s', db_indexes := ?ix\<rparr>)"
    by (simp add: migrate_def ensure_columns_def bind_run_def on_quotes_def on_swaps_def s(1) made
        create_table_def executed_def engine index [where t = q] index [where t = s]
        table_columns_def s'(1) q'(1) q(2) status)
  then show ?thesis
    using s' q' s(1) by (auto simp: store_ok_def quotes_def swaps_def quotes_of old_swap_def)
qed

end
