(* ===== verification/Store_Writes.thy ===== *)
theory Store_Writes
  imports Swap_Service Store_Schema
begin

text \<open>
  Everything the service and the refund worker ever write to the store, as guarded requests:
  what a handler has established before it takes the store lock (the guard) and the store
  call it then makes. The invariant of the stored data and its preservation are proved here
  per request; \<open>Service_Facts\<close> shows every handler to be a sequence of such requests, and
  \<open>Task_Decisions\<close> the phases of interleaved handlers to be such requests.
\<close>

section \<open>Well-formed swaps\<close>

definition invoices_ok :: "'w env \<Rightarrow> bool" where
  "invoices_ok ev \<longleftrightarrow> (\<forall>s i. ev_invoice_from_str ev s = Inr i \<longrightarrow> length (in_payment_hash i) = 32)"

text \<open>The terms of a recorded swap: its HTLC is between the buyer's address and the seller's key.\<close>

definition swap_terms ::
  "'w env \<Rightarrow> swap_service_config \<Rightarrow> swap_record \<Rightarrow> address \<Rightarrow> address \<Rightarrow> htlc_spec \<Rightarrow> bool" where
  "swap_terms ev cfg r seller buyer spec \<longleftrightarrow>
     (\<exists>w. ev_wallet_address ev w (cf_seller_key_index cfg) = Inr seller) \<and>
     (\<exists>s. ev_address_from_str ev s = Inr buyer) \<and> sr_buyer_liquid_address r = ad_string buyer \<and>
     (\<exists>hash buyer_hash seller_hash.
        pubkey_hash160_from_p2wpkh_address buyer = Inr buyer_hash \<and>
        pubkey_hash160_from_p2wpkh_address seller = Inr seller_hash \<and>
        length hash = 32 \<and> sr_payment_hash r = ev_hex_encode ev hash \<and>
        spec = swap_htlc (sr_direction r) hash buyer_hash seller_hash (sr_refund_lock_height r)) \<and>
     sr_witness_script_hex r = ev_hex_encode ev (witness_script (ev_script ev) spec) \<and>
     (\<exists>t. sr_funding_txid r = ev_txid_to_string ev t) \<and>
     sr_asset_id r = ev_asset_to_string ev (cf_sell_asset_id cfg)"

definition preimage_for :: "'w env \<Rightarrow> swap_record \<Rightarrow> string \<Rightarrow> bool" where
  "preimage_for ev r preimage_hex \<longleftrightarrow>
     (\<exists>preimage. preimage_hex = ev_hex_encode ev preimage \<and> length preimage = 32 \<and>
        ev_hex_decode ev (sr_payment_hash r) = Inr (sha256_preimage (ev_crypto ev) preimage))"

definition swap_wf :: "'w env \<Rightarrow> swap_service_config \<Rightarrow> swap_record \<Rightarrow> bool" where
  "swap_wf ev cfg r \<longleftrightarrow>
     (\<exists>seller buyer spec. swap_terms ev cfg r seller buyer spec) \<and>
     (sr_ln_payment_id r = None \<longleftrightarrow> sr_ln_preimage_hex r = None) \<and>
     (\<forall>h. sr_ln_preimage_hex r = Some h \<longrightarrow> preimage_for ev r h) \<and>
     (sr_claim_txid r \<noteq> None \<longrightarrow> sr_ln_preimage_hex r \<noteq> None)"

text \<open>The invariant: readable tables, quotes linked to swaps of theirs, well-formed swaps.\<close>

definition quotes_linked :: "database \<Rightarrow> bool" where
  "quotes_linked db \<longleftrightarrow>
     (\<forall>k q sid. quotes db k = Some q \<longrightarrow> qr_swap_id q = Some sid \<longrightarrow>
        (\<exists>r. swaps db sid = Some r \<and> sr_quote_id r = k))"

lemma quotes_linkedD:
  "quotes_linked db \<Longrightarrow> quotes db k = Some q \<Longrightarrow> qr_swap_id q = Some sid \<Longrightarrow>
     \<exists>r. swaps db sid = Some r \<and> sr_quote_id r = k"
  unfolding quotes_linked_def by blast

definition service_inv :: "'w env \<Rightarrow> swap_service_config \<Rightarrow> database \<Rightarrow> bool" where
  "service_inv ev cfg db \<longleftrightarrow>
     store_ok db \<and> quotes_linked db \<and> (\<forall>k r. swaps db k = Some r \<longrightarrow> swap_wf ev cfg r)"

section \<open>The requests\<close>

datatype write_request =
    WriteQuote quote_record
  | WriteSwap swap_record
  | LinkQuote string string
  | MarkFunded string
  | WritePayment string string string
  | WriteClaim string string
  | MarkRefunded string

fun exec_write :: "string option \<Rightarrow> write_request \<Rightarrow> unit store_op" where
  "exec_write v (WriteQuote q) = insert_quote v q"
| "exec_write v (WriteSwap r) = insert_swap v r"
| "exec_write v (LinkQuote qid sid) = set_quote_swap_id v qid sid"
| "exec_write v (MarkFunded k) = update_swap_status v k Funded"
| "exec_write v (WritePayment k pid h) = upsert_swap_payment v k pid h Paid"
| "exec_write v (WriteClaim k txid) = upsert_swap_claim v k txid Claimed"
| "exec_write v (MarkRefunded k) = update_swap_status v k Refunded"

fun guard :: "'w env \<Rightarrow> swap_service_config \<Rightarrow> database \<Rightarrow> write_request \<Rightarrow> bool" where
  "guard ev cfg db (WriteQuote q) \<longleftrightarrow> qr_swap_id q = None"
| "guard ev cfg db (WriteSwap r) \<longleftrightarrow>
     swap_wf ev cfg r \<and> sr_status r = Created \<and> sr_ln_preimage_hex r = None \<and> sr_claim_txid r = None"
| "guard ev cfg db (LinkQuote qid sid) \<longleftrightarrow> (\<exists>r. swaps db sid = Some r \<and> sr_quote_id r = qid)"
| "guard ev cfg db (MarkFunded k) \<longleftrightarrow> (\<exists>r. swaps db k = Some r)"
| "guard ev cfg db (WritePayment k pid h) \<longleftrightarrow> (\<exists>r. swaps db k = Some r \<and> preimage_for ev r h)"
| "guard ev cfg db (WriteClaim k txid) \<longleftrightarrow> (\<exists>r. swaps db k = Some r \<and> sr_ln_preimage_hex r \<noteq> None)"
| "guard ev cfg db (MarkRefunded k) \<longleftrightarrow> (\<exists>r. swaps db k = Some r)"

text \<open>One guarded write, whatever the engine says.\<close>

inductive store_write :: "'w env \<Rightarrow> swap_service_config \<Rightarrow> database \<Rightarrow> database \<Rightarrow> bool"
  for ev cfg where
  store_writeI: "guard ev cfg db req \<Longrightarrow> exec_write v req db = Some (res, db') \<Longrightarrow> store_write ev cfg db db'"

inductive_cases store_writeE: "store_write ev cfg db db'"

section \<open>What a write changes\<close>

text \<open>A swap keeps its terms and its preimage once known.\<close>

definition same_terms :: "swap_record \<Rightarrow> swap_record \<Rightarrow> bool" where
  "same_terms r r' \<longleftrightarrow>
     r' = r\<lparr>sr_ln_payment_id := sr_ln_payment_id r', sr_ln_preimage_hex := sr_ln_preimage_hex r',
            sr_claim_txid := sr_claim_txid r', sr_status := sr_status r'\<rparr> \<and>
     (sr_ln_preimage_hex r \<noteq> None \<longrightarrow> sr_ln_preimage_hex r' \<noteq> None) \<and>
     (sr_claim_txid r \<noteq> None \<longrightarrow> sr_claim_txid r' \<noteq> None)"

lemma same_terms_refl [simp]: "same_terms r r"
  by (simp add: same_terms_def)

lemma same_terms_updates [simp]:
  "same_terms r (r\<lparr>sr_status := st\<rparr>)"
  "same_terms r (r\<lparr>sr_ln_payment_id := Some p, sr_ln_preimage_hex := Some h, sr_status := st\<rparr>)"
  "same_terms r (r\<lparr>sr_claim_txid := Some t, sr_status := st\<rparr>)"
  by (simp_all add: same_terms_def)

lemma same_termsD:
  assumes "same_terms r r'"
  shows "sr_payment_hash r' = sr_payment_hash r" and "sr_quote_id r' = sr_quote_id r"
    and "sr_ln_preimage_hex r \<noteq> None \<Longrightarrow> sr_ln_preimage_hex r' \<noteq> None"
  using assms by (cases r; cases r'; simp add: same_terms_def)+

text \<open>What each request does to the two maps, when the engine executes it.\<close>

fun write_effect :: "write_request \<Rightarrow> database \<Rightarrow> database \<Rightarrow> bool" where
  "write_effect (WriteQuote q) db db' \<longleftrightarrow>
     quotes db (qr_quote_id q) = None \<and> quotes db' = (quotes db)(qr_quote_id q \<mapsto> q) \<and> swaps db' = swaps db"
| "write_effect (WriteSwap r) db db' \<longleftrightarrow>
     swaps db (sr_swap_id r) = None \<and> swaps db' = (swaps db)(sr_swap_id r \<mapsto> r) \<and> quotes db' = quotes db"
| "write_effect (LinkQuote qid sid) db db' \<longleftrightarrow>
     quotes db' = (quotes db)(qid := map_option (\<lambda>q. q\<lparr>qr_swap_id := Some sid\<rparr>) (quotes db qid)) \<and>
     swaps db' = swaps db"
| "write_effect (MarkFunded k) db db' \<longleftrightarrow>
     swaps db' = (swaps db)(k := map_option (\<lambda>r. r\<lparr>sr_status := Funded\<rparr>) (swaps db k)) \<and> quotes db' = quotes db"
| "write_effect (WritePayment k pid h) db db' \<longleftrightarrow>
     swaps db' = (swaps db)(k := map_option (\<lambda>r. r\<lparr>sr_ln_payment_id := Some pid,
                     sr_ln_preimage_hex := Some h, sr_status := Paid\<rparr>) (swaps db k)) \<and> quotes db' = quotes db"
| "write_effect (WriteClaim k txid) db db' \<longleftrightarrow>
     swaps db' = (swaps db)(k := map_option (\<lambda>r. r\<lparr>sr_claim_txid := Some txid, sr_status := Claimed\<rparr>)
                     (swaps db k)) \<and> quotes db' = quotes db"
| "write_effect (MarkRefunded k) db db' \<longleftrightarrow>
     swaps db' = (swaps db)(k := map_option (\<lambda>r. r\<lparr>sr_status := Refunded\<rparr>) (swaps db k)) \<and> quotes db' = quotes db"

lemma exec_write_effect:
  assumes ok: "store_ok db" and run: "exec_write v req db = Some (res, db')"
  shows "store_ok db'" and "(quotes db' = quotes db \<and> swaps db' = swaps db) \<or> write_effect req db db'"
proof -
  have "store_ok db' \<and> ((quotes db' = quotes db \<and> swaps db' = swaps db) \<or> write_effect req db db')"
  proof (cases req)
    case (WriteQuote q)
    then show ?thesis using insert_quote_ok [OF ok, of v q] run by (auto split: if_splits)
  next
    case (WriteSwap r)
    then show ?thesis using insert_swap_ok [OF ok, of v r] run by (auto split: if_splits)
  next
    case (LinkQuote qid sid)
    then show ?thesis using set_quote_swap_id_ok [OF ok, of v qid sid] run by (auto split: if_splits)
  next
    case (MarkFunded k)
    then show ?thesis using update_swap_status_ok [OF ok, of v k Funded] run by (auto split: if_splits)
  next
    case (WritePayment k pid h)
    then show ?thesis using upsert_swap_payment_ok [OF ok, of v k pid h Paid] run by (auto split: if_splits)
  next
    case (WriteClaim k txid)
    then show ?thesis using upsert_swap_claim_ok [OF ok, of v k txid Claimed] run by (auto split: if_splits)
  next
    case (MarkRefunded k)
    then show ?thesis using update_swap_status_ok [OF ok, of v k Refunded] run by (auto split: if_splits)
  qed
  then show "store_ok db'" and "(quotes db' = quotes db \<and> swaps db' = swaps db) \<or> write_effect req db db'"
    by blast+
qed

lemma exec_write_returns:
  assumes ok: "store_ok db"
  shows "\<exists>res db'. exec_write v req db = Some (res, db')"
proof (cases req)
  case (WriteQuote q)
  then show ?thesis using insert_quote_ok [OF ok, of v q] by auto
next
  case (WriteSwap r)
  then show ?thesis using insert_swap_ok [OF ok, of v r] by auto
next
  case (LinkQuote qid sid)
  then show ?thesis using set_quote_swap_id_ok [OF ok, of v qid sid] by auto
next
  case (MarkFunded k)
  then show ?thesis using update_swap_status_ok [OF ok, of v k Funded] by auto
next
  case (WritePayment k pid h)
  then show ?thesis using upsert_swap_payment_ok [OF ok, of v k pid h Paid] by auto
next
  case (WriteClaim k txid)
  then show ?thesis using upsert_swap_claim_ok [OF ok, of v k txid Claimed] by auto
next
  case (MarkRefunded k)
  then show ?thesis using update_swap_status_ok [OF ok, of v k Refunded] by auto
qed

text \<open>Every request keeps each swap and its terms.\<close>

lemma write_effect_swaps:
  "write_effect req db db' \<Longrightarrow> swaps db k = Some r \<Longrightarrow> \<exists>r'. swaps db' k = Some r' \<and> same_terms r r'"
  by (cases req) auto

lemma exec_write_swaps:
  assumes "store_ok db" and "exec_write v req db = Some (res, db')" and "swaps db k = Some r"
  shows "\<exists>r'. swaps db' k = Some r' \<and> same_terms r r'"
  using exec_write_effect(2) [OF assms(1,2)]
proof
  assume "quotes db' = quotes db \<and> swaps db' = swaps db"
  then show ?thesis using assms(3) by auto
next
  assume "write_effect req db db'"
  then show ?thesis using assms(3) by (rule write_effect_swaps)
qed

section \<open>Guards are stable\<close>

lemma preimage_for_same: "same_terms r r' \<Longrightarrow> preimage_for ev r' h = preimage_for ev r h"
  by (simp add: preimage_for_def same_termsD)

lemma guard_stable:
  assumes ok: "store_ok db" and g: "guard ev cfg db req" and run: "exec_write v req' db = Some (res, db')"
  shows "guard ev cfg db' req"
proof -
  note keep = exec_write_swaps [OF ok run]
  show ?thesis
  proof (cases req)
    case (LinkQuote qid sid)
    then show ?thesis using g keep same_termsD(2) by fastforce
  next
    case (WritePayment k pid h)
    with g obtain r where r: "swaps db k = Some r" "preimage_for ev r h" by auto
    from keep [OF r(1)] r(2) WritePayment show ?thesis by (auto simp: preimage_for_same)
  next
    case (WriteClaim k txid)
    with g obtain r where r: "swaps db k = Some r" "sr_ln_preimage_hex r \<noteq> None" by auto
    from keep [OF r(1)] r(2) WriteClaim show ?thesis using same_termsD(3) by auto
  next
    case (MarkFunded k)
    then show ?thesis using g keep by auto
  next
    case (MarkRefunded k)
    then show ?thesis using g keep by auto
  qed (use g in simp_all)
qed

section \<open>The invariant is kept\<close>

lemma swap_wf_status [simp]: "swap_wf ev cfg (r\<lparr>sr_status := st\<rparr>) = swap_wf ev cfg r"
  by (simp add: swap_wf_def swap_terms_def preimage_for_def)

lemma swap_wf_payment:
  "swap_wf ev cfg r \<Longrightarrow> preimage_for ev r h \<Longrightarrow>
     swap_wf ev cfg (r\<lparr>sr_ln_payment_id := Some pid, sr_ln_preimage_hex := Some h, sr_status := st\<rparr>)"
  by (simp add: swap_wf_def swap_terms_def preimage_for_def)

lemma swap_wf_claim:
  "swap_wf ev cfg r \<Longrightarrow> sr_ln_preimage_hex r \<noteq> None \<Longrightarrow>
     swap_wf ev cfg (r\<lparr>sr_claim_txid := Some t, sr_status := st\<rparr>)"
  by (auto simp: swap_wf_def swap_terms_def preimage_for_def)

text \<open>
  The argument needs of well-formedness only that it survives the three updates of a swap. It
  serves one configuration, and the configurations of all runs a file has seen.
\<close>

definition records_sound :: "(swap_record \<Rightarrow> bool) \<Rightarrow> database \<Rightarrow> bool" where
  "records_sound good db \<longleftrightarrow> store_ok db \<and> quotes_linked db \<and> (\<forall>k r. swaps db k = Some r \<longrightarrow> good r)"

lemma service_inv_sound: "service_inv ev cfg db \<longleftrightarrow> records_sound (swap_wf ev cfg) db"
  by (simp add: service_inv_def records_sound_def)

locale sound_records =
  fixes ev :: "'w env" and good :: "swap_record \<Rightarrow> bool"
  assumes status: "good (r\<lparr>sr_status := st\<rparr>) = good r"
    and payment: "good r \<Longrightarrow> preimage_for ev r h \<Longrightarrow>
      good (r\<lparr>sr_ln_payment_id := Some pid, sr_ln_preimage_hex := Some h, sr_status := st\<rparr>)"
    and claim: "good r \<Longrightarrow> sr_ln_preimage_hex r \<noteq> None \<Longrightarrow> good (r\<lparr>sr_claim_txid := Some t, sr_status := st\<rparr>)"
begin

lemma update_kept:
  assumes inv: "records_sound good db" and ok: "store_ok db'" and q: "quotes db' = quotes db"
    and s: "swaps db' = (swaps db)(k := map_option f (swaps db k))"
    and f: "\<And>r. swaps db k = Some r \<Longrightarrow> good (f r) \<and> sr_quote_id (f r) = sr_quote_id r"
  shows "records_sound good db'"
proof -
  have "quotes_linked db'"
    unfolding quotes_linked_def q s
  proof (intro allI impI)
    fix k' q' sid
    assume "quotes db k' = Some q'" and "qr_swap_id q' = Some sid"
    then obtain r where "swaps db sid = Some r" "sr_quote_id r = k'"
      using inv quotes_linkedD [of db k' q' sid] by (auto simp: records_sound_def)
    then show "\<exists>r. ((swaps db)(k := map_option f (swaps db k))) sid = Some r \<and> sr_quote_id r = k'"
      using f by (cases "sid = k") auto
  qed
  then show ?thesis using inv ok f by (auto simp: records_sound_def s)
qed

lemma effect_kept:
  assumes inv: "records_sound good db" and g: "guard ev cfg db req" and ok: "store_ok db'"
    and eff: "write_effect req db db'" and new: "\<And>r. swap_wf ev cfg r \<Longrightarrow> good r"
  shows "records_sound good db'"
proof -
  have good: "good r" if "swaps db k = Some r" for k r
    using inv that by (auto simp: records_sound_def)
  show ?thesis
  proof (cases req)
    case (WriteQuote q)
    then show ?thesis using inv g ok eff
      by (auto simp: records_sound_def quotes_linked_def split: if_splits)
  next
    case (WriteSwap r)
    have "\<exists>r'. ((swaps db)(sr_swap_id r \<mapsto> r)) sid = Some r' \<and> sr_quote_id r' = k"
      if linked: "quotes db k = Some q" "qr_swap_id q = Some sid" for k q sid
    proof -
      obtain r' where "swaps db sid = Some r'" "sr_quote_id r' = k"
        using linked inv quotes_linkedD [of db k q sid] by (auto simp: records_sound_def)
      then show ?thesis using WriteSwap eff by auto
    qed
    then show ?thesis using inv g ok eff WriteSwap new
      by (auto simp: records_sound_def quotes_linked_def)
  next
    case (LinkQuote qid sid)
    then show ?thesis using inv g ok eff
      by (auto simp: records_sound_def quotes_linked_def split: if_splits)
  next
    case (MarkFunded k)
    with eff show ?thesis by (intro update_kept [OF inv ok]) (auto simp: status dest: good)
  next
    case (WritePayment k pid h)
    with eff g show ?thesis by (intro update_kept [OF inv ok]) (auto dest: good intro: payment)
  next
    case (WriteClaim k txid)
    with eff g show ?thesis by (intro update_kept [OF inv ok]) (auto dest: good intro: claim)
  next
    case (MarkRefunded k)
    with eff show ?thesis by (intro update_kept [OF inv ok]) (auto simp: status dest: good)
  qed
qed

lemma write_kept:
  assumes inv: "records_sound good db" and g: "guard ev cfg db req" and run: "exec_write v req db = Some (res, db')"
    and new: "\<And>r. swap_wf ev cfg r \<Longrightarrow> good r"
  shows "records_sound good db'"
proof -
  have ok: "store_ok db" using inv by (simp add: records_sound_def)
  from exec_write_effect [OF ok run] show ?thesis
  proof (elim disjE)
    assume "quotes db' = quotes db \<and> swaps db' = swaps db"
    then show ?thesis using exec_write_effect(1) [OF ok run] inv
      by (simp add: records_sound_def quotes_linked_def)
  next
    assume "write_effect req db db'"
    then show ?thesis using exec_write_effect(1) [OF ok run] by (intro effect_kept [OF inv g _ _ new])
  qed
qed

lemma writes_kept:
  assumes "(store_write ev cfg)\<^sup>*\<^sup>* db db'" and "records_sound good db" and "\<And>r. swap_wf ev cfg r \<Longrightarrow> good r"
  shows "records_sound good db'"
  using assms(1,2) by (induction rule: rtranclp_induct) (auto elim!: store_writeE intro: write_kept assms(3))

end

interpretation one_config: sound_records ev "swap_wf ev cfg" for ev cfg
  by unfold_locales (simp only: swap_wf_status, blast intro: swap_wf_payment, blast intro: swap_wf_claim)

interpretation some_config: sound_records ev "\<lambda>r. \<exists>cfg\<in>configs. swap_wf ev cfg r" for ev configs
  by unfold_locales (simp only: swap_wf_status, blast intro: swap_wf_payment, blast intro: swap_wf_claim)

lemma exec_write_inv:
  "service_inv ev cfg db \<Longrightarrow> guard ev cfg db req \<Longrightarrow> exec_write v req db = Some (res, db') \<Longrightarrow> service_inv ev cfg db'"
  unfolding service_inv_sound by (rule one_config.write_kept)

lemma store_writes_inv:
  "(store_write ev cfg)\<^sup>*\<^sup>* db db' \<Longrightarrow> service_inv ev cfg db \<Longrightarrow> service_inv ev cfg db'"
  unfolding service_inv_sound by (rule one_config.writes_kept)

end
