(* ===== verification/Refund_Worker.thy ===== *)
theory Refund_Worker
  imports Swap_Service Store_Schema
begin

text \<open>
  \<open>src/bin/swap_server.rs\<close>: the arguments \<open>main\<close> accepts and what it does before
  serving, and \<open>refund_once\<close>, the round of the refund worker, swap by swap.
\<close>

section \<open>Starting the server\<close>

record server_args =
  sa_listen_addr :: string
  sa_ldk_rest_addr :: string
  sa_liquid_electrum_url :: string
  sa_wallet_dir :: string
  sa_store_path :: string
  sa_mnemonic :: string
  sa_slip77 :: string
  sa_sell_asset_id :: string
  sa_price_msat_per_asset_unit :: u64
  sa_fee_subsidy_sats :: u64
  sa_refund_delta_blocks :: u32
  sa_invoice_expiry_secs :: u32
  sa_seller_key_index :: u32
  sa_buyer_key_index :: u32
  sa_refund_poll_interval_secs :: u64
  sa_refund_fee_sats :: u64
  sa_seller_token :: string
  sa_buyer_token :: string

definition check_tokens :: "server_args \<Rightarrow> anyhow + unit" where
  "check_tokens args =
     and_then (ensure (trim (sa_seller_token args) \<noteq> []) (CMsg ''seller_token must not be empty'')) (\<lambda>_.
     and_then (ensure (trim (sa_buyer_token args) \<noteq> []) (CMsg ''buyer_token must not be empty'')) (\<lambda>_.
     ensure (sa_seller_token args \<noteq> sa_buyer_token args)
       (CMsg ''seller_token and buyer_token must be different'')))"

definition service_config :: "asset_id \<Rightarrow> server_args \<Rightarrow> swap_service_config" where
  "service_config sell_asset_id args =
     \<lparr>cf_sell_asset_id = sell_asset_id,
      cf_price_msat_per_asset_unit = sa_price_msat_per_asset_unit args,
      cf_fee_subsidy_sats = sa_fee_subsidy_sats args,
      cf_refund_delta_blocks = sa_refund_delta_blocks args,
      cf_invoice_expiry_secs = sa_invoice_expiry_secs args,
      cf_seller_key_index = sa_seller_key_index args,
      cf_buyer_key_index = sa_buyer_key_index args,
      cf_seller_token = sa_seller_token args,
      cf_buyer_token = sa_buyer_token args\<rparr>"

text \<open>
  \<open>main\<close> up to the point where it serves. Parsing the listen address and making the two
  directories are the system's (\<open>parse_addr\<close>, \<open>make_wallet_dir\<close>, and
  \<open>make_store_dir\<close> when the store's path has a parent), as are the verdicts on the steps of
  opening the store (\<open>os\<close>, \<open>engine\<close>).
\<close>

definition db_run :: "'a store_op \<Rightarrow> ('w, 'a) io" where
  "db_run op = (\<lambda>s. case op (sy_db s) of
       None \<Rightarrow> None
     | Some (r, db) \<Rightarrow> Some (map_err CStore r, s\<lparr>sy_db := db\<rparr>))"

definition start_server ::
  "'w env \<Rightarrow> (string \<Rightarrow> string + unit) \<Rightarrow> ('w, unit) effect \<Rightarrow> ('w, unit) effect option \<Rightarrow> bool \<Rightarrow> (nat \<Rightarrow> string option)
     \<Rightarrow> (nat \<Rightarrow> string option) \<Rightarrow> server_args \<Rightarrow> ('w, swap_service_config) io" where
  "start_server ev parse_addr make_wallet_dir make_store_dir has_parent os engine args =
     bind_run (ctx ''parse listen_addr'' (lib_run (parse_addr (sa_listen_addr args)))) (\<lambda>_.
     bind_run (lift_run (check_tokens args)) (\<lambda>_.
     bind_run (ctx ''create wallet_dir'' (effect_run make_wallet_dir)) (\<lambda>_.
     bind_run (case make_store_dir of
                 None \<Rightarrow> return_run ()
               | Some make_dir \<Rightarrow> ctx ''create store parent dir'' (effect_run make_dir)) (\<lambda>_.
     bind_run (ctx ''parse sell_asset_id'' (lib_run (ev_asset_from_str ev (sa_sell_asset_id args)))) (\<lambda>sell_asset_id.
     bind_run (ctx ''create liquid wallet''
                (wallet_new ev (sa_mnemonic args) (sa_slip77 args) (sa_liquid_electrum_url args)
                   (sa_wallet_dir args))) (\<lambda>_.
     bind_run (ctx ''get seller receive address'' (address_at ev (sa_seller_key_index args))) (\<lambda>_.
     bind_run (ctx ''get buyer receive address'' (address_at ev (sa_buyer_key_index args))) (\<lambda>_.
     bind_run (ctx ''open sqlite store'' (db_run (open_store has_parent os engine))) (\<lambda>_.
     return_run (service_config sell_asset_id args))))))))))"

section \<open>The refund worker\<close>

definition refundable :: "u32 \<Rightarrow> swap_record \<Rightarrow> bool" where
  "refundable tip s \<longleftrightarrow> sr_status s \<in> {Created, Funded} \<and> \<not> tip < sr_refund_lock_height s"

text \<open>The body of the loop for one swap that is due; a failed broadcast is only logged.\<close>

definition refund_swap :: "'w env \<Rightarrow> u32 \<Rightarrow> u32 \<Rightarrow> u64 \<Rightarrow> swap_record \<Rightarrow> ('w, unit) io" where
  "refund_swap ev seller_key_index buyer_key_index fee_sats s =
     bind_run (ctx ''parse funding_txid'' (lib_run (ev_txid_from_str ev (sr_funding_txid s)))) (\<lambda>funding_txid.
     bind_run (ctx ''parse asset_id'' (lib_run (ev_asset_from_str ev (sr_asset_id s)))) (\<lambda>asset_id.
     bind_run (lift_run (map_err (\<lambda>e. CMsg (''parse witness_script: '' @ e))
                 (ev_script_from_str ev (sr_witness_script_hex s)))) (\<lambda>script.
     let funding =
       \<lparr>hf_funding_txid = funding_txid, hf_asset_vout = sr_asset_vout s, hf_lbtc_vout = sr_lbtc_vout s,
        hf_asset_id = asset_id, hf_asset_amount = sr_asset_amount s,
        hf_policy_asset = ev_policy_asset ev, hf_fee_subsidy_sats = sr_fee_subsidy_sats s\<rparr>;
       (refunder_key_index, expected_address) = (case sr_direction s of
           LnToLiquid \<Rightarrow> (seller_key_index, None)
         | LiquidToLn \<Rightarrow> (buyer_key_index, Some (sr_buyer_liquid_address s))) in
     bind_run (ctx ''get refunder receive address'' (address_at ev refunder_key_index)) (\<lambda>refunder_receive.
     bind_run (ensure_run (case expected_address of
                   Some expected \<Rightarrow> ad_string refunder_receive = expected | None \<Rightarrow> True)
                 (CMsg ''buyer_liquid_address mismatch'')) (\<lambda>_.
     bind_run (ctx ''derive refunder secret key'' (derive_secret_key ev refunder_key_index)) (\<lambda>refunder_secret_key.
     bind_run (ctx ''build refund tx''
                (lift_run (map_err CHtlc (refund_tx_from_witness_script (ev_crypto ev) script
                   (sr_refund_lock_height s) funding refunder_receive refunder_secret_key fee_sats)))) (\<lambda>tx.
     (\<lambda>st. case broadcast_transaction ev tx st of
         None \<Rightarrow> None
       | Some (Inr _, st') \<Rightarrow>
           ctx ''update swap status (refunded)''
             (store_run ev (\<lambda>v. update_swap_status v (sr_swap_id s) Refunded)) st'
       | Some (Inl _, st') \<Rightarrow> Some (Inr (), st')))))))))"

text \<open>\<open>for s in swaps\<close>: a swap that is not due is skipped, an error ends the round.\<close>

fun refund_all :: "'w env \<Rightarrow> u32 \<Rightarrow> u32 \<Rightarrow> u64 \<Rightarrow> u32 \<Rightarrow> swap_record list \<Rightarrow> ('w, unit) io" where
  "refund_all ev seller_key_index buyer_key_index fee_sats tip [] = return_run ()"
| "refund_all ev seller_key_index buyer_key_index fee_sats tip (s # rest) =
     bind_run (if refundable tip s then refund_swap ev seller_key_index buyer_key_index fee_sats s
               else return_run ()) (\<lambda>_.
     refund_all ev seller_key_index buyer_key_index fee_sats tip rest)"

text \<open>What a round starts from: the tip after a sync and the swaps on record.\<close>

definition round_records :: "'w env \<Rightarrow> ('w, u32 \<times> swap_record list) io" where
  "round_records ev =
     bind_run (ctx ''sync wallet'' (sync ev)) (\<lambda>_.
     bind_run (tip_height ev) (\<lambda>tip.
     bind_run (ctx ''list swaps'' (store_run ev list_swaps)) (\<lambda>records.
     return_run (tip, records))))"

definition refund_once :: "'w env \<Rightarrow> u32 \<Rightarrow> u32 \<Rightarrow> u64 \<Rightarrow> ('w, unit) io" where
  "refund_once ev seller_key_index buyer_key_index fee_sats =
     bind_run (round_records ev) (\<lambda>(tip, records).
     refund_all ev seller_key_index buyer_key_index fee_sats tip records)"

lemma refund_once_unfold:
  "refund_once ev seller_key_index buyer_key_index fee_sats =
     bind_run (ctx ''sync wallet'' (sync ev)) (\<lambda>_.
     bind_run (tip_height ev) (\<lambda>tip.
     bind_run (ctx ''list swaps'' (store_run ev list_swaps)) (\<lambda>records.
     refund_all ev seller_key_index buyer_key_index fee_sats tip records)))"
  by (rule ext) (simp add: refund_once_def round_records_def bind_run_def split: option.split sum.split prod.split)

text \<open>
  \<open>spawn_refund_worker\<close>: rounds for ever, each followed by a sleep; a round's error is only
  logged. \<open>n\<close> rounds of it.
\<close>

fun refund_rounds :: "nat \<Rightarrow> 'w env \<Rightarrow> u32 \<Rightarrow> u32 \<Rightarrow> nat \<Rightarrow> u64 \<Rightarrow> ('w sys, 'e, unit) run" where
  "refund_rounds 0 ev seller_key_index buyer_key_index poll_interval fee_sats = return_run ()"
| "refund_rounds (Suc n) ev seller_key_index buyer_key_index poll_interval fee_sats = (\<lambda>st.
     case refund_once ev seller_key_index buyer_key_index fee_sats st of
       None \<Rightarrow> None
     | Some (_, st') \<Rightarrow>
         refund_rounds n ev seller_key_index buyer_key_index poll_interval fee_sats
           (st'\<lparr>sy_world := ev_sleep ev poll_interval (sy_world st')\<rparr>))"

end
