(* ===== verification/Service_Facts.thy ===== *)
theory Service_Facts
  imports Store_Writes Refund_Worker
begin

text \<open>
  Every handler of the service and every round of the refund worker writes to the store only
  by the guarded requests of \<open>Store_Writes\<close>, in sequence, whatever it answers. What the
  parts of \<open>create_swap\<close> establish for their successors is proved on the way.
\<close>

section \<open>Programs as sequences of writes\<close>

definition writes_from ::
  "'w env \<Rightarrow> swap_service_config \<Rightarrow> ('w sys \<Rightarrow> bool) \<Rightarrow> ('w sys, 'e, 'a) run \<Rightarrow> bool" where
  "writes_from ev cfg P m \<longleftrightarrow>
     (\<forall>s r s'. store_ok (sy_db s) \<longrightarrow> P s \<longrightarrow> m s = Some (r, s') \<longrightarrow>
        (store_write ev cfg)\<^sup>*\<^sup>* (sy_db s) (sy_db s'))"

lemma writes_fromI:
  "(\<And>s r s'. store_ok (sy_db s) \<Longrightarrow> P s \<Longrightarrow> m s = Some (r, s') \<Longrightarrow>
     (store_write ev cfg)\<^sup>*\<^sup>* (sy_db s) (sy_db s')) \<Longrightarrow> writes_from ev cfg P m"
  by (simp add: writes_from_def)

lemma writes_fromD:
  "writes_from ev cfg P m \<Longrightarrow> m s = Some (r, s') \<Longrightarrow> store_ok (sy_db s) \<Longrightarrow> P s \<Longrightarrow>
     (store_write ev cfg)\<^sup>*\<^sup>* (sy_db s) (sy_db s')"
  unfolding writes_from_def by blast

lemma store_write_ok: "store_write ev cfg db db' \<Longrightarrow> store_ok db \<Longrightarrow> store_ok db'"
  by (elim store_writeE) (rule exec_write_effect(1))

lemma store_writes_ok: "(store_write ev cfg)\<^sup>*\<^sup>* db db' \<Longrightarrow> store_ok db \<Longrightarrow> store_ok db'"
  by (induction rule: rtranclp_induct) (auto intro: store_write_ok)

lemma store_writes_swaps:
  "(store_write ev cfg)\<^sup>*\<^sup>* db db' \<Longrightarrow> store_ok db \<Longrightarrow> swaps db k \<noteq> None \<Longrightarrow> swaps db' k \<noteq> None"
proof (induction rule: rtranclp_induct)
  case (step db1 db2)
  then obtain r where "swaps db1 k = Some r" by auto
  moreover have "store_ok db1" using step store_writes_ok by blast
  ultimately show ?case using step.hyps(2) by (auto elim!: store_writeE dest: exec_write_swaps)
qed simp

text \<open>A program that keeps every predicate of the database does not write.\<close>

lemma quiet_db: "(\<And>X. preserves (on_db X) m) \<Longrightarrow> m s = Some (r, s') \<Longrightarrow> sy_db s' = sy_db s"
  using preservesD [of "on_db ((=) (sy_db s))" m s r s'] by (simp add: on_db_def)

lemma writes_quiet: "(\<And>X. preserves (on_db X) m) \<Longrightarrow> writes_from ev cfg P m"
proof (rule writes_fromI)
  fix s r s'
  assume "\<And>X. preserves (on_db X) m" and "m s = Some (r, s')"
  then have "sy_db s' = sy_db s" by (rule quiet_db)
  then show "(store_write ev cfg)\<^sup>*\<^sup>* (sy_db s) (sy_db s')" by simp
qed

lemma writes_bind:
  assumes "writes_from ev cfg P m"
    and "\<And>a. writes_from ev cfg (\<lambda>s1. \<exists>s. store_ok (sy_db s) \<and> P s \<and> m s = Some (Inr a, s1)) (f a)"
  shows "writes_from ev cfg P (bind_run m f)"
proof (rule writes_fromI)
  fix s r s'
  assume ok: "store_ok (sy_db s)" and P: "P s" and "bind_run m f s = Some (r, s')"
  then consider e where "m s = Some (Inl e, s')"
    | a s1 where "m s = Some (Inr a, s1)" and "f a s1 = Some (r, s')"
    by (auto simp: bind_run_Some)
  then show "(store_write ev cfg)\<^sup>*\<^sup>* (sy_db s) (sy_db s')"
  proof cases
    case 1
    then show ?thesis using writes_fromD [OF assms(1)] ok P by blast
  next
    case 2
    have first: "(store_write ev cfg)\<^sup>*\<^sup>* (sy_db s) (sy_db s1)"
      using writes_fromD [OF assms(1) 2(1) ok P] .
    then have "store_ok (sy_db s1)" using ok store_writes_ok by blast
    then have "(store_write ev cfg)\<^sup>*\<^sup>* (sy_db s1) (sy_db s')"
      using writes_fromD [OF assms(2) 2(2)] ok P 2(1) by blast
    with first show ?thesis by (rule rtranclp_trans)
  qed
qed

lemma writes_map_err: "writes_from ev cfg P m \<Longrightarrow> writes_from ev cfg P (map_err_run f m)"
  unfolding writes_from_def by (auto simp: map_err_run_Some)

lemma writes_ctx: "writes_from ev cfg P m \<Longrightarrow> writes_from ev cfg P (ctx c m)"
  unfolding ctx_def by (rule writes_map_err)

lemma writes_internal: "writes_from ev cfg P m \<Longrightarrow> writes_from ev cfg P (internal c m)"
  unfolding internal_def by (rule writes_map_err)

lemma writes_request:
  assumes "\<And>s. store_ok (sy_db s) \<Longrightarrow> P s \<Longrightarrow> guard ev cfg (sy_db s) req"
  shows "writes_from ev cfg P (store_run ev (\<lambda>v. exec_write v req))"
proof (rule writes_fromI)
  fix s r s'
  assume "store_ok (sy_db s)" "P s" and run: "store_run ev (\<lambda>v. exec_write v req) s = Some (r, s')"
  then have g: "guard ev cfg (sy_db s) req" using assms by blast
  from run obtain v r' where "exec_write v req (sy_db s) = Some (r', sy_db s')"
    by (auto simp: store_run_Some)
  then have "store_write ev cfg (sy_db s) (sy_db s')" using g by (rule store_writeI [rotated])
  then show "(store_write ev cfg)\<^sup>*\<^sup>* (sy_db s) (sy_db s')" by blast
qed

lemmas writes_insert_quote = writes_request [where req = "WriteQuote q" for q, unfolded exec_write.simps]
lemmas writes_insert_swap = writes_request [where req = "WriteSwap r" for r, unfolded exec_write.simps]
lemmas writes_link = writes_request [where req = "LinkQuote qid sid" for qid sid, unfolded exec_write.simps]
lemmas writes_funded = writes_request [where req = "MarkFunded k" for k, unfolded exec_write.simps]
lemmas writes_payment = writes_request [where req = "WritePayment k pid h" for k pid h, unfolded exec_write.simps]
lemmas writes_claim = writes_request [where req = "WriteClaim k t" for k t, unfolded exec_write.simps]
lemmas writes_refunded = writes_request [where req = "MarkRefunded k" for k, unfolded exec_write.simps]

lemma writes_weaken: "writes_from ev cfg Q m \<Longrightarrow> (\<And>s. store_ok (sy_db s) \<Longrightarrow> P s \<Longrightarrow> Q s) \<Longrightarrow> writes_from ev cfg P m"
  unfolding writes_from_def by blast

lemma writes_case_option:
  "(x = None \<Longrightarrow> writes_from ev cfg P m) \<Longrightarrow> (\<And>a. x = Some a \<Longrightarrow> writes_from ev cfg P (f a)) \<Longrightarrow>
     writes_from ev cfg P (case x of None \<Rightarrow> m | Some a \<Rightarrow> f a)"
  by (cases x) auto

section \<open>CreateQuote\<close>

lemma create_quote_writes: "writes_from ev cfg (\<lambda>_. True) (create_quote ev cfg request)"
  unfolding create_quote_def Let_def
  by (intro writes_bind writes_internal writes_insert_quote; (rule writes_quiet; intro preserve_intros)?) simp

section \<open>CreateSwap, part by part\<close>

definition plan_ok :: "'w env \<Rightarrow> swap_service_config \<Rightarrow> create_swap_request \<Rightarrow> swap_plan \<Rightarrow> bool" where
  "plan_ok ev cfg req plan \<longleftrightarrow>
     ev_address_from_str ev (cs_buyer_liquid_address req) = Inr (sp_address plan) \<and>
     pubkey_hash160_from_p2wpkh_address (sp_address plan) = Inr (sp_buyer_hash plan) \<and>
     ad_params (sp_address plan) = ev_address_params ev \<and>
     qr_offer_id (sp_quote plan) = offer_id ev (current_offer ev cfg) \<and>
     ev_asset_from_str ev (qr_asset_id (sp_quote plan)) = Inr (cf_sell_asset_id cfg) \<and>
     qr_min_funding_confs (sp_quote plan) \<le> MAX_MIN_FUNDING_CONFS"

lemma check_unused_quote_Inr:
  "check_unused_quote ev cfg req quote s = Some (Inr plan, s') \<longleftrightarrow>
     s' = s \<and> plan_ok ev cfg req plan \<and> sp_quote plan = quote"
  by (cases plan) (auto simp: check_unused_quote_def bind_run_Inr plan_ok_def linorder_not_less)

lemma preserves_check_unused: "preserves I (check_unused_quote ev cfg req quote)"
  unfolding check_unused_quote_def by (intro preserve_intros)

lemma preserves_existing_swap [preserve_intros]: "preserves (on_db X) (existing_swap ev sid)"
  unfolding existing_swap_def by (intro preserve_intros)

lemma preserves_check_create_swap [preserve_intros]: "preserves (on_db X) (check_create_swap ev cfg request)"
  unfolding check_create_swap_def by (intro preserve_intros preserves_check_unused)

lemma check_create_swap_plan:
  assumes "check_create_swap ev cfg request s = Some (Inr (Inr plan), s')"
  shows "presents_token ev request (cf_buyer_token cfg)" and "plan_ok ev cfg (rq_message request) plan"
    and "qr_swap_id (sp_quote plan) = None"
    and "store_ok (sy_db s) \<Longrightarrow> quotes (sy_db s) (cs_quote_id (rq_message request)) = Some (sp_quote plan)"
proof -
  from assms obtain v quote db w where buyer: "require_buyer ev cfg request = Inr ()"
    and got: "get_quote v (cs_quote_id (rq_message request)) (sy_db s) = Some (Inr (Some quote), db)"
    and rest: "(case qr_swap_id quote of
       None \<Rightarrow> bind_run (check_unused_quote ev cfg (rq_message request) quote) (\<lambda>plan. return_run (Inr plan))
     | Some sid \<Rightarrow> bind_run (existing_swap ev sid) (\<lambda>swap. return_run (Inl swap)))
         \<lparr>sy_db = db, sy_world = w\<rparr> = Some (Inr (Inr plan), s')"
    by (auto simp: check_create_swap_def bind_run_Inr Let_def store_run_Some)
  show "presents_token ev request (cf_buyer_token cfg)" using buyer by (simp add: require_buyer_iff)
  have none: "qr_swap_id quote = None" using rest by (auto simp: bind_run_Inr split: option.splits)
  with rest have plan: "plan_ok ev cfg (rq_message request) plan" "sp_quote plan = quote"
    by (auto simp: bind_run_Inr check_unused_quote_Inr)
  then show "plan_ok ev cfg (rq_message request) plan" "qr_swap_id (sp_quote plan) = None"
    using none by simp_all
  assume ok: "store_ok (sy_db s)"
  have "v = None" using got ok
    by (cases v) (auto simp: get_quote_def on_quotes_def query_optional_def read_optional_def store_ok_def
        split: option.splits)
  then show "quotes (sy_db s) (cs_quote_id (rq_message request)) = Some (sp_quote plan)"
    using got get_quote_ok [OF ok] plan(2) by auto
qed

lemma preserves_swap_invoice [preserve_intros]: "preserves (on_db X) (swap_invoice ev req quote sid)"
  unfolding swap_invoice_def by (intro preserve_intros)

lemma swap_invoice_hash:
  assumes "invoices_ok ev" and "swap_invoice ev req quote sid s = Some (Inr (invoice, hash), s')"
  shows "length hash = 32 \<and> (\<exists>i. ev_invoice_from_str ev invoice = Inr i \<and> in_payment_hash i = hash)"
  using assms(2)
  by (cases "qr_direction quote")
    (use assms(1) in \<open>auto simp: swap_invoice_def bind_run_Inr Let_def payment_hash_from_bolt11_def
       parse_bolt11_def invoices_ok_def\<close>)

text \<open>A buyer's invoice is for exactly the quoted price and not expired.\<close>

lemma swap_invoice_buyer:
  assumes "swap_invoice ev req quote sid s = Some (Inr (invoice, hash), s')" and "qr_direction quote = LiquidToLn"
  shows "s' = s \<and> invoice = trim (cs_buyer_bolt11_invoice req) \<and>
    (\<exists>i. ev_invoice_from_str ev invoice = Inr i \<and> in_payment_hash i = hash \<and>
       in_amount_msat i = Some (qr_total_price_msat quote) \<and>
       (\<forall>e. in_expires_at i = Some e \<longrightarrow> max 0 (ev_unix_time ev (sy_world s)) < int e))"
  using assms
  by (auto simp: swap_invoice_def bind_run_Inr Let_def payment_hash_from_bolt11_def amount_msat_from_bolt11_def
      is_expired_bolt11_def parse_bolt11_def split: option.splits if_splits)

lemma preserves_fund_swap [preserve_intros]: "preserves (on_db X) (fund_swap ev cfg plan sid invoice hash)"
  unfolding fund_swap_def by (intro preserve_intros)

text \<open>The record funding leaves: a well-formed swap in status Created.\<close>

lemma fund_swap_record:
  assumes plan: "plan_ok ev cfg req plan" and hash: "length hash = 32"
    and run: "fund_swap ev cfg plan sid invoice hash s = Some (Inr (record, spk, txid), s')"
  shows "swap_wf ev cfg record" and "sr_swap_id record = sid" and "sr_quote_id record = qr_quote_id (sp_quote plan)"
    and "sr_status record = Created" and "sr_ln_preimage_hex record = None" and "sr_claim_txid record = None"
    and "sr_bolt11_invoice record = invoice" and "sr_payment_hash record = ev_hex_encode ev hash"
    and "sr_direction record = qr_direction (sp_quote plan)"
    and "sr_asset_amount record = qr_asset_amount (sp_quote plan)"
    and "sr_total_price_msat record = qr_total_price_msat (sp_quote plan)"
    and "sr_min_funding_confs record = qr_min_funding_confs (sp_quote plan)"
proof -
  from run have "swap_wf ev cfg record \<and> sr_swap_id record = sid \<and>
     sr_quote_id record = qr_quote_id (sp_quote plan) \<and> sr_status record = Created \<and>
     sr_ln_preimage_hex record = None \<and> sr_claim_txid record = None \<and> sr_bolt11_invoice record = invoice \<and>
     sr_payment_hash record = ev_hex_encode ev hash \<and> sr_direction record = qr_direction (sp_quote plan) \<and>
     sr_asset_amount record = qr_asset_amount (sp_quote plan) \<and>
     sr_total_price_msat record = qr_total_price_msat (sp_quote plan) \<and>
     sr_min_funding_confs record = qr_min_funding_confs (sp_quote plan)"
    using plan hash
    by (auto simp: fund_swap_def bind_run_Inr Let_def address_at_def swap_wf_def swap_terms_def plan_ok_def split: prod.splits)
      blast
  then show "swap_wf ev cfg record" and "sr_swap_id record = sid" and "sr_quote_id record = qr_quote_id (sp_quote plan)"
    and "sr_status record = Created" and "sr_ln_preimage_hex record = None" and "sr_claim_txid record = None"
    and "sr_bolt11_invoice record = invoice" and "sr_payment_hash record = ev_hex_encode ev hash"
    and "sr_direction record = qr_direction (sp_quote plan)"
    and "sr_asset_amount record = qr_asset_amount (sp_quote plan)"
    and "sr_total_price_msat record = qr_total_price_msat (sp_quote plan)"
    and "sr_min_funding_confs record = qr_min_funding_confs (sp_quote plan)"
    by simp_all
qed

section \<open>CreateSwap writes\<close>

lemma store_run_insert_swap:
  assumes "store_ok (sy_db s)" and "ctx c (store_run ev (\<lambda>v. insert_swap v r)) s = Some (Inr u, s')"
  shows "store_ok (sy_db s')" and "swaps (sy_db s') = (swaps (sy_db s))(sr_swap_id r \<mapsto> r)"
    and "quotes (sy_db s') = quotes (sy_db s)" and "swaps (sy_db s) (sr_swap_id r) = None"
proof -
  from assms(2) obtain v where "insert_swap v r (sy_db s) = Some (Inr (), sy_db s')"
    by (auto simp: store_run_Some)
  with insert_swap_ok [OF assms(1), of v r]
  show "store_ok (sy_db s')" and "swaps (sy_db s') = (swaps (sy_db s))(sr_swap_id r \<mapsto> r)"
    and "quotes (sy_db s') = quotes (sy_db s)" and "swaps (sy_db s) (sr_swap_id r) = None"
    by auto
qed

lemma store_run_link:
  assumes "store_ok (sy_db s)" and "ctx c (store_run ev (\<lambda>v. set_quote_swap_id v k sid)) s = Some (Inr u, s')"
  shows "store_ok (sy_db s')" and "swaps (sy_db s') = swaps (sy_db s)"
    and "\<exists>q. quotes (sy_db s) k = Some q \<and>
      quotes (sy_db s') = (quotes (sy_db s))(k \<mapsto> q\<lparr>qr_swap_id := Some sid\<rparr>)"
proof -
  from assms(2) obtain v where "set_quote_swap_id v k sid (sy_db s) = Some (Inr (), sy_db s')"
    by (auto simp: store_run_Some)
  with set_quote_swap_id_ok [OF assms(1), of v k sid]
  show "store_ok (sy_db s')" and "swaps (sy_db s') = swaps (sy_db s)"
    and "\<exists>q. quotes (sy_db s) k = Some q \<and>
      quotes (sy_db s') = (quotes (sy_db s))(k \<mapsto> q\<lparr>qr_swap_id := Some sid\<rparr>)"
    by auto
qed

lemma fund_and_record_writes:
  assumes plan: "plan_ok ev cfg req plan" and hash: "length hash = 32"
  shows "writes_from ev cfg P (fund_and_record ev cfg plan sid invoice hash)"
  unfolding fund_and_record_def
proof (intro writes_bind)
  show "writes_from ev cfg P (fund_swap ev cfg plan sid invoice hash)"
    by (rule writes_quiet) (rule preserves_fund_swap)
next
  fix a :: "swap_record \<times> bytes \<times> txid"
  obtain "record" spk txid where a: "a = (record, spk, txid)" by (cases a) auto
  let ?Q = "\<lambda>x s1. \<exists>s. store_ok (sy_db s) \<and> P s \<and> fund_swap ev cfg plan sid invoice hash s = Some (Inr x, s1)"
  let ?t = "(record, spk, txid)"
  show "writes_from ev cfg (?Q a) (case a of (record, htlc_spk, funding_txid) \<Rightarrow>
      bind_run (ctx ''persist swap'' (store_run ev (\<lambda>v. insert_swap v record))) (\<lambda>_.
      bind_run (ctx ''link quote to swap''
        (store_run ev (\<lambda>v. set_quote_swap_id v (qr_quote_id (sp_quote plan)) sid))) (\<lambda>_.
      return_run (record, htlc_spk, funding_txid))))"
    unfolding a prod.case
  proof (intro writes_bind writes_ctx)
    show "writes_from ev cfg (?Q ?t) (store_run ev (\<lambda>v. insert_swap v record))"
      by (rule writes_insert_swap) (use fund_swap_record [OF plan hash] in fastforce)
  next
    fix u
    show "writes_from ev cfg (\<lambda>s2. \<exists>s1. store_ok (sy_db s1) \<and> ?Q ?t s1 \<and>
        ctx ''persist swap'' (store_run ev (\<lambda>v. insert_swap v record)) s1 = Some (Inr u, s2))
      (store_run ev (\<lambda>v. set_quote_swap_id v (qr_quote_id (sp_quote plan)) sid))"
    proof (rule writes_link)
      fix s2
      assume "\<exists>s1. store_ok (sy_db s1) \<and> ?Q ?t s1 \<and>
        ctx ''persist swap'' (store_run ev (\<lambda>v. insert_swap v record)) s1 = Some (Inr u, s2)"
      then obtain s s1 where "store_ok (sy_db s1)"
        and f: "fund_swap ev cfg plan sid invoice hash s = Some (Inr (record, spk, txid), s1)"
        and i: "ctx ''persist swap'' (store_run ev (\<lambda>v. insert_swap v record)) s1 = Some (Inr u, s2)"
        by blast
      then show "guard ev cfg (sy_db s2) (LinkQuote (qr_quote_id (sp_quote plan)) sid)"
        using fund_swap_record(2,3) [OF plan hash f] store_run_insert_swap(2) by fastforce
    qed
  qed (rule writes_quiet, rule preserves_return)
qed

lemma fund_and_record_done:
  assumes plan: "plan_ok ev cfg req plan" and hash: "length hash = 32" and ok: "store_ok (sy_db s)"
    and run: "fund_and_record ev cfg plan sid invoice hash s = Some (Inr (record, spk, txid), s')"
  shows "store_ok (sy_db s')" and "swaps (sy_db s') = (swaps (sy_db s))(sid \<mapsto> record)"
    and "swaps (sy_db s) sid = None"
    and "\<exists>q. quotes (sy_db s) (qr_quote_id (sp_quote plan)) = Some q \<and>
      quotes (sy_db s') = (quotes (sy_db s))(qr_quote_id (sp_quote plan) \<mapsto> q\<lparr>qr_swap_id := Some sid\<rparr>)"
    and "\<exists>s1. fund_swap ev cfg plan sid invoice hash s = Some (Inr (record, spk, txid), s1)"
proof -
  from run obtain s1 s2 where
    f: "fund_swap ev cfg plan sid invoice hash s = Some (Inr (record, spk, txid), s1)"
    and i: "ctx ''persist swap'' (store_run ev (\<lambda>v. insert_swap v record)) s1 = Some (Inr (), s2)"
    and l: "ctx ''link quote to swap'' (store_run ev (\<lambda>v. set_quote_swap_id v (qr_quote_id (sp_quote plan)) sid)) s2
              = Some (Inr (), s')"
    by (auto simp: fund_and_record_def bind_run_Inr)
  have db1: "sy_db s1 = sy_db s" by (rule quiet_db [OF preserves_fund_swap f])
  have id: "sr_swap_id record = sid" using fund_swap_record(2) [OF plan hash f] .
  have ok1: "store_ok (sy_db s1)" using ok db1 by simp
  note ins = store_run_insert_swap [OF ok1 i]
  note lnk = store_run_link [OF ins(1) l]
  show "store_ok (sy_db s')" by (rule lnk(1))
  show "swaps (sy_db s') = (swaps (sy_db s))(sid \<mapsto> record)" using lnk(2) ins(2) db1 id by simp
  show "swaps (sy_db s) sid = None" using ins(4) db1 id by simp
  show "\<exists>q. quotes (sy_db s) (qr_quote_id (sp_quote plan)) = Some q \<and>
      quotes (sy_db s') = (quotes (sy_db s))(qr_quote_id (sp_quote plan) \<mapsto> q\<lparr>qr_swap_id := Some sid\<rparr>)"
    using lnk(3) ins(3) db1 by simp
  show "\<exists>s1. fund_swap ev cfg plan sid invoice hash s = Some (Inr (record, spk, txid), s1)" using f by blast
qed

lemma preserves_wait_funding [preserve_intros]:
  "preserves (on_db X) (wait_for_funding_confirmations ev spk t c d)"
  unfolding wait_for_funding_confirmations_def by (intro preserve_intros)

lemma mark_funded_writes:
  assumes "\<And>s. store_ok (sy_db s) \<Longrightarrow> P s \<Longrightarrow> swaps (sy_db s) (sr_swap_id record) \<noteq> None"
  shows "writes_from ev cfg P (mark_funded ev record)"
  unfolding mark_funded_def
  by (intro writes_bind writes_ctx writes_funded; (rule writes_quiet; intro preserve_intros)?)
    (use assms in fastforce)

lemma create_swap_task_writes:
  assumes plan: "plan_ok ev cfg req plan" and hash: "length hash = 32"
  shows "writes_from ev cfg P (create_swap_task ev cfg plan sid invoice hash)"
  unfolding create_swap_task_parts
proof (intro writes_bind)
  show "writes_from ev cfg P (fund_and_record ev cfg plan sid invoice hash)"
    using fund_and_record_writes [OF plan hash] .
next
  fix a :: "swap_record \<times> bytes \<times> txid"
  obtain "record" spk txid where a: "a = (record, spk, txid)" by (cases a) auto
  let ?Q = "\<lambda>x s1. \<exists>s. store_ok (sy_db s) \<and> P s \<and> fund_and_record ev cfg plan sid invoice hash s = Some (Inr x, s1)"
  let ?wait = "ctx ''wait funding confirmations''
      (wait_for_funding_confirmations ev spk txid (qr_min_funding_confs (sp_quote plan)) (300 * SECOND))"
  have wait: "preserves (on_db X) ?wait" for X by (intro preserve_intros)
  show "writes_from ev cfg (?Q a) (case a of (record, htlc_spk, funding_txid) \<Rightarrow>
      bind_run (ctx ''wait funding confirmations''
        (wait_for_funding_confirmations ev htlc_spk funding_txid
           (qr_min_funding_confs (sp_quote plan)) (300 * SECOND))) (\<lambda>_. mark_funded ev record))"
    unfolding a prod.case
  proof (intro writes_bind)
    show "writes_from ev cfg (\<lambda>s1. \<exists>s. store_ok (sy_db s) \<and> P s \<and>
        fund_and_record ev cfg plan sid invoice hash s = Some (Inr (record, spk, txid), s1)) ?wait"
      by (rule writes_quiet) (rule wait)
  next
    fix c
    show "writes_from ev cfg (\<lambda>s2. \<exists>s1. store_ok (sy_db s1) \<and> (\<exists>s. store_ok (sy_db s) \<and> P s \<and>
        fund_and_record ev cfg plan sid invoice hash s = Some (Inr (record, spk, txid), s1)) \<and>
        ?wait s1 = Some (Inr c, s2)) (mark_funded ev record)"
    proof (rule mark_funded_writes, elim exE conjE)
      fix s2 s1 s
      assume "store_ok (sy_db s)" and f: "fund_and_record ev cfg plan sid invoice hash s = Some (Inr (record, spk, txid), s1)"
        and w: "?wait s1 = Some (Inr c, s2)"
      moreover obtain s0 where "fund_swap ev cfg plan sid invoice hash s = Some (Inr (record, spk, txid), s0)"
        using fund_and_record_done(5) [OF plan hash _ f] calculation(1) by blast
      ultimately show "swaps (sy_db s2) (sr_swap_id record) \<noteq> None"
        using fund_and_record_done(2) [OF plan hash _ f] fund_swap_record(2) [OF plan hash] quiet_db [OF wait w]
        by auto
    qed
  qed
qed

lemma create_swap_writes:
  assumes invoices: "invoices_ok ev"
  shows "writes_from ev cfg (\<lambda>_. True) (create_swap ev cfg request)"
  unfolding create_swap_def
proof (intro writes_bind)
  show "writes_from ev cfg (\<lambda>_. True) (check_create_swap ev cfg request)"
    by (rule writes_quiet) (intro preserve_intros)
next
  fix checked :: "pb_swap + swap_plan"
  show "writes_from ev cfg (\<lambda>s1. \<exists>s. store_ok (sy_db s) \<and> True \<and> check_create_swap ev cfg request s = Some (Inr checked, s1))
     (case checked of Inl swap \<Rightarrow> return_run swap
      | Inr plan \<Rightarrow> bind_run (uuid_run ev) (\<lambda>swap_id.
          bind_run (swap_invoice ev (rq_message request) (sp_quote plan) swap_id) (\<lambda>(invoice, payment_hash).
          bind_run (internal ''create swap: '' (create_swap_task ev cfg plan swap_id invoice payment_hash)) (\<lambda>record.
          internal ''encode swap: '' (lift_run (swap_record_to_proto ev record))))))"
  proof (cases checked)
    case (Inl swap)
    then show ?thesis by (simp add: writes_quiet preserves_return)
  next
    case (Inr plan)
    have task: "writes_from ev cfg (\<lambda>s3. \<exists>s2. store_ok (sy_db s2) \<and> (\<exists>s1. store_ok (sy_db s1) \<and>
          (\<exists>s. store_ok (sy_db s) \<and> True \<and> check_create_swap ev cfg request s = Some (Inr (Inr plan), s1)) \<and>
          uuid_run ev s1 = Some (Inr sid, s2)) \<and>
        swap_invoice ev (rq_message request) (sp_quote plan) sid s2 = Some (Inr (invoice, hash), s3))
      (create_swap_task ev cfg plan sid invoice hash)" for sid invoice hash
    proof (cases "plan_ok ev cfg (rq_message request) plan \<and> length hash = 32")
      case True
      then show ?thesis using create_swap_task_writes by blast
    next
      case False
      then show ?thesis using swap_invoice_hash [OF invoices] check_create_swap_plan(2)
        by (intro writes_fromI) (elim exE conjE, blast)
    qed
    show ?thesis unfolding Inr sum.case
    proof (intro writes_bind)
      fix sid and a :: "string \<times> bytes"
      obtain invoice hash where a: "a = (invoice, hash)" by (cases a) auto
      show "writes_from ev cfg (\<lambda>s3. \<exists>s2. store_ok (sy_db s2) \<and> (\<exists>s1. store_ok (sy_db s1) \<and>
            (\<exists>s. store_ok (sy_db s) \<and> True \<and> check_create_swap ev cfg request s = Some (Inr (Inr plan), s1)) \<and>
            uuid_run ev s1 = Some (Inr sid, s2)) \<and>
          swap_invoice ev (rq_message request) (sp_quote plan) sid s2 = Some (Inr a, s3))
        (case a of (invoice, payment_hash) \<Rightarrow>
          bind_run (internal ''create swap: '' (create_swap_task ev cfg plan sid invoice payment_hash)) (\<lambda>record.
          internal ''encode swap: '' (lift_run (swap_record_to_proto ev record))))"
        unfolding a prod.case
        by (intro writes_bind writes_internal task; rule writes_quiet; intro preserve_intros)
    qed (rule writes_quiet; intro preserve_intros)+
  qed
qed

end
