(* ===== verification/Service_Steps.thy ===== *)
theory Service_Steps
  imports Service_Facts
begin

text \<open>
  The remaining writers (payment, claim, refund worker), then the service as a state machine:
  one step is a handler answering one request, a round of the refund worker, or a change of
  the outside world. Every reachable store satisfies the invariant of \<open>Store_Writes\<close>.
\<close>

section \<open>Programs that read before they write\<close>

text \<open>A part that does not write keeps what is known of the store.\<close>

lemma writes_bind_quiet:
  assumes quiet: "\<And>X. preserves (on_db X) m"
    and rest: "\<And>a s s1. m s = Some (Inr a, s1) \<Longrightarrow> writes_from ev cfg (on_db D) (f a)"
  shows "writes_from ev cfg (on_db D) (bind_run m f)"
proof (rule writes_fromI)
  fix s r s'
  assume ok: "store_ok (sy_db s)" and D: "on_db D s" and "bind_run m f s = Some (r, s')"
  then consider e where "m s = Some (Inl e, s')"
    | a s1 where "m s = Some (Inr a, s1)" and "f a s1 = Some (r, s')"
    by (auto simp: bind_run_Some)
  then show "(store_write ev cfg)\<^sup>*\<^sup>* (sy_db s) (sy_db s')"
  proof cases
    case 1
    then show ?thesis using quiet_db [OF quiet 1] by simp
  next
    case 2
    have db: "sy_db s1 = sy_db s" using quiet_db [OF quiet 2(1)] .
    with ok D have "store_ok (sy_db s1)" "on_db D s1" by (simp_all add: on_db_def)
    then show ?thesis using writes_fromD [OF rest [OF 2(1)] 2(2)] db by simp
  qed
qed

lemma writes_bind_done:
  assumes "writes_from ev cfg P m" and "\<And>a. \<forall>X. preserves (on_db X) (f a)"
  shows "writes_from ev cfg P (bind_run m f)"
proof (rule writes_bind [OF assms(1)])
  fix a
  show "writes_from ev cfg (\<lambda>s1. \<exists>s. store_ok (sy_db s) \<and> P s \<and> m s = Some (Inr a, s1)) (f a)"
    using assms(2) by (intro writes_quiet) blast
qed

section \<open>Loading a swap\<close>

lemma preserves_load_swap [preserve_intros]: "preserves (on_db X) (load_swap ev cfg request k)"
  unfolding load_swap_def by (intro preserve_intros)

lemma store_run_get_swap:
  assumes "store_ok (sy_db s)" and "store_run ev (\<lambda>v. get_swap v k) s = Some (Inr found, s')"
  shows "found = swaps (sy_db s) k" and "sy_db s' = sy_db s"
proof -
  from assms(2) obtain v where got: "get_swap v k (sy_db s) = Some (Inr found, sy_db s')"
    by (auto simp: store_run_Some)
  then have "v = None"
    using assms(1) by (cases v)
      (auto simp: get_swap_def on_swaps_def query_optional_def read_optional_def store_ok_def split: option.splits)
  with got get_swap_ok [OF assms(1)] show "found = swaps (sy_db s) k" "sy_db s' = sy_db s" by auto
qed

lemma load_swap_Inr:
  assumes "load_swap ev cfg request k s = Some (Inr (caller, record), s')"
  shows "require_authenticated ev cfg request = Inr caller" and "sy_db s' = sy_db s"
    and "store_ok (sy_db s) \<Longrightarrow> swaps (sy_db s) k = Some record"
    and "store_ok (sy_db s) \<Longrightarrow> sr_swap_id record = k"
proof -
  from assms obtain found s1 where auth: "require_authenticated ev cfg request = Inr caller"
    and got: "store_run ev (\<lambda>v. get_swap v k) s = Some (Inr found, s1)" and found: "found = Some record" "s' = s1"
    by (auto simp: load_swap_def bind_run_Inr)
  show "require_authenticated ev cfg request = Inr caller" by (rule auth)
  show "sy_db s' = sy_db s" by (rule quiet_db [OF preserves_load_swap assms])
  assume ok: "store_ok (sy_db s)"
  show "swaps (sy_db s) k = Some record" using store_run_get_swap(1) [OF ok got] found by simp
  then show "sr_swap_id record = k" using swaps_id [OF ok] by blast
qed

definition stored :: "swap_record \<Rightarrow> database \<Rightarrow> bool" where
  "stored r db \<longleftrightarrow> swaps db (sr_swap_id r) = Some r"

lemma writes_load_swap:
  assumes "\<And>caller record. writes_from ev cfg (on_db (stored record)) (f caller record)"
  shows "writes_from ev cfg (\<lambda>_. True) (bind_run (load_swap ev cfg request k) (\<lambda>(caller, record). f caller record))"
proof (rule writes_bind)
  show "writes_from ev cfg (\<lambda>_. True) (load_swap ev cfg request k)"
    by (rule writes_quiet) (intro preserve_intros)
next
  fix a :: "caller_role \<times> swap_record"
  obtain caller "record" where a: "a = (caller, record)" by (cases a) auto
  show "writes_from ev cfg (\<lambda>s1. \<exists>s. store_ok (sy_db s) \<and> True \<and> load_swap ev cfg request k s = Some (Inr a, s1))
      (case a of (caller, record) \<Rightarrow> f caller record)"
    unfolding a prod.case
  proof (rule writes_weaken [OF assms], elim exE conjE)
    fix s1 s assume ok: "store_ok (sy_db s)" and load: "load_swap ev cfg request k s = Some (Inr (caller, record), s1)"
    show "on_db (stored record) s1"
      using load_swap_Inr(2) [OF load] load_swap_Inr(3,4) [OF load ok] by (simp add: on_db_def stored_def)
  qed
qed

section \<open>CreateLightningPayment\<close>

lemma preserves_hash_matches [preserve_intros]: "preserves (on_db X) (hash_matches ev record preimage)"
  unfolding hash_matches_def by (intro preserve_intros)

lemma hash_matches_Inr:
  "hash_matches ev record preimage s = Some (Inr u, s') \<Longrightarrow>
     ev_hex_decode ev (sr_payment_hash record) = Inr (sha256_preimage (ev_crypto ev) preimage)"
  by (auto simp: hash_matches_def bind_run_Inr)

lemma pay_swap_writes: "writes_from ev cfg (on_db (stored record)) (pay_swap ev record t)"
  unfolding pay_swap_def Let_def
proof (rule writes_bind_quiet, rule preserves_internal, rule preserves_pay_invoice,
    rule writes_bind_quiet, rule preserves_internal, rule preserves_wait_preimage,
    rule writes_bind_quiet, rule preserves_hash_matches)
  fix pid preimage s1 s1' s2 s2' and u :: unit
  assume wait: "internal ''wait preimage: '' (wait_preimage ev pid (payment_timeout t)) s1 = Some (Inr preimage, s1')"
    and matches: "hash_matches ev record preimage s2 = Some (Inr u, s2')"
  have "length preimage = 32" using wait_preimage_found(1) wait by simp
  then have "preimage_for ev record (ev_hex_encode ev preimage)"
    using hash_matches_Inr [OF matches] unfolding preimage_for_def by blast
  then show "writes_from ev cfg (on_db (stored record))
      (bind_run (internal ''persist payment: ''
         (store_run ev (\<lambda>v. upsert_swap_payment v (sr_swap_id record) pid (ev_hex_encode ev preimage) Paid)))
       (\<lambda>_. lift_run (case ev_hex_decode ev (ev_hex_encode ev preimage) of
          Inl _ \<Rightarrow> Inl (Panicked ''hex encoding/decoding of preimage must roundtrip'')
        | Inr bs \<Rightarrow> Inr \<lparr>pay_payment_id = pid, pay_preimage = bs\<rparr>)))"
    by (intro writes_bind_done writes_internal writes_payment allI preserves_lift)
      (auto simp: on_db_def stored_def)
qed

lemma create_lightning_payment_writes:
  "writes_from ev cfg (\<lambda>_. True) (create_lightning_payment ev cfg request)"
  unfolding create_lightning_payment_unfold Let_def
proof (rule writes_load_swap)
  fix caller :: caller_role and "record" :: swap_record
  have pay: "writes_from ev cfg (on_db (stored record))
      (bind_run (require (sr_status record = Funded) FailedPrecondition ''swap is not funded'')
         (\<lambda>_. pay_swap ev record t))" for t
    by (rule writes_bind_quiet) (rule preserves_require pay_swap_writes)+
  show "writes_from ev cfg (on_db (stored record))
      (bind_run (authorized (require_swap_role caller
         (role_or_unspecified (pa_ln_payer (parties_for_direction (direction_to_proto (sr_direction record))))) ''ln_payer''))
       (\<lambda>_. case (sr_ln_payment_id record, sr_ln_preimage_hex record) of
          (Some payment_id, Some preimage_hex) \<Rightarrow>
            bind_run (internal ''decode preimage_hex: '' (lib_run (ev_hex_decode ev preimage_hex))) (\<lambda>preimage.
            return_run \<lparr>pay_payment_id = payment_id, pay_preimage = preimage\<rparr>)
        | _ \<Rightarrow> bind_run (require (sr_status record = Funded) FailedPrecondition ''swap is not funded'')
                (\<lambda>_. pay_swap ev record (lp_payment_timeout_secs (rq_message request)))))"
  proof (rule writes_bind_quiet)
    show "writes_from ev cfg (on_db (stored record))
       (case (sr_ln_payment_id record, sr_ln_preimage_hex record) of
          (Some payment_id, Some preimage_hex) \<Rightarrow>
            bind_run (internal ''decode preimage_hex: '' (lib_run (ev_hex_decode ev preimage_hex))) (\<lambda>preimage.
            return_run \<lparr>pay_payment_id = payment_id, pay_preimage = preimage\<rparr>)
        | _ \<Rightarrow> bind_run (require (sr_status record = Funded) FailedPrecondition ''swap is not funded'')
                (\<lambda>_. pay_swap ev record (lp_payment_timeout_secs (rq_message request))))"
      by (cases "sr_ln_payment_id record"; cases "sr_ln_preimage_hex record")
        (simp_all add: pay writes_quiet preserves_bind preserves_internal preserves_lib preserves_return)
  qed (intro preserve_intros)
qed

section \<open>CreateAssetClaim\<close>

lemma claim_task_writes:
  assumes "sr_ln_preimage_hex record \<noteq> None"
  shows "writes_from ev cfg (on_db (stored record)) (claim_task ev cfg record preimage fee)"
proof -
  have claimed: "writes_from ev cfg (on_db (stored record))
     (bind_run (ctx ''persist claim'' (store_run ev (\<lambda>v. upsert_swap_claim v (sr_swap_id record) txid Claimed)))
        (\<lambda>_. return_run txid'))" for txid txid' :: string
    using assms by (intro writes_bind_done writes_ctx writes_claim allI preserves_return)
      (auto simp: on_db_def stored_def)
  show ?thesis
    unfolding claim_task_def Let_def
    by (cases "sr_direction record"; simp; intro writes_bind_quiet claimed preserve_intros)
qed

lemma create_asset_claim_writes: "writes_from ev cfg (\<lambda>_. True) (create_asset_claim ev cfg request)"
  unfolding create_asset_claim_unfold Let_def
proof (rule writes_load_swap)
  fix caller :: caller_role and "record" :: swap_record
  have claim: "writes_from ev cfg (on_db (stored record))
     (bind_run (lift_run (ok_or (Status FailedPrecondition (Text ''swap has not been paid yet'')) (sr_ln_preimage_hex record)))
        (\<lambda>preimage_hex. bind_run (internal ''decode preimage_hex: '' (lib_run (ev_hex_decode ev preimage_hex)))
        (\<lambda>preimage. bind_run (require (length preimage = 32) Internal ''preimage must be 32 bytes'')
        (\<lambda>_. bind_run (internal ''claim asset: '' (claim_task ev cfg record preimage fee))
        (\<lambda>claim_txid. return_run \<lparr>ac_claim_txid = claim_txid\<rparr>)))))" for fee
  proof (rule writes_bind_quiet)
    fix preimage_hex and s s1 :: "'a sys"
    assume "lift_run (ok_or (Status FailedPrecondition (Text ''swap has not been paid yet'')) (sr_ln_preimage_hex record)) s =
        Some (Inr preimage_hex, s1)"
    then have "sr_ln_preimage_hex record \<noteq> None" by auto
    then show "writes_from ev cfg (on_db (stored record))
       (bind_run (internal ''decode preimage_hex: '' (lib_run (ev_hex_decode ev preimage_hex)))
        (\<lambda>preimage. bind_run (require (length preimage = 32) Internal ''preimage must be 32 bytes'')
        (\<lambda>_. bind_run (internal ''claim asset: '' (claim_task ev cfg record preimage fee))
        (\<lambda>claim_txid. return_run \<lparr>ac_claim_txid = claim_txid\<rparr>))))"
      by (intro writes_bind_quiet writes_bind_done writes_internal claim_task_writes preserve_intros allI)
  qed (intro preserve_intros)
  show "writes_from ev cfg (on_db (stored record))
     (bind_run (authorized (require_swap_role caller
         (role_or_unspecified (pa_liquid_claimer (parties_for_direction (direction_to_proto (sr_direction record)))))
         ''liquid_claimer''))
       (\<lambda>_. case sr_claim_txid record of
          None \<Rightarrow> bind_run (lift_run (ok_or (Status FailedPrecondition (Text ''swap has not been paid yet'')) (sr_ln_preimage_hex record)))
            (\<lambda>preimage_hex. bind_run (internal ''decode preimage_hex: '' (lib_run (ev_hex_decode ev preimage_hex)))
            (\<lambda>preimage. bind_run (require (length preimage = 32) Internal ''preimage must be 32 bytes'')
            (\<lambda>_. bind_run (internal ''claim asset: '' (claim_task ev cfg record preimage
                (if ac_claim_fee_sats (rq_message request) = 0 then DEFAULT_CLAIM_FEE_SATS
                 else ac_claim_fee_sats (rq_message request))))
            (\<lambda>claim_txid. return_run \<lparr>ac_claim_txid = claim_txid\<rparr>))))
        | Some claim_txid \<Rightarrow> return_run \<lparr>ac_claim_txid = claim_txid\<rparr>))"
    by (intro writes_bind_quiet writes_case_option claim writes_quiet preserve_intros)
qed

end
