(* ===== verification/Service_Machine.thy ===== *)
theory Service_Machine
  imports Service_Steps
begin

text \<open>
  The refund worker's writes, then the service as a state machine: one step is a handler
  answering one request, a round of the refund worker, or a change of the outside world.
  Every reachable store satisfies the invariant of \<open>Store_Writes\<close>, and no step changes the
  terms of a swap or of a quote.
\<close>

section \<open>The refund worker writes\<close>

definition known :: "swap_record list \<Rightarrow> database \<Rightarrow> bool" where
  "known rs db \<longleftrightarrow> (\<forall>r\<in>set rs. swaps db (sr_swap_id r) \<noteq> None)"

lemma mark_refunded_writes:
  "writes_from ev cfg (on_db (known [r]))
     (\<lambda>st. case broadcast_transaction ev tx st of
         None \<Rightarrow> None
       | Some (Inr _, st') \<Rightarrow>
           ctx c (store_run ev (\<lambda>v. update_swap_status v (sr_swap_id r) Refunded)) st'
       | Some (Inl _, st') \<Rightarrow> Some (Inr (), st'))"
proof (rule writes_fromI)
  fix s res s'
  let ?mark = "ctx c (store_run ev (\<lambda>v. update_swap_status v (sr_swap_id r) Refunded)) :: ('a, unit) io"
  assume ok: "store_ok (sy_db s)" and known: "on_db (known [r]) s"
    and run: "(case broadcast_transaction ev tx s of None \<Rightarrow> None
       | Some (Inr _, st') \<Rightarrow> ?mark st' | Some (Inl _, st') \<Rightarrow> Some (Inr (), st')) = Some (res, s')"
  obtain b s1 where b: "broadcast_transaction ev tx s = Some (b, s1)" using run by (auto split: option.splits)
  have db: "sy_db s1 = sy_db s" by (rule quiet_db [OF preserves_broadcast b])
  show "(store_write ev cfg)\<^sup>*\<^sup>* (sy_db s) (sy_db s')"
  proof (cases b)
    case (Inl e)
    then show ?thesis using run b db by simp
  next
    case (Inr t)
    have "writes_from ev cfg (on_db (known [r])) ?mark"
      by (intro writes_ctx writes_refunded) (auto simp: on_db_def known_def)
    moreover have "?mark s1 = Some (res, s')" using run b Inr by simp
    ultimately show ?thesis using writes_fromD ok known db by (fastforce simp: on_db_def)
  qed
qed

lemma refund_swap_writes: "writes_from ev cfg (on_db (known [r])) (refund_swap ev ks kb fee r)"
  unfolding refund_swap_def Let_def
  by (cases "sr_direction r"; simp; intro writes_bind_quiet mark_refunded_writes preserve_intros)

lemma refund_all_writes: "writes_from ev cfg (on_db (known rs)) (refund_all ev ks kb fee tip rs)"
proof (induction rs)
  case Nil
  show ?case unfolding refund_all.simps by (rule writes_quiet) (rule preserves_return)
next
  case (Cons r rs)
  let ?m = "if refundable tip r then refund_swap ev ks kb fee r else return_run ()"
  have first: "writes_from ev cfg (on_db (known (r # rs))) ?m"
  proof (cases "refundable tip r")
    case True
    have "writes_from ev cfg (on_db (known (r # rs))) (refund_swap ev ks kb fee r)"
      by (rule writes_weaken [OF refund_swap_writes]) (simp add: on_db_def known_def)
    then show ?thesis using True by simp
  next
    case False
    have "writes_from ev cfg (on_db (known (r # rs))) (return_run ())"
      by (rule writes_quiet) (rule preserves_return)
    then show ?thesis using False by simp
  qed
  show ?case unfolding refund_all.simps
  proof (rule writes_bind [OF first], rule writes_weaken [OF Cons.IH], elim exE conjE)
    fix u s1 s assume ok: "store_ok (sy_db s)" and known: "on_db (known (r # rs)) s"
      and run: "?m s = Some (Inr u, s1)"
    have writes: "(store_write ev cfg)\<^sup>*\<^sup>* (sy_db s) (sy_db s1)"
      using writes_fromD [OF first run ok known] .
    show "on_db (known rs) s1"
      using known store_writes_swaps [OF writes ok] by (auto simp: on_db_def known_def)
  qed
qed

lemma store_run_list_swaps:
  assumes "store_ok (sy_db s)" and "store_run ev list_swaps s = Some (Inr rs, s')"
  shows "set rs = ran (swaps (sy_db s))" and "sy_db s' = sy_db s"
proof -
  from assms(2) obtain v where got: "list_swaps v (sy_db s) = Some (Inr rs, sy_db s')"
    by (auto simp: store_run_Some)
  then have "v = None"
    using assms(1) by (cases v)
      (auto simp: list_swaps_def on_swaps_def query_ordered_def store_ok_def split: option.splits)
  with got list_swaps_ok [OF assms(1)] have "\<forall>r. r \<in> set rs \<longleftrightarrow> swaps (sy_db s) (sr_swap_id r) = Some r"
    and db: "sy_db s' = sy_db s" by auto
  then show "set rs = ran (swaps (sy_db s))" using swaps_id [OF assms(1)] by (auto simp: ran_def)
  show "sy_db s' = sy_db s" by (rule db)
qed

lemma store_run_list_distinct:
  assumes "store_ok (sy_db s)" and "store_run ev list_swaps s = Some (Inr rs, s')"
  shows "distinct (map sr_swap_id rs)" and "\<forall>r\<in>set rs. swaps (sy_db s) (sr_swap_id r) = Some r"
    and "sorted_wrt (<) (map sr_swap_id rs)"
proof -
  from assms(2) obtain v where got: "list_swaps v (sy_db s) = Some (Inr rs, sy_db s')"
    by (auto simp: store_run_Some)
  then have "v = None"
    using assms(1) by (cases v)
      (auto simp: list_swaps_def on_swaps_def query_ordered_def store_ok_def split: option.splits)
  with got list_swaps_ok [OF assms(1)] have "sorted_wrt (<) (map sr_swap_id rs)"
    and "\<forall>r. r \<in> set rs \<longleftrightarrow> swaps (sy_db s) (sr_swap_id r) = Some r" by auto
  then show "distinct (map sr_swap_id rs)" and "\<forall>r\<in>set rs. swaps (sy_db s) (sr_swap_id r) = Some r"
    and "sorted_wrt (<) (map sr_swap_id rs)"
    by (simp_all add: strict_sorted_iff)
qed

lemma refund_once_writes: "writes_from ev cfg (\<lambda>_. True) (refund_once ev ks kb fee)"
proof -
  have quiet: "writes_from ev cfg P (ctx ''sync wallet'' (sync ev))" "writes_from ev cfg P (tip_height ev)"
    "writes_from ev cfg P (ctx ''list swaps'' (store_run ev list_swaps))" for P
    by (rule writes_quiet, intro preserve_intros)+
  show ?thesis unfolding refund_once_unfold
  proof (rule writes_bind [OF quiet(1)], rule writes_bind [OF quiet(2)], rule writes_bind [OF quiet(3)],
      rule writes_weaken [OF refund_all_writes], elim exE conjE)
    fix rs s1 s assume ok: "store_ok (sy_db s)" and "ctx ''list swaps'' (store_run ev list_swaps) s = Some (Inr rs, s1)"
    then have "store_run ev list_swaps s = Some (Inr rs, s1)" by simp
    from store_run_list_swaps [OF ok this] show "on_db (known rs) s1"
      using swaps_id [OF ok] by (fastforce simp: on_db_def known_def ran_def)
  qed
qed

section \<open>The machine\<close>

inductive service_step :: "'w env \<Rightarrow> swap_service_config \<Rightarrow> u64 \<Rightarrow> 'w sys \<Rightarrow> 'w sys \<Rightarrow> bool"
  for ev cfg fee where
  step_create_quote: "create_quote ev cfg rq1 s = Some (r1, s') \<Longrightarrow> service_step ev cfg fee s s'"
| step_get_quote: "get_quote_rpc ev cfg rq2 s = Some (r2, s') \<Longrightarrow> service_step ev cfg fee s s'"
| step_create_swap: "create_swap ev cfg rq3 s = Some (r3, s') \<Longrightarrow> service_step ev cfg fee s s'"
| step_get_swap: "get_swap_rpc ev cfg rq4 s = Some (r4, s') \<Longrightarrow> service_step ev cfg fee s s'"
| step_pay: "create_lightning_payment ev cfg rq5 s = Some (r5, s') \<Longrightarrow> service_step ev cfg fee s s'"
| step_claim: "create_asset_claim ev cfg rq6 s = Some (r6, s') \<Longrightarrow> service_step ev cfg fee s s'"
| step_refund: "refund_once ev (cf_seller_key_index cfg) (cf_buyer_key_index cfg) fee s = Some (r7, s') \<Longrightarrow>
    service_step ev cfg fee s s'"
| step_world: "service_step ev cfg fee s (s\<lparr>sy_world := w\<rparr>)"

inductive_cases service_stepE: "service_step ev cfg fee s s'"

lemma service_step_writes:
  assumes "invoices_ok ev" and "service_step ev cfg fee s s'" and ok: "store_ok (sy_db s)"
  shows "(store_write ev cfg)\<^sup>*\<^sup>* (sy_db s) (sy_db s')"
  using assms(2)
proof cases
  case (step_create_quote rq r)
  then show ?thesis using writes_fromD [OF create_quote_writes _ ok] by blast
next
  case (step_get_quote rq r)
  then show ?thesis using quiet_db [OF preserves_get_quote_rpc] by fastforce
next
  case (step_create_swap rq r)
  then show ?thesis using writes_fromD [OF create_swap_writes [OF assms(1)] _ ok] by blast
next
  case (step_get_swap rq r)
  then show ?thesis using quiet_db [OF preserves_get_swap_rpc] by fastforce
next
  case (step_pay rq r)
  then show ?thesis using writes_fromD [OF create_lightning_payment_writes _ ok] by blast
next
  case (step_claim rq r)
  then show ?thesis using writes_fromD [OF create_asset_claim_writes _ ok] by blast
next
  case (step_refund r)
  then show ?thesis using writes_fromD [OF refund_once_writes _ ok] by blast
next
  case (step_world w)
  then show ?thesis by simp
qed

lemma service_steps_writes:
  assumes "invoices_ok ev" and "(service_step ev cfg fee)\<^sup>*\<^sup>* s s'" and "store_ok (sy_db s)"
  shows "(store_write ev cfg)\<^sup>*\<^sup>* (sy_db s) (sy_db s')"
  using assms(2,3)
proof (induction rule: rtranclp_induct)
  case (step s1 s2)
  then have "(store_write ev cfg)\<^sup>*\<^sup>* (sy_db s) (sy_db s1)" by simp
  moreover have "(store_write ev cfg)\<^sup>*\<^sup>* (sy_db s1) (sy_db s2)"
    using service_step_writes [OF assms(1) step.hyps(2)] store_writes_ok [OF calculation step.prems] by blast
  ultimately show ?case by (rule rtranclp_trans)
qed simp

section \<open>What never changes\<close>

lemma same_terms_trans: "same_terms r1 r2 \<Longrightarrow> same_terms r2 r3 \<Longrightarrow> same_terms r1 r3"
  by (cases r1; cases r2; cases r3) (simp add: same_terms_def)

lemma store_writes_terms:
  assumes "(store_write ev cfg)\<^sup>*\<^sup>* db db'" and "store_ok db" and "swaps db k = Some r"
  shows "\<exists>r'. swaps db' k = Some r' \<and> same_terms r r'"
  using assms
proof (induction rule: rtranclp_induct)
  case (step db1 db2)
  then obtain r1 where r1: "swaps db1 k = Some r1" "same_terms r r1" by auto
  have "store_ok db1" using store_writes_ok [OF step.hyps(1)] step.prems(1) by blast
  then obtain r2 where "swaps db2 k = Some r2" "same_terms r1 r2"
    using step.hyps(2) r1(1) by (elim store_writeE) (metis exec_write_swaps)
  then show ?case using same_terms_trans [OF r1(2)] by blast
qed simp

definition same_quote :: "quote_record \<Rightarrow> quote_record \<Rightarrow> bool" where
  "same_quote q q' \<longleftrightarrow>
     q' = q\<lparr>qr_swap_id := qr_swap_id q'\<rparr> \<and> (qr_swap_id q \<noteq> None \<longrightarrow> qr_swap_id q' \<noteq> None)"

lemma exec_write_quotes:
  assumes "store_ok db" and "exec_write v req db = Some (res, db')" and "quotes db k = Some q"
  shows "\<exists>q'. quotes db' k = Some q' \<and> same_quote q q'"
  using exec_write_effect(2) [OF assms(1,2)] assms(3)
  by (cases req) (auto simp: same_quote_def)

lemma same_quote_trans: "same_quote q1 q2 \<Longrightarrow> same_quote q2 q3 \<Longrightarrow> same_quote q1 q3"
  by (cases q1; cases q2; cases q3) (simp add: same_quote_def)

lemma store_writes_quotes:
  assumes "(store_write ev cfg)\<^sup>*\<^sup>* db db'" and "store_ok db" and "quotes db k = Some q"
  shows "\<exists>q'. quotes db' k = Some q' \<and> same_quote q q'"
  using assms
proof (induction rule: rtranclp_induct)
  case base
  then show ?case by (simp add: same_quote_def)
next
  case (step db1 db2)
  then obtain q1 where q1: "quotes db1 k = Some q1" "same_quote q q1" by auto
  have "store_ok db1" using store_writes_ok [OF step.hyps(1)] step.prems(1) by blast
  then obtain q2 where "quotes db2 k = Some q2" "same_quote q1 q2"
    using step.hyps(2) q1(1) by (elim store_writeE) (metis exec_write_quotes)
  then show ?case using same_quote_trans [OF q1(2)] by blast
qed

end
