(* ===== verification/Handler_Facts.thy ===== *)
theory Handler_Facts
  imports Service_Machine
begin

text \<open>
  What the handlers establish when they answer, and that they always answer. The properties
  of the service are read off these facts.
\<close>

section \<open>Programs that return\<close>

definition returns :: "('s, 'e, 'a) run \<Rightarrow> bool" where
  "returns m \<longleftrightarrow> (\<forall>s. m s \<noteq> None)"

named_theorems return_intros \<open>which programs return\<close>

lemma returnsD: "returns m \<Longrightarrow> \<exists>r s'. m s = Some (r, s')"
  by (auto simp: returns_def)

lemma returns_bind [return_intros]:
  assumes "returns m" and "\<And>a. returns (f a)" shows "returns (bind_run m f)"
  unfolding returns_def
proof
  fix s
  obtain r s1 where "m s = Some (r, s1)" using returnsD [OF assms(1)] by blast
  then show "bind_run m f s \<noteq> None"
    using assms(2) by (cases r) (simp_all add: bind_run_def returns_def)
qed

lemma returns_map_err [return_intros]: "returns m \<Longrightarrow> returns (map_err_run f m)"
  by (auto simp: returns_def map_err_run_def split: option.splits)

lemma returns_ctx [return_intros]: "returns m \<Longrightarrow> returns (ctx c m)"
  unfolding ctx_def by (rule returns_map_err)

lemma returns_internal [return_intros]: "returns m \<Longrightarrow> returns (internal c m)"
  unfolding internal_def by (rule returns_map_err)

lemma returns_basic [return_intros]:
  "returns (return_run a)" "returns (lift_run r)" "returns (ensure_run b e)" "returns (lib_run x)"
  "returns (effect_run f)" "returns (read_world g)" "returns (uuid_run ev)"
  "returns (authorized q)" "returns (invalid c v)" "returns (require b code msg)"
  by (simp_all add: returns_def)

lemma returns_option [return_intros]:
  "returns m \<Longrightarrow> (\<And>a. returns (f a)) \<Longrightarrow> returns (case x of None \<Rightarrow> m | Some a \<Rightarrow> f a)"
  by (cases x) auto

lemma returns_sum [return_intros]:
  "(\<And>a. returns (f a)) \<Longrightarrow> (\<And>b. returns (g b)) \<Longrightarrow> returns (case x of Inl a \<Rightarrow> f a | Inr b \<Rightarrow> g b)"
  by (cases x) auto

lemma returns_prod [return_intros]: "(\<And>a b. returns (f a b)) \<Longrightarrow> returns (case x of (a, b) \<Rightarrow> f a b)"
  by (cases x) auto

lemma returns_Let [return_intros]: "(\<And>a. returns (f a)) \<Longrightarrow> returns (let a = x in f a)"
  by simp

lemma returns_if [return_intros]: "returns m \<Longrightarrow> returns n \<Longrightarrow> returns (if b then m else n)"
  by simp

lemma returns_direction [return_intros]:
  "returns m \<Longrightarrow> returns n \<Longrightarrow> returns (case d of LnToLiquid \<Rightarrow> m | LiquidToLn \<Rightarrow> n)"
  by (cases d) auto

lemma returns_store [return_intros]: "(\<And>v. returns (op v)) \<Longrightarrow> returns (store_run ev op)"
  by (fastforce simp: returns_def store_run_def split_beta Let_def split: option.splits)

lemma returns_on_tables [return_intros]: "returns (on_quotes f)" "returns (on_swaps g)"
  by (simp_all add: returns_def on_quotes_def on_swaps_def split_beta)

lemma returns_store_calls [return_intros]:
  "returns (insert_quote v q)" "returns (get_quote v k)" "returns (set_quote_swap_id v k sid)"
  "returns (insert_swap v r)" "returns (get_swap v k)" "returns (update_swap_status v k st)"
  "returns (upsert_swap_payment v k pid h st)" "returns (upsert_swap_claim v k t st)" "returns (list_swaps v)"
  unfolding insert_quote_def get_quote_def set_quote_swap_id_def insert_swap_def get_swap_def
    update_swap_status_def upsert_swap_payment_def upsert_swap_claim_def list_swaps_def
  by (intro return_intros)+

lemma returns_wait_preimage [return_intros]: "clock_ok ev \<Longrightarrow> returns (wait_preimage ev pid t)"
  using wait_preimage_returns by (fastforce simp: returns_def)

lemma returns_wait_confirmations [return_intros]:
  "clock_ok ev \<Longrightarrow> returns (wait_confirmations what late ev spk txid n t)"
  using wait_confirmations_returns by (fastforce simp: returns_def)

lemmas program_defs =
  create_quote_def get_quote_rpc_def get_swap_rpc_def check_unused_quote_def existing_swap_def
  check_create_swap_def swap_invoice_def fund_swap_def fund_and_record_def wait_for_funding_confirmations_def
  mark_funded_def create_swap_task_parts create_swap_def load_swap_def hash_matches_def pay_swap_def
  create_lightning_payment_unfold claim_task_def create_asset_claim_unfold
  create_invoice_def pay_invoice_def sync_def tip_height_def address_at_def derive_secret_key_def
  build_and_broadcast_funding_def broadcast_transaction_def

lemma handlers_returns:
  assumes "clock_ok ev"
  shows "returns (create_quote ev cfg rq1)" and "returns (get_quote_rpc ev cfg rq2)"
    and "returns (create_swap ev cfg rq3)" and "returns (get_swap_rpc ev cfg rq4)"
    and "returns (create_lightning_payment ev cfg rq5)" and "returns (create_asset_claim ev cfg rq6)"
  unfolding program_defs by (intro return_intros assms)+

lemma refund_swap_returns: "returns (refund_swap ev ks kb fee r)"
proof -
  have "returns (\<lambda>st. case broadcast_transaction ev tx st of
         None \<Rightarrow> None
       | Some (Inr _, st') \<Rightarrow>
           ctx c (store_run ev (\<lambda>v. update_swap_status v k Refunded)) st'
       | Some (Inl _, st') \<Rightarrow> Some (Inr (), st'))" for tx c k
  proof -
    have "returns (ctx c (store_run ev (\<lambda>v. update_swap_status v k Refunded)))" by (intro return_intros)
    moreover have "returns (broadcast_transaction ev tx)"
      unfolding broadcast_transaction_def by (intro return_intros)
    ultimately show ?thesis by (auto simp: returns_def split: option.splits sum.splits)
  qed
  then show ?thesis
    unfolding refund_swap_def address_at_def derive_secret_key_def by (intro return_intros)
qed

lemma refund_once_returns: "returns (refund_once ev ks kb fee)"
proof -
  have "returns (refund_all ev ks kb fee tip rs)" for tip rs
    by (induction rs; unfold refund_all.simps; intro return_intros refund_swap_returns)
  then show ?thesis unfolding refund_once_unfold sync_def tip_height_def by (intro return_intros)
qed

section \<open>What create_swap records\<close>

lemma store_run_get_quote:
  assumes "store_ok (sy_db s)" and "store_run ev (\<lambda>v. get_quote v k) s = Some (Inr found, s')"
  shows "found = quotes (sy_db s) k" and "sy_db s' = sy_db s"
proof -
  from assms(2) obtain v where got: "get_quote v k (sy_db s) = Some (Inr found, sy_db s')"
    by (auto simp: store_run_Some)
  then have "v = None"
    using assms(1) by (cases v)
      (auto simp: get_quote_def on_quotes_def query_optional_def read_optional_def store_ok_def split: option.splits)
  with got get_quote_ok [OF assms(1)] show "found = quotes (sy_db s) k" "sy_db s' = sy_db s" by auto
qed

lemma check_create_swap_linked:
  assumes "store_ok (sy_db s)" and "check_create_swap ev cfg request s = Some (Inr (Inl swap), s')"
  shows "\<exists>quote sid record. quotes (sy_db s) (cs_quote_id (rq_message request)) = Some quote \<and>
    qr_swap_id quote = Some sid \<and> swaps (sy_db s) sid = Some record \<and> swap_record_to_proto ev record = Inr swap"
proof -
  from assms(2) obtain found s1 where
    got: "store_run ev (\<lambda>v. get_quote v (cs_quote_id (rq_message request))) s = Some (Inr found, s1)"
    and rest: "bind_run (lift_run (ok_or (Status NotFound (Text ''quote not found'')) found)) (\<lambda>quote.
       case qr_swap_id quote of
         None \<Rightarrow> bind_run (check_unused_quote ev cfg (rq_message request) quote) (\<lambda>plan. return_run (Inr plan))
       | Some sid \<Rightarrow> bind_run (existing_swap ev sid) (\<lambda>swap. return_run (Inl swap))) s1 = Some (Inr (Inl swap), s')"
    by (auto simp: check_create_swap_def bind_run_Inr Let_def)
  note q = store_run_get_quote [OF assms(1) got]
  from rest obtain quote sid where quote: "found = Some quote" "qr_swap_id quote = Some sid"
    and ex: "existing_swap ev sid s1 = Some (Inr swap, s')"
    by (auto simp: bind_run_Inr split: option.splits)
  from ex obtain found' s2 where got': "store_run ev (\<lambda>v. get_swap v sid) s1 = Some (Inr found', s2)"
    and rec: "case found' of None \<Rightarrow> False | Some record \<Rightarrow> swap_record_to_proto ev record = Inr swap"
    by (auto simp: existing_swap_def bind_run_Inr split: option.splits)
  have "store_ok (sy_db s1)" using assms(1) q(2) by simp
  from store_run_get_swap [OF this got'] have "found' = swaps (sy_db s) sid" using q(2) by simp
  with rec quote q(1) show ?thesis by (auto split: option.splits)
qed

lemma mark_funded_Inr:
  assumes "store_ok (sy_db s)" and "mark_funded ev record s = Some (Inr r', s')"
  shows "r' = record\<lparr>sr_status := Funded\<rparr>" and "quotes (sy_db s') = quotes (sy_db s)"
    and "swaps (sy_db s') = (swaps (sy_db s))(sr_swap_id record :=
           map_option (\<lambda>r. r\<lparr>sr_status := Funded\<rparr>) (swaps (sy_db s) (sr_swap_id record)))"
proof -
  from assms(2) obtain v where r': "r' = record\<lparr>sr_status := Funded\<rparr>"
    and "update_swap_status v (sr_swap_id record) Funded (sy_db s) = Some (Inr (), sy_db s')"
    by (auto simp: mark_funded_def bind_run_Inr store_run_Some)
  with update_swap_status_ok [OF assms(1), of v "sr_swap_id record" Funded]
  show "r' = record\<lparr>sr_status := Funded\<rparr>" and "quotes (sy_db s') = quotes (sy_db s)"
    and "swaps (sy_db s') = (swaps (sy_db s))(sr_swap_id record :=
           map_option (\<lambda>r. r\<lparr>sr_status := Funded\<rparr>) (swaps (sy_db s) (sr_swap_id record)))"
    by auto
qed

text \<open>A successful task: the record made by funding, stored, linked and marked.\<close>

lemma create_swap_task_done:
  assumes plan: "plan_ok ev cfg req plan" and hash: "length hash = 32" and ok: "store_ok (sy_db s)"
    and run: "create_swap_task ev cfg plan sid invoice hash s = Some (Inr r', s')"
  shows "\<exists>r spk txid s1 q. fund_swap ev cfg plan sid invoice hash s = Some (Inr (r, spk, txid), s1) \<and>
    r' = r\<lparr>sr_status := Funded\<rparr> \<and> swaps (sy_db s) sid = None \<and>
    swaps (sy_db s') = (swaps (sy_db s))(sid \<mapsto> r') \<and>
    quotes (sy_db s) (qr_quote_id (sp_quote plan)) = Some q \<and>
    quotes (sy_db s') = (quotes (sy_db s))(qr_quote_id (sp_quote plan) \<mapsto> q\<lparr>qr_swap_id := Some sid\<rparr>) \<and>
    (\<exists>s4 n s5. wait_for_funding_confirmations ev spk txid (qr_min_funding_confs (sp_quote plan)) (300 * SECOND) s4 =
       Some (Inr n, s5) \<and> sy_world s' = snd (ev_sql ev (sy_world s5)))"
proof -
  from run obtain a s2 s3 n where f: "fund_and_record ev cfg plan sid invoice hash s = Some (Inr a, s2)"
    and w: "case a of (r, spk, txid) \<Rightarrow>
      ctx ''wait funding confirmations'' (wait_for_funding_confirmations ev spk txid
        (qr_min_funding_confs (sp_quote plan)) (300 * SECOND)) s2 = Some (Inr n, s3) \<and>
      mark_funded ev r s3 = Some (Inr r', s')"
    by (auto simp: create_swap_task_parts bind_run_Inr split: prod.splits)
  obtain r spk txid where a: "a = (r, spk, txid)" by (cases a) auto
  note fr = fund_and_record_done [OF plan hash ok f [unfolded a]]
  obtain s1 where fund: "fund_swap ev cfg plan sid invoice hash s = Some (Inr (r, spk, txid), s1)"
    using fr(5) by blast
  have id: "sr_swap_id r = sid" using fund_swap_record(2) [OF plan hash fund] .
  have waited: "wait_for_funding_confirmations ev spk txid (qr_min_funding_confs (sp_quote plan)) (300 * SECOND) s2 =
      Some (Inr n, s3)"
    using w a by simp
  then have "sy_db s3 = sy_db s2" by (rule quiet_db [OF preserves_wait_funding])
  moreover note m = mark_funded_Inr [of s3 ev r r' s'] w a id fr(1,2,3)
  ultimately have db: "r' = r\<lparr>sr_status := Funded\<rparr>" "swaps (sy_db s') = (swaps (sy_db s))(sid \<mapsto> r')"
    "quotes (sy_db s') = quotes (sy_db s2)" by auto
  obtain q where "quotes (sy_db s) (qr_quote_id (sp_quote plan)) = Some q"
    "quotes (sy_db s2) = (quotes (sy_db s))(qr_quote_id (sp_quote plan) \<mapsto> q\<lparr>qr_swap_id := Some sid\<rparr>)"
    using fr(4) by blast
  moreover have "sy_world s' = snd (ev_sql ev (sy_world s3))"
    using w a by (auto simp: mark_funded_def bind_run_Inr store_run_Some)
  ultimately show ?thesis using fund db fr(3) waited
    by (intro exI [of _ r] exI [of _ spk] exI [of _ txid] exI [of _ s1] exI [of _ q] exI [of _ s2] conjI exI [of _ n] exI [of _ s3])
      simp_all
qed

lemma create_swap_new:
  assumes invoices: "invoices_ok ev" and ok: "store_ok (sy_db s)"
    and run: "create_swap ev cfg request s = Some (Inr swap, s')"
    and quote: "quotes (sy_db s) (cs_quote_id (rq_message request)) = Some quote" "qr_swap_id quote = None"
  shows "\<exists>plan sid invoice hash r spk txid s1 s2 s3.
    plan_ok ev cfg (rq_message request) plan \<and> sp_quote plan = quote \<and>
    swap_invoice ev (rq_message request) quote sid s1 = Some (Inr (invoice, hash), s2) \<and> length hash = 32 \<and>
    fund_swap ev cfg plan sid invoice hash s2 = Some (Inr (r, spk, txid), s3) \<and>
    swaps (sy_db s) sid = None \<and> swaps (sy_db s') = (swaps (sy_db s))(sid \<mapsto> r\<lparr>sr_status := Funded\<rparr>) \<and>
    quotes (sy_db s') =
      (quotes (sy_db s))(cs_quote_id (rq_message request) \<mapsto> quote\<lparr>qr_swap_id := Some sid\<rparr>) \<and>
    swap_record_to_proto ev (r\<lparr>sr_status := Funded\<rparr>) = Inr swap \<and>
    (\<exists>s4 n s5. wait_for_funding_confirmations ev spk txid (qr_min_funding_confs quote) (300 * SECOND) s4 = Some (Inr n, s5) \<and>
       sy_world s' = snd (ev_sql ev (sy_world s5)))"
proof -
  from run obtain checked s0 where check: "check_create_swap ev cfg request s = Some (Inr checked, s0)"
    and rest: "(case checked of
       Inl swap \<Rightarrow> return_run swap
     | Inr plan \<Rightarrow>
         bind_run (uuid_run ev) (\<lambda>swap_id.
         bind_run (swap_invoice ev (rq_message request) (sp_quote plan) swap_id) (\<lambda>(invoice, payment_hash).
         bind_run (internal ''create swap: '' (create_swap_task ev cfg plan swap_id invoice payment_hash)) (\<lambda>record.
         internal ''encode swap: '' (lift_run (swap_record_to_proto ev record)))))) s0 = Some (Inr swap, s')"
    by (auto simp: create_swap_def bind_run_Inr)
  have db0: "sy_db s0 = sy_db s" by (rule quiet_db [OF preserves_check_create_swap check])
  show ?thesis
  proof (cases checked)
    case (Inl x)
    then show ?thesis using check_create_swap_linked [OF ok] check quote by fastforce
  next
    case (Inr plan)
    note plan = check_create_swap_plan [OF check [unfolded Inr]]
    have sp: "sp_quote plan = quote" using plan(4) [OF ok] quote(1) by simp
    from rest Inr obtain sid s1 a s2 r' where
      u: "uuid_run ev s0 = Some (Inr sid, s1)"
      and i: "swap_invoice ev (rq_message request) (sp_quote plan) sid s1 = Some (Inr a, s2)"
      and t: "case a of (invoice, hash) \<Rightarrow> create_swap_task ev cfg plan sid invoice hash s2 = Some (Inr r', s')"
      and e: "swap_record_to_proto ev r' = Inr swap"
      by (auto simp: bind_run_Inr split: prod.splits)
    obtain invoice hash where a: "a = (invoice, hash)" by (cases a) auto
    have db1: "sy_db s1 = sy_db s" using u db0 by auto
    have db2: "sy_db s2 = sy_db s" using quiet_db [OF preserves_swap_invoice i] db1 by simp
    have hash: "length hash = 32" using swap_invoice_hash [OF invoices i [unfolded a]] by blast
    have ok2: "store_ok (sy_db s2)" using ok db2 by simp
    have task: "create_swap_task ev cfg plan sid invoice hash s2 = Some (Inr r', s')" using t a by simp
    obtain r spk txid s3 q where fund: "fund_swap ev cfg plan sid invoice hash s2 = Some (Inr (r, spk, txid), s3)"
      and r': "r' = r\<lparr>sr_status := Funded\<rparr>" and none: "swaps (sy_db s) sid = None"
      and sw: "swaps (sy_db s') = (swaps (sy_db s))(sid \<mapsto> r')"
      and q: "quotes (sy_db s) (qr_quote_id quote) = Some q"
      and qs: "quotes (sy_db s') = (quotes (sy_db s))(qr_quote_id quote \<mapsto> q\<lparr>qr_swap_id := Some sid\<rparr>)"
      and waited: "\<exists>s4 n s5. wait_for_funding_confirmations ev spk txid (qr_min_funding_confs quote) (300 * SECOND) s4 = Some (Inr n, s5) \<and>
        sy_world s' = snd (ev_sql ev (sy_world s5))"
      using create_swap_task_done [OF plan(2) hash ok2 task, unfolded sp db2] by blast
    have id: "qr_quote_id quote = cs_quote_id (rq_message request)" using quotes_id [OF ok quote(1)] .
    have "q = quote" using q quote(1) id by simp
    show ?thesis
      by (rule exI [of _ plan], rule exI [of _ sid], rule exI [of _ invoice], rule exI [of _ hash], rule exI [of _ r],
          rule exI [of _ spk], rule exI [of _ txid], rule exI [of _ s1], rule exI [of _ s2], rule exI [of _ s3])
        (intro conjI, rule plan(2), rule sp, rule i [unfolded a sp], rule hash, rule fund, rule none,
          rule sw [unfolded r'], rule qs [unfolded id \<open>q = quote\<close>], rule e [unfolded r'], rule waited)
  qed
qed

end
