(* ===== verification/Swap_Cli.thy ===== *)
theory Swap_Cli
  imports Swap_Service
begin

text \<open>
  \<open>src/bin/swap_cli.rs\<close>: the commands, the request each one sends with its bearer token, and
  the JSON it prints. Connecting is a parameter that yields the gRPC client, one function per
  method; reading the arguments and pretty printing are left out. JSON objects list their
  members in the order of the \<open>json!\<close> calls.
\<close>

section \<open>Commands\<close>

datatype direction_arg = ArgLnToLiquid | ArgLiquidToLn

fun to_proto :: "direction_arg \<Rightarrow> pb_direction" where
  "to_proto ArgLnToLiquid = PbLnToLiquid"
| "to_proto ArgLiquidToLn = PbLiquidToLn"

datatype command =
    CreateQuoteCommand direction_arg string u64 u32
  | GetQuoteCommand string
  | CreateSwapCommand string string string
  | GetSwapCommand string
  | CreateLightningPaymentCommand string u32
  | CreateAssetClaimCommand string u64

record cli_args =
  ca_grpc_url :: string
  ca_auth_token :: string
  ca_command :: command

text \<open>How \<open>main\<close> ends without an answer; a failed call carries its \<open>context\<close>.\<close>

datatype cli_error = CliPanicked string | ConnectFailed string | CallFailed string status

section \<open>The authorization header\<close>

definition with_auth :: "'w env \<Rightarrow> string \<Rightarrow> 'm \<Rightarrow> cli_error + 'm request" where
  "with_auth ev auth_token msg =
     (case ev_header_value ev (''Bearer '' @ auth_token) of
        None \<Rightarrow> Inl (CliPanicked ''authorization metadata must be valid ASCII'')
      | Some meta \<Rightarrow> Inr \<lparr>rq_metadata = [''authorization'' \<mapsto> meta], rq_message = msg\<rparr>)"

section \<open>JSON\<close>

datatype json = JsonNull | JsonString string | JsonNumber nat | JsonArray "json list" | JsonObject "(string \<times> json) list"

definition json_option :: "('a \<Rightarrow> json) \<Rightarrow> 'a option \<Rightarrow> json" where
  "json_option f x = (case x of None \<Rightarrow> JsonNull | Some a \<Rightarrow> f a)"

definition json_word :: "'n::len word \<Rightarrow> json" where
  "json_word w = JsonNumber (unat w)"

fun direction_debug :: "pb_direction \<Rightarrow> string" where
  "direction_debug PbDirUnspecified = ''Unspecified''"
| "direction_debug PbLnToLiquid = ''LnToLiquid''"
| "direction_debug PbLiquidToLn = ''LiquidToLn''"

fun role_debug :: "pb_role \<Rightarrow> string" where
  "role_debug PbRoleUnspecified = ''Unspecified''"
| "role_debug PbBuyer = ''Buyer''"
| "role_debug PbSeller = ''Seller''"

fun status_debug :: "pb_status \<Rightarrow> string" where
  "status_debug PbStatusUnspecified = ''Unspecified''"
| "status_debug PbCreated = ''Created''"
| "status_debug PbFunded = ''Funded''"
| "status_debug PbClaimed = ''Claimed''"
| "status_debug PbRefunded = ''Refunded''"
| "status_debug PbFailed = ''Failed''"
| "status_debug PbPaid = ''Paid''"

definition signed_decimal :: "int \<Rightarrow> string" where
  "signed_decimal n = (if n < 0 then CHR ''-'' # decimal (nat (- n)) else decimal (nat n))"

definition unknown :: "int \<Rightarrow> string" where
  "unknown n = ''UNKNOWN('' @ signed_decimal n @ '')''"

definition role_json :: "int \<Rightarrow> json" where
  "role_json n = json_option (\<lambda>r. JsonString (role_debug r)) (role_try_from n)"

definition parties_json :: "pb_parties \<Rightarrow> json" where
  "parties_json p = JsonObject
     [(''ln_payer'', role_json (pa_ln_payer p)), (''ln_payee'', role_json (pa_ln_payee p)),
      (''liquid_funder'', role_json (pa_liquid_funder p)),
      (''liquid_claimer'', role_json (pa_liquid_claimer p)),
      (''liquid_refunder'', role_json (pa_liquid_refunder p))]"

definition offer_json :: "pb_offer \<Rightarrow> json" where
  "offer_json o' = JsonObject
     [(''asset_id'', JsonString (of_asset_id o')),
      (''supported_directions'',
        JsonArray (map (\<lambda>d. JsonString (direction_debug d))
          (List.map_filter direction_try_from (of_supported_directions o')))),
      (''price_msat_per_asset_unit'', json_word (of_price_msat_per_asset_unit o')),
      (''fee_subsidy_sats'', json_word (of_fee_subsidy_sats o')),
      (''refund_delta_blocks'', json_word (of_refund_delta_blocks o')),
      (''invoice_expiry_secs'', json_word (of_invoice_expiry_secs o')),
      (''max_min_funding_confs'', json_word (of_max_min_funding_confs o'))]"

text \<open>The two quoting commands print the same object; the direction comes from different places.\<close>

definition quote_json :: "json \<Rightarrow> pb_quote \<Rightarrow> json" where
  "quote_json direction quote = JsonObject
     [(''quote_id'', JsonString (pq_quote_id quote)), (''offer_id'', JsonString (pq_offer_id quote)),
      (''asset_id'', JsonString (pq_asset_id quote)), (''asset_amount'', json_word (pq_asset_amount quote)),
      (''min_funding_confs'', json_word (pq_min_funding_confs quote)),
      (''total_price_msat'', json_word (pq_total_price_msat quote)),
      (''direction'', direction),
      (''parties'', json_option parties_json (pq_parties quote)),
      (''offer'', json_option offer_json (pq_offer quote))]"

definition liquid_json :: "pb_liquid_htlc \<Rightarrow> json" where
  "liquid_json l = JsonObject
     [(''asset_id'', JsonString (lh_asset_id l)), (''asset_amount'', json_word (lh_asset_amount l)),
      (''fee_subsidy_sats'', json_word (lh_fee_subsidy_sats l)),
      (''refund_lock_height'', json_word (lh_refund_lock_height l)),
      (''p2wsh_address'', JsonString (lh_p2wsh_address l)),
      (''funding_txid'', JsonString (lh_funding_txid l)),
      (''asset_vout'', json_word (lh_asset_vout l)), (''lbtc_vout'', json_word (lh_lbtc_vout l)),
      (''min_funding_confs'', json_word (lh_min_funding_confs l))]"

definition swap_json :: "pb_swap \<Rightarrow> json" where
  "swap_json swap =
     (let status_str = (case status_try_from (ps_status swap) of
            Some s \<Rightarrow> status_debug s | None \<Rightarrow> unknown (ps_status swap));
          direction_str = (case direction_try_from (ps_direction swap) of
            Some d \<Rightarrow> direction_debug d | None \<Rightarrow> unknown (ps_direction swap)) in
      JsonObject
        [(''swap_id'', JsonString (ps_swap_id swap)), (''quote_id'', JsonString (ps_quote_id swap)),
         (''status'', JsonString status_str), (''direction'', JsonString direction_str),
         (''parties'', json_option parties_json (ps_parties swap)),
         (''bolt11_invoice'', JsonString (ps_bolt11_invoice swap)),
         (''payment_hash'', JsonString (ps_payment_hash swap)),
         (''liquid'', json_option liquid_json (ps_liquid swap))])"

section \<open>Running a command\<close>

text \<open>The generated gRPC client, one function per method of the service.\<close>

record 's swap_client =
  cl_create_quote :: "create_quote_request request \<Rightarrow> ('s, status, pb_quote) run"
  cl_get_quote :: "get_quote_request request \<Rightarrow> ('s, status, pb_quote) run"
  cl_create_swap :: "create_swap_request request \<Rightarrow> ('s, status, pb_swap) run"
  cl_get_swap :: "get_swap_request request \<Rightarrow> ('s, status, pb_swap) run"
  cl_create_lightning_payment ::
    "create_lightning_payment_request request \<Rightarrow> ('s, status, lightning_payment) run"
  cl_create_asset_claim :: "create_asset_claim_request request \<Rightarrow> ('s, status, asset_claim) run"

definition send ::
  "'w env \<Rightarrow> string \<Rightarrow> string \<Rightarrow> ('m request \<Rightarrow> ('s, status, 'a) run) \<Rightarrow> 'm \<Rightarrow> ('s, cli_error, 'a) run" where
  "send ev auth_token what call msg =
     bind_run (lift_run (with_auth ev auth_token msg)) (\<lambda>request. map_err_run (CallFailed what) (call request))"

fun run_command :: "'w env \<Rightarrow> 's swap_client \<Rightarrow> string \<Rightarrow> command \<Rightarrow> ('s, cli_error, json) run" where
  "run_command ev client auth_token (CreateQuoteCommand direction asset_id asset_amount min_funding_confs) =
     (let direction = to_proto direction in
      bind_run (send ev auth_token ''CreateQuote'' (cl_create_quote client)
        \<lparr>cq_direction = direction_i32 direction, cq_asset_id = asset_id,
         cq_asset_amount = asset_amount, cq_min_funding_confs = min_funding_confs\<rparr>) (\<lambda>quote.
      return_run (quote_json (JsonString (direction_debug direction)) quote)))"
| "run_command ev client auth_token (GetQuoteCommand quote_id) =
     bind_run (send ev auth_token ''GetQuote'' (cl_get_quote client) \<lparr>gq_quote_id = quote_id\<rparr>) (\<lambda>quote.
     return_run (quote_json
       (json_option (\<lambda>d. JsonString (direction_debug d)) (direction_try_from (pq_direction quote))) quote))"
| "run_command ev client auth_token (CreateSwapCommand quote_id buyer_liquid_address buyer_bolt11_invoice) =
     bind_run (send ev auth_token ''CreateSwap'' (cl_create_swap client)
       \<lparr>cs_quote_id = quote_id, cs_buyer_liquid_address = buyer_liquid_address,
        cs_buyer_bolt11_invoice = buyer_bolt11_invoice\<rparr>) (\<lambda>swap. return_run (swap_json swap))"
| "run_command ev client auth_token (GetSwapCommand swap_id) =
     bind_run (send ev auth_token ''GetSwap'' (cl_get_swap client) \<lparr>gs_swap_id = swap_id\<rparr>) (\<lambda>swap.
     return_run (swap_json swap))"
| "run_command ev client auth_token (CreateLightningPaymentCommand swap_id payment_timeout_secs) =
     bind_run (send ev auth_token ''CreateLightningPayment'' (cl_create_lightning_payment client)
       \<lparr>lp_swap_id = swap_id, lp_payment_timeout_secs = payment_timeout_secs\<rparr>) (\<lambda>resp.
     return_run (JsonObject
       [(''payment_id'', JsonString (pay_payment_id resp)),
        (''preimage_hex'', JsonString (ev_hex_encode ev (pay_preimage resp)))]))"
| "run_command ev client auth_token (CreateAssetClaimCommand swap_id claim_fee_sats) =
     bind_run (send ev auth_token ''CreateAssetClaim'' (cl_create_asset_claim client)
       \<lparr>ac_swap_id = swap_id, ac_claim_fee_sats = claim_fee_sats\<rparr>) (\<lambda>resp.
     return_run (JsonObject [(''claim_txid'', JsonString (ac_claim_txid resp))]))"

text \<open>\<open>main\<close> between reading its arguments and printing the answer.\<close>

definition cli_main ::
  "'w env \<Rightarrow> (string \<Rightarrow> ('s, string, 's swap_client) run) \<Rightarrow> cli_args \<Rightarrow> ('s, cli_error, json) run" where
  "cli_main ev connect args =
     bind_run (map_err_run ConnectFailed (connect (ca_grpc_url args))) (\<lambda>client.
     run_command ev client (ca_auth_token args) (ca_command args))"

section \<open>The client against the service\<close>

text \<open>Documented behaviour of header values: visible ASCII text reads back as itself.\<close>

definition visible_ascii :: "string \<Rightarrow> bool" where
  "visible_ascii s \<longleftrightarrow> list_all (\<lambda>c. (32::nat) \<le> of_char c \<and> of_char c < (127::nat)) s"

definition headers_ok :: "'w env \<Rightarrow> bool" where
  "headers_ok ev \<longleftrightarrow>
     (\<forall>s. visible_ascii s \<longrightarrow> (\<exists>v. ev_header_value ev s = Some v \<and> ev_header_to_str ev v = Some s))"

lemma with_auth_presents:
  assumes "headers_ok ev" and "visible_ascii token"
  shows "\<exists>request. with_auth ev token msg = Inr request \<and> rq_message request = msg \<and>
    (\<forall>t. presents_token ev request t \<longleftrightarrow> t = token)"
proof -
  have "visible_ascii (''Bearer '' @ token)" using assms(2) by (simp add: visible_ascii_def)
  then obtain v where "ev_header_value ev (''Bearer '' @ token) = Some v"
    "ev_header_to_str ev v = Some (''Bearer '' @ token)"
    using assms(1) unfolding headers_ok_def by blast
  moreover define request where "request = \<lparr>rq_metadata = [''authorization'' \<mapsto> v], rq_message = msg\<rparr>"
  ultimately have "with_auth ev token msg = Inr request" and "rq_message request = msg"
    and "presents_token ev request t \<longleftrightarrow> t = token" for t
    by (auto simp: with_auth_def presents_token_def)
  then show ?thesis by (intro exI [where x = request] conjI allI)
qed

lemma with_auth_role:
  assumes "headers_ok ev" and "visible_ascii token" and "cf_seller_token cfg \<noteq> cf_buyer_token cfg"
  shows "\<exists>request. with_auth ev token msg = Inr request \<and> rq_message request = msg \<and>
    require_authenticated ev cfg request =
      (if token = cf_seller_token cfg then Inr SellerCaller
       else if token = cf_buyer_token cfg then Inr BuyerCaller else Inl InvalidBearerToken)"
proof -
  obtain request where r: "with_auth ev token msg = Inr request" "rq_message request = msg"
    "\<forall>t. presents_token ev request t \<longleftrightarrow> t = token"
    using with_auth_presents [OF assms(1,2), of msg] by (elim exE conjE) (rule that)
  then have "authorization_bearer_token ev (rq_metadata request) = Some token"
    by (simp add: bearer_token_Some)
  then have "require_authenticated ev cfg request =
      (if token = cf_seller_token cfg then Inr SellerCaller
       else if token = cf_buyer_token cfg then Inr BuyerCaller else Inl InvalidBearerToken)"
    by (simp add: require_authenticated_def)
  with r(1,2) show ?thesis by (intro exI [where x = request] conjI)
qed

end
