(* ===== verification/Store_Refinement.thy ===== *)
theory Store_Refinement
  imports Swap_Store
begin

text \<open>
  What the store promises, as an abstract machine over two maps, and the simulation: every
  sequence of calls on the SQL tables answers as the machine does. This is the contract the
  service and the refund worker rest on.
\<close>

datatype store_call =
    InsertQuote quote_record
  | GetQuote string
  | SetQuoteSwapId string string
  | InsertSwap swap_record
  | GetSwap string
  | UpdateSwapStatus string swap_status
  | UpsertSwapPayment string string string swap_status
  | UpsertSwapClaim string string swap_status
  | ListSwaps

datatype store_reply =
    Done | QuoteReply "quote_record option" | SwapReply "swap_record option"
  | SwapsReply "swap_record list" | ErrorReply store_error

section \<open>The concrete machine\<close>

fun reply_of :: "('a \<Rightarrow> store_reply) \<Rightarrow> store_error + 'a \<Rightarrow> store_reply" where
  "reply_of f (Inl e) = ErrorReply e"
| "reply_of f (Inr a) = f a"

definition answer :: "('a \<Rightarrow> store_reply) \<Rightarrow> 'a store_op \<Rightarrow> database \<Rightarrow> store_reply \<times> database" where
  "answer f m db = (case m db of Some (r, db') \<Rightarrow> (reply_of f r, db') | None \<Rightarrow> (ErrorReply NoSuchTable, db))"

fun store_step :: "store_call \<Rightarrow> database \<Rightarrow> store_reply \<times> database" where
  "store_step (InsertQuote r) = answer (\<lambda>_. Done) (insert_quote None r)"
| "store_step (GetQuote k) = answer QuoteReply (get_quote None k)"
| "store_step (SetQuoteSwapId k s) = answer (\<lambda>_. Done) (set_quote_swap_id None k s)"
| "store_step (InsertSwap r) = answer (\<lambda>_. Done) (insert_swap None r)"
| "store_step (GetSwap k) = answer SwapReply (get_swap None k)"
| "store_step (UpdateSwapStatus k st) = answer (\<lambda>_. Done) (update_swap_status None k st)"
| "store_step (UpsertSwapPayment k p h st) = answer (\<lambda>_. Done) (upsert_swap_payment None k p h st)"
| "store_step (UpsertSwapClaim k t st) = answer (\<lambda>_. Done) (upsert_swap_claim None k t st)"
| "store_step ListSwaps = answer SwapsReply (list_swaps None)"

section \<open>The abstract machine\<close>

record maps =
  am_quotes :: "string \<Rightarrow> quote_record option"
  am_swaps :: "string \<Rightarrow> swap_record option"

definition map_update :: "string \<Rightarrow> ('r \<Rightarrow> 'r) \<Rightarrow> (string \<Rightarrow> 'r option) \<Rightarrow> (string \<Rightarrow> 'r option)" where
  "map_update k f m = m(k := map_option f (m k))"

definition listed :: "(string \<Rightarrow> swap_record option) \<Rightarrow> swap_record list" where
  "listed m = map (\<lambda>k. the (m k)) (sorted_list_of_set (dom m))"

definition update_maps :: "string \<Rightarrow> (swap_record \<Rightarrow> swap_record) \<Rightarrow> maps \<Rightarrow> store_reply \<times> maps" where
  "update_maps k f m =
     (if am_swaps m k = None then (ErrorReply (SwapMissing k), m)
      else (Done, m\<lparr>am_swaps := map_update k f (am_swaps m)\<rparr>))"

fun maps_step :: "store_call \<Rightarrow> maps \<Rightarrow> store_reply \<times> maps" where
  "maps_step (InsertQuote r) m =
     (if \<not> quote_storable r then (ErrorReply ToSqlConversion, m)
      else if am_quotes m (qr_quote_id r) \<noteq> None then (ErrorReply UniqueViolation, m)
      else (Done, m\<lparr>am_quotes := (am_quotes m)(qr_quote_id r \<mapsto> r)\<rparr>))"
| "maps_step (GetQuote k) m = (QuoteReply (am_quotes m k), m)"
| "maps_step (SetQuoteSwapId k s) m =
     (if am_quotes m k = None then (ErrorReply (QuoteMissing k), m)
      else (Done, m\<lparr>am_quotes := map_update k (\<lambda>r. r\<lparr>qr_swap_id := Some s\<rparr>) (am_quotes m)\<rparr>))"
| "maps_step (InsertSwap r) m =
     (if \<not> swap_storable r then (ErrorReply ToSqlConversion, m)
      else if am_swaps m (sr_swap_id r) \<noteq> None then (ErrorReply UniqueViolation, m)
      else (Done, m\<lparr>am_swaps := (am_swaps m)(sr_swap_id r \<mapsto> r)\<rparr>))"
| "maps_step (GetSwap k) m = (SwapReply (am_swaps m k), m)"
| "maps_step (UpdateSwapStatus k st) m = update_maps k (\<lambda>r. r\<lparr>sr_status := st\<rparr>) m"
| "maps_step (UpsertSwapPayment k p h st) m =
     update_maps k (\<lambda>r. r\<lparr>sr_ln_payment_id := Some p, sr_ln_preimage_hex := Some h, sr_status := st\<rparr>) m"
| "maps_step (UpsertSwapClaim k t st) m =
     update_maps k (\<lambda>r. r\<lparr>sr_claim_txid := Some t, sr_status := st\<rparr>) m"
| "maps_step ListSwaps m = (SwapsReply (listed (am_swaps m)), m)"

text \<open>Both machines over a sequence of calls.\<close>

fun run_calls :: "('c \<Rightarrow> 's \<Rightarrow> 'r \<times> 's) \<Rightarrow> 'c list \<Rightarrow> 's \<Rightarrow> 'r list \<times> 's" where
  "run_calls step [] s = ([], s)"
| "run_calls step (c # cs) s =
     (let (r, s') = step c s; (rs, s'') = run_calls step cs s' in (r # rs, s''))"

section \<open>The simulation\<close>

definition maps_of :: "database \<Rightarrow> maps" where
  "maps_of db = \<lparr>am_quotes = quotes db, am_swaps = swaps db\<rparr>"

lemma list_is_listed:
  assumes "sorted_wrt (<) (map sr_swap_id rs)" and "\<forall>r. r \<in> set rs \<longleftrightarrow> m (sr_swap_id r) = Some r"
    and "\<And>k r. m k = Some r \<Longrightarrow> sr_swap_id r = k"
  shows "rs = listed m"
proof -
  have dom: "set (map sr_swap_id rs) = dom m"
  proof (intro equalityI subsetI)
    fix k assume "k \<in> set (map sr_swap_id rs)"
    then show "k \<in> dom m" using assms(2) by (auto simp del: not_None_eq)
  next
    fix k assume "k \<in> dom m"
    then obtain r where r: "m k = Some r" by blast
    then have "sr_swap_id r = k" by (rule assms(3))
    with r assms(2) have "r \<in> set rs" by simp
    with \<open>sr_swap_id r = k\<close> show "k \<in> set (map sr_swap_id rs)" by auto
  qed
  have "sorted_list_of_set (dom m) = map sr_swap_id rs"
    using assms(1) unfolding dom [symmetric]
    by (intro sorted_list_of_set.idem_if_sorted_distinct) (simp_all add: strict_sorted_iff)
  then have "listed m = map (\<lambda>r. the (m (sr_swap_id r))) rs" by (simp add: listed_def)
  also have "\<dots> = rs" using assms(2) by (intro map_idI) simp
  finally show ?thesis by simp
qed

lemma store_step_refines:
  assumes ok: "store_ok db"
  shows "store_ok (snd (store_step c db))"
    and "maps_step c (maps_of db) = (fst (store_step c db), maps_of (snd (store_step c db)))"
proof -
  have "store_ok (snd (store_step c db)) \<and>
      maps_step c (maps_of db) = (fst (store_step c db), maps_of (snd (store_step c db)))"
  proof (cases c)
    case (InsertQuote r)
    then show ?thesis using insert_quote_ok [OF ok, of None r]
      by (auto simp: answer_def maps_of_def insert_result_def)
  next
    case (GetQuote k)
    then show ?thesis using ok by (simp add: answer_def maps_of_def get_quote_ok)
  next
    case (SetQuoteSwapId k s)
    then show ?thesis using set_quote_swap_id_ok [OF ok, of None k s]
      by (auto simp: answer_def maps_of_def update_result_def map_update_def)
  next
    case (InsertSwap r)
    then show ?thesis using insert_swap_ok [OF ok, of None r]
      by (auto simp: answer_def maps_of_def insert_result_def)
  next
    case (GetSwap k)
    then show ?thesis using ok by (simp add: answer_def maps_of_def get_swap_ok)
  next
    case (UpdateSwapStatus k st)
    then show ?thesis using update_swap_status_ok [OF ok, of None k st]
      by (auto simp: answer_def maps_of_def update_result_def map_update_def update_maps_def)
  next
    case (UpsertSwapPayment k p h st)
    then show ?thesis using upsert_swap_payment_ok [OF ok, of None k p h st]
      by (auto simp: answer_def maps_of_def update_result_def map_update_def update_maps_def)
  next
    case (UpsertSwapClaim k t st)
    then show ?thesis using upsert_swap_claim_ok [OF ok, of None k t st]
      by (auto simp: answer_def maps_of_def update_result_def map_update_def update_maps_def)
  next
    case ListSwaps
    obtain rs where "list_swaps None db = Some (Inr rs, db)" and "rs = listed (swaps db)"
      using list_swaps_ok [OF ok] list_is_listed swaps_id [OF ok] by metis
    then show ?thesis using ListSwaps ok by (simp add: answer_def maps_of_def)
  qed
  then show "store_ok (snd (store_step c db))"
    and "maps_step c (maps_of db) = (fst (store_step c db), maps_of (snd (store_step c db)))"
    by blast+
qed

lemma run_calls_refines:
  assumes "store_ok db"
  shows "store_ok (snd (run_calls store_step cs db)) \<and>
    run_calls maps_step cs (maps_of db) =
      (fst (run_calls store_step cs db), maps_of (snd (run_calls store_step cs db)))"
  using assms
proof (induction cs arbitrary: db)
  case (Cons c cs)
  from store_step_refines [OF Cons.prems, of c] Cons.IH [of "snd (store_step c db)"]
  show ?case by (simp add: split_beta Let_def)
qed simp

end
