(* ===== verification/Store_Properties.thy ===== *)
theory Store_Properties
  imports Store_Schema Store_Refinement
begin

text \<open>
  The properties of \<open>src/swap/store.rs\<close>: the calls against an abstract store of two maps,
  the round trip of a swap through its row, listing, and what opening does to new, current
  and older database files.
\<close>

section \<open>A concrete database\<close>

definition demo_db :: database where
  "demo_db = \<lparr>db_quotes = Some \<lparr>tb_columns = quotes_decls, tb_rows = []\<rparr>,
              db_swaps = Some \<lparr>tb_columns = swaps_decls, tb_rows = []\<rparr>,
              db_indexes = [''swaps_status_idx'', ''quotes_swap_id_idx'']\<rparr>"

definition demo_swap :: swap_record where
  "demo_swap =
     \<lparr>sr_swap_id = ''s1'', sr_quote_id = [], sr_direction = LnToLiquid, sr_bolt11_invoice = ''lnbc1'',
      sr_payment_hash = ''aa'', sr_asset_id = ''bb'', sr_asset_amount = 7, sr_total_price_msat = 0,
      sr_buyer_liquid_address = [], sr_fee_subsidy_sats = 10000, sr_refund_lock_height = 300,
      sr_p2wsh_address = ''ex1'', sr_witness_script_hex = ''cc'', sr_funding_txid = ''dd'',
      sr_asset_vout = 0, sr_lbtc_vout = 1, sr_min_funding_confs = 1,
      sr_ln_payment_id = None, sr_ln_preimage_hex = None, sr_claim_txid = None, sr_status = Funded\<rparr>"

lemma demo_db_ok: "store_ok demo_db"
  using fresh_quotes_ok fresh_swaps_ok by (simp add: store_ok_def demo_db_def)

lemma demo_db_empty: "quotes demo_db = Map.empty" "swaps demo_db = Map.empty"
  using quote_rows.records_None [OF fresh_quotes_ok] swap_rows.records_None [OF fresh_swaps_ok]
  by (simp_all add: quotes_def swaps_def fun_eq_iff demo_db_def)

lemma demo_swap_storable: "swap_storable demo_swap"
  by (simp add: swap_storable_def demo_swap_def)

section \<open>The calls\<close>

text \<open>
  C9. Any sequence of calls on the SQL tables, started on a readable store, answers exactly
  as the same calls on two finite maps do, error for error, and ends in the state that
  represents the maps' final state.
\<close>

theorem store_refines_maps:
  assumes "store_ok db"
  shows "store_ok (snd (run_calls store_step cs db)) \<and>
    run_calls maps_step cs (maps_of db) =
      (fst (run_calls store_step cs db), maps_of (snd (run_calls store_step cs db)))"
  using run_calls_refines [OF assms] .

theorem store_refines_maps_witness:
  "fst (run_calls store_step [InsertSwap demo_swap, GetSwap ''s1'', InsertSwap demo_swap] demo_db) =
     [Done, SwapReply (Some demo_swap), ErrorReply UniqueViolation]"
proof -
  have "fst (run_calls maps_step [InsertSwap demo_swap, GetSwap ''s1'', InsertSwap demo_swap] (maps_of demo_db)) =
     [Done, SwapReply (Some demo_swap), ErrorReply UniqueViolation]"
    by (simp add: maps_of_def demo_db_empty demo_swap_storable) (simp add: demo_swap_def)
  then show ?thesis
    using store_refines_maps [OF demo_db_ok, of "[InsertSwap demo_swap, GetSwap ''s1'', InsertSwap demo_swap]"]
    by (simp only: fst_conv)
qed

text \<open>
  C27. A swap that was inserted is read back with all its fields, every other swap and every
  quote is as before, and inserting the same id again is refused; inserting fails without
  any effect exactly when an amount exceeds 63 bits, the id is taken or the engine fails.
\<close>

theorem insert_swap_exact:
  assumes "store_ok db"
  shows "\<exists>db'. insert_swap engine r db =
      Some (insert_result engine (swap_storable r) (swaps db (sr_swap_id r) \<noteq> None), db') \<and>
    store_ok db' \<and> (\<forall>k. get_quote None k db' = Some (Inr (quotes db k), db')) \<and>
    (\<forall>k. get_swap None k db' =
       Some (Inr (if k = sr_swap_id r \<and> insert_result engine (swap_storable r) (swaps db k \<noteq> None) = Inr ()
                  then Some r else swaps db k), db'))"
proof -
  obtain db' where "insert_swap engine r db =
      Some (insert_result engine (swap_storable r) (swaps db (sr_swap_id r) \<noteq> None), db')"
    and "store_ok db'" "quotes db' = quotes db"
    and "swaps db' = (if swap_storable r \<and> engine = None \<and> swaps db (sr_swap_id r) = None
                 then (swaps db)(sr_swap_id r \<mapsto> r) else swaps db)"
    using insert_swap_ok [OF assms, of engine r] by blast
  then show ?thesis by (intro exI [of _ db'] conjI) (auto simp: get_quote_ok get_swap_ok)
qed

theorem insert_swap_exact_witness:
  "\<exists>db'. insert_swap None demo_swap demo_db = Some (Inr (), db') \<and>
    get_swap None ''s1'' db' = Some (Inr (Some demo_swap), db')"
proof -
  have id: "sr_swap_id demo_swap = ''s1''" by (simp add: demo_swap_def)
  show ?thesis
    using insert_swap_exact [OF demo_db_ok, of None demo_swap]
    by (auto simp: demo_db_empty demo_swap_storable id insert_result_def)
qed

text \<open>
  Listing returns every stored swap exactly once, in increasing order of its id, and
  changes nothing.
\<close>

theorem list_swaps_exact:
  assumes "store_ok db"
  shows "\<exists>rs. list_swaps None db = Some (Inr rs, db) \<and> sorted_wrt (<) (map sr_swap_id rs) \<and>
    distinct rs \<and> set rs = ran (swaps db)"
proof -
  obtain rs where rs: "list_swaps None db = Some (Inr rs, db)" "sorted_wrt (<) (map sr_swap_id rs)"
    "\<forall>r. r \<in> set rs \<longleftrightarrow> swaps db (sr_swap_id r) = Some r"
    using list_swaps_ok [OF assms] by blast
  have "distinct (map sr_swap_id rs)" using rs(2) by (simp add: strict_sorted_iff)
  then have "distinct rs" by (simp add: distinct_map)
  moreover have "set rs = ran (swaps db)"
    using rs(3) swaps_id [OF assms] by (auto simp: ran_def)
  ultimately show ?thesis using rs by blast
qed

theorem list_swaps_exact_witness: "list_swaps None demo_db = Some (Inr [], demo_db)"
  using list_swaps_exact [OF demo_db_ok] by (auto simp: demo_db_empty)

section \<open>Opening\<close>

lemma open_store_migrates:
  assumes "\<And>i. os i = None"
  shows "open_store has_parent os engine = migrate engine"
  by (rule ext) (simp add: open_store_def os_step_def assms bind_run_def lift_run_def return_run_def)

text \<open>No call touches the indexes.\<close>

lemma on_tables_indexes:
  "on_quotes f db = Some (r, db') \<Longrightarrow> db_indexes db' = db_indexes db"
  "on_swaps g db = Some (q, db') \<Longrightarrow> db_indexes db' = db_indexes db"
  by (auto simp: on_quotes_def on_swaps_def split: prod.splits)

lemma store_step_indexes: "db_indexes (snd (store_step c db)) = db_indexes db"
  by (cases c)
    (auto simp: answer_def insert_quote_def get_quote_def set_quote_swap_id_def insert_swap_def get_swap_def
      update_swap_status_def upsert_swap_payment_def upsert_swap_claim_def list_swaps_def bind_run_def lift_run_def
      dest: on_tables_indexes split: option.splits prod.splits sum.splits)

lemma run_calls_indexes: "db_indexes (snd (run_calls store_step cs db)) = db_indexes db"
  by (induction cs arbitrary: db) (simp_all add: split_beta Let_def store_step_indexes)

text \<open>
  C28. Opening a new file gives the empty store, and opening it again after any calls finds
  every quote and swap as they were left: the migration changes nothing.
\<close>

theorem open_new_and_reopen:
  assumes "\<And>i. os i = None" and "\<And>i. engine i = None"
  shows "\<exists>db. open_store has_parent os engine empty_database = Some (Inr (), db) \<and> store_ok db \<and>
    quotes db = Map.empty \<and> swaps db = Map.empty \<and>
    (\<forall>cs. open_store has_parent os engine (snd (run_calls store_step cs db)) =
       Some (Inr (), snd (run_calls store_step cs db)))"
proof -
  let ?open = "open_store has_parent os engine"
  have eq: "?open = migrate engine" using assms(1) by (rule open_store_migrates)
  have new: "?open empty_database = Some (Inr (), demo_db)"
    using migrate_fresh_db [OF assms(2)] by (simp add: eq demo_db_def)
  have "?open (snd (run_calls store_step cs demo_db)) = Some (Inr (), snd (run_calls store_step cs demo_db))" for cs
    unfolding eq
  proof (rule migrate_current [OF _ _ assms(2)])
    show "store_ok (snd (run_calls store_step cs demo_db))" using run_calls_refines [OF demo_db_ok] by blast
    show "{''quotes_swap_id_idx'', ''swaps_status_idx''} \<subseteq> set (db_indexes (snd (run_calls store_step cs demo_db)))"
      by (simp add: run_calls_indexes) (simp add: demo_db_def)
  qed
  then show ?thesis using new demo_db_ok demo_db_empty by blast
qed

theorem open_new_and_reopen_witness:
  "\<exists>db. open_store True (\<lambda>_. None) (\<lambda>_. None) empty_database = Some (Inr (), db) \<and>
    open_store True (\<lambda>_. None) (\<lambda>_. None) (snd (run_calls store_step [InsertSwap demo_swap] db)) =
      Some (Inr (), snd (run_calls store_step [InsertSwap demo_swap] db))"
  using open_new_and_reopen [of "\<lambda>_. None" "\<lambda>_. None" True] by blast

text \<open>
  C29. A file of an earlier version opens and stays readable: its swaps table may lack any of
  the seven columns added later, and its quotes table may lack \<open>direction\<close> or be missing
  altogether, as in a file from before there were quotes. Every old row then reads as the
  record it stands for, with Lightning-to-Liquid as its direction, no quote, price, buyer
  address, payment or claim where it has no such column, and nothing else is read.
\<close>

theorem open_upgrades_swaps:
  assumes "\<And>i. os i = None" and "\<And>i. engine i = None" and "older_file db"
  shows "\<exists>db'. open_store has_parent os engine db = Some (Inr (), db') \<and> store_ok db' \<and>
    (\<forall>k r. swaps db' k = Some r \<longleftrightarrow> old_swap db k r) \<and> (\<forall>k r. quotes db' k = Some r \<longleftrightarrow> old_quote db k r)"
  unfolding open_store_migrates [OF assms(1)] by (rule migrate_upgrade [OF assms(2,3)])

text \<open>A file from before there were quotes: one swap, none of the later columns, no index.\<close>

definition first_columns :: "string list" where
  "first_columns =
     [''bolt11_invoice'', ''payment_hash'', ''asset_id'', ''asset_amount'', ''fee_subsidy_sats'',
      ''refund_lock_height'', ''p2wsh_address'', ''witness_script_hex'', ''funding_txid'', ''asset_vout'',
      ''lbtc_vout'', ''min_funding_confs'', ''status'']"

definition demo_old_row :: row where
  "demo_old_row = new_row \<lparr>tb_columns = [], tb_rows = []\<rparr> (''swap_id'' # first_columns)
     [SqlText ''s1'', SqlText ''lnbc1'', SqlText ''aa'', SqlText ''bb'', SqlInt 7, SqlInt 10000, SqlInt 300,
      SqlText ''ex1'', SqlText ''cc'', SqlText ''dd'', SqlInt 0, SqlInt 1, SqlInt 1, SqlText ''funded'']"

definition demo_old_swaps :: table where
  "demo_old_swaps =
     \<lparr>tb_columns = key_column ''swap_id'' # map required_column first_columns, tb_rows = [demo_old_row]\<rparr>"

definition first_file :: database where
  "first_file = \<lparr>db_quotes = None, db_swaps = Some demo_old_swaps, db_indexes = []\<rparr>"

lemma demo_old_columns: "column_names demo_old_swaps = ''swap_id'' # first_columns"
  by (simp add: column_names_def demo_old_swaps_def column_defs o_def)

lemma demo_old_row_reads: "swap_rows.holds (with_values later_swap_values demo_old_swaps demo_old_row) demo_swap"
  unfolding swap_rows.holds_def swap_params_Inr with_values_def demo_old_columns
  using demo_swap_storable
  by (simp add: demo_swap_def swap_storable_def demo_old_row_def new_row_def first_columns_def later_swap_values_def
      swap_cols_def)

lemma first_file_older: "older_file first_file"
proof -
  have "swap_rows.older_table later_swap_values demo_old_swaps"
    unfolding swap_rows.older_table_def demo_old_columns
    using demo_old_row_reads
    by (auto simp: demo_old_swaps_def column_defs first_columns_def swap_cols_def later_swap_values_def)
  then show ?thesis by (simp add: older_file_def first_file_def)
qed

theorem open_upgrades_swaps_witness:
  "\<exists>db'. open_store True (\<lambda>_. None) (\<lambda>_. None) first_file = Some (Inr (), db') \<and>
    swaps db' ''s1'' = Some demo_swap \<and> quotes db' = Map.empty"
proof -
  obtain db' where db': "open_store True (\<lambda>_. None) (\<lambda>_. None) first_file = Some (Inr (), db')"
    "\<forall>k r. swaps db' k = Some r \<longleftrightarrow> old_swap first_file k r" "\<forall>k r. quotes db' k = Some r \<longleftrightarrow> old_quote first_file k r"
    using open_upgrades_swaps [where os = "\<lambda>_. None" and engine = "\<lambda>_. None" and has_parent = True, OF _ _ first_file_older]
    by blast
  have "sr_swap_id demo_swap = ''s1''" by (simp add: demo_swap_def)
  then have "old_swap first_file ''s1'' demo_swap"
    using demo_old_row_reads by (auto simp: old_swap_def first_file_def demo_old_swaps_def)
  moreover have "\<not> old_quote first_file k r" for k r by (simp add: old_quote_def first_file_def)
  then have "quotes db' k = None" for k using db'(3) by (cases "quotes db' k") auto
  ultimately show ?thesis using db'(1,2) by (intro exI [of _ db']) (auto simp: fun_eq_iff)
qed

text \<open>
  C39. A file whose quotes table does not have \<open>swap_id\<close> yet can never be opened: the
  index on that column is created before the column would be added, so every attempt fails
  and leaves the table without it.
\<close>

theorem old_quotes_never_open:
  assumes "db_quotes db = Some q" and "''swap_id'' \<notin> set (column_names q)"
    and "''quotes_swap_id_idx'' \<notin> set (db_indexes db)" and "\<And>i. os i = None"
    and "open_store has_parent os engine db = Some (r, db')"
  shows "r \<noteq> Inr () \<and> db_quotes db' = Some q"
  using migrate_needs_quote_swap_id [OF assms(1-3)] assms(5) unfolding open_store_migrates [OF assms(4)] by blast

theorem old_quotes_never_open_witness:
  "\<exists>db'. open_store True (\<lambda>_. None) (\<lambda>_. None)
     (demo_db\<lparr>db_quotes := Some \<lparr>tb_columns = butlast quotes_decls, tb_rows = []\<rparr>, db_indexes := []\<rparr>) =
       Some (Inl (NoSuchColumn ''swap_id''), db') \<and>
     db_quotes db' = Some \<lparr>tb_columns = butlast quotes_decls, tb_rows = []\<rparr>"
proof -
  let ?q = "\<lparr>tb_columns = butlast quotes_decls, tb_rows = []\<rparr>"
  let ?db = "demo_db\<lparr>db_quotes := Some ?q, db_indexes := []\<rparr>"
  have col: "''swap_id'' \<notin> set (column_names ?q)"
    by (simp add: column_names_def quotes_decls_def column_defs)
  have "open_store True (\<lambda>_. None) (\<lambda>_. None) ?db = Some (Inl (NoSuchColumn ''swap_id''), ?db)"
    using col
    by (simp add: open_store_migrates migrate_def bind_run_def on_quotes_def create_table_def executed_def
        create_if_missing_def create_index_def)
  then show ?thesis
    using old_quotes_never_open [of ?db ?q "\<lambda>_. None" True "\<lambda>_. None"] col by auto
qed

end
