(* ===== verification/Script_Bytes.thy ===== *)
theory Script_Bytes
  imports Script_Vm
begin

text \<open>
  A concrete script library in Bitcoin's byte encoding, with the minimal-push rule of
  \<open>instructions_minimal\<close>, for pushes of at most 75 bytes. It shows that the hypothesis
  \<open>script_lib_ok\<close> can hold, and the witnesses of the properties compute with it.
\<close>

fun item_bytes :: "script_item \<Rightarrow> bytes" where
  "item_bytes (PushOpcode op) = [op]"
| "item_bytes (PushSlice bs) = of_nat (length bs) # bs"
| "item_bytes (PushInt n) =
     (if n = -1 \<or> (1 \<le> n \<and> n \<le> 16) then [word_of_int (0x50 + n)]
      else of_nat (length (script_num_bytes n)) # script_num_bytes n)"

definition has_own_opcode :: "bytes \<Rightarrow> bool" where
  "has_own_opcode bs \<longleftrightarrow> length bs = 1 \<and> (hd bs = 0x81 \<or> 1 \<le> hd bs \<and> hd bs \<le> 16)"

function bytes_instructions :: "bytes \<Rightarrow> (string + instruction) list" where
  "bytes_instructions [] = []"
| "bytes_instructions (b # bs) =
     (if unat b \<le> 75 then
        (if length bs < unat b then [Inl ''EarlyEndOfScript'']
         else if has_own_opcode (take (unat b) bs) then [Inl ''NonMinimalPush'']
         else Inr (PushBytes (take (unat b) bs)) # bytes_instructions (drop (unat b) bs))
      else Inr (Op b) # bytes_instructions bs)"
  by pat_completeness auto
termination
  by (relation "measure length") auto

definition bytes_script_lib :: script_lib where
  "bytes_script_lib =
     \<lparr>sl_build = concat \<circ> map item_bytes, sl_instructions_minimal = bytes_instructions\<rparr>"

lemma bytes_instructions_push:
  assumes "length bs \<le> 75" and "\<not> has_own_opcode bs"
  shows "bytes_instructions (of_nat (length bs) # bs @ rest) =
           Inr (PushBytes bs) # bytes_instructions rest"
proof -
  have "unat (of_nat (length bs) :: u8) = length bs"
    using assms(1) by (simp add: unat_of_nat)
  with assms show ?thesis by simp
qed

lemma script_num_own_opcode:
  assumes "has_own_opcode (script_num_bytes n)"
  shows "n = -1 \<or> 1 \<le> n \<and> n \<le> 16"
proof -
  obtain x where x: "script_num_bytes n = [x]" and "x = 0x81 \<or> 1 \<le> x \<and> x \<le> 16"
    using assms by (cases "script_num_bytes n") (auto simp: has_own_opcode_def)
  then consider (neg) "x = 0x81" | (pos) "1 \<le> unat x" "unat x \<le> 16"
    by (auto simp: word_le_nat_alt)
  then show ?thesis
  proof cases
    case neg
    then have "script_num_value [x] = -1" by (simp add: script_num_value_def)
    then show ?thesis using x script_num_roundtrip [of n] by simp
  next
    case pos
    have "x AND 0x80 = 0" using pos byte_sign_bit [of x] by linarith
    moreover have "unat (x AND 0x7f) = unat x" using pos by (simp only: byte_low_bits) simp
    ultimately have "script_num_value [x] = int (unat x)"
      by (simp add: script_num_value_def del: of_nat_unat)
    then have "n = int (unat x)" using x script_num_roundtrip [of n] by simp
    then show ?thesis using pos by linarith
  qed
qed

lemma bytes_instructions_item:
  assumes "plain_item item"
  shows "bytes_instructions (item_bytes item @ rest) = Inr (item_instruction item) # bytes_instructions rest"
proof (cases item)
  case (PushOpcode op)
  then show ?thesis using assms by (simp add: word_le_nat_alt)
next
  case (PushSlice bs)
  then show ?thesis using assms bytes_instructions_push [of bs rest] by (simp add: has_own_opcode_def)
next
  case (PushInt n)
  have len: "length (script_num_bytes n) \<le> 75"
    using assms PushInt length_script_num_bytes [of n 7] by simp
  show ?thesis
  proof (cases "n = -1 \<or> 1 \<le> n \<and> n \<le> 16")
    case True
    define c :: u8 where "c = word_of_int (0x50 + n)"
    have "uint c = 0x50 + n" using True by (auto simp: c_def uint_word_of_int simp del: of_int_add)
    then have "\<not> unat c \<le> 75" using True by (auto simp: nat_le_iff simp flip: nat_uint_eq)
    then show ?thesis using True PushInt
      by (simp add: c_def del: of_int_add)
  next
    case False
    then have "\<not> has_own_opcode (script_num_bytes n)" using script_num_own_opcode by blast
    from bytes_instructions_push [OF len this] False PushInt show ?thesis
      by (auto simp del: bytes_instructions.simps(2))
  qed
qed

lemma bytes_script_lib_ok: "script_lib_ok bytes_script_lib"
proof -
  have "bytes_instructions (concat (map item_bytes items)) = map (Inr \<circ> item_instruction) items"
    if "list_all plain_item items" for items
    using that by (induction items) (simp_all add: bytes_instructions_item del: bytes_instructions.simps(2))
  then show ?thesis by (simp add: script_lib_ok_def bytes_script_lib_def)
qed

end
