(* ===== verification/Htlc_Properties.thy ===== *)
theory Htlc_Properties
  imports Script_Bytes Htlc_Tx
begin

text \<open>
  The properties of the HTLC of \<open>src/liquid/htlc.rs\<close>: its script and parser, who can spend
  it, and the two transactions that do. Each property is followed by a concrete instance.
\<close>

section \<open>Concrete values for the instances\<close>

definition demo_key :: secret_key where "demo_key = replicate 33 2"

definition demo_spec :: htlc_spec where
  "demo_spec =
     \<lparr>hs_payment_hash = replicate 32 7, hs_claimer_pubkey_hash160 = replicate 20 2,
      hs_refunder_pubkey_hash160 = replicate 20 2, hs_refund_lock_height = 300\<rparr>"

definition demo_funding :: htlc_funding where
  "demo_funding =
     \<lparr>hf_funding_txid = [1], hf_asset_vout = 0, hf_lbtc_vout = 1, hf_asset_id = [10],
      hf_asset_amount = 1000, hf_policy_asset = [11], hf_fee_subsidy_sats = 10000\<rparr>"

definition demo_address :: address where
  "demo_address = \<lparr>ad_params = ''regtest'', ad_script_pubkey = [0, 0x14] @ replicate 20 2, ad_string = ''el1demo''\<rparr>"

lemma demo_spec_wf: "htlc_spec_wf demo_spec"
  by (simp add: htlc_spec_wf_def demo_spec_def)

lemma demo_preimage: "length (replicate 32 (7::u8)) = 32"
  "cl_sha256 toy_crypto (replicate 32 7) = hs_payment_hash demo_spec"
  by (simp_all add: toy_crypto_def pad_to_def demo_spec_def)

lemma demo_hash: "cl_hash160 toy_crypto (cl_public_key toy_crypto demo_key) = hs_claimer_pubkey_hash160 demo_spec"
  "cl_hash160 toy_crypto (cl_public_key toy_crypto demo_key) = hs_refunder_pubkey_hash160 demo_spec"
  by (simp_all add: toy_crypto_def pad_to_def demo_spec_def demo_key_def)

lemma demo_fee: "500 < hf_fee_subsidy_sats demo_funding"
  by (simp add: demo_funding_def)

definition demo_ctx :: "u32 \<Rightarrow> script_ctx" where
  "demo_ctx t =
     \<lparr>cx_sha256 = (\<lambda>x. x), cx_hash160 = pad_to 20, cx_checksig = (\<lambda>sig pk. sig = pk),
      cx_lock_time = t, cx_sequence = 0\<rparr>"

section \<open>The script and its parser\<close>

text \<open>
  C21. Parsing the witness script that \<open>HtlcSpec::witness_script\<close> builds gives the
  specification back, for every payment hash, key hashes and refund height.
\<close>

theorem witness_script_roundtrip:
  assumes "script_lib_ok sl" and "htlc_spec_wf spec"
  shows "parse_witness_script sl (witness_script sl spec) = Inr spec"
  using assms by (rule parse_witness_script_built)

theorem witness_script_roundtrip_witness:
  "parse_witness_script bytes_script_lib (witness_script bytes_script_lib demo_spec) = Inr demo_spec"
  by (rule witness_script_roundtrip [OF bytes_script_lib_ok demo_spec_wf])

text \<open>
  C34. \<open>decode_script_num\<close> reads exactly the script numbers: up to eight bytes it gives the
  little-endian sign-magnitude value, which then fits an \<open>i64\<close>, and it refuses more.
\<close>

theorem decode_script_num_exact:
  "decode_script_num bs =
     (if length bs \<le> 8 then Inr (word_of_int (script_num_value bs)) else Inl (ScriptNumberTooLarge (length bs))) \<and>
   (if length bs \<le> 8 then sint (word_of_int (script_num_value bs) :: i64) = script_num_value bs else True)"
  using decode_script_num_value [of bs] decode_script_num_too_large [of bs]
    sint_word_of_int_i64 [of "script_num_value bs"]
  by auto

text \<open>
  C2. Spending an output locked by the built script takes exactly one of two witnesses: the
  claimer's signature with a true selector and a 32-byte preimage of the payment hash, or the
  refunder's signature with a false selector once the refund height is reached. Nothing else
  spends it, as long as no other script has the same hash.
\<close>

theorem htlc_spend_exact:
  assumes "script_lib_ok sl" and "htlc_spec_wf spec"
    and "\<And>x. cx_sha256 cx x = cx_sha256 cx (witness_script sl spec) \<Longrightarrow> x = witness_script sl spec"
  shows "p2wsh_spend_ok sl cx (cx_sha256 cx (witness_script sl spec)) w \<longleftrightarrow>
    (\<exists>stack. w = rev stack @ [witness_script sl spec] \<and>
       (claim_stack cx spec stack \<or> refund_stack cx spec stack))"
proof
  assume spend: "p2wsh_spend_ok sl cx (cx_sha256 cx (witness_script sl spec)) w"
  then have "w \<noteq> []" and "last w = witness_script sl spec"
    using assms(3) by (auto simp: p2wsh_spend_ok_def)
  then have w: "w = butlast w @ [witness_script sl spec]" by (metis append_butlast_last_id)
  with spend p2wsh_spend_htlc [OF assms(1,2), of cx "butlast w"]
  have "claim_stack cx spec (rev (butlast w)) \<or> refund_stack cx spec (rev (butlast w))" by simp
  then show "\<exists>stack. w = rev stack @ [witness_script sl spec] \<and>
      (claim_stack cx spec stack \<or> refund_stack cx spec stack)"
    using w by (intro exI [of _ "rev (butlast w)"]) simp
next
  assume "\<exists>stack. w = rev stack @ [witness_script sl spec] \<and>
      (claim_stack cx spec stack \<or> refund_stack cx spec stack)"
  then show "p2wsh_spend_ok sl cx (cx_sha256 cx (witness_script sl spec)) w"
    using p2wsh_spend_htlc [OF assms(1,2), of cx] by (metis rev_rev_ident)
qed

theorem htlc_spend_exact_witness:
  "p2wsh_spend_ok bytes_script_lib (demo_ctx 300) (witness_script bytes_script_lib demo_spec)
     [replicate 20 2, replicate 20 2, [], witness_script bytes_script_lib demo_spec] \<and>
   \<not> p2wsh_spend_ok bytes_script_lib (demo_ctx 299) (witness_script bytes_script_lib demo_spec)
     [replicate 20 2, replicate 20 2, [], witness_script bytes_script_lib demo_spec]"
proof -
  have sha: "cx_sha256 (demo_ctx t) x = x" for t x by (simp add: demo_ctx_def)
  have exact: "p2wsh_spend_ok bytes_script_lib (demo_ctx t) (witness_script bytes_script_lib demo_spec) w \<longleftrightarrow>
    (\<exists>stack. w = rev stack @ [witness_script bytes_script_lib demo_spec] \<and>
       (claim_stack (demo_ctx t) demo_spec stack \<or> refund_stack (demo_ctx t) demo_spec stack))" for t w
    using htlc_spend_exact [OF bytes_script_lib_ok demo_spec_wf, of "demo_ctx t" w] by (simp add: sha)
  have "refund_stack (demo_ctx 300) demo_spec [[], replicate 20 2, replicate 20 2]"
    by (simp add: refund_stack_def demo_ctx_def demo_spec_def pad_to_def height_reached_def lock_time_threshold_def)
  moreover have "\<not> refund_stack (demo_ctx 299) demo_spec stack" for stack
    by (auto simp: refund_stack_def height_reached_def demo_ctx_def demo_spec_def)
  moreover have "\<not> claim_stack (demo_ctx 299) demo_spec [[], replicate 20 2, replicate 20 2]"
    by (simp add: claim_stack_def)
  moreover have "stack = [[], replicate 20 2, replicate 20 2]"
    if "[replicate 20 2, replicate 20 2, [], script] = rev stack @ [script]" for stack and script :: bytes
  proof -
    have "rev stack = [replicate 20 2, replicate 20 2, []]" using that by simp
    then show ?thesis by (simp add: rev_swap)
  qed
  moreover have "[replicate 20 2, replicate 20 2, [], script] =
      rev [[], replicate 20 2, replicate 20 2] @ [script]" for script :: bytes
    by simp
  ultimately show ?thesis unfolding exact by metis
qed

section \<open>The spending transactions\<close>

text \<open>
  C12. The claim transaction, built with the claimer's key and the preimage, spends both HTLC
  outputs with witnesses the script accepts.
\<close>

theorem claim_tx_valid:
  assumes "script_lib_ok sl" and "crypto_lib_ok cl" and "htlc_spec_wf spec"
    and "length preimage = 32" and "cl_sha256 cl preimage = hs_payment_hash spec"
    and "cl_hash160 cl (cl_public_key cl key) = hs_claimer_pubkey_hash160 spec"
    and "claim_tx sl cl spec funding receive key preimage fee = Inr t"
  shows "spends_htlc sl cl funding (witness_script sl spec) t"
  using claim_tx_spends [OF assms(1-6)] assms(7) by (simp add: claim_tx_def)

theorem claim_tx_valid_witness:
  "\<exists>t. claim_tx bytes_script_lib toy_crypto demo_spec demo_funding demo_address demo_key (replicate 32 7) 500 = Inr t \<and>
    spends_htlc bytes_script_lib toy_crypto demo_funding (witness_script bytes_script_lib demo_spec) t"
proof -
  obtain t where t: "claim_tx bytes_script_lib toy_crypto demo_spec demo_funding demo_address demo_key (replicate 32 7) 500 = Inr t"
    using claim_tx_total [OF toy_crypto_ok demo_fee] unfolding claim_tx_def by blast
  from claim_tx_valid [OF bytes_script_lib_ok toy_crypto_ok demo_spec_wf demo_preimage demo_hash(1) t] t
  show ?thesis by blast
qed

text \<open>
  C13. The refund transaction, built with the refunder's key, spends both HTLC outputs with
  witnesses the script accepts, and cannot be mined before the refund height.
\<close>

theorem refund_tx_valid:
  assumes "script_lib_ok sl" and "crypto_lib_ok cl" and "htlc_spec_wf spec"
    and "cl_hash160 cl (cl_public_key cl key) = hs_refunder_pubkey_hash160 spec"
    and "refund_tx sl cl spec funding receive key fee = Inr t"
  shows "spends_htlc sl cl funding (witness_script sl spec) t \<and> tx_lock_time t = hs_refund_lock_height spec"
  using refund_tx_spends [OF assms(1-4)] assms(5) by (simp add: refund_tx_def)

theorem refund_tx_valid_witness:
  "\<exists>t. refund_tx bytes_script_lib toy_crypto demo_spec demo_funding demo_address demo_key 500 = Inr t \<and>
    spends_htlc bytes_script_lib toy_crypto demo_funding (witness_script bytes_script_lib demo_spec) t \<and>
    tx_lock_time t = 300"
proof -
  have "\<exists>t. refund_tx bytes_script_lib toy_crypto demo_spec demo_funding demo_address demo_key 500 = Inr t"
    unfolding refund_tx_def refund_tx_total_iff [OF toy_crypto_ok] by (simp add: demo_funding_def demo_spec_def)
  then obtain t where t: "refund_tx bytes_script_lib toy_crypto demo_spec demo_funding demo_address demo_key 500 = Inr t" ..
  from refund_tx_valid [OF bytes_script_lib_ok toy_crypto_ok demo_spec_wf demo_hash(2) t] t
  show ?thesis by (auto simp: demo_spec_def)
qed

text \<open>
  C25. Neither transaction creates or loses value: of every asset, the explicit outputs (fee
  included) pay out exactly what the two HTLC outputs lock.
\<close>

theorem spends_conserve_value:
  assumes "crypto_lib_ok cl"
    and "claim_tx_from_witness_script cl script funding receive key preimage fee = Inr t \<or>
         refund_tx_from_witness_script cl script h funding receive key fee = Inr t"
  shows "paid_out a t = locked_in a funding"
  using assms(2) claim.conserves [OF assms(1)] refund.conserves [OF assms(1)] by blast

theorem spends_conserve_value_witness:
  "\<exists>t. claim_tx_from_witness_script toy_crypto [0] demo_funding demo_address demo_key (replicate 32 7) 500 = Inr t \<and>
    paid_out [11] t = 10000"
proof -
  obtain t where t: "claim_tx_from_witness_script toy_crypto [0] demo_funding demo_address demo_key (replicate 32 7) 500 = Inr t"
    using claim_tx_total [OF toy_crypto_ok demo_fee] by blast
  from spends_conserve_value [OF toy_crypto_ok disjI1 [OF t], where a = "[11]"] t
  show ?thesis by (auto simp: locked_in_def demo_funding_def)
qed

text \<open>
  C26. The claim transaction can be built exactly when the fee is below the fee subsidy, and
  the refund transaction exactly when, besides, the refund height is a block height
  (below 500,000,000): a larger configured delta makes every refund fail.
\<close>

theorem spends_build_iff:
  assumes "crypto_lib_ok cl"
  shows "((\<exists>t. claim_tx_from_witness_script cl script funding receive key preimage fee = Inr t) \<longleftrightarrow>
           fee < hf_fee_subsidy_sats funding) \<and>
         ((\<exists>t. refund_tx_from_witness_script cl script h funding receive key fee = Inr t) \<longleftrightarrow>
           fee < hf_fee_subsidy_sats funding \<and> h < 500000000)"
proof (intro conjI iffI)
  assume "fee < hf_fee_subsidy_sats funding"
  then show "\<exists>t. claim_tx_from_witness_script cl script funding receive key preimage fee = Inr t"
    by (rule claim_tx_total [OF assms])
qed (use claim.fee_below_subsidy refund_tx_total_iff [OF assms] in blast)+

theorem spends_build_iff_witness:
  "(\<nexists>t. refund_tx_from_witness_script toy_crypto [0] 500000000 demo_funding demo_address demo_key 500 = Inr t)"
  using spends_build_iff [OF toy_crypto_ok, where h = 500000000 and fee = 500 and funding = demo_funding] by simp

end
