(* ===== verification/Demo_Env.thy ===== *)
theory Demo_Env
  imports Service_Machine Swap_Cli Store_Properties Htlc_Properties
begin

text \<open>
  A concrete environment for the instances of the properties: the toy crypto and script
  libraries, text codecs that print bytes as characters, a wallet with one key, a chain with
  one funding transaction and an LDK node with one settled payment. The world is a clock.
  Every hypothesis on the environment used by a property holds of it.
\<close>

definition demo_text :: "bytes \<Rightarrow> string" where
  "demo_text bs = map (\<lambda>b. char_of (unat b)) bs"

definition demo_bytes :: "string \<Rightarrow> bytes" where
  "demo_bytes s = map (\<lambda>c. of_nat (of_char c)) s"

lemma demo_bytes_text [simp]: "demo_bytes (demo_text bs) = bs"
proof -
  have "unat b mod 256 = unat b" for b :: u8 using unsigned_less [where w = b and 'a = nat] by simp
  then show ?thesis by (simp add: demo_bytes_def demo_text_def o_def of_char_of)
qed

lemma demo_text_bytes [simp]: "demo_text (demo_bytes s) = s"
proof -
  have "char_of (unat (of_nat (of_char c) :: u8)) = c" for c :: char
    by (simp add: unat_of_nat)
  then show ?thesis by (simp add: demo_bytes_def demo_text_def o_def map_idI)
qed

definition demo_wallet_address :: "string \<Rightarrow> address" where
  "demo_wallet_address s =
     \<lparr>ad_params = ''regtest'', ad_script_pubkey = [0, 0x14] @ replicate 20 2, ad_string = s\<rparr>"

definition demo_output :: "asset_id \<Rightarrow> u64 \<Rightarrow> txout" where
  "demo_output a v =
     \<lparr>to_asset = Asset_Explicit a, to_value = Value_Explicit v, to_nonce = Nonce_Null,
      to_script_pubkey = [0, 0x20], to_witness = []\<rparr>"

definition demo_funding_tx :: tx where
  "demo_funding_tx =
     \<lparr>tx_version = 2, tx_lock_time = 0, tx_input = [],
      tx_output = [demo_output [10] 1000, demo_output [11] 10000]\<rparr>"

definition demo_invoice :: bolt11_invoice where
  "demo_invoice =
     \<lparr>in_payment_hash = replicate 32 7, in_amount_msat = Some 5000, in_expires_at = Some 9\<rparr>"

definition demo_payment :: ln_payment where
  "demo_payment =
     \<lparr>py_id = ''p1'', py_direction = 1, py_status = 1,
      py_kind = Some (Some (Bolt11Kind (Some (demo_text (replicate 32 7)))))\<rparr>"

definition demo_env :: "nat env" where
  "demo_env =
     \<lparr>ev_script = bytes_script_lib, ev_crypto = toy_crypto,
      ev_hex_encode = demo_text, ev_hex_decode = Inr \<circ> demo_bytes,
      ev_encode_offer = (\<lambda>offer. demo_bytes (of_asset_id offer)),
      ev_asset_from_str = Inr \<circ> demo_bytes, ev_asset_to_string = demo_text,
      ev_txid_from_str = Inr \<circ> demo_bytes, ev_txid_to_string = demo_text,
      ev_address_from_str = Inr \<circ> demo_wallet_address,
      ev_script_from_str = Inr \<circ> demo_bytes,
      ev_p2wsh = (\<lambda>script params. \<lparr>ad_params = params, ad_script_pubkey = [0, 0x20], ad_string = ''el1htlc''\<rparr>),
      ev_invoice_from_str = (\<lambda>s. Inr demo_invoice),
      ev_header_to_str = Some \<circ> demo_text, ev_header_value = Some \<circ> demo_bytes,
      ev_child_from_normal_idx = Inr, ev_derive_xprv = (\<lambda>path. Inr demo_key),
      ev_address_params = ''regtest'', ev_policy_asset = [11], ev_outbound = 1, ev_succeeded = 1,
      ev_signer_xpub = (\<lambda>m. Inr ''xpub''), ev_parse_descriptor = Inr \<circ> demo_bytes,
      ev_wollet_with_persist = (\<lambda>d p w. (Inr (), w)), ev_electrum_url = Inr \<circ> demo_bytes,
      ev_electrum_connect = (\<lambda>u w. (Inr (), w)), ev_full_scan = (\<lambda>w. (Inr (), w)),
      ev_tip_height = (\<lambda>w. 10), ev_wallet_address = (\<lambda>w i. Inr (demo_wallet_address ''el1demo'')),
      ev_wallet_balance = (\<lambda>w. Inr (\<lambda>a. Some 100000)), ev_tx_builder = (\<lambda>w. []),
      ev_add_recipient = (\<lambda>b a v i. Inr b), ev_finish = Inr, ev_sign = (\<lambda>p. Inr (1, p)),
      ev_finalize = (\<lambda>w p. Inr demo_funding_tx), ev_broadcast = (\<lambda>t w. (Inr [1], w)),
      ev_scripts_history = (\<lambda>ss w. (Inr [[\<lparr>hy_txid = [1], hy_height = 5\<rparr>]], w)),
      ev_get_transactions = (\<lambda>ts w. (Inr [demo_funding_tx], w)),
      ev_bolt11_receive = (\<lambda>a d e w. (Inr ''lnbc1'', w)),
      ev_bolt11_send = (\<lambda>i a w. (Inr ''p1'', w)),
      ev_list_payments = (\<lambda>p w. (Inr [demo_payment], w)),
      ev_instant = (\<lambda>w. w), ev_sleep = (\<lambda>d w. w + d), ev_unix_time = (\<lambda>w. 0),
      ev_uuid = (\<lambda>w. (''s1'', w)), ev_sql = (\<lambda>w. (None, w))\<rparr>"

definition demo_cfg :: swap_service_config where
  "demo_cfg =
     \<lparr>cf_sell_asset_id = [10], cf_price_msat_per_asset_unit = 5, cf_fee_subsidy_sats = 10000,
      cf_refund_delta_blocks = 144, cf_invoice_expiry_secs = 3600, cf_seller_key_index = 0,
      cf_buyer_key_index = 0, cf_seller_token = ''s'', cf_buyer_token = ''b''\<rparr>"

definition demo_request :: "string \<Rightarrow> 'm \<Rightarrow> 'm request" where
  "demo_request token m =
     \<lparr>rq_metadata = [''authorization'' \<mapsto> demo_bytes (''Bearer '' @ token)], rq_message = m\<rparr>"

definition demo_sys :: "nat sys" where
  "demo_sys = \<lparr>sy_db = demo_db, sy_world = 0\<rparr>"

text \<open>Text without white space is not trimmed.\<close>

lemma white_space_ends:
  "list_all (\<lambda>p. p \<noteq> [] \<and> (of_char (hd p) < (33::nat) \<or> 128 \<le> (of_char (hd p) :: nat)) \<and>
     (of_char (last p) < (33::nat) \<or> 128 \<le> (of_char (last p) :: nat))) white_space"
  by (simp add: white_space_def)

lemma trim_plain:
  assumes "list_all (\<lambda>c. (33::nat) \<le> of_char c \<and> of_char c < (128::nat)) s"
  shows "trim s = s"
proof -
  have plain: "strip_all ps t = t"
    if "\<forall>p\<in>set ps. p \<noteq> [] \<and> (of_char (hd p) < (33::nat) \<or> 128 \<le> (of_char (hd p) :: nat))"
      and t: "list_all (\<lambda>c. (33::nat) \<le> of_char c \<and> of_char c < (128::nat)) t" for ps t
  proof (rule strip_all_id)
    fix p assume "p \<in> set ps" and "p \<noteq> []"
    show "take (length p) t \<noteq> p"
    proof
      assume "take (length p) t = p"
      with \<open>p \<noteq> []\<close> have "hd p = hd t" "t \<noteq> []" by (metis hd_take length_greater_0_conv, metis take_Nil)
      with t have "(33::nat) \<le> of_char (hd p) \<and> of_char (hd p) < (128::nat)" by (cases t) auto
      with that(1) \<open>p \<in> set ps\<close> show False by fastforce
    qed
  qed
  have "strip_all white_space s = s" using white_space_ends assms by (intro plain) (auto simp: list_all_iff)
  moreover have "strip_all (map rev white_space) (rev s) = rev s"
    using white_space_ends assms by (intro plain) (auto simp: list_all_iff hd_rev)
  ultimately show ?thesis by (simp add: trim_def)
qed

section \<open>The hypotheses hold\<close>

lemma demo_codecs: "codecs_ok demo_env"
  by (simp add: codecs_ok_def demo_env_def)

lemma demo_clock: "clock_ok demo_env"
  by (simp add: clock_ok_def demo_env_def keeps_time_def)

lemma demo_invoices: "invoices_ok demo_env"
  by (auto simp: invoices_ok_def demo_env_def demo_invoice_def)

lemma demo_headers: "headers_ok demo_env"
  by (auto simp: headers_ok_def demo_env_def)

lemma demo_token: "presents_token demo_env (demo_request t m) t' \<longleftrightarrow> t' = t"
  by (auto simp: presents_token_def demo_request_def demo_env_def)

lemma demo_cfg_simps [simp]:
  "cf_seller_token demo_cfg = ''s''" "cf_buyer_token demo_cfg = ''b''" "cf_sell_asset_id demo_cfg = [10]"
  "cf_fee_subsidy_sats demo_cfg = 10000" "cf_refund_delta_blocks demo_cfg = 144"
  "cf_seller_key_index demo_cfg = 0" "cf_buyer_key_index demo_cfg = 0"
  "cf_price_msat_per_asset_unit demo_cfg = 5" "cf_invoice_expiry_secs demo_cfg = 3600"
  by (simp_all add: demo_cfg_def)

lemma demo_inv: "service_inv demo_env demo_cfg demo_db"
  using demo_db_ok demo_db_empty by (simp add: service_inv_def quotes_linked_def)

end
