(* ===== verification/Quote_Properties.thy ===== *)
theory Quote_Properties
  imports Handler_Facts Demo_Env
begin

text \<open>
  The properties of quoting and of who may call what (\<open>src/swap/service.rs\<close>).
\<close>

section \<open>Quotes\<close>

text \<open>
  C16. A quote is made exactly for the seller's token, a known direction, a positive amount of
  the configured asset, at most six confirmations and a price that fits 64 bits, when the
  store takes the record; the answer and the stored record carry the current offer's terms.
\<close>

theorem create_quote_exact:
  "create_quote ev cfg request s = Some (Inr quote, s') \<longleftrightarrow>
     presents_token ev request (cf_seller_token cfg) \<and>
     (\<exists>direction. quote_acceptable ev cfg (rq_message request) direction \<and>
       (let (quote_id, w) = ev_uuid ev (sy_world s);
            record = quote_of_request ev cfg (rq_message request) direction
              (cq_asset_amount (rq_message request) * cf_price_msat_per_asset_unit cfg) quote_id;
            (verdict, w') = ev_sql ev w
        in \<exists>db. insert_quote verdict record (sy_db s) = Some (Inr (), db) \<and>
             quote = quote_record_to_proto record \<and> s' = \<lparr>sy_db = db, sy_world = w'\<rparr>))"
  by (rule create_quote_Inr)

lemma create_quote_stored:
  assumes "store_ok (sy_db s)" and "create_quote ev cfg request s = Some (Inr quote, s')"
  shows "\<exists>record. quotes (sy_db s) (qr_quote_id record) = None \<and>
    quotes (sy_db s') = (quotes (sy_db s))(qr_quote_id record \<mapsto> record) \<and> swaps (sy_db s') = swaps (sy_db s) \<and>
    quote = quote_record_to_proto record \<and> qr_swap_id record = None \<and> store_ok (sy_db s') \<and>
    unat (qr_total_price_msat record) =
      unat (cq_asset_amount (rq_message request)) * unat (cf_price_msat_per_asset_unit cfg)"
proof -
  let ?price = "cq_asset_amount (rq_message request) * cf_price_msat_per_asset_unit cfg"
  from assms(2) obtain direction quote_id w verdict w' db where
    acc: "quote_acceptable ev cfg (rq_message request) direction"
    and ins: "insert_quote verdict (quote_of_request ev cfg (rq_message request) direction ?price quote_id) (sy_db s) =
      Some (Inr (), db)"
    and quote: "quote = quote_record_to_proto (quote_of_request ev cfg (rq_message request) direction ?price quote_id)"
    and s': "s' = \<lparr>sy_db = db, sy_world = w'\<rparr>"
    unfolding create_quote_Inr by (auto simp: Let_def split_beta)
  let ?r = "quote_of_request ev cfg (rq_message request) direction ?price quote_id"
  have "unat ?price = unat (cq_asset_amount (rq_message request)) * unat (cf_price_msat_per_asset_unit cfg)"
    using acc by (simp add: quote_acceptable_def unat_word_ariths)
  moreover have "qr_total_price_msat ?r = ?price" "qr_swap_id ?r = None" by (simp_all add: quote_of_request_def)
  ultimately show ?thesis
    using insert_quote_ok [OF assms(1), of verdict ?r] ins quote s' by (intro exI [of _ ?r]) auto
qed

text \<open>
  C30. A quote the seller got is stored under a fresh id with the exact product of amount and
  unit price, other quotes and all swaps are as before, and reading it by its id gives every
  authenticated caller the very same answer.
\<close>

theorem quote_then_get:
  assumes "store_ok (sy_db s)" and "create_quote ev cfg request s = Some (Inr quote, s')"
    and "require_authenticated ev cfg request' = Inr role"
    and "gq_quote_id (rq_message request') = pq_quote_id quote" and "trim (pq_quote_id quote) \<noteq> []"
    and "fst (ev_sql ev (sy_world s')) = None"
  shows "quotes (sy_db s) (pq_quote_id quote) = None \<and> swaps (sy_db s') = swaps (sy_db s) \<and>
    (\<forall>k. k \<noteq> pq_quote_id quote \<longrightarrow> quotes (sy_db s') k = quotes (sy_db s) k) \<and>
    unat (pq_total_price_msat quote) =
      unat (cq_asset_amount (rq_message request)) * unat (cf_price_msat_per_asset_unit cfg) \<and>
    (\<exists>w. get_quote_rpc ev cfg request' s' = Some (Inr quote, s'\<lparr>sy_world := w\<rparr>))"
proof -
  obtain r where r: "quotes (sy_db s) (qr_quote_id r) = None"
    "quotes (sy_db s') = (quotes (sy_db s))(qr_quote_id r \<mapsto> r)" "swaps (sy_db s') = swaps (sy_db s)"
    "quote = quote_record_to_proto r" "store_ok (sy_db s')"
    "unat (qr_total_price_msat r) = unat (cq_asset_amount (rq_message request)) * unat (cf_price_msat_per_asset_unit cfg)"
    using create_quote_stored [OF assms(1,2)] by blast
  have id: "pq_quote_id quote = qr_quote_id r" "pq_total_price_msat quote = qr_total_price_msat r"
    by (simp_all add: r(4) quote_record_to_proto_def Let_def)
  have "get_quote_rpc ev cfg request' s' =
      Some (Inr quote, s'\<lparr>sy_world := snd (ev_sql ev (sy_world s'))\<rparr>)"
    using assms(3-6) unfolding id(1)
    by (simp add: get_quote_rpc_def bind_run_def internal_def map_err_run_def store_run_def split_beta
        get_quote_ok [OF r(5)] r(2) r(4) [symmetric])
  then show ?thesis using r(1-3,6) id by auto
qed

definition demo_quote_request :: "u64 \<Rightarrow> create_quote_request" where
  "demo_quote_request amount =
     \<lparr>cq_direction = 1, cq_asset_id = demo_text [10], cq_asset_amount = amount, cq_min_funding_confs = 1\<rparr>"

lemma demo_env_simps:
  "ev_asset_from_str demo_env = Inr \<circ> demo_bytes" "ev_uuid demo_env = (\<lambda>w. (''s1'', w))"
  "ev_sql demo_env = (\<lambda>w. (None, w))" "ev_asset_to_string demo_env = demo_text"
  by (simp_all add: demo_env_def)

lemma demo_acceptable: "quote_acceptable demo_env demo_cfg (demo_quote_request 1000) LnToLiquid"
  by (simp add: quote_acceptable_def demo_quote_request_def demo_cfg_def demo_env_simps MAX_MIN_FUNDING_CONFS_def)

definition demo_quote :: quote_record where
  "demo_quote = quote_of_request demo_env demo_cfg (demo_quote_request 1000) LnToLiquid 5000 ''s1''"

lemma demo_quote_storable: "quote_storable demo_quote" "qr_quote_id demo_quote = ''s1''"
  by (simp_all add: quote_storable_def demo_quote_def quote_of_request_def demo_cfg_def demo_quote_request_def)

lemma demo_create_quote:
  "\<exists>db. create_quote demo_env demo_cfg (demo_request ''s'' (demo_quote_request 1000)) demo_sys =
     Some (Inr (quote_record_to_proto demo_quote), \<lparr>sy_db = db, sy_world = 0\<rparr>) \<and>
     store_ok db \<and> quotes db = [''s1'' \<mapsto> demo_quote] \<and> swaps db = Map.empty"
proof -
  obtain db where "insert_quote None demo_quote demo_db = Some (Inr (), db)"
    and db: "store_ok db" "quotes db = [''s1'' \<mapsto> demo_quote]" "swaps db = Map.empty"
    using insert_quote_ok [OF demo_db_ok, of None demo_quote]
    by (auto simp: demo_quote_storable demo_db_empty insert_result_def)
  moreover have "cq_asset_amount (demo_quote_request 1000) * cf_price_msat_per_asset_unit demo_cfg = 5000"
    by (simp add: demo_quote_request_def demo_cfg_def)
  moreover have "presents_token demo_env (demo_request ''s'' m) (cf_seller_token demo_cfg)" for m
    by (simp add: demo_token demo_cfg_def)
  ultimately show ?thesis unfolding create_quote_Inr
    using demo_acceptable db
    by (intro exI [of _ db] conjI exI [of _ LnToLiquid])
      (simp_all add: demo_request_def demo_env_simps demo_sys_def demo_quote_def [symmetric])
qed

theorem quote_then_get_witness:
  "\<exists>s'. create_quote demo_env demo_cfg (demo_request ''s'' (demo_quote_request 1000)) demo_sys =
     Some (Inr (quote_record_to_proto demo_quote), s') \<and>
    (\<exists>w. get_quote_rpc demo_env demo_cfg (demo_request ''b'' \<lparr>gq_quote_id = ''s1''\<rparr>) s' =
       Some (Inr (quote_record_to_proto demo_quote), s'\<lparr>sy_world := w\<rparr>))"
proof -
  obtain db where c: "create_quote demo_env demo_cfg (demo_request ''s'' (demo_quote_request 1000)) demo_sys =
     Some (Inr (quote_record_to_proto demo_quote), \<lparr>sy_db = db, sy_world = 0\<rparr>)"
    using demo_create_quote by blast
  have "require_authenticated demo_env demo_cfg (demo_request ''b'' \<lparr>gq_quote_id = ''s1''\<rparr>) = Inr BuyerCaller"
    by (simp add: require_authenticated_iff demo_token)
  moreover have "pq_quote_id (quote_record_to_proto demo_quote) = ''s1''"
    by (simp add: quote_record_to_proto_def Let_def demo_quote_storable)
  moreover have "trim ''s1'' \<noteq> []" by (simp add: trim_plain)
  ultimately show ?thesis
    using quote_then_get [OF _ c, of "demo_request ''b'' \<lparr>gq_quote_id = ''s1''\<rparr>" BuyerCaller] c
    by (auto simp: demo_sys_def demo_db_ok demo_env_simps demo_request_def)
qed

text \<open>
  C40. The price of an otherwise acceptable request: from 2^64 on the request is refused as an
  overflow and nothing happens; but between 2^63 and 2^64, where it still fits the record,
  the store cannot take it and the caller gets an internal error.
\<close>

theorem create_quote_price_limits:
  assumes "store_ok (sy_db s)" and "presents_token ev request (cf_seller_token cfg)"
    and "cq_direction (rq_message request) = direction_i32 (direction_to_proto direction)"
    and "cq_asset_amount (rq_message request) \<noteq> 0"
    and "ev_asset_from_str ev (cq_asset_id (rq_message request)) = Inr (cf_sell_asset_id cfg)"
    and "cq_min_funding_confs (rq_message request) \<le> MAX_MIN_FUNDING_CONFS"
    and "2 ^ 63 \<le> unat (cq_asset_amount (rq_message request)) * unat (cf_price_msat_per_asset_unit cfg)"
  shows "if 2 ^ 64 \<le> unat (cq_asset_amount (rq_message request)) * unat (cf_price_msat_per_asset_unit cfg)
    then create_quote ev cfg request s = Some (Inl (Status InvalidArgument (Text ''total_price_msat overflow'')), s)
    else \<exists>s'. create_quote ev cfg request s =
           Some (Inl (Status Internal (Caused ''persist quote: '' (CStore ToSqlConversion))), s') \<and>
         quotes (sy_db s') = quotes (sy_db s) \<and> swaps (sy_db s') = swaps (sy_db s)"
proof -
  let ?a = "cq_asset_amount (rq_message request)" and ?p = "cf_price_msat_per_asset_unit cfg"
  obtain quote_id w where u: "ev_uuid ev (sy_world s) = (quote_id, w)" by force
  obtain verdict w' where v: "ev_sql ev w = (verdict, w')" by force
  let ?r = "quote_of_request ev cfg (rq_message request) direction (?a * ?p) quote_id"
  have seller: "require_seller ev cfg request = Inr ()" using assms(2) by (simp add: require_seller_iff)
  have direction: "quoted_direction (cq_direction (rq_message request)) = Inr direction"
    using assms(3) by (simp add: quoted_direction_Inr)
  note steps = create_quote_def bind_run_def Let_def seller direction assms(4-6) linorder_not_less
    current_offer_def supported_direction
  show ?thesis
  proof (cases "2 ^ 64 \<le> unat ?a * unat ?p")
    case True
    then have "checked_mul ?a ?p = None" by (simp add: checked_mul_None)
    then show ?thesis using True by (simp add: steps)
  next
    case False
    then have "unat (?a * ?p) = unat ?a * unat ?p" by (simp add: unat_word_ariths)
    with assms(7) have "2 ^ 63 \<le> unat (?a * ?p)" by (simp only:)
    then have "int (2 ^ 63) \<le> int (unat (?a * ?p))" by (simp only: of_nat_le_iff)
    then have "2 ^ 63 \<le> uint (?a * ?p)" by (simp only: uint_nat of_nat_power of_nat_numeral)
    then have "\<not> quote_storable ?r" by (simp add: quote_storable_def quote_of_request_def)
    then obtain db where "insert_quote verdict ?r (sy_db s) = Some (Inl ToSqlConversion, db)"
      "swaps db = swaps (sy_db s)" "quotes db = quotes (sy_db s)"
      using insert_quote_ok [OF assms(1), of verdict ?r] by (auto simp: insert_result_def)
    moreover have "checked_mul ?a ?p = Some (?a * ?p)" using False by (simp add: checked_mul_iff)
    ultimately show ?thesis using False
      by (simp add: steps u v internal_def map_err_run_def store_run_def quote_of_request_def)
  qed
qed

theorem create_quote_price_limits_witness:
  "\<exists>s'. create_quote demo_env demo_cfg (demo_request ''s'' (demo_quote_request (2 ^ 61))) demo_sys =
     Some (Inl (Status Internal (Caused ''persist quote: '' (CStore ToSqlConversion))), s')"
proof -
  let ?rq = "demo_request ''s'' (demo_quote_request (2 ^ 61))"
  have "unat (cq_asset_amount (rq_message ?rq)) * unat (cf_price_msat_per_asset_unit demo_cfg) = 5 * 2 ^ 61"
    by (simp add: demo_request_def demo_quote_request_def demo_cfg_def)
  then show ?thesis
    using create_quote_price_limits [of demo_sys demo_env ?rq demo_cfg LnToLiquid]
    by (auto simp: demo_token demo_sys_def demo_db_ok)
      (auto simp: demo_request_def demo_quote_request_def demo_cfg_def demo_env_simps MAX_MIN_FUNDING_CONFS_def)
qed

end
