(* ===== verification/Spend_Facts.thy ===== *)
theory Spend_Facts
  imports Handler_Facts
begin

text \<open>
  The transactions the service broadcasts against the swaps it recorded: a claim or a refund
  of a well-formed swap spends the swap's HTLC. What this needs of the wallet is that its
  keys belong to its addresses and that printed addresses read back.
\<close>

section \<open>The documented behaviour of wallet keys and addresses\<close>

text \<open>The key derived at an index is the one behind the wallet's P2WPKH address there.\<close>

definition keys_ok :: "'w env \<Rightarrow> bool" where
  "keys_ok ev \<longleftrightarrow>
     (\<forall>w i a child key. ev_wallet_address ev w i = Inr a \<longrightarrow> ev_child_from_normal_idx ev i = Inr child \<longrightarrow>
        ev_derive_xprv ev [child] = Inr key \<longrightarrow>
        pubkey_hash160_from_p2wpkh_address a =
          Inr (cl_hash160 (ev_crypto ev) (cl_public_key (ev_crypto ev) key)))"

definition addresses_ok :: "'w env \<Rightarrow> bool" where
  "addresses_ok ev \<longleftrightarrow>
     (\<forall>s a. ev_address_from_str ev s = Inr a \<longrightarrow> ev_address_from_str ev (ad_string a) = Inr a) \<and>
     (\<forall>w i a. ev_wallet_address ev w i = Inr a \<longrightarrow> ev_address_from_str ev (ad_string a) = Inr a)"

definition libraries_ok :: "'w env \<Rightarrow> bool" where
  "libraries_ok ev \<longleftrightarrow>
     script_lib_ok (ev_script ev) \<and> crypto_lib_ok (ev_crypto ev) \<and> codecs_ok ev \<and> keys_ok ev \<and> addresses_ok ev"

lemma libraries_okD:
  assumes "libraries_ok ev"
  shows "script_lib_ok (ev_script ev)" and "crypto_lib_ok (ev_crypto ev)" and "codecs_ok ev"
    and "keys_ok ev" and "addresses_ok ev"
  using assms by (simp_all add: libraries_ok_def)

lemma keys_okD:
  assumes "keys_ok ev" and "address_at ev i s = Some (Inr a, s1)" and "derive_secret_key ev i s2 = Some (Inr key, s3)"
  shows "pubkey_hash160_from_p2wpkh_address a = Inr (cl_hash160 (ev_crypto ev) (cl_public_key (ev_crypto ev) key))"
  using assms by (auto simp: keys_ok_def address_at_def derive_secret_key_def bind_run_Inr)

lemma address_at_eq:
  "address_at ev i s = Some (map_err (Context ''get wollet address'') (map_err CLib (ev_wallet_address ev (sy_world s) i)), s)"
  by (simp add: address_at_def bind_run_def ctx_def map_err_run_def)

lemma derive_eq:
  "derive_secret_key ev i s = Some (and_then (map_err (Context ''invalid derivation index'') (map_err CLib (ev_child_from_normal_idx ev i)))
     (\<lambda>child. map_err (Context ''derive xprv'') (map_err CLib (ev_derive_xprv ev [child]))), s)"
  by (cases "ev_child_from_normal_idx ev i")
    (simp_all add: derive_secret_key_def bind_run_def ctx_def map_err_run_def)

lemma map_err_not_Inl: "(\<forall>x. map_err f r \<noteq> Inl x) \<longleftrightarrow> (\<exists>a. r = Inr a)"
  by (cases r) simp_all

lemma ctx_effect:
  "ctx c (effect_run f) s = Some (map_err (Context c) (map_err CLib (fst (f (sy_world s)))), s\<lparr>sy_world := snd (f (sy_world s))\<rparr>)"
  by (simp add: ctx_def map_err_run_def)

section \<open>The parties of a recorded swap\<close>

definition claimer_index :: "swap_service_config \<Rightarrow> swap_direction \<Rightarrow> u32" where
  "claimer_index cfg d = (case d of LnToLiquid \<Rightarrow> cf_buyer_key_index cfg | LiquidToLn \<Rightarrow> cf_seller_key_index cfg)"

definition refunder_index :: "swap_service_config \<Rightarrow> swap_direction \<Rightarrow> u32" where
  "refunder_index cfg d = (case d of LnToLiquid \<Rightarrow> cf_seller_key_index cfg | LiquidToLn \<Rightarrow> cf_buyer_key_index cfg)"

text \<open>
  The key of a party matches its hash in the HTLC: for the buyer's side by the printed
  address the code compares, for the seller's side by the configured index.
\<close>

lemma buyer_key:
  assumes libs: "libraries_ok ev" and terms: "swap_terms ev cfg r seller buyer spec"
    and addr: "address_at ev i s = Some (Inr a, s1)" and key: "derive_secret_key ev i s2 = Some (Inr key, s3)"
    and same: "ad_string a = sr_buyer_liquid_address r"
  shows "pubkey_hash160_from_p2wpkh_address buyer =
    Inr (cl_hash160 (ev_crypto ev) (cl_public_key (ev_crypto ev) key))"
proof -
  obtain w where "ev_wallet_address ev w i = Inr a" using addr by (auto simp: address_at_def bind_run_Inr)
  then have "ev_address_from_str ev (ad_string a) = Inr a"
    using libraries_okD(5) [OF libs] by (auto simp: addresses_ok_def)
  moreover obtain x where x: "ev_address_from_str ev x = Inr buyer" and buyer: "sr_buyer_liquid_address r = ad_string buyer"
    using terms unfolding swap_terms_def by blast
  moreover have "ev_address_from_str ev (ad_string buyer) = Inr buyer"
    using libraries_okD(5) [OF libs] x unfolding addresses_ok_def by blast
  ultimately have "a = buyer" using same by simp
  then show ?thesis using keys_okD [OF libraries_okD(4) [OF libs] addr key] by simp
qed

lemma seller_key:
  assumes libs: "libraries_ok ev" and terms: "swap_terms ev cfg r seller buyer spec"
    and key: "derive_secret_key ev (cf_seller_key_index cfg) s2 = Some (Inr key, s3)"
  shows "pubkey_hash160_from_p2wpkh_address seller =
    Inr (cl_hash160 (ev_crypto ev) (cl_public_key (ev_crypto ev) key))"
proof -
  obtain w where w: "ev_wallet_address ev w (cf_seller_key_index cfg) = Inr seller"
    using terms unfolding swap_terms_def by blast
  obtain child where "ev_child_from_normal_idx ev (cf_seller_key_index cfg) = Inr child"
    "ev_derive_xprv ev [child] = Inr key"
    using key by (auto simp: derive_secret_key_def bind_run_Inr)
  with w libraries_okD(4) [OF libs] show ?thesis unfolding keys_ok_def by blast
qed

lemma p2wpkh_hash_length: "pubkey_hash160_from_p2wpkh_address a = Inr h \<Longrightarrow> length h = 20"
  by (auto simp: pubkey_hash160_from_p2wpkh_address_def pubkey_hash160_from_p2wpkh_script_def Let_def split: if_splits)

lemma swap_terms_spec:
  assumes "swap_terms ev cfg r seller buyer spec"
  shows "hs_refund_lock_height spec = sr_refund_lock_height r"
    and "sr_payment_hash r = ev_hex_encode ev (hs_payment_hash spec)"
    and "pubkey_hash160_from_p2wpkh_address (case sr_direction r of LnToLiquid \<Rightarrow> buyer | LiquidToLn \<Rightarrow> seller) =
           Inr (hs_claimer_pubkey_hash160 spec)"
    and "pubkey_hash160_from_p2wpkh_address (case sr_direction r of LnToLiquid \<Rightarrow> seller | LiquidToLn \<Rightarrow> buyer) =
           Inr (hs_refunder_pubkey_hash160 spec)"
    and "htlc_spec_wf spec"
proof -
  from assms obtain hash buyer_hash seller_hash where
    b: "pubkey_hash160_from_p2wpkh_address buyer = Inr buyer_hash"
    and s: "pubkey_hash160_from_p2wpkh_address seller = Inr seller_hash"
    and h: "length hash = 32" "sr_payment_hash r = ev_hex_encode ev hash"
    and spec: "spec = swap_htlc (sr_direction r) hash buyer_hash seller_hash (sr_refund_lock_height r)"
    unfolding swap_terms_def by blast
  have len: "length buyer_hash = 20" "length seller_hash = 20" using p2wpkh_hash_length b s by blast+
  show "hs_refund_lock_height spec = sr_refund_lock_height r"
    and "sr_payment_hash r = ev_hex_encode ev (hs_payment_hash spec)"
    and "pubkey_hash160_from_p2wpkh_address (case sr_direction r of LnToLiquid \<Rightarrow> buyer | LiquidToLn \<Rightarrow> seller) =
           Inr (hs_claimer_pubkey_hash160 spec)"
    and "pubkey_hash160_from_p2wpkh_address (case sr_direction r of LnToLiquid \<Rightarrow> seller | LiquidToLn \<Rightarrow> buyer) =
           Inr (hs_refunder_pubkey_hash160 spec)"
    and "htlc_spec_wf spec"
    using b s h len by (cases "sr_direction r"; simp add: spec swap_htlc_def htlc_spec_wf_def)+
qed

text \<open>The HTLC outputs a record names.\<close>

definition recorded_funding :: "'w env \<Rightarrow> swap_record \<Rightarrow> htlc_funding \<Rightarrow> bool" where
  "recorded_funding ev r funding \<longleftrightarrow>
     ev_txid_from_str ev (sr_funding_txid r) = Inr (hf_funding_txid funding) \<and>
     ev_asset_from_str ev (sr_asset_id r) = Inr (hf_asset_id funding) \<and>
     hf_asset_vout funding = sr_asset_vout r \<and> hf_lbtc_vout funding = sr_lbtc_vout r \<and>
     hf_asset_amount funding = sr_asset_amount r \<and> hf_policy_asset funding = ev_policy_asset ev \<and>
     hf_fee_subsidy_sats funding = sr_fee_subsidy_sats r"

lemma claim_task_Inr:
  assumes "claim_task ev cfg r preimage fee s = Some (Inr txid, s')"
    and "ev_script_from_str ev (sr_witness_script_hex r) = Inr script"
  obtains a key funding tx t w s1 s2 s3 s4 where
    "address_at ev (claimer_index cfg (sr_direction r)) s1 = Some (Inr a, s2)"
    and "sr_direction r = LnToLiquid \<longrightarrow> ad_string a = sr_buyer_liquid_address r"
    and "derive_secret_key ev (claimer_index cfg (sr_direction r)) s3 = Some (Inr key, s4)"
    and "recorded_funding ev r funding"
    and "claim_tx_from_witness_script (ev_crypto ev) script funding a key preimage fee = Inr tx"
    and "fst (ev_broadcast ev tx w) = Inr t" and "txid = ev_txid_to_string ev t"
proof -
  let ?funding = "\<lambda>ftxid asset. \<lparr>hf_funding_txid = ftxid, hf_asset_vout = sr_asset_vout r, hf_lbtc_vout = sr_lbtc_vout r,
    hf_asset_id = asset, hf_asset_amount = sr_asset_amount r, hf_policy_asset = ev_policy_asset ev,
    hf_fee_subsidy_sats = sr_fee_subsidy_sats r\<rparr>"
  obtain a key ftxid asset tx t s1 s2 s3 where
    raw: "address_at ev (claimer_index cfg (sr_direction r)) s1 = Some (Inr a, s2)"
    "sr_direction r = LnToLiquid \<longrightarrow> ad_string a = sr_buyer_liquid_address r"
    "derive_secret_key ev (claimer_index cfg (sr_direction r)) s2 = Some (Inr key, s3)"
    "ev_txid_from_str ev (sr_funding_txid r) = Inr ftxid" "ev_asset_from_str ev (sr_asset_id r) = Inr asset"
    "claim_tx_from_witness_script (ev_crypto ev) script (?funding ftxid asset) a key preimage fee = Inr tx"
    "fst (ev_broadcast ev tx (sy_world s3)) = Inr t" "txid = ev_txid_to_string ev t"
    using assms by (cases "sr_direction r")
      (auto simp: claim_task_def bind_run_Inr Let_def claimer_index_def broadcast_transaction_def)
  have "recorded_funding ev r (?funding ftxid asset)" using raw by (simp add: recorded_funding_def)
  then show thesis using raw by (intro that [of s1 a s2 s2 key s3 "?funding ftxid asset" tx "sy_world s3" t]) simp_all
qed

lemma swap_script: "libraries_ok ev \<Longrightarrow> swap_terms ev cfg r seller buyer spec \<Longrightarrow>
    ev_script_from_str ev (sr_witness_script_hex r) = Inr (witness_script (ev_script ev) spec)"
  using codecs_okD(4) [OF libraries_okD(3)] by (simp add: swap_terms_def)

text \<open>The claim transaction the code builds for a recorded swap unlocks its HTLC.\<close>

lemma claim_tx_unlocks:
  assumes libs: "libraries_ok ev" and terms: "swap_terms ev cfg r seller buyer spec"
    and preimage: "length preimage = 32" "ev_hex_decode ev (sr_payment_hash r) = Inr (sha256_preimage (ev_crypto ev) preimage)"
    and addr: "address_at ev (claimer_index cfg (sr_direction r)) s1 = Some (Inr a, s2)"
    and same: "sr_direction r = LnToLiquid \<longrightarrow> ad_string a = sr_buyer_liquid_address r"
    and key: "derive_secret_key ev (claimer_index cfg (sr_direction r)) s3 = Some (Inr key, s4)"
    and tx: "claim_tx_from_witness_script (ev_crypto ev) (witness_script (ev_script ev) spec) funding a key preimage fee = Inr tx"
  shows "spends_htlc (ev_script ev) (ev_crypto ev) funding (witness_script (ev_script ev) spec) tx"
proof -
  let ?cl = "ev_crypto ev"
  note spec = swap_terms_spec [OF terms]
  have "cl_hash160 ?cl (cl_public_key ?cl key) = hs_claimer_pubkey_hash160 spec"
    using spec(3) same buyer_key [OF libs terms addr key] seller_key [OF libs terms, of s3 key s4] key
    by (cases "sr_direction r") (auto simp: claimer_index_def)
  moreover have "cl_sha256 ?cl preimage = hs_payment_hash spec"
    using preimage(2) codecs_okD(1) [OF libraries_okD(3) [OF libs], of "hs_payment_hash spec"]
    by (simp add: spec(2) sha256_preimage_def)
  ultimately show ?thesis
    using claim_tx_spends [OF libraries_okD(1,2) [OF libs] spec(5) preimage(1) _ _ tx] by simp
qed

lemma claim_task_spends:
  assumes libs: "libraries_ok ev" and terms: "swap_terms ev cfg r seller buyer spec"
    and preimage: "length preimage = 32" "ev_hex_decode ev (sr_payment_hash r) = Inr (sha256_preimage (ev_crypto ev) preimage)"
    and run: "claim_task ev cfg r preimage fee s = Some (Inr txid, s')"
  shows "\<exists>funding tx t w. recorded_funding ev r funding \<and>
    spends_htlc (ev_script ev) (ev_crypto ev) funding (witness_script (ev_script ev) spec) tx \<and>
    fst (ev_broadcast ev tx w) = Inr t \<and> txid = ev_txid_to_string ev t"
proof -
  obtain a key funding tx t w s1 s2 s3 s4 where
    "address_at ev (claimer_index cfg (sr_direction r)) s1 = Some (Inr a, s2)"
    "sr_direction r = LnToLiquid \<longrightarrow> ad_string a = sr_buyer_liquid_address r"
    "derive_secret_key ev (claimer_index cfg (sr_direction r)) s3 = Some (Inr key, s4)"
    and funding: "recorded_funding ev r funding"
    and "claim_tx_from_witness_script (ev_crypto ev) (witness_script (ev_script ev) spec) funding a key preimage fee = Inr tx"
    and b: "fst (ev_broadcast ev tx w) = Inr t" "txid = ev_txid_to_string ev t"
    by (rule claim_task_Inr [OF run swap_script [OF libs terms]]) (rule that)
  then show ?thesis using claim_tx_unlocks [OF libs terms preimage] by blast
qed

end
