(* ===== verification/Demo_Runs.thy ===== *)
theory Demo_Runs
  imports Quote_Properties Spend_Facts
begin

text \<open>
  One swap in the concrete environment, from its quote to its claim or refund: the runs the
  instances of the service's properties refer to.
\<close>

section \<open>The libraries\<close>

lemma demo_keys: "keys_ok demo_env"
  by (simp add: keys_ok_def demo_env_def demo_wallet_address_def pubkey_hash160_from_p2wpkh_address_def
      pubkey_hash160_from_p2wpkh_script_def toy_crypto_def pad_to_def demo_key_def)

lemma demo_addresses: "addresses_ok demo_env"
  by (auto simp: addresses_ok_def demo_env_def demo_wallet_address_def)

lemma demo_libraries: "libraries_ok demo_env"
  using demo_codecs demo_keys demo_addresses bytes_script_lib_ok toy_crypto_ok
  by (simp add: libraries_ok_def) (simp add: demo_env_def)

section \<open>The swap\<close>

definition swap_spec :: htlc_spec where
  "swap_spec = demo_spec\<lparr>hs_refund_lock_height := 154\<rparr>"

definition demo_record :: "swap_status \<Rightarrow> swap_record" where
  "demo_record st =
     \<lparr>sr_swap_id = ''s1'', sr_quote_id = ''s1'', sr_direction = LnToLiquid, sr_bolt11_invoice = ''lnbc1'',
      sr_payment_hash = demo_text (replicate 32 7), sr_asset_id = demo_text [10], sr_asset_amount = 1000,
      sr_total_price_msat = 5000, sr_buyer_liquid_address = ''el1demo'', sr_fee_subsidy_sats = 10000,
      sr_refund_lock_height = 154, sr_p2wsh_address = ''el1htlc'',
      sr_witness_script_hex = demo_text (witness_script bytes_script_lib swap_spec),
      sr_funding_txid = demo_text [1], sr_asset_vout = 0, sr_lbtc_vout = 1, sr_min_funding_confs = 1,
      sr_ln_payment_id = None, sr_ln_preimage_hex = None, sr_claim_txid = None, sr_status = st\<rparr>"

definition demo_plan :: swap_plan where
  "demo_plan = \<lparr>sp_quote = demo_quote, sp_address = demo_wallet_address ''el1demo'', sp_buyer_hash = replicate 20 2\<rparr>"

lemma demo_quote_fields:
  "qr_direction demo_quote = LnToLiquid" "qr_asset_amount demo_quote = 1000" "qr_min_funding_confs demo_quote = 1"
  "qr_total_price_msat demo_quote = 5000" "qr_swap_id demo_quote = None" "qr_asset_id demo_quote = demo_text [10]"
  "qr_offer_id demo_quote = offer_id demo_env (current_offer demo_env demo_cfg)" "qr_invoice_expiry_secs demo_quote = 3600"
  by (simp_all add: demo_quote_def quote_of_request_def demo_quote_request_def demo_env_simps)

lemma demo_address_hash: "pubkey_hash160_from_p2wpkh_address (demo_wallet_address x) = Inr (replicate 20 2)"
  by (simp add: pubkey_hash160_from_p2wpkh_address_def pubkey_hash160_from_p2wpkh_script_def demo_wallet_address_def)

lemmas run_defs = bind_run_def ctx_def internal_def map_err_run_def store_run_def split_beta Let_def

lemma demo_broadcast_funding:
  "build_and_broadcast_funding demo_env (p2wsh_address demo_env spec x) [10] 1000 10000 s =
     Some (Inr (demo_funding_tx, [1], 0, 1), s)"
  by (simp add: build_and_broadcast_funding_def sync_def run_defs demo_env_def p2wsh_address_def demo_funding_tx_def demo_output_def)

lemma demo_fund:
  "fund_swap demo_env demo_cfg demo_plan ''s1'' ''lnbc1'' (replicate 32 7) s =
     Some (Inr (demo_record Created, [0, 0x20], [1]), s)"
proof -
  have env: "ev_tip_height demo_env = (\<lambda>w. 10)" "ev_full_scan demo_env = (\<lambda>w. (Inr (), w))"
    "ev_wallet_address demo_env = (\<lambda>w i. Inr (demo_wallet_address ''el1demo''))"
    "ev_script demo_env = bytes_script_lib" "ev_hex_encode demo_env = demo_text"
    "ev_asset_to_string demo_env = demo_text" "ev_txid_to_string demo_env = demo_text"
    "p2wsh_address demo_env spec x = \<lparr>ad_params = x, ad_script_pubkey = [0, 0x20], ad_string = ''el1htlc''\<rparr>" for spec x
    by (simp_all add: demo_env_def p2wsh_address_def)
  have height: "saturating_add 10 144 = (154 :: u32)" by (simp add: saturating_add_def)
  have spec: "swap_htlc LnToLiquid (replicate 32 7) (replicate 20 2) (replicate 20 2) 154 = swap_spec"
    by (simp add: swap_htlc_def swap_spec_def demo_spec_def)
  show ?thesis
    using demo_broadcast_funding [of swap_spec "ev_address_params demo_env" s]
    by (simp add: fund_swap_def sync_def tip_height_def address_at_def run_defs env demo_plan_def demo_quote_fields
        demo_address_hash height spec demo_quote_storable demo_record_def)
      (simp add: demo_wallet_address_def)
qed

section \<open>The runs\<close>

definition demo_swap_request :: "create_swap_request request" where
  "demo_swap_request = demo_request ''b''
     \<lparr>cs_quote_id = ''s1'', cs_buyer_liquid_address = ''el1demo'', cs_buyer_bolt11_invoice = []\<rparr>"

lemma demo_buyer: "require_buyer demo_env demo_cfg (demo_request ''b'' m) = Inr ()"
  by (simp add: require_buyer_iff demo_token)

lemma demo_authenticated: "require_authenticated demo_env demo_cfg (demo_request ''b'' m) = Inr BuyerCaller"
  by (simp add: require_authenticated_iff demo_token)

lemma demo_sql: "ev_sql demo_env = (\<lambda>w. (None, w))"
  by (simp add: demo_env_def)

lemma sys_eta [simp]: "\<lparr>sy_db = sy_db s, sy_world = sy_world s\<rparr> = s"
  by (cases s) simp

lemma demo_check:
  assumes "store_ok (sy_db s)" and "quotes (sy_db s) ''s1'' = Some demo_quote"
  shows "check_create_swap demo_env demo_cfg demo_swap_request s = Some (Inr (Inr demo_plan), s)"
proof -
  have msg: "rq_message demo_swap_request =
      \<lparr>cs_quote_id = ''s1'', cs_buyer_liquid_address = ''el1demo'', cs_buyer_bolt11_invoice = []\<rparr>"
    by (simp add: demo_swap_request_def demo_request_def)
  have env: "ev_address_from_str demo_env = Inr \<circ> demo_wallet_address" "ev_address_params demo_env = ''regtest''"
    "ad_params (demo_wallet_address x) = ''regtest''" for x
    by (simp_all add: demo_env_def demo_wallet_address_def)
  have trim: "trim ''s1'' \<noteq> []" "trim ''el1demo'' \<noteq> []" by (simp_all add: trim_plain)
  have quote: "check_unused_quote demo_env demo_cfg (rq_message demo_swap_request) demo_quote s = Some (Inr demo_plan, s)"
    by (simp add: check_unused_quote_Inr plan_ok_def demo_plan_def msg env demo_address_hash demo_quote_fields
        demo_env_simps MAX_MIN_FUNDING_CONFS_def)
  show ?thesis
    using demo_buyer [of "\<lparr>cs_quote_id = ''s1'', cs_buyer_liquid_address = ''el1demo'', cs_buyer_bolt11_invoice = []\<rparr>"]
      quote assms(2)
    by (simp add: check_create_swap_def run_defs msg trim get_quote_ok [OF assms(1)] demo_sql demo_quote_fields
        flip: demo_swap_request_def)
qed

text \<open>The demo chain has the funding transaction with six confirmations.\<close>

lemma demo_wait:
  "wait_for_funding_confirmations demo_env [0, 0x20] [1] 1 t s = Some (Inr 6, s)"
proof -
  have "try_confirmations what demo_env [0, 0x20] [1] 1 s = Some (Inr (Some 6), s)" for what
    by (simp add: try_confirmations_def tx_confirmations_for_script_def confirmations_def sync_def tip_height_def
        run_defs demo_env_def)
  then show ?thesis
    by (simp add: wait_for_funding_confirmations_def wait_confirmations_def run_defs poll_loop_step(2))
qed

lemma demo_create_swap:
  assumes ok: "store_ok (sy_db s)" and q: "quotes (sy_db s) ''s1'' = Some demo_quote" and none: "swaps (sy_db s) ''s1'' = None"
  shows "\<exists>swap s'. create_swap demo_env demo_cfg demo_swap_request s = Some (Inr swap, s') \<and>
    swap_record_to_proto demo_env (demo_record Funded) = Inr swap \<and> store_ok (sy_db s') \<and>
    swaps (sy_db s') = (swaps (sy_db s))(''s1'' \<mapsto> demo_record Funded) \<and> sy_world s' = sy_world s"
proof -
  obtain swap where swap: "swap_record_to_proto demo_env (demo_record Funded) = Inr swap"
    by (simp add: swap_record_to_proto_def demo_env_def Let_def)
  have id: "sr_swap_id (demo_record st) = ''s1''" "swap_storable (demo_record st)" for st
    by (simp_all add: demo_record_def swap_storable_def)
  obtain db1 where d1: "insert_swap None (demo_record Created) (sy_db s) = Some (Inr (), db1)" "store_ok db1"
    "quotes db1 = quotes (sy_db s)" "swaps db1 = (swaps (sy_db s))(''s1'' \<mapsto> demo_record Created)"
    using insert_swap_ok [OF ok, of None "demo_record Created"] none by (auto simp: id insert_result_def)
  obtain db2 where d2: "set_quote_swap_id None ''s1'' ''s1'' db1 = Some (Inr (), db2)" "store_ok db2" "swaps db2 = swaps db1"
    using set_quote_swap_id_ok [OF d1(2), of None "''s1''" "''s1''"] q d1(3) by (auto simp: update_result_def)
  obtain db3 where d3: "update_swap_status None ''s1'' Funded db2 = Some (Inr (), db3)" "store_ok db3"
    "swaps db3 = (swaps db2)(''s1'' := map_option (\<lambda>r. r\<lparr>sr_status := Funded\<rparr>) (swaps db2 ''s1''))"
    using update_swap_status_ok [OF d2(2), of None "''s1''" Funded] d2(3) d1(4) by (auto simp: update_result_def)
  have invoice: "swap_invoice demo_env (rq_message demo_swap_request) demo_quote ''s1'' s = Some (Inr (''lnbc1'', replicate 32 7), s)"
    by (simp add: swap_invoice_def create_invoice_def payment_hash_from_bolt11_def parse_bolt11_def run_defs demo_quote_fields
        demo_swap_request_def demo_request_def)
      (simp add: demo_env_def demo_invoice_def)
  have mark: "demo_record Created\<lparr>sr_status := Funded\<rparr> = demo_record Funded" by (simp add: demo_record_def)
  have plan: "sp_quote demo_plan = demo_quote" by (simp add: demo_plan_def)
  let ?s' = "\<lparr>sy_db = db3, sy_world = sy_world s\<rparr>"
  have task: "create_swap_task demo_env demo_cfg demo_plan ''s1'' ''lnbc1'' (replicate 32 7) s =
      Some (Inr (demo_record Funded), ?s')"
    by (simp add: create_swap_task_parts run_defs fund_and_record_def demo_fund demo_sql d1(1) d2(1) d3(1) plan
        demo_quote_storable demo_quote_fields demo_wait mark_funded_def id mark)
  have "create_swap demo_env demo_cfg demo_swap_request s = Some (Inr swap, ?s')"
    by (simp add: create_swap_def bind_run_def internal_def map_err_run_def demo_check [OF ok q] demo_env_simps(2) plan invoice task swap)
  moreover have "swaps db3 = (swaps (sy_db s))(''s1'' \<mapsto> demo_record Funded)"
    by (simp add: d3(3) d2(3) d1(4) mark fun_upd_twist)
  ultimately show ?thesis using swap d3(2) by (intro exI [of _ swap] exI [of _ ?s'] conjI) simp_all
qed

section \<open>Paying, claiming and refunding the demo swap\<close>

definition paid_record :: swap_record where
  "paid_record = (demo_record Paid)\<lparr>sr_ln_payment_id := Some ''p1'', sr_ln_preimage_hex := Some (demo_text (replicate 32 7))\<rparr>"

definition demo_pay_request :: "create_lightning_payment_request request" where
  "demo_pay_request = demo_request ''b'' \<lparr>lp_swap_id = ''s1'', lp_payment_timeout_secs = 0\<rparr>"

definition demo_claim_request :: "create_asset_claim_request request" where
  "demo_claim_request = demo_request ''b'' \<lparr>ac_swap_id = ''s1'', ac_claim_fee_sats = 0\<rparr>"

lemma demo_record_simps [simp]:
  "sr_swap_id (demo_record st) = ''s1''" "sr_direction (demo_record st) = LnToLiquid"
  "sr_bolt11_invoice (demo_record st) = ''lnbc1''" "sr_payment_hash (demo_record st) = demo_text (replicate 32 7)"
  "sr_ln_payment_id (demo_record st) = None" "sr_ln_preimage_hex (demo_record st) = None"
  "sr_claim_txid (demo_record st) = None" "sr_status (demo_record st) = st" "sr_quote_id (demo_record st) = ''s1''"
  "sr_refund_lock_height (demo_record st) = 154" "sr_fee_subsidy_sats (demo_record st) = 10000"
  by (simp_all add: demo_record_def)

lemma demo_load:
  assumes "store_ok (sy_db s)" and "swaps (sy_db s) ''s1'' = Some r"
  shows "load_swap demo_env demo_cfg (demo_request ''b'' m) ''s1'' s = Some (Inr (BuyerCaller, r), s)"
proof -
  have "trim ''s1'' \<noteq> []" by (simp add: trim_plain)
  then show ?thesis
    by (simp add: load_swap_def run_defs demo_authenticated demo_sql get_swap_ok [OF assms(1)] assms(2))
qed

lemma demo_preimage_wait: "wait_preimage demo_env ''p1'' t s = Some (Inr (replicate 32 7), s)"
proof -
  have "try_preimage demo_env ''p1'' s = Some (Inr (Some (replicate 32 7)), s)"
    by (simp add: try_preimage_def run_defs settled_payment_def is_bolt11_def read_preimage_def preimage_of_def
        demo_env_def demo_payment_def)
  then show ?thesis by (simp add: wait_preimage_def run_defs poll_loop_step(2))
qed

lemma demo_sha: "sha256_preimage (ev_crypto demo_env) (replicate 32 7) = replicate 32 7"
  by (simp add: sha256_preimage_def demo_env_def toy_crypto_def pad_to_def)

lemma demo_roles:
  "require_swap_role BuyerCaller (role_or_unspecified (role_i32 PbBuyer)) what = Inr ()"
  by (simp only: role_or_unspecified_roundtrip) (simp add: require_swap_role_def)

lemma demo_pay:
  assumes ok: "store_ok (sy_db s)" and r: "swaps (sy_db s) ''s1'' = Some (demo_record Funded)"
  shows "\<exists>s'. create_lightning_payment demo_env demo_cfg demo_pay_request s =
      Some (Inr \<lparr>pay_payment_id = ''p1'', pay_preimage = replicate 32 7\<rparr>, s') \<and>
    store_ok (sy_db s') \<and> swaps (sy_db s') = (swaps (sy_db s))(''s1'' \<mapsto> paid_record)"
proof -
  obtain db where d: "upsert_swap_payment None ''s1'' ''p1'' (demo_text (replicate 32 7)) Paid (sy_db s) = Some (Inr (), db)"
    "store_ok db" "swaps db = (swaps (sy_db s))(''s1'' := map_option (\<lambda>r. r\<lparr>sr_ln_payment_id := Some ''p1'',
        sr_ln_preimage_hex := Some (demo_text (replicate 32 7)), sr_status := Paid\<rparr>) (swaps (sy_db s) ''s1''))"
    using upsert_swap_payment_ok [OF ok, of None "''s1''" "''p1''" "demo_text (replicate 32 7)" Paid] r
    by (auto simp: update_result_def)
  have env: "ev_hex_encode demo_env = demo_text" "ev_hex_decode demo_env = Inr \<circ> demo_bytes"
    "ev_bolt11_send demo_env = (\<lambda>i a w. (Inr ''p1'', w))"
    by (simp_all add: demo_env_def)
  have pay: "pay_swap demo_env (demo_record Funded) t s =
      Some (Inr \<lparr>pay_payment_id = ''p1'', pay_preimage = replicate 32 7\<rparr>, \<lparr>sy_db = db, sy_world = sy_world s\<rparr>)" for t
    by (simp add: pay_swap_def pay_invoice_def hash_matches_def run_defs env demo_preimage_wait demo_sha demo_sql d(1))
  have msg: "rq_message demo_pay_request = \<lparr>lp_swap_id = ''s1'', lp_payment_timeout_secs = 0\<rparr>"
    by (simp add: demo_pay_request_def demo_request_def)
  have load: "load_swap demo_env demo_cfg demo_pay_request ''s1'' s = Some (Inr (BuyerCaller, demo_record Funded), s)"
    unfolding demo_pay_request_def by (rule demo_load [OF ok r])
  have "create_lightning_payment demo_env demo_cfg demo_pay_request s =
      Some (Inr \<lparr>pay_payment_id = ''p1'', pay_preimage = replicate 32 7\<rparr>, \<lparr>sy_db = db, sy_world = sy_world s\<rparr>)"
    using demo_roles
    by (simp add: create_lightning_payment_unfold Let_def bind_run_def msg load pay)
  moreover have "swaps db = (swaps (sy_db s))(''s1'' \<mapsto> paid_record)"
    using r by (simp add: d(3)) (simp add: demo_record_def paid_record_def)
  ultimately show ?thesis using d(2) by (intro exI [of _ "\<lparr>sy_db = db, sy_world = sy_world s\<rparr>"]) simp
qed

lemma demo_script: "ev_script_from_str demo_env (sr_witness_script_hex (demo_record st)) = Inr (witness_script bytes_script_lib swap_spec)"
  by (simp add: demo_record_def demo_env_def)

lemma demo_claim:
  assumes ok: "store_ok (sy_db s)" and r: "swaps (sy_db s) ''s1'' = Some paid_record"
  shows "\<exists>s'. create_asset_claim demo_env demo_cfg demo_claim_request s =
      Some (Inr \<lparr>ac_claim_txid = demo_text [1]\<rparr>, s') \<and> store_ok (sy_db s') \<and>
    swaps (sy_db s') = (swaps (sy_db s))(''s1'' \<mapsto> paid_record\<lparr>sr_claim_txid := Some (demo_text [1]), sr_status := Claimed\<rparr>)"
proof -
  obtain db where d: "upsert_swap_claim None ''s1'' (demo_text [1]) Claimed (sy_db s) = Some (Inr (), db)"
    "store_ok db" "swaps db = (swaps (sy_db s))(''s1'' := map_option (\<lambda>r. r\<lparr>sr_claim_txid := Some (demo_text [1]),
        sr_status := Claimed\<rparr>) (swaps (sy_db s) ''s1''))"
    using upsert_swap_claim_ok [OF ok, of None "''s1''" "demo_text [1]" Claimed] r by (auto simp: update_result_def)
  have paid: "sr_swap_id paid_record = ''s1''" "sr_direction paid_record = LnToLiquid" "sr_claim_txid paid_record = None"
    "sr_ln_preimage_hex paid_record = Some (demo_text (replicate 32 7))" "sr_fee_subsidy_sats paid_record = 10000"
    "sr_buyer_liquid_address paid_record = ''el1demo''"
    by (simp_all add: paid_record_def demo_record_def)
  have env: "ev_hex_decode demo_env = Inr \<circ> demo_bytes" "ev_full_scan demo_env = (\<lambda>w. (Inr (), w))"
    "ev_wallet_address demo_env = (\<lambda>w i. Inr (demo_wallet_address ''el1demo''))"
    "ev_child_from_normal_idx demo_env = Inr" "ev_derive_xprv demo_env = (\<lambda>p. Inr demo_key)"
    "ev_script_from_str demo_env = Inr \<circ> demo_bytes" "ev_txid_from_str demo_env = Inr \<circ> demo_bytes"
    "ev_broadcast demo_env = (\<lambda>t w. (Inr [1], w))" "ev_txid_to_string demo_env = demo_text"
    "ev_crypto demo_env = toy_crypto" "ad_string (demo_wallet_address x) = x" for x
    by (simp_all add: demo_env_def demo_wallet_address_def)
  have tx: "\<exists>t. claim_tx_from_witness_script toy_crypto script funding a key preimage 500 = Inr t"
    if "hf_fee_subsidy_sats funding = 10000" for script funding a key preimage
    by (rule claim_tx_total [OF toy_crypto_ok]) (simp add: that)
  have task: "claim_task demo_env demo_cfg paid_record (replicate 32 7) 500 s =
      Some (Inr (demo_text [1]), \<lparr>sy_db = db, sy_world = sy_world s\<rparr>)"
  proof -
    let ?funding = "\<lparr>hf_funding_txid = demo_bytes (sr_funding_txid paid_record), hf_asset_vout = sr_asset_vout paid_record,
       hf_lbtc_vout = sr_lbtc_vout paid_record, hf_asset_id = demo_bytes (sr_asset_id paid_record),
       hf_asset_amount = sr_asset_amount paid_record, hf_policy_asset = ev_policy_asset demo_env,
       hf_fee_subsidy_sats = 10000\<rparr>"
    have "\<exists>t. claim_tx_from_witness_script toy_crypto (demo_bytes (sr_witness_script_hex paid_record)) ?funding
        (demo_wallet_address ''el1demo'') demo_key (replicate 32 7) 500 = Inr t"
      by (rule tx) simp
    then obtain t where "claim_tx_from_witness_script toy_crypto (demo_bytes (sr_witness_script_hex paid_record)) ?funding
        (demo_wallet_address ''el1demo'') demo_key (replicate 32 7) 500 = Inr t" ..
    then show ?thesis
      by (simp add: claim_task_def sync_def address_at_def derive_secret_key_def broadcast_transaction_def run_defs paid env
          demo_env_simps demo_sql d(1))
  qed
  have msg: "rq_message demo_claim_request = \<lparr>ac_swap_id = ''s1'', ac_claim_fee_sats = 0\<rparr>"
    by (simp add: demo_claim_request_def demo_request_def)
  have load: "load_swap demo_env demo_cfg demo_claim_request ''s1'' s = Some (Inr (BuyerCaller, paid_record), s)"
    unfolding demo_claim_request_def by (rule demo_load [OF ok r])
  have "create_asset_claim demo_env demo_cfg demo_claim_request s =
      Some (Inr \<lparr>ac_claim_txid = demo_text [1]\<rparr>, \<lparr>sy_db = db, sy_world = sy_world s\<rparr>)"
    using demo_roles
    by (simp add: create_asset_claim_unfold Let_def bind_run_def msg load paid env internal_def map_err_run_def
        DEFAULT_CLAIM_FEE_SATS_def task)
  moreover have "swaps db = (swaps (sy_db s))(''s1'' \<mapsto> paid_record\<lparr>sr_claim_txid := Some (demo_text [1]), sr_status := Claimed\<rparr>)"
    using r by (simp add: d(3))
  ultimately show ?thesis using d(2) by (intro exI [of _ "\<lparr>sy_db = db, sy_world = sy_world s\<rparr>"]) simp
qed

section \<open>Refunding\<close>

text \<open>The same environment with the chain past the refund height.\<close>

definition late_env :: "nat env" where
  "late_env = demo_env\<lparr>ev_tip_height := (\<lambda>w. 200)\<rparr>"

lemma late_libraries: "libraries_ok late_env"
proof -
  have "codecs_ok late_env = codecs_ok demo_env" "keys_ok late_env = keys_ok demo_env"
    "addresses_ok late_env = addresses_ok demo_env"
    by (simp_all add: codecs_ok_def keys_ok_def addresses_ok_def late_env_def)
  then show ?thesis using demo_libraries by (simp add: libraries_ok_def) (simp add: late_env_def)
qed

lemma demo_list:
  assumes ok: "store_ok db" and s: "swaps db = [''s1'' \<mapsto> r]" and id: "sr_swap_id r = ''s1''"
  shows "list_swaps None db = Some (Inr [r], db)"
proof -
  obtain rs where rs: "list_swaps None db = Some (Inr rs, db)" "sorted_wrt (<) (map sr_swap_id rs)"
    "\<forall>x. x \<in> set rs \<longleftrightarrow> swaps db (sr_swap_id x) = Some x"
    using list_swaps_ok [OF ok] by blast
  have "set rs = {r}" using rs(3) s id by (auto split: if_splits)
  moreover have "distinct rs" using rs(2) by (simp add: strict_sorted_iff distinct_map)
  ultimately have "length rs = 1" using distinct_card [of rs] by simp
  then obtain x where "rs = [x]" by (auto simp: length_Suc_conv)
  with \<open>set rs = {r}\<close> have "rs = [r]" by simp
  then show ?thesis using rs(1) by simp
qed

lemma demo_refund:
  assumes ok: "store_ok (sy_db s)" and r: "swaps (sy_db s) = [''s1'' \<mapsto> demo_record st]" and st: "st \<in> {Created, Funded}"
  shows "\<exists>s'. refund_once late_env 0 0 500 s = Some (Inr (), s') \<and> store_ok (sy_db s') \<and>
    swaps (sy_db s') = [''s1'' \<mapsto> demo_record Refunded]"
proof -
  obtain db where d: "update_swap_status None ''s1'' Refunded (sy_db s) = Some (Inr (), db)" "store_ok db"
    "swaps db = (swaps (sy_db s))(''s1'' := map_option (\<lambda>r. r\<lparr>sr_status := Refunded\<rparr>) (swaps (sy_db s) ''s1''))"
    using update_swap_status_ok [OF ok, of None "''s1''" Refunded] r by (auto simp: update_result_def)
  have env: "ev_full_scan late_env = (\<lambda>w. (Inr (), w))" "ev_tip_height late_env = (\<lambda>w. 200)"
    "ev_wallet_address late_env = (\<lambda>w i. Inr (demo_wallet_address ''el1demo''))"
    "ev_child_from_normal_idx late_env = Inr" "ev_derive_xprv late_env = (\<lambda>p. Inr demo_key)"
    "ev_script_from_str late_env = Inr \<circ> demo_bytes" "ev_txid_from_str late_env = Inr \<circ> demo_bytes"
    "ev_asset_from_str late_env = Inr \<circ> demo_bytes" "ev_sql late_env = (\<lambda>w. (None, w))"
    "ev_broadcast late_env = (\<lambda>t w. (Inr [1], w))" "ev_crypto late_env = toy_crypto"
    by (simp_all add: late_env_def demo_env_def)
  have due: "refundable 200 (demo_record st)" using st by (auto simp: refundable_def)
  let ?r = "demo_record st"
  let ?funding = "\<lparr>hf_funding_txid = demo_bytes (sr_funding_txid ?r), hf_asset_vout = sr_asset_vout ?r,
       hf_lbtc_vout = sr_lbtc_vout ?r, hf_asset_id = demo_bytes (sr_asset_id ?r),
       hf_asset_amount = sr_asset_amount ?r, hf_policy_asset = ev_policy_asset late_env, hf_fee_subsidy_sats = 10000\<rparr>"
  have "\<exists>t. refund_tx_from_witness_script toy_crypto (demo_bytes (sr_witness_script_hex ?r)) 154 ?funding
      (demo_wallet_address ''el1demo'') demo_key 500 = Inr t"
    unfolding refund_tx_total_iff [OF toy_crypto_ok] by simp
  then obtain t where t: "refund_tx_from_witness_script toy_crypto (demo_bytes (sr_witness_script_hex ?r)) 154 ?funding
      (demo_wallet_address ''el1demo'') demo_key 500 = Inr t" ..
  have "refund_swap late_env 0 0 500 ?r s = Some (Inr (), \<lparr>sy_db = db, sy_world = sy_world s\<rparr>)"
    by (simp add: refund_swap_def address_at_def derive_secret_key_def broadcast_transaction_def run_defs env t d(1))
  then have "refund_once late_env 0 0 500 s = Some (Inr (), \<lparr>sy_db = db, sy_world = sy_world s\<rparr>)"
    by (simp add: refund_once_unfold sync_def tip_height_def run_defs env demo_list [OF ok r] due)
  moreover have "swaps db = [''s1'' \<mapsto> demo_record Refunded]"
    by (simp add: d(3) r) (simp add: demo_record_def)
  ultimately show ?thesis using d(2) by (intro exI [of _ "\<lparr>sy_db = db, sy_world = sy_world s\<rparr>"]) simp
qed

section \<open>A state in each phase\<close>

lemma quoted_state: "\<exists>s :: nat sys. store_ok (sy_db s) \<and> quotes (sy_db s) = [''s1'' \<mapsto> demo_quote] \<and> swaps (sy_db s) = Map.empty"
proof -
  obtain db where "insert_quote None demo_quote demo_db = Some (Inr (), db)" "store_ok db" "swaps db = Map.empty"
    "quotes db = [''s1'' \<mapsto> demo_quote]"
    using insert_quote_ok [OF demo_db_ok, of None demo_quote]
    by (auto simp: demo_quote_storable demo_db_empty insert_result_def)
  then show ?thesis by (intro exI [of _ "\<lparr>sy_db = db, sy_world = 0\<rparr>"]) simp
qed

lemma recorded_state:
  assumes "swap_storable r" and "sr_swap_id r = ''s1''"
  shows "\<exists>s :: nat sys. store_ok (sy_db s) \<and> quotes (sy_db s) = Map.empty \<and> swaps (sy_db s) = [''s1'' \<mapsto> r]"
proof -
  obtain db where "insert_swap None r demo_db = Some (Inr (), db)" "store_ok db" "quotes db = Map.empty"
    "swaps db = [''s1'' \<mapsto> r]"
    using insert_swap_ok [OF demo_db_ok, of None r] assms
    by (auto simp: demo_db_empty insert_result_def)
  then show ?thesis by (intro exI [of _ "\<lparr>sy_db = db, sy_world = 0\<rparr>"]) simp
qed

lemma demo_terms:
  "swap_terms demo_env demo_cfg (demo_record st) (demo_wallet_address ''el1demo'') (demo_wallet_address ''el1demo'') swap_spec"
  "swap_terms late_env demo_cfg (demo_record st) (demo_wallet_address ''el1demo'') (demo_wallet_address ''el1demo'') swap_spec"
proof -
  have spec: "swap_htlc LnToLiquid (replicate 32 7) (replicate 20 2) (replicate 20 2) 154 = swap_spec"
    by (simp add: swap_htlc_def swap_spec_def demo_spec_def)
  show d: "swap_terms demo_env demo_cfg (demo_record st) (demo_wallet_address ''el1demo'') (demo_wallet_address ''el1demo'') swap_spec"
    unfolding swap_terms_def
    by (intro conjI exI [of _ "replicate 32 7"] exI [of _ "replicate 20 2"] exI [of _ "[1]"] exI [of _ "''el1demo''"])
      (auto simp: demo_address_hash spec, simp_all add: demo_env_def demo_record_def demo_wallet_address_def)
  have "swap_terms late_env = swap_terms demo_env"
    by (simp add: swap_terms_def late_env_def fun_eq_iff)
  then show "swap_terms late_env demo_cfg (demo_record st) (demo_wallet_address ''el1demo'') (demo_wallet_address ''el1demo'') swap_spec"
    using d by simp
qed

lemma demo_wf: "swap_wf demo_env demo_cfg (demo_record st)" "swap_wf late_env demo_cfg (demo_record st)"
  "swap_wf demo_env demo_cfg paid_record"
proof -
  show wf: "swap_wf demo_env demo_cfg (demo_record st)" "swap_wf late_env demo_cfg (demo_record st)" for st
    unfolding swap_wf_def
    by (intro conjI exI, rule demo_terms(1), simp_all) (intro exI, rule demo_terms(2))
  have "preimage_for demo_env (demo_record Paid) (demo_text (replicate 32 7))"
    unfolding preimage_for_def using demo_sha
    by (intro exI [of _ "replicate 32 7"]) (simp add: demo_env_def)
  then show "swap_wf demo_env demo_cfg paid_record"
    using swap_wf_payment [OF wf(1) [of Paid], of "demo_text (replicate 32 7)"]
    by (simp add: paid_record_def)
qed

end
