(* ===== verification/Access_Properties.thy ===== *)
theory Access_Properties
  imports Demo_Runs
begin

text \<open>
  Who may call what: bearer tokens and swap roles (\<open>src/swap/service.rs\<close>), and the header
  the command line client sends (\<open>src/bin/swap_cli.rs\<close>).
\<close>

section \<open>Tokens\<close>

text \<open>
  C17. Without the token a handler asks for, it answers with an authentication status and
  does nothing at all: quotes need the seller's token, swaps the buyer's, the others one of
  the two.
\<close>

theorem tokens_required:
  assumes "\<not> presents_token ev rq1 (cf_seller_token cfg)" and "\<not> presents_token ev rq2 (cf_buyer_token cfg)"
    and "\<And>t. t \<in> {cf_seller_token cfg, cf_buyer_token cfg} \<Longrightarrow>
           \<not> presents_token ev rq3 t \<and> \<not> presents_token ev rq4 t \<and> \<not> presents_token ev rq5 t \<and> \<not> presents_token ev rq6 t"
  shows "(\<exists>e. create_quote ev cfg rq1 s = Some (Inl (status_from_auth e), s)) \<and>
    (\<exists>e. create_swap ev cfg rq2 s = Some (Inl (status_from_auth e), s)) \<and>
    (\<exists>e. get_quote_rpc ev cfg rq3 s = Some (Inl (status_from_auth e), s)) \<and>
    (\<exists>e. get_swap_rpc ev cfg rq4 s = Some (Inl (status_from_auth e), s)) \<and>
    (\<exists>e. create_lightning_payment ev cfg rq5 s = Some (Inl (status_from_auth e), s)) \<and>
    (\<exists>e. create_asset_claim ev cfg rq6 s = Some (Inl (status_from_auth e), s))"
proof -
  obtain e1 where e1: "require_seller ev cfg rq1 = Inl e1"
    using assms(1) require_seller_iff [of ev cfg rq1] by (cases "require_seller ev cfg rq1") auto
  obtain e2 where e2: "require_buyer ev cfg rq2 = Inl e2"
    using assms(2) require_buyer_iff [of ev cfg rq2] by (cases "require_buyer ev cfg rq2") auto
  have none: "\<exists>e. require_authenticated ev cfg rq = Inl e"
    if "\<not> presents_token ev rq (cf_seller_token cfg)" "\<not> presents_token ev rq (cf_buyer_token cfg)" for rq :: "'z request"
    using that require_authenticated_iff [of ev cfg rq] by (cases "require_authenticated ev cfg rq") auto
  obtain e3 where "require_authenticated ev cfg rq3 = Inl e3" using none assms(3) by blast
  moreover obtain e4 where "require_authenticated ev cfg rq4 = Inl e4" using none assms(3) by blast
  moreover obtain e5 where "require_authenticated ev cfg rq5 = Inl e5" using none assms(3) by blast
  moreover obtain e6 where "require_authenticated ev cfg rq6 = Inl e6" using none assms(3) by blast
  ultimately show ?thesis using e1 e2
    by (auto simp: create_quote_def create_swap_def check_create_swap_def get_quote_rpc_def get_swap_rpc_def
        create_lightning_payment_unfold create_asset_claim_unfold load_swap_def bind_run_def Let_def)
qed

theorem tokens_required_witness:
  "\<exists>e. create_swap demo_env demo_cfg
     (demo_request ''s'' \<lparr>cs_quote_id = ''s1'', cs_buyer_liquid_address = ''el1'', cs_buyer_bolt11_invoice = []\<rparr>) demo_sys =
       Some (Inl (status_from_auth e), demo_sys)"
  using tokens_required [of demo_env "demo_request ''b'' undefined" demo_cfg
      "demo_request ''s'' \<lparr>cs_quote_id = ''s1'', cs_buyer_liquid_address = ''el1'', cs_buyer_bolt11_invoice = []\<rparr>"
      "demo_request ''x'' undefined" "demo_request ''x'' undefined" "demo_request ''x'' undefined"
      "demo_request ''x'' undefined" demo_sys]
  by (auto simp: demo_token)

section \<open>Roles in a swap\<close>

text \<open>The state after a read of the store that found what it found.\<close>

definition looked_up :: "'w env \<Rightarrow> 'w sys \<Rightarrow> 'w sys" where
  "looked_up ev s = s\<lparr>sy_world := snd (ev_sql ev (sy_world s))\<rparr>"

lemma load_swap_state: "load_swap ev cfg request k s = Some (x, s1) \<Longrightarrow> s1 = s \<or> s1 = looked_up ev s"
  by (auto simp: load_swap_def bind_run_Some internal_Some store_run_Some looked_up_def dest: store_reads)

text \<open>The gate both handlers on a swap start with.\<close>

lemma role_gate:
  assumes ok: "store_ok (sy_db s)"
    and run: "bind_run (load_swap ev cfg request k) (\<lambda>(caller, record).
        bind_run (authorized (require_swap_role caller (role record) what)) (\<lambda>_. rest record)) s = Some (r, s')"
    and acts: "(\<exists>x. r = Inr x) \<or> s' \<notin> {s, looked_up ev s}"
  shows "\<exists>caller record. swaps (sy_db s) k = Some record \<and> require_authenticated ev cfg request = Inr caller \<and>
    require_swap_role caller (role record) what = Inr ()"
proof -
  from run acts load_swap_state obtain caller "record" s1 where
    load: "load_swap ev cfg request k s = Some (Inr (caller, record), s1)"
    and rest: "bind_run (authorized (require_swap_role caller (role record) what)) (\<lambda>_. rest record) s1 = Some (r, s')"
    by (fastforce simp: bind_run_Some)
  have "require_swap_role caller (role record) what = Inr ()"
    using rest acts load_swap_state [OF load] by (cases "require_swap_role caller (role record) what")
      (auto simp: bind_run_Some)
  then show ?thesis using load_swap_Inr(1) [OF load] load_swap_Inr(3) [OF load ok] by blast
qed

definition paying_token :: "swap_service_config \<Rightarrow> swap_direction \<Rightarrow> string" where
  "paying_token cfg d = (case d of LnToLiquid \<Rightarrow> cf_buyer_token cfg | LiquidToLn \<Rightarrow> cf_seller_token cfg)"

lemma party_token:
  assumes "require_authenticated ev cfg request = Inr caller"
    and "require_swap_role caller (role_or_unspecified (party (parties_for_direction (direction_to_proto d)))) what = Inr ()"
    and "party = pa_ln_payer \<or> party = pa_liquid_claimer"
  shows "presents_token ev request (paying_token cfg d)"
proof -
  have "role_or_unspecified 1 = PbBuyer" "role_or_unspecified 2 = PbSeller"
    using role_or_unspecified_roundtrip [of PbBuyer] role_or_unspecified_roundtrip [of PbSeller] by simp_all
  then show ?thesis using assms
    by (cases d) (auto simp: require_swap_role_iff require_authenticated_iff paying_token_def split: if_splits)
qed

text \<open>
  C18. A Lightning payment is answered, or anything beyond one read of the store happens, only
  for the party of the stored swap that pays over Lightning: the buyer in a Lightning-to-Liquid
  swap, the seller in the other direction.
\<close>

theorem payment_needs_payer:
  assumes "store_ok (sy_db s)" and "create_lightning_payment ev cfg request s = Some (r, s')"
    and "(\<exists>x. r = Inr x) \<or> s' \<notin> {s, looked_up ev s}"
  shows "\<exists>record. swaps (sy_db s) (lp_swap_id (rq_message request)) = Some record \<and>
    presents_token ev request (paying_token cfg (sr_direction record))"
  using role_gate [OF assms(1) assms(2) [unfolded create_lightning_payment_unfold Let_def] assms(3)] party_token by blast

theorem payment_needs_payer_witness:
  "\<exists>s s'. create_lightning_payment demo_env demo_cfg demo_pay_request s =
      Some (Inr \<lparr>pay_payment_id = ''p1'', pay_preimage = replicate 32 7\<rparr>, s') \<and>
    presents_token demo_env demo_pay_request ''b''"
proof -
  obtain s :: "nat sys" where s: "store_ok (sy_db s)" "swaps (sy_db s) = [''s1'' \<mapsto> demo_record Funded]"
    using recorded_state [of "demo_record Funded"] by (auto simp: swap_storable_def demo_record_def)
  then obtain s' where run: "create_lightning_payment demo_env demo_cfg demo_pay_request s =
      Some (Inr \<lparr>pay_payment_id = ''p1'', pay_preimage = replicate 32 7\<rparr>, s')"
    using demo_pay [of s] by auto
  have "lp_swap_id (rq_message demo_pay_request) = ''s1''" by (simp add: demo_pay_request_def demo_request_def)
  then have "presents_token demo_env demo_pay_request ''b''"
    using payment_needs_payer [OF s(1) run] s(2) by (auto simp: paying_token_def split: if_splits)
  then show ?thesis using run by blast
qed

text \<open>
  C19. The same for claiming the Liquid assets: only the swap's claimer gets an answer or moves
  anything.
\<close>

theorem claim_needs_claimer:
  assumes "store_ok (sy_db s)" and "create_asset_claim ev cfg request s = Some (r, s')"
    and "(\<exists>x. r = Inr x) \<or> s' \<notin> {s, looked_up ev s}"
  shows "\<exists>record. swaps (sy_db s) (ac_swap_id (rq_message request)) = Some record \<and>
    presents_token ev request (paying_token cfg (sr_direction record))"
  using role_gate [OF assms(1) assms(2) [unfolded create_asset_claim_unfold Let_def] assms(3)] party_token by blast

theorem claim_needs_claimer_witness:
  "\<exists>s s'. create_asset_claim demo_env demo_cfg demo_claim_request s =
      Some (Inr \<lparr>ac_claim_txid = demo_text [1]\<rparr>, s') \<and> presents_token demo_env demo_claim_request ''b''"
proof -
  obtain s :: "nat sys" where s: "store_ok (sy_db s)" "swaps (sy_db s) = [''s1'' \<mapsto> paid_record]"
    using recorded_state [of paid_record] by (auto simp: swap_storable_def demo_record_def paid_record_def)
  then obtain s' where run: "create_asset_claim demo_env demo_cfg demo_claim_request s =
      Some (Inr \<lparr>ac_claim_txid = demo_text [1]\<rparr>, s')"
    using demo_claim [of s] by auto
  have "ac_swap_id (rq_message demo_claim_request) = ''s1''" by (simp add: demo_claim_request_def demo_request_def)
  then have "presents_token demo_env demo_claim_request ''b''"
    using claim_needs_claimer [OF s(1) run] s(2)
    by (auto simp: paying_token_def paid_record_def demo_record_def split: if_splits)
  then show ?thesis using run by blast
qed

section \<open>The client's header\<close>

text \<open>
  A request the client builds with a token of visible ASCII is taken by the service as
  the role that token has, provided the two configured tokens differ.
\<close>

theorem client_token_role:
  assumes "headers_ok ev" and "visible_ascii token" and "cf_seller_token cfg \<noteq> cf_buyer_token cfg"
  shows "\<exists>request. with_auth ev token msg = Inr request \<and> rq_message request = msg \<and>
    require_authenticated ev cfg request =
      (if token = cf_seller_token cfg then Inr SellerCaller
       else if token = cf_buyer_token cfg then Inr BuyerCaller else Inl InvalidBearerToken)"
  using assms by (rule with_auth_role)

theorem client_token_role_witness:
  "\<exists>request. with_auth demo_env ''b'' () = Inr request \<and>
     require_authenticated demo_env demo_cfg request = Inr BuyerCaller"
  using client_token_role [OF demo_headers, of "''b''" demo_cfg "()"]
  by (auto simp: visible_ascii_def demo_cfg_def)

end
