(* ===== verification/Swap_Properties.thy ===== *)
theory Swap_Properties
  imports Access_Properties
begin

text \<open>
  What \<open>create_swap\<close> (\<open>src/swap/service.rs\<close>) makes of a quote, and of a quote that already
  has its swap.
\<close>

section \<open>CreateSwap\<close>

lemma create_swap_new_facts:
  assumes libs: "libraries_ok ev" and invoices: "invoices_ok ev" and ok: "store_ok (sy_db s)"
    and run: "create_swap ev cfg request s = Some (Inr swap, s')"
    and quote: "quotes (sy_db s) (cs_quote_id (rq_message request)) = Some quote" "qr_swap_id quote = None"
  shows "\<exists>r seller buyer spec liquid.
    swaps (sy_db s) (sr_swap_id r) = None \<and> swaps (sy_db s') = (swaps (sy_db s))(sr_swap_id r \<mapsto> r) \<and>
    quotes (sy_db s') = (quotes (sy_db s))(cs_quote_id (rq_message request) \<mapsto> quote\<lparr>qr_swap_id := Some (sr_swap_id r)\<rparr>) \<and>
    swap_record_to_proto ev r = Inr swap \<and> sr_status r = Funded \<and> swap_terms ev cfg r seller buyer spec \<and>
    sr_direction r = qr_direction quote \<and> sr_asset_amount r = qr_asset_amount quote \<and>
    sr_total_price_msat r = qr_total_price_msat quote \<and> ps_liquid swap = Some liquid \<and>
    parse_witness_script (ev_script ev) (lh_witness_script liquid) = Inr spec"
proof -
  obtain plan sid invoice hash r spk txid s1 s2 s3 where
    plan: "plan_ok ev cfg (rq_message request) plan" "sp_quote plan = quote" and hash: "length hash = 32"
    and fund: "fund_swap ev cfg plan sid invoice hash s2 = Some (Inr (r, spk, txid), s3)"
    and sw: "swaps (sy_db s) sid = None" "swaps (sy_db s') = (swaps (sy_db s))(sid \<mapsto> r\<lparr>sr_status := Funded\<rparr>)"
    and q: "quotes (sy_db s') = (quotes (sy_db s))(cs_quote_id (rq_message request) \<mapsto> quote\<lparr>qr_swap_id := Some sid\<rparr>)"
    and enc: "swap_record_to_proto ev (r\<lparr>sr_status := Funded\<rparr>) = Inr swap"
    using create_swap_new [OF invoices ok run quote] by blast
  note rec = fund_swap_record [OF plan(1) hash fund]
  let ?r = "r\<lparr>sr_status := Funded\<rparr>"
  obtain seller buyer spec where "swap_terms ev cfg r seller buyer spec" using rec(1) unfolding swap_wf_def by blast
  then have terms: "swap_terms ev cfg ?r seller buyer spec" by (simp add: swap_terms_def)
  then have script: "ev_hex_decode ev (sr_witness_script_hex ?r) = Inr (witness_script (ev_script ev) spec)"
    using codecs_okD(1) [OF libraries_okD(3) [OF libs]] unfolding swap_terms_def by auto
  then obtain liquid where "ps_liquid swap = Some liquid" "lh_witness_script liquid = witness_script (ev_script ev) spec"
    using enc by (auto simp: swap_record_to_proto_def Let_def)
  moreover have "parse_witness_script (ev_script ev) (witness_script (ev_script ev) spec) = Inr spec"
    using parse_witness_script_built libraries_okD(1) [OF libs] swap_terms_spec(5) [OF terms] by blast
  ultimately show ?thesis
    using sw q enc terms rec(2,9,10,11) plan(2)
    by (intro exI [of _ ?r] exI [of _ seller] exI [of _ buyer] exI [of _ spec] exI [of _ liquid]) simp
qed

text \<open>
  C11. A new swap: the answer is the stored record in status Funded under a fresh id, its
  quote is linked to it and nothing else in the store changed; amount and price are the
  quote's, and the witness script in the answer parses to the HTLC between the buyer's
  address and the seller's key whose claimer and refunder follow the direction.
\<close>

theorem create_swap_new_swap:
  assumes libs: "libraries_ok ev" and invoices: "invoices_ok ev" and ok: "store_ok (sy_db s)"
    and run: "create_swap ev cfg request s = Some (Inr swap, s')"
    and quote: "quotes (sy_db s) (cs_quote_id (rq_message request)) = Some quote" "qr_swap_id quote = None"
  shows "\<exists>r seller buyer spec liquid.
    swaps (sy_db s) (sr_swap_id r) = None \<and> swaps (sy_db s') = (swaps (sy_db s))(sr_swap_id r \<mapsto> r) \<and>
    quotes (sy_db s') = (quotes (sy_db s))(cs_quote_id (rq_message request) \<mapsto> quote\<lparr>qr_swap_id := Some (sr_swap_id r)\<rparr>) \<and>
    swap_record_to_proto ev r = Inr swap \<and> sr_status r = Funded \<and> swap_terms ev cfg r seller buyer spec \<and>
    sr_direction r = qr_direction quote \<and> sr_asset_amount r = qr_asset_amount quote \<and>
    sr_total_price_msat r = qr_total_price_msat quote \<and> ps_liquid swap = Some liquid \<and>
    parse_witness_script (ev_script ev) (lh_witness_script liquid) = Inr spec"
  using create_swap_new_facts [OF libs invoices ok run quote] .

theorem create_swap_new_swap_witness:
  "\<exists>s swap s' r. create_swap demo_env demo_cfg demo_swap_request s = Some (Inr swap, s') \<and>
    swaps (sy_db s) = Map.empty \<and> swaps (sy_db s') = [sr_swap_id r \<mapsto> r] \<and> swap_record_to_proto demo_env r = Inr swap \<and>
    sr_status r = Funded \<and> sr_asset_amount r = 1000"
proof -
  obtain s :: "nat sys" where s: "store_ok (sy_db s)" "quotes (sy_db s) = [''s1'' \<mapsto> demo_quote]" "swaps (sy_db s) = Map.empty"
    using quoted_state by blast
  then obtain swap s' where run: "create_swap demo_env demo_cfg demo_swap_request s = Some (Inr swap, s')"
    using demo_create_swap [of s] by auto
  have "cs_quote_id (rq_message demo_swap_request) = ''s1''" by (simp add: demo_swap_request_def demo_request_def)
  then show ?thesis
    using create_swap_new_swap [OF demo_libraries demo_invoices s(1) run, of demo_quote] s run demo_quote_fields
    by fastforce
qed

lemma get_quote_looks:
  assumes "store_ok (sy_db s)"
  shows "\<exists>x. store_run ev (\<lambda>v. get_quote v k) s = Some (x, looked_up ev s) \<and>
    (x = Inr (quotes (sy_db s) k) \<or> (\<exists>e. x = Inl e))"
proof -
  obtain x s1 where run: "store_run ev (\<lambda>v. get_quote v k) s = Some (x, s1)"
    using returnsD [of "store_run ev (\<lambda>v. get_quote v k)"] by (meson return_intros)
  then have "s1 = looked_up ev s" by (auto simp: store_run_Some looked_up_def dest: store_reads)
  then show ?thesis using run store_run_get_quote(1) [OF assms] by (cases x) auto
qed

lemma get_swap_looks:
  assumes "store_ok (sy_db s)"
  shows "\<exists>x. store_run ev (\<lambda>v. get_swap v k) s = Some (x, looked_up ev s) \<and>
    (x = Inr (swaps (sy_db s) k) \<or> (\<exists>e. x = Inl e))"
proof -
  obtain x s1 where run: "store_run ev (\<lambda>v. get_swap v k) s = Some (x, s1)"
    using returnsD [of "store_run ev (\<lambda>v. get_swap v k)"] by (meson return_intros)
  then have "s1 = looked_up ev s" by (auto simp: store_run_Some looked_up_def dest: store_reads)
  then show ?thesis using run store_run_get_swap(1) [OF assms] by (cases x) auto
qed

lemma encodable_swap: "swap_wf ev cfg r \<Longrightarrow> codecs_ok ev \<Longrightarrow> \<exists>swap. swap_record_to_proto ev r = Inr swap"
  unfolding swap_wf_def swap_terms_def by (auto simp: swap_record_to_proto_def Let_def codecs_okD(1))

text \<open>Whatever the answer, a quote that has its swap leads to two reads of the store at most.\<close>

lemma create_swap_linked:
  assumes inv: "service_inv ev cfg (sy_db s)" and run: "create_swap ev cfg request s = Some (r, s')"
    and quote: "quotes (sy_db s) (cs_quote_id (rq_message request)) = Some quote" "qr_swap_id quote = Some sid"
    and rec: "swaps (sy_db s) sid = Some record"
  shows "s' \<in> {s, looked_up ev s, looked_up ev (looked_up ev s)} \<and>
    (\<forall>swap. r = Inr swap \<longrightarrow> swap_record_to_proto ev record = Inr swap)"
proof -
  have ok: "store_ok (sy_db s)" using inv by (simp add: service_inv_def)
  let ?k = "cs_quote_id (rq_message request)" and ?s1 = "looked_up ev s" and ?s2 = "looked_up ev (looked_up ev s)"
  have ok1: "store_ok (sy_db ?s1)" using ok by (simp add: looked_up_def)
  obtain x where x: "store_run ev (\<lambda>v. get_quote v ?k) s = Some (x, ?s1)" "x = Inr (Some quote) \<or> (\<exists>e. x = Inl e)"
    using get_quote_looks [OF ok, of ev ?k] quote(1) by auto
  obtain y where y: "store_run ev (\<lambda>v. get_swap v sid) ?s1 = Some (y, ?s2)" "y = Inr (Some record) \<or> (\<exists>e. y = Inl e)"
    using get_swap_looks [OF ok1, of ev sid] rec by (auto simp: looked_up_def)
  have ex: "existing_swap ev sid ?s1 = Some (z, t) \<Longrightarrow> t = ?s2 \<and>
      (\<forall>swap. z = Inr swap \<longrightarrow> swap_record_to_proto ev record = Inr swap)" for z t
    using y by (cases "swap_record_to_proto ev record") (auto simp: existing_swap_def bind_run_def internal_def map_err_run_def)
  obtain z t where z: "existing_swap ev sid ?s1 = Some (z, t)"
    using y by (auto simp: existing_swap_def bind_run_def internal_def map_err_run_def)
  have "check_create_swap ev cfg request s = Some (c, s'') \<Longrightarrow> s'' \<in> {s, ?s1, ?s2} \<and>
      (\<forall>a. c = Inr a \<longrightarrow> (\<exists>swap. a = Inl swap \<and> swap_record_to_proto ev record = Inr swap))" for c s''
    using x z ex [OF z] quote(2)
    by (cases "require_buyer ev cfg request"; cases z)
      (auto simp: check_create_swap_def bind_run_def internal_def map_err_run_def Let_def ensure_def
        split: if_splits)
  then show ?thesis using run unfolding create_swap_def bind_run_Some by fastforce
qed

lemma create_swap_linked_answers:
  assumes inv: "service_inv ev cfg (sy_db s)"
    and quote: "quotes (sy_db s) (cs_quote_id (rq_message request)) = Some quote" "qr_swap_id quote = Some sid"
    and buyer: "presents_token ev request (cf_buyer_token cfg)" "cf_seller_token cfg \<noteq> cf_buyer_token cfg"
    and given: "trim (cs_quote_id (rq_message request)) \<noteq> []" "trim (cs_buyer_liquid_address (rq_message request)) \<noteq> []"
    and sql: "fst (ev_sql ev (sy_world s)) = None" "fst (ev_sql ev (sy_world (looked_up ev s))) = None"
    and rec: "swaps (sy_db s) sid = Some record" and swap: "swap_record_to_proto ev record = Inr swap"
  shows "create_swap ev cfg request s = Some (Inr swap, looked_up ev (looked_up ev s))"
proof -
  have ok: "store_ok (sy_db s)" using inv by (simp add: service_inv_def)
  have get: "store_run ev (\<lambda>v. get_quote v (cs_quote_id (rq_message request))) s = Some (Inr (Some quote), looked_up ev s)"
    using quote(1) sql(1) by (simp add: store_run_def split_beta Let_def get_quote_ok [OF ok] looked_up_def)
  have "store_run ev (\<lambda>v. get_swap v sid) (looked_up ev s) = Some (Inr (Some record), looked_up ev (looked_up ev s))"
    using rec sql(2) by (simp add: store_run_def split_beta Let_def get_swap_ok [OF ok] looked_up_def)
  then have "existing_swap ev sid (looked_up ev s) = Some (Inr swap, looked_up ev (looked_up ev s))"
    by (simp add: existing_swap_def bind_run_def internal_def map_err_run_def swap)
  moreover have "require_buyer ev cfg request = Inr ()" using buyer by (auto simp: require_buyer_iff)
  ultimately show ?thesis
    using given quote(2) get
    by (simp add: create_swap_def check_create_swap_def bind_run_def internal_def map_err_run_def Let_def)
qed

text \<open>
  C35. Asking again for a quote that already has its swap is answered with that swap, as the
  store has it now and whatever state it is in: the swap is on record, it can be encoded, and
  a buyer's request that names a quote and an address gets exactly its encoding, when the
  database answers the two reads. Nothing is written, no invoice is made and no money moves,
  whatever the request and whatever the answer: the store is the same and at most these two
  reads have happened.
\<close>

theorem create_swap_again:
  assumes "service_inv ev cfg (sy_db s)" and "codecs_ok ev"
    and "quotes (sy_db s) (cs_quote_id (rq_message request)) = Some quote" and "qr_swap_id quote = Some sid"
    and "cf_seller_token cfg \<noteq> cf_buyer_token cfg"
  shows "\<exists>record swap. swaps (sy_db s) sid = Some record \<and> sr_quote_id record = qr_quote_id quote \<and>
    swap_record_to_proto ev record = Inr swap \<and>
    (presents_token ev request (cf_buyer_token cfg) \<longrightarrow> trim (cs_quote_id (rq_message request)) \<noteq> [] \<longrightarrow>
       trim (cs_buyer_liquid_address (rq_message request)) \<noteq> [] \<longrightarrow>
       fst (ev_sql ev (sy_world s)) = None \<longrightarrow> fst (ev_sql ev (sy_world (looked_up ev s))) = None \<longrightarrow>
       create_swap ev cfg request s = Some (Inr swap, looked_up ev (looked_up ev s))) \<and>
    (\<forall>r s'. create_swap ev cfg request s = Some (r, s') \<longrightarrow>
       sy_db s' = sy_db s \<and> s' \<in> {s, looked_up ev s, looked_up ev (looked_up ev s)} \<and> r \<in> {Inr swap} \<union> range Inl)"
proof -
  have ok: "store_ok (sy_db s)" and linked: "quotes_linked (sy_db s)" using assms(1) by (simp_all add: service_inv_def)
  obtain rc where rec: "swaps (sy_db s) sid = Some rc" "sr_quote_id rc = qr_quote_id quote"
    using quotes_linkedD [OF linked assms(3,4)] quotes_id [OF ok assms(3)] by auto
  obtain swap where swap: "swap_record_to_proto ev rc = Inr swap"
    using encodable_swap [OF _ assms(2)] assms(1) rec(1) unfolding service_inv_def by blast
  have "create_swap ev cfg request s = Some (r, s') \<Longrightarrow>
      sy_db s' = sy_db s \<and> s' \<in> {s, looked_up ev s, looked_up ev (looked_up ev s)} \<and> r \<in> {Inr swap} \<union> range Inl" for r s'
    using create_swap_linked [OF assms(1) _ assms(3,4) rec(1)] swap by (cases r) (auto simp: looked_up_def)
  moreover note create_swap_linked_answers [OF assms(1,3,4) _ assms(5) _ _ _ _ rec(1) swap]
  ultimately show ?thesis using rec swap by (intro exI [of _ rc] exI [of _ swap] conjI impI allI) simp_all
qed

theorem create_swap_again_witness:
  "\<exists>s swap r. create_swap demo_env demo_cfg demo_swap_request s = Some (Inr swap, s) \<and>
     swaps (sy_db s) = [''s1'' \<mapsto> r] \<and> sr_status r = Funded \<and> swap_record_to_proto demo_env r = Inr swap"
proof -
  obtain s0 :: "nat sys" where s0: "store_ok (sy_db s0)" "quotes (sy_db s0) = [''s1'' \<mapsto> demo_quote]" "swaps (sy_db s0) = Map.empty"
    using quoted_state by blast
  then obtain swap s where run: "create_swap demo_env demo_cfg demo_swap_request s0 = Some (Inr swap, s)"
    and one: "swaps (sy_db s) = [''s1'' \<mapsto> demo_record Funded]"
    using demo_create_swap [of s0] by auto
  have "service_inv demo_env demo_cfg (sy_db s0)"
    using s0 by (auto simp: service_inv_def quotes_linked_def demo_quote_fields)
  then have inv: "service_inv demo_env demo_cfg (sy_db s)"
    using store_writes_inv writes_fromD [OF create_swap_writes [OF demo_invoices] run s0(1)] by blast
  have msg: "rq_message demo_swap_request = \<lparr>cs_quote_id = ''s1'', cs_buyer_liquid_address = ''el1demo'', cs_buyer_bolt11_invoice = []\<rparr>"
    by (simp add: demo_swap_request_def demo_request_def)
  then have quote: "quotes (sy_db s0) (cs_quote_id (rq_message demo_swap_request)) = Some demo_quote" using s0(2) by simp
  obtain rc where "swaps (sy_db s) = (swaps (sy_db s0))(sr_swap_id rc \<mapsto> rc)"
    and qs: "quotes (sy_db s) = (quotes (sy_db s0))(cs_quote_id (rq_message demo_swap_request) \<mapsto>
      demo_quote\<lparr>qr_swap_id := Some (sr_swap_id rc)\<rparr>)"
    using create_swap_new_facts [OF demo_libraries demo_invoices s0(1) run quote demo_quote_fields(5)] by blast
  then have "quotes (sy_db s) (cs_quote_id (rq_message demo_swap_request)) = Some (demo_quote\<lparr>qr_swap_id := Some (sr_swap_id rc)\<rparr>)"
    by simp
  from create_swap_again [OF inv demo_codecs this] obtain r' swap' where r: "swaps (sy_db s) (sr_swap_id rc) = Some r'"
    and swap: "swap_record_to_proto demo_env r' = Inr swap'"
    and answers: "presents_token demo_env demo_swap_request (cf_buyer_token demo_cfg) \<longrightarrow> trim (cs_quote_id (rq_message demo_swap_request)) \<noteq> [] \<longrightarrow>
       trim (cs_buyer_liquid_address (rq_message demo_swap_request)) \<noteq> [] \<longrightarrow>
       fst (ev_sql demo_env (sy_world s)) = None \<longrightarrow> fst (ev_sql demo_env (sy_world (looked_up demo_env s))) = None \<longrightarrow>
       create_swap demo_env demo_cfg demo_swap_request s = Some (Inr swap', looked_up demo_env (looked_up demo_env s))"
    by auto
  have "presents_token demo_env demo_swap_request (cf_buyer_token demo_cfg)"
    using demo_buyer [of "rq_message demo_swap_request"] unfolding demo_swap_request_def demo_request_def require_buyer_iff by simp
  moreover have "looked_up demo_env x = x" for x by (simp add: looked_up_def demo_sql)
  ultimately have "create_swap demo_env demo_cfg demo_swap_request s = Some (Inr swap', s)"
    using answers by (simp add: msg demo_sql trim_plain)
  moreover have "r' = demo_record Funded" using r one by (auto split: if_splits)
  moreover have "sr_status (demo_record Funded) = Funded" by (simp add: demo_record_def)
  ultimately show ?thesis using one swap by blast
qed

end
