(* ===== verification/Wallet_Properties.thy ===== *)
theory Wallet_Properties
  imports Demo_Env
begin

text \<open>
  The properties of the Liquid wallet (\<open>src/liquid/wallet.rs\<close>) and of waiting for a Lightning
  payment (\<open>src/lightning/ldk.rs\<close>): the funding outputs, the confirmation count and the two
  polling loops.
\<close>

section \<open>Funding\<close>

lemma context_not_msg [simp]: "map_err (Context c) r \<noteq> Inl (CMsg m)" "Inl (CMsg m) \<noteq> map_err (Context c) r"
  by (cases r; simp)+

lemma build_outputs:
  assumes "build_and_broadcast_funding ev addr a amount fee s = Some (Inr (t, txid, i, j), s')"
  shows "\<exists>w. fst (ev_broadcast ev t w) = Inr txid"
    and "length (tx_output t) \<le> 2 ^ 32 \<Longrightarrow> i \<noteq> j \<and>
      unat i < length (tx_output t) \<and> unat j < length (tx_output t) \<and>
      pays (ad_script_pubkey addr) a (tx_output t ! unat i) \<and>
      pays (ad_script_pubkey addr) (ev_policy_asset ev) (tx_output t ! unat j)"
proof -
  note f = funding_result [OF assms(1)]
  show "\<exists>w. fst (ev_broadcast ev t w) = Inr txid" by (rule f(2))
  have "a \<noteq> ev_policy_asset ev" using assms(1) funding_same_asset by metis
  then show "length (tx_output t) \<le> 2 ^ 32 \<Longrightarrow> i \<noteq> j \<and>
      unat i < length (tx_output t) \<and> unat j < length (tx_output t) \<and>
      pays (ad_script_pubkey addr) a (tx_output t ! unat i) \<and>
      pays (ad_script_pubkey addr) (ev_policy_asset ev) (tx_output t ! unat j)"
    using find_vouts_sound [OF f(1)] by (auto simp: pays_def)
qed

text \<open>
  C24. The two output indexes a funding answers are right: the transaction that was broadcast
  has, at them, two different outputs that pay to the HTLC script, one in the asset and one in
  the policy asset. (A transaction has fewer than \<open>2 ^ 32\<close> outputs; the cast to \<open>u32\<close> needs it.)
\<close>

theorem funding_outputs:
  assumes "build_and_broadcast_funding ev addr a amount fee s = Some (Inr (t, txid, i, j), s')"
    and "length (tx_output t) \<le> 2 ^ 32"
  shows "(\<exists>w. fst (ev_broadcast ev t w) = Inr txid) \<and> i \<noteq> j \<and>
    unat i < length (tx_output t) \<and> pays (ad_script_pubkey addr) a (tx_output t ! unat i) \<and>
    unat j < length (tx_output t) \<and> pays (ad_script_pubkey addr) (ev_policy_asset ev) (tx_output t ! unat j)"
  using build_outputs [OF assms(1)] assms(2) by simp

lemma demo_build:
  "build_and_broadcast_funding demo_env \<lparr>ad_params = p, ad_script_pubkey = [0, 0x20], ad_string = x\<rparr> [10] 1000 10000 demo_sys =
     Some (Inr (demo_funding_tx, [1], 0, 1), demo_sys)"
  by (simp add: build_and_broadcast_funding_def sync_def bind_run_def ctx_def map_err_run_def demo_env_def demo_funding_tx_def
      demo_output_def demo_sys_def)

theorem funding_outputs_witness:
  "build_and_broadcast_funding demo_env \<lparr>ad_params = [], ad_script_pubkey = [0, 0x20], ad_string = []\<rparr> [10] 1000 10000 demo_sys =
     Some (Inr (demo_funding_tx, [1], 0, 1), demo_sys) \<and>
   pays [0, 0x20] [10] (tx_output demo_funding_tx ! 0) \<and> pays [0, 0x20] [11] (tx_output demo_funding_tx ! 1)"
  using funding_outputs [OF demo_build] demo_build by (simp add: demo_funding_tx_def) (simp add: demo_env_def)

text \<open>
  Selling the policy asset itself never works, and the service learns it too late: the
  output for the subsidy is taken for the asset's, the funding fails with
  \<open>lbtc htlc output not found\<close>, and it was broadcast before.
\<close>

theorem funding_policy_asset_lost:
  assumes "build_and_broadcast_funding ev addr (ev_policy_asset ev) amount fee s = Some (r, s')"
  shows "(\<exists>e. r = Inl e) \<and>
    (r = Inl (CMsg ''lbtc htlc output not found'') \<longrightarrow> (\<exists>t w txid. fst (ev_broadcast ev t w) = Inr txid))"
proof -
  have "r \<noteq> Inr x" for x using assms funding_same_asset by metis
  then have "\<exists>e. r = Inl e" by (cases r) auto
  moreover have "\<exists>t w txid. fst (ev_broadcast ev t w) = Inr txid" if "r = Inl (CMsg ''lbtc htlc output not found'')"
    using assms that
    by (auto simp: build_and_broadcast_funding_def bind_run_Some ctx_Some split_beta Let_def sync_def prod_eq_iff
        split: if_splits)
  ultimately show ?thesis by blast
qed

theorem funding_policy_asset_lost_witness:
  "\<exists>s'. build_and_broadcast_funding demo_env \<lparr>ad_params = [], ad_script_pubkey = [0, 0x20], ad_string = []\<rparr> [11] 1000 10000 demo_sys =
     Some (Inl (CMsg ''lbtc htlc output not found''), s') \<and> (\<exists>t w txid. fst (ev_broadcast demo_env t w) = Inr txid)"
proof -
  let ?a = "\<lparr>ad_params = [], ad_script_pubkey = [0, 0x20], ad_string = []\<rparr>"
  have run: "build_and_broadcast_funding demo_env ?a [11] 1000 10000 demo_sys =
     Some (Inl (CMsg ''lbtc htlc output not found''), demo_sys)"
    by (simp add: build_and_broadcast_funding_def sync_def bind_run_def ctx_def map_err_run_def demo_env_def
        demo_funding_tx_def demo_output_def demo_sys_def)
  have "ev_policy_asset demo_env = [11]" by (simp add: demo_env_def)
  then show ?thesis using funding_policy_asset_lost [of demo_env ?a 1000 10000 demo_sys] run by auto
qed

section \<open>Confirmations\<close>

text \<open>
  C33. The confirmation count never wraps around: a transaction the history has in block \<open>h\<close>
  counts \<open>tip - h + 1\<close>, one it has unconfirmed or beyond the tip counts 0, and one it does not
  have counts nothing.
\<close>

theorem confirmations_count:
  "map_option uint (confirmations tip history txid) =
     (case find (\<lambda>h. hy_txid h = txid) history of
        None \<Rightarrow> None
      | Some entry \<Rightarrow> Some (if sint (hy_height entry) \<le> 0 \<or> uint tip < sint (hy_height entry) then 0
           else uint tip - sint (hy_height entry) + 1))"
proof (cases "find (\<lambda>h. hy_txid h = txid) history")
  case None
  then show ?thesis by (simp add: confirmations_def)
next
  case (Some entry)
  from confirmations_exact [OF Some, of tip] Some show ?thesis by simp
qed

section \<open>Waiting\<close>

lemma try_confirmations_not_late: "try_confirmations what ev spk t c s0 \<noteq> Some (Inl (CMsg m), s')"
  by (auto simp: try_confirmations_def tx_confirmations_for_script_def bind_run_Some ctx_Some)

text \<open>
  C31. Waiting for confirmations ends when the clock runs and naps last. An answer is no smaller
  than asked for and is the count of this very transaction in the history the server last
  answered for this very script, at the tip of that moment; the timeout is only answered once
  the time is over.
\<close>

theorem wait_confirmations_ends:
  assumes "clock_ok ev"
  shows "\<exists>r s'. wait_for_tx_confirmations_for_script ev spk txid c t s = Some (r, s') \<and>
    (\<forall>confs. r = Inr confs \<longrightarrow> c \<le> confs \<and>
       (\<exists>w. confirmed_at ev spk txid confs w (sy_world s'))) \<and>
    (r = Inl (CMsg (''timeout waiting for confirmations: txid='' @ ev_txid_to_string ev txid @
         '' min_confs='' @ decimal (unat c))) \<longrightarrow>
       ev_instant ev (sy_world s) + t \<le> ev_instant ev (sy_world s'))"
proof -
  obtain r s' where run: "wait_for_tx_confirmations_for_script ev spk txid c t s = Some (r, s')"
    using wait_confirmations_returns [OF assms] unfolding wait_for_tx_confirmations_for_script_def by blast
  moreover have "c \<le> confs \<and> (\<exists>w. confirmed_at ev spk txid confs w (sy_world s'))"
    if "r = Inr confs" for confs
    using wait_confirmations_found [OF run [unfolded wait_for_tx_confirmations_for_script_def that]] by blast
  moreover have "ev_instant ev (sy_world s) + t \<le> ev_instant ev (sy_world s')"
    if "r = Inl (CMsg (''timeout waiting for confirmations: txid='' @ ev_txid_to_string ev txid @
         '' min_confs='' @ decimal (unat c)))"
    using run confirmed.timeout_late try_confirmations_not_late unfolding that
    by (fastforce simp: wait_for_tx_confirmations_for_script_def wait_confirmations_def bind_run_Some)
  ultimately show ?thesis by blast
qed

theorem wait_confirmations_ends_witness:
  "\<exists>s' w. wait_for_tx_confirmations_for_script demo_env [0, 0x20] [1] 6 0 demo_sys = Some (Inr 6, s') \<and>
     confirmed_at demo_env [0, 0x20] [1] 6 w (sy_world s')"
proof -
  have round: "try_confirmations ''get tx confirmations'' demo_env [0, 0x20] [1] 6 demo_sys = Some (Inr (Some 6), demo_sys)"
    by (simp add: try_confirmations_def tx_confirmations_for_script_def tip_height_def sync_def bind_run_def ctx_def
        map_err_run_def demo_env_def confirmations_def demo_sys_def)
  have "wait_for_tx_confirmations_for_script demo_env [0, 0x20] [1] 6 0 demo_sys = Some (Inr 6, demo_sys)"
    using poll_loop_step(2) [where attempt = "try_confirmations ''get tx confirmations'' demo_env [0, 0x20] [1] 6"
        and s = demo_sys, OF round]
    by (simp add: wait_for_tx_confirmations_for_script_def wait_confirmations_def bind_run_def)
  with wait_confirmations_ends [OF demo_clock, of "[0, 0x20]" "[1]" 6 0 demo_sys] show ?thesis by auto
qed

lemma try_preimage_not_late:
  "try_preimage ev pid s0 \<noteq> Some (Inl (CMsg (''timeout waiting for preimage: payment_id='' @ pid)), s')"
proof -
  have "read_preimage ev p \<noteq> Inl (CMsg (''timeout waiting for preimage: payment_id='' @ pid))" for p
    by (cases "preimage_of p"; cases "ev_hex_decode ev (the (preimage_of p))") (simp_all add: read_preimage_def ensure_def)
  then have "and_then (read_preimage ev p) (\<lambda>bs. Inr (Some bs)) \<noteq>
      Inl (CMsg (''timeout waiting for preimage: payment_id='' @ pid))" for p
    by (cases "read_preimage ev p") (auto simp del: append_Cons)
  then show ?thesis by (auto simp: try_preimage_def bind_run_Some ctx_Some split: option.splits simp del: append_Cons)
qed

text \<open>
  C32. Waiting for the preimage ends, and an answer is 32 bytes taken from a succeeded outbound
  BOLT11 payment with the id waited for. The timeout is only answered once the time is over.
\<close>

theorem wait_preimage_ends:
  assumes "clock_ok ev"
  shows "\<exists>r s'. wait_preimage ev pid t s = Some (r, s') \<and>
    (\<forall>preimage. r = Inr preimage \<longrightarrow> length preimage = 32 \<and>
       (\<exists>w payments p. fst (ev_list_payments ev None w) = Inr payments \<and>
          settled_payment ev pid payments = Some p \<and> read_preimage ev p = Inr preimage)) \<and>
    (r = Inl (CMsg (''timeout waiting for preimage: payment_id='' @ pid)) \<longrightarrow>
       ev_instant ev (sy_world s) + t \<le> ev_instant ev (sy_world s'))"
proof -
  obtain r s' where run: "wait_preimage ev pid t s = Some (r, s')"
    using wait_preimage_returns [OF assms] by blast
  moreover have "\<forall>preimage. r = Inr preimage \<longrightarrow> length preimage = 32 \<and>
       (\<exists>w payments p. fst (ev_list_payments ev None w) = Inr payments \<and>
          settled_payment ev pid payments = Some p \<and> read_preimage ev p = Inr preimage)"
    using wait_preimage_found run by blast
  moreover have "ev_instant ev (sy_world s) + t \<le> ev_instant ev (sy_world s')"
    if "r = Inl (CMsg (''timeout waiting for preimage: payment_id='' @ pid))"
    using run preimage.timeout_late try_preimage_not_late unfolding that
    by (fastforce simp: wait_preimage_def bind_run_Some)
  ultimately show ?thesis by blast
qed

theorem wait_preimage_ends_witness:
  "wait_preimage demo_env ''p1'' 0 demo_sys = Some (Inr (replicate 32 7), demo_sys)"
proof -
  have "try_preimage demo_env ''p1'' demo_sys = Some (Inr (Some (replicate 32 7)), demo_sys)"
    by (simp add: try_preimage_def bind_run_def ctx_def map_err_run_def settled_payment_def is_bolt11_def read_preimage_def
        preimage_of_def demo_env_def demo_payment_def demo_sys_def)
  then have "wait_preimage demo_env ''p1'' 0 demo_sys = Some (Inr (replicate 32 7), demo_sys)"
    by (simp add: wait_preimage_def bind_run_def poll_loop_step(2))
  with wait_preimage_ends [OF demo_clock, of "''p1''" 0 demo_sys] show ?thesis by auto
qed

end
