(* ===== verification/Create_Properties.thy ===== *)
theory Create_Properties
  imports Swap_Properties Wallet_Properties
begin

text \<open>
  What a new swap promises on both chains (\<open>create_swap\<close> of \<open>src/swap/service.rs\<close>): the
  invoice and the HTLC are locked by the same hash, and the record names outputs that are
  confirmed.
\<close>

section \<open>The funding behind a record\<close>

text \<open>What the record says of the funding: which transaction, which outputs, which height.\<close>

definition funded_by :: "'w env \<Rightarrow> swap_service_config \<Rightarrow> swap_record \<Rightarrow> htlc_spec \<Rightarrow> tx \<Rightarrow> txid \<Rightarrow> bool" where
  "funded_by ev cfg r spec t txid \<longleftrightarrow>
     sr_funding_txid r = ev_txid_to_string ev txid \<and> (\<exists>w. fst (ev_broadcast ev t w) = Inr txid) \<and>
     (length (tx_output t) \<le> 2 ^ 32 \<longrightarrow>
        sr_asset_vout r \<noteq> sr_lbtc_vout r \<and>
        unat (sr_asset_vout r) < length (tx_output t) \<and> unat (sr_lbtc_vout r) < length (tx_output t) \<and>
        pays (ad_script_pubkey (p2wsh_address ev spec (ev_address_params ev))) (cf_sell_asset_id cfg)
          (tx_output t ! unat (sr_asset_vout r)) \<and>
        pays (ad_script_pubkey (p2wsh_address ev spec (ev_address_params ev))) (ev_policy_asset ev)
          (tx_output t ! unat (sr_lbtc_vout r)))"

lemma fund_swap_funding:
  assumes run: "fund_swap ev cfg plan sid invoice hash s = Some (Inr (r, spk, txid), s')"
  shows "\<exists>seller_hash t w. let h = saturating_add (ev_tip_height ev w) (cf_refund_delta_blocks cfg);
      spec = swap_htlc (qr_direction (sp_quote plan)) hash (sp_buyer_hash plan) seller_hash h in
    sr_refund_lock_height r = h \<and> sr_witness_script_hex r = ev_hex_encode ev (witness_script (ev_script ev) spec) \<and>
    spk = ad_script_pubkey (p2wsh_address ev spec (ev_address_params ev)) \<and> funded_by ev cfg r spec t txid"
proof -
  from run obtain w a seller_hash t i j s1 s2 where
    h: "sr_refund_lock_height r = saturating_add (ev_tip_height ev w) (cf_refund_delta_blocks cfg)"
    and b: "build_and_broadcast_funding ev (p2wsh_address ev (swap_htlc (qr_direction (sp_quote plan)) hash
        (sp_buyer_hash plan) seller_hash (sr_refund_lock_height r)) (ev_address_params ev)) (cf_sell_asset_id cfg)
      (qr_asset_amount (sp_quote plan)) (cf_fee_subsidy_sats cfg) s1 = Some (Inr (t, txid, i, j), s2)"
    and r: "sr_funding_txid r = ev_txid_to_string ev txid" "sr_asset_vout r = i" "sr_lbtc_vout r = j"
      "sr_witness_script_hex r = ev_hex_encode ev (witness_script (ev_script ev)
         (swap_htlc (qr_direction (sp_quote plan)) hash (sp_buyer_hash plan) seller_hash (sr_refund_lock_height r)))"
      "spk = ad_script_pubkey (p2wsh_address ev (swap_htlc (qr_direction (sp_quote plan)) hash
        (sp_buyer_hash plan) seller_hash (sr_refund_lock_height r)) (ev_address_params ev))"
    by (auto simp: fund_swap_def bind_run_Inr Let_def tip_height_def split: prod.splits)
  show ?thesis
    unfolding Let_def funded_by_def
    using build_outputs [OF b] r h by (intro exI [of _ seller_hash] exI [of _ t] exI [of _ w]) simp
qed

section \<open>A new swap\<close>

lemma funded_by_script:
  assumes "witness_script (ev_script ev) spec = witness_script (ev_script ev) spec'"
  shows "funded_by ev cfg r spec t txid \<longleftrightarrow> funded_by ev cfg r spec' t txid"
  by (simp add: funded_by_def p2wsh_address_def assms)

lemma swap_invoice_node:
  "swap_invoice ev req quote sid s = Some (Inr (invoice, hash), s') \<Longrightarrow> qr_direction quote = LnToLiquid \<Longrightarrow>
     \<exists>w. fst (ev_bolt11_receive ev (Some (qr_total_price_msat quote)) (''swap:'' @ sid) (qr_invoice_expiry_secs quote) w) =
       Inr invoice"
  by (auto simp: swap_invoice_def create_invoice_def bind_run_Inr ctx_effect)

text \<open>The invoice of a swap is for its price: the node's own, or the buyer's that is still good.\<close>

definition invoice_for :: "'w env \<Rightarrow> create_swap_request \<Rightarrow> quote_record \<Rightarrow> swap_record \<Rightarrow> bolt11_invoice \<Rightarrow> bool" where
  "invoice_for ev req quote r i \<longleftrightarrow>
     ev_invoice_from_str ev (sr_bolt11_invoice r) = Inr i \<and>
     (case qr_direction quote of
        LnToLiquid \<Rightarrow> \<exists>w. fst (ev_bolt11_receive ev (Some (qr_total_price_msat quote)) (''swap:'' @ sr_swap_id r)
            (qr_invoice_expiry_secs quote) w) = Inr (sr_bolt11_invoice r)
      | LiquidToLn \<Rightarrow> sr_bolt11_invoice r = trim (cs_buyer_bolt11_invoice req) \<and>
          in_amount_msat i = Some (qr_total_price_msat quote) \<and>
          (\<exists>w. \<forall>e. in_expires_at i = Some e \<longrightarrow> max 0 (ev_unix_time ev w) < int e))"

lemma new_swap_legs:
  assumes libs: "libraries_ok ev" and invoices: "invoices_ok ev" and ok: "store_ok (sy_db s)"
    and run: "create_swap ev cfg request s = Some (Inr swap, s')"
    and quote: "quotes (sy_db s) (cs_quote_id (rq_message request)) = Some quote" "qr_swap_id quote = None"
  obtains r seller buyer spec i t txid w w1 w2 c where
    "swaps (sy_db s') = (swaps (sy_db s))(sr_swap_id r \<mapsto> r)" and "swap_terms ev cfg r seller buyer spec"
    and "invoice_for ev (rq_message request) quote r i" and "hs_payment_hash spec = in_payment_hash i"
    and "funded_by ev cfg r spec t txid"
    and "sr_refund_lock_height r = saturating_add (ev_tip_height ev w) (cf_refund_delta_blocks cfg)"
    and "confirmed_at ev (ad_script_pubkey (p2wsh_address ev spec (ev_address_params ev))) txid c w1 w2"
    and "sy_world s' = snd (ev_sql ev w2)" and "qr_min_funding_confs quote \<le> c"
proof -
  note codecs = codecs_okD(1) [OF libraries_okD(3) [OF libs]]
  obtain plan sid invoice hash r spk txid s1 s2 s3 s4 c s5 where
    plan: "plan_ok ev cfg (rq_message request) plan" "sp_quote plan = quote" and hash: "length hash = 32"
    and inv: "swap_invoice ev (rq_message request) quote sid s1 = Some (Inr (invoice, hash), s2)"
    and fund: "fund_swap ev cfg plan sid invoice hash s2 = Some (Inr (r, spk, txid), s3)"
    and sw: "swaps (sy_db s') = (swaps (sy_db s))(sid \<mapsto> r\<lparr>sr_status := Funded\<rparr>)"
    and wait: "wait_for_funding_confirmations ev spk txid (qr_min_funding_confs quote) (300 * SECOND) s4 = Some (Inr c, s5)"
      "sy_world s' = snd (ev_sql ev (sy_world s5))"
    using create_swap_new [OF invoices ok run quote] by blast
  note rec = fund_swap_record [OF plan(1) hash fund]
  let ?r = "r\<lparr>sr_status := Funded\<rparr>"
  obtain seller buyer spec where "swap_terms ev cfg r seller buyer spec" using rec(1) unfolding swap_wf_def by blast
  then have terms: "swap_terms ev cfg ?r seller buyer spec" by (simp add: swap_terms_def)
  obtain i where i: "ev_invoice_from_str ev invoice = Inr i" "in_payment_hash i = hash"
    using swap_invoice_hash [OF invoices inv] by blast
  have "ev_hex_encode ev (hs_payment_hash spec) = ev_hex_encode ev hash"
    using swap_terms_spec(2) [OF terms] rec(8) by simp
  then have same_hash: "hs_payment_hash spec = in_payment_hash i" using codecs i(2) by (metis sum.inject(2))
  have "invoice_for ev (rq_message request) quote ?r i"
    using i(1) rec(2,7) swap_invoice_node [OF inv] swap_invoice_buyer [OF inv]
    by (cases "qr_direction quote") (auto simp: invoice_for_def)
  moreover obtain seller_hash t w where
    f: "sr_refund_lock_height r = saturating_add (ev_tip_height ev w) (cf_refund_delta_blocks cfg)"
      "sr_witness_script_hex r = ev_hex_encode ev (witness_script (ev_script ev)
         (swap_htlc (qr_direction quote) hash (sp_buyer_hash plan) seller_hash (sr_refund_lock_height r)))"
      "funded_by ev cfg r (swap_htlc (qr_direction quote) hash (sp_buyer_hash plan) seller_hash (sr_refund_lock_height r)) t txid"
      "spk = ad_script_pubkey (p2wsh_address ev (swap_htlc (qr_direction quote) hash (sp_buyer_hash plan) seller_hash
         (sr_refund_lock_height r)) (ev_address_params ev))"
    using fund_swap_funding [OF fund] plan(2) by (auto simp: Let_def)
  have script: "sr_witness_script_hex r = ev_hex_encode ev (witness_script (ev_script ev) spec)"
    using terms by (simp add: swap_terms_def)
  have same_script: "witness_script (ev_script ev) (swap_htlc (qr_direction quote) hash (sp_buyer_hash plan) seller_hash
      (sr_refund_lock_height r)) = witness_script (ev_script ev) spec"
    using f(2) script codecs by (metis sum.inject(2))
  then have "funded_by ev cfg r spec t txid" using f(3) funded_by_script by blast
  then have "funded_by ev cfg ?r spec t txid" by (simp add: funded_by_def)
  moreover have "spk = ad_script_pubkey (p2wsh_address ev spec (ev_address_params ev))"
    using f(4) same_script by (simp add: p2wsh_address_def)
  moreover obtain w1 where "confirmed_at ev spk txid c w1 (sy_world s5)" "qr_min_funding_confs quote \<le> c"
    using wait_confirmations_found [OF wait(1) [unfolded wait_for_funding_confirmations_def]] by blast
  ultimately show thesis
    using that [where r = ?r and spec = spec and i = i and t = t and w = w and ?w1.0 = w1 and ?w2.0 = "sy_world s5" and c = c] sw terms same_hash rec(2) f(1) wait(2) by simp
qed

text \<open>
  C4. One hash locks both sides of a new swap: the stored invoice parses, and its payment hash
  is the one in the witness script of the recorded HTLC. The invoice is the node's own for the
  quoted price, or the buyer's, for exactly the quoted price and not expired when it was
  checked.
\<close>

theorem create_swap_one_hash:
  assumes "libraries_ok ev" and "invoices_ok ev" and "store_ok (sy_db s)"
    and "create_swap ev cfg request s = Some (Inr swap, s')"
    and "quotes (sy_db s) (cs_quote_id (rq_message request)) = Some quote" and "qr_swap_id quote = None"
  shows "\<exists>r seller buyer spec i. swaps (sy_db s') = (swaps (sy_db s))(sr_swap_id r \<mapsto> r) \<and>
    swap_terms ev cfg r seller buyer spec \<and> invoice_for ev (rq_message request) quote r i \<and>
    hs_payment_hash spec = in_payment_hash i"
  by (rule new_swap_legs [OF assms]) blast

text \<open>
  C3. A new swap is answered only when its HTLC is on chain: a transaction was broadcast whose
  recorded outputs pay, in the sold asset and in the policy asset, to the address of the
  recorded script. The last thing before the swap is marked funded (one database call before
  the end) is the server's history of that very script, in which that very transaction has at
  least the confirmations the quote asks for, at the tip of that moment. The refund height is
  the tip read before funding plus the configured delta, cut off at the largest height.
\<close>

theorem create_swap_confirmed:
  assumes "libraries_ok ev" and "invoices_ok ev" and "store_ok (sy_db s)"
    and "create_swap ev cfg request s = Some (Inr swap, s')"
    and "quotes (sy_db s) (cs_quote_id (rq_message request)) = Some quote" and "qr_swap_id quote = None"
  shows "\<exists>r seller buyer spec t txid w w1 w2 c. swaps (sy_db s') = (swaps (sy_db s))(sr_swap_id r \<mapsto> r) \<and>
    swap_terms ev cfg r seller buyer spec \<and> funded_by ev cfg r spec t txid \<and>
    unat (sr_refund_lock_height r) = min (unat (ev_tip_height ev w) + unat (cf_refund_delta_blocks cfg)) (2 ^ 32 - 1) \<and>
    confirmed_at ev (ad_script_pubkey (p2wsh_address ev spec (ev_address_params ev))) txid c w1 w2 \<and>
    qr_min_funding_confs quote \<le> c \<and> sy_world s' = snd (ev_sql ev w2)"
proof -
  obtain r seller buyer spec i t txid w w1 w2 c where
    r: "swaps (sy_db s') = (swaps (sy_db s))(sr_swap_id r \<mapsto> r)" "swap_terms ev cfg r seller buyer spec"
      "funded_by ev cfg r spec t txid"
      "sr_refund_lock_height r = saturating_add (ev_tip_height ev w) (cf_refund_delta_blocks cfg)"
      "confirmed_at ev (ad_script_pubkey (p2wsh_address ev spec (ev_address_params ev))) txid c w1 w2"
      "sy_world s' = snd (ev_sql ev w2)" "qr_min_funding_confs quote \<le> c"
    by (rule new_swap_legs [OF assms])
  have "unat (sr_refund_lock_height r) = min (unat (ev_tip_height ev w) + unat (cf_refund_delta_blocks cfg)) (2 ^ 32 - 1)"
    by (simp add: r(4) unat_saturating_add)
  with r(1-3,5-7) show ?thesis by blast
qed

lemma new_demo_swap:
  obtains s :: "nat sys" and swap s' where "store_ok (sy_db s)" "swaps (sy_db s) = Map.empty"
    "create_swap demo_env demo_cfg demo_swap_request s = Some (Inr swap, s')"
    "quotes (sy_db s) (cs_quote_id (rq_message demo_swap_request)) = Some demo_quote"
proof -
  obtain s :: "nat sys" where s: "store_ok (sy_db s)" "quotes (sy_db s) = [''s1'' \<mapsto> demo_quote]" "swaps (sy_db s) = Map.empty"
    using quoted_state by blast
  then obtain swap s' where "create_swap demo_env demo_cfg demo_swap_request s = Some (Inr swap, s')"
    using demo_create_swap [of s] by auto
  moreover have "cs_quote_id (rq_message demo_swap_request) = ''s1''" by (simp add: demo_swap_request_def demo_request_def)
  ultimately show thesis using that s by simp
qed

theorem create_swap_one_hash_witness:
  "\<exists>s swap s' r spec. create_swap demo_env demo_cfg demo_swap_request s = Some (Inr swap, s') \<and>
    swaps (sy_db s') = [sr_swap_id r \<mapsto> r] \<and> ev_invoice_from_str demo_env (sr_bolt11_invoice r) = Inr demo_invoice \<and>
    sr_witness_script_hex r = demo_text (witness_script bytes_script_lib spec) \<and>
    hs_payment_hash spec = in_payment_hash demo_invoice"
proof -
  obtain s :: "nat sys" and swap s' where s: "store_ok (sy_db s)" "swaps (sy_db s) = Map.empty"
    and run: "create_swap demo_env demo_cfg demo_swap_request s = Some (Inr swap, s')"
    and quote: "quotes (sy_db s) (cs_quote_id (rq_message demo_swap_request)) = Some demo_quote"
    by (rule new_demo_swap)
  have env: "ev_invoice_from_str demo_env = (\<lambda>x. Inr demo_invoice)" "ev_hex_encode demo_env = demo_text"
    "ev_script demo_env = bytes_script_lib" by (simp_all add: demo_env_def)
  from create_swap_one_hash [OF demo_libraries demo_invoices s(1) run quote demo_quote_fields(5)] obtain r seller buyer spec i
    where r: "swaps (sy_db s') = (swaps (sy_db s))(sr_swap_id r \<mapsto> r)" "swap_terms demo_env demo_cfg r seller buyer spec"
      "invoice_for demo_env (rq_message demo_swap_request) demo_quote r i" "hs_payment_hash spec = in_payment_hash i" by blast
  then have i: "i = demo_invoice" by (simp add: invoice_for_def env)
  have "sr_witness_script_hex r = demo_text (witness_script bytes_script_lib spec)"
    using r(2) by (simp add: swap_terms_def env)
  then show ?thesis using run r s(2) unfolding i env
    by (intro exI [of _ s] exI [of _ swap] exI [of _ s'] exI [of _ r] exI [of _ spec]) simp
qed

theorem create_swap_confirmed_witness:
  "\<exists>s swap s' r t txid. create_swap demo_env demo_cfg demo_swap_request s = Some (Inr swap, s') \<and>
    swaps (sy_db s') = [sr_swap_id r \<mapsto> r] \<and> sr_funding_txid r = demo_text txid \<and>
    (\<exists>w. fst (ev_broadcast demo_env t w) = Inr txid) \<and> unat (sr_refund_lock_height r) = 154"
proof -
  obtain s :: "nat sys" and swap s' where s: "store_ok (sy_db s)" "swaps (sy_db s) = Map.empty"
    and run: "create_swap demo_env demo_cfg demo_swap_request s = Some (Inr swap, s')"
    and quote: "quotes (sy_db s) (cs_quote_id (rq_message demo_swap_request)) = Some demo_quote"
    by (rule new_demo_swap)
  have env: "ev_txid_to_string demo_env = demo_text" "ev_tip_height demo_env = (\<lambda>w. 10)" by (simp_all add: demo_env_def)
  from create_swap_confirmed [OF demo_libraries demo_invoices s(1) run quote demo_quote_fields(5)] run s(2)
  show ?thesis unfolding funded_by_def env by fastforce
qed

section \<open>Two requests for one quote\<close>

text \<open>
  \<open>create_swap\<close> looks at the quote's swap only before it funds. Two requests that both pass
  that check and then fund one after the other leave two funded swaps for the one quote, which
  names the second.
\<close>

theorem quote_funded_twice:
  assumes ok: "store_ok (sy_db s)" and quote: "cs_quote_id (rq_message request1) = cs_quote_id (rq_message request2)"
    and checks: "check_create_swap ev cfg request1 s = Some (Inr (Inr plan1), s1)"
      "check_create_swap ev cfg request2 s1 = Some (Inr (Inr plan2), s2)"
    and hashes: "length hash1 = 32" "length hash2 = 32"
    and first: "create_swap_task ev cfg plan1 sid1 invoice1 hash1 s2 = Some (Inr r1, s3)"
    and second: "create_swap_task ev cfg plan2 sid2 invoice2 hash2 s3 = Some (Inr r2, s4)"
  shows "sid1 \<noteq> sid2 \<and> swaps (sy_db s4) sid1 = Some r1 \<and> swaps (sy_db s4) sid2 = Some r2 \<and>
    sr_status r1 = Funded \<and> sr_status r2 = Funded \<and> sr_quote_id r1 = sr_quote_id r2 \<and>
    map_option qr_swap_id (quotes (sy_db s4) (sr_quote_id r1)) = Some (Some sid2)"
proof -
  have db: "sy_db s1 = sy_db s" "sy_db s2 = sy_db s1"
    using quiet_db [OF preserves_check_create_swap checks(1)] quiet_db [OF preserves_check_create_swap checks(2)] by simp_all
  note plan1 = check_create_swap_plan [OF checks(1)] and plan2 = check_create_swap_plan [OF checks(2)]
  have same: "sp_quote plan1 = sp_quote plan2" using plan1(4) plan2(4) ok quote db by simp
  have ok2: "store_ok (sy_db s2)" using ok db by simp
  have "writes_from ev cfg (\<lambda>_. True) (create_swap_task ev cfg plan1 sid1 invoice1 hash1)"
    by (rule create_swap_task_writes [OF plan1(2) hashes(1)])
  from store_writes_ok [OF writes_fromD [OF this first ok2 TrueI] ok2] have ok3: "store_ok (sy_db s3)" .
  from create_swap_task_done [OF plan1(2) hashes(1) ok2 first] obtain r spk txid s' where
    f1: "fund_swap ev cfg plan1 sid1 invoice1 hash1 s2 = Some (Inr (r, spk, txid), s')" "r1 = r\<lparr>sr_status := Funded\<rparr>"
      "swaps (sy_db s3) = (swaps (sy_db s2))(sid1 \<mapsto> r1)" by blast
  from create_swap_task_done [OF plan2(2) hashes(2) ok3 second] obtain q spk' txid' s'' quote where
    f2: "fund_swap ev cfg plan2 sid2 invoice2 hash2 s3 = Some (Inr (q, spk', txid'), s'')" "r2 = q\<lparr>sr_status := Funded\<rparr>"
      "swaps (sy_db s3) sid2 = None" "swaps (sy_db s4) = (swaps (sy_db s3))(sid2 \<mapsto> r2)"
      "quotes (sy_db s4) = (quotes (sy_db s3))(qr_quote_id (sp_quote plan2) \<mapsto> quote\<lparr>qr_swap_id := Some sid2\<rparr>)" by blast
  note r1 = fund_swap_record(3) [OF plan1(2) hashes(1) f1(1)] and r2 = fund_swap_record(3) [OF plan2(2) hashes(2) f2(1)]
  show ?thesis using f1(2,3) f2(2-5) r1 r2 same by auto
qed

end
