(* ===== verification/Payment_Properties.thy ===== *)
theory Payment_Properties
  imports Swap_Properties
begin

text \<open>
  The properties of paying, claiming and refunding a recorded swap
  (\<open>src/swap/service.rs\<close>, \<open>src/bin/swap_server.rs\<close>).
\<close>

section \<open>Paying\<close>

lemma bind_quiet_cases:
  assumes "\<And>X. preserves (on_db X) m" and "bind_run m f s = Some (r, s')"
  obtains e where "r = Inl e" "sy_db s' = sy_db s"
  | a s1 where "m s = Some (Inr a, s1)" "sy_db s1 = sy_db s" "f a s1 = Some (r, s')"
  using assms(2) quiet_db [OF assms(1)] unfolding bind_run_Some by metis

lemma pay_swap_parts:
  assumes "pay_swap ev r t s = Some (Inr pay, s')"
  obtains pid preimage s1 s2 v where "pay_invoice ev (sr_bolt11_invoice r) s = Some (Inr pid, s1)"
    and "wait_preimage ev pid (payment_timeout t) s1 = Some (Inr preimage, s2)" and "length preimage = 32"
    and "ev_hex_decode ev (sr_payment_hash r) = Inr (sha256_preimage (ev_crypto ev) preimage)"
    and "sy_db s2 = sy_db s"
    and "upsert_swap_payment v (sr_swap_id r) pid (ev_hex_encode ev preimage) Paid (sy_db s) = Some (Inr (), sy_db s')"
    and "pay_payment_id pay = pid" and "ev_hex_decode ev (ev_hex_encode ev preimage) = Inr (pay_preimage pay)"
proof -
  from assms obtain pid s1 preimage s2 s3 s4 where
    pay: "pay_invoice ev (sr_bolt11_invoice r) s = Some (Inr pid, s1)"
    and wait: "wait_preimage ev pid (payment_timeout t) s1 = Some (Inr preimage, s2)"
    and hash: "hash_matches ev r preimage s2 = Some (Inr (), s3)"
    and up: "store_run ev (\<lambda>v. upsert_swap_payment v (sr_swap_id r) pid (ev_hex_encode ev preimage) Paid) s3 = Some (Inr (), s4)"
    and res: "(case ev_hex_decode ev (ev_hex_encode ev preimage) of
         Inl _ \<Rightarrow> Inl (Panicked ''hex encoding/decoding of preimage must roundtrip'')
       | Inr bs \<Rightarrow> Inr \<lparr>pay_payment_id = pid, pay_preimage = bs\<rparr>) = Inr pay" and s4: "s4 = s'"
    by (auto simp: pay_swap_def bind_run_Inr Let_def)
  have "sy_db s3 = sy_db s2" "sy_db s2 = sy_db s1" "sy_db s1 = sy_db s"
    using quiet_db [OF preserves_hash_matches hash] quiet_db [OF preserves_wait_preimage wait]
      quiet_db [OF preserves_pay_invoice pay] by simp_all
  moreover from up obtain v where
    "upsert_swap_payment v (sr_swap_id r) pid (ev_hex_encode ev preimage) Paid (sy_db s3) = Some (Inr (), sy_db s')"
    by (auto simp: store_run_Some s4)
  ultimately show thesis
    using that [OF pay wait wait_preimage_found(1) [OF wait] hash_matches_Inr [OF hash], of v] res
    by (auto split: sum.splits)
qed

lemma pay_swap_stored:
  assumes codecs: "codecs_ok ev" and ok: "store_ok (sy_db s)" and r: "swaps (sy_db s) (sr_swap_id r) = Some r"
    and run: "pay_swap ev r t s = Some (Inr pay, s')"
  shows "swaps (sy_db s') = (swaps (sy_db s))(sr_swap_id r \<mapsto>
      r\<lparr>sr_ln_payment_id := Some (pay_payment_id pay), sr_ln_preimage_hex := Some (ev_hex_encode ev (pay_preimage pay)),
        sr_status := Paid\<rparr>)"
    and "length (pay_preimage pay) = 32"
    and "ev_hex_decode ev (sr_payment_hash r) = Inr (sha256_preimage (ev_crypto ev) (pay_preimage pay))"
proof -
  obtain preimage v where p: "length preimage = 32"
    "ev_hex_decode ev (sr_payment_hash r) = Inr (sha256_preimage (ev_crypto ev) preimage)"
    "upsert_swap_payment v (sr_swap_id r) (pay_payment_id pay) (ev_hex_encode ev preimage) Paid (sy_db s) = Some (Inr (), sy_db s')"
    "ev_hex_decode ev (ev_hex_encode ev preimage) = Inr (pay_preimage pay)"
    by (rule pay_swap_parts [OF run]) blast
  have "pay_preimage pay = preimage" using p(4) codecs_okD(1) [OF codecs, of preimage] by simp
  then show "swaps (sy_db s') = (swaps (sy_db s))(sr_swap_id r \<mapsto>
      r\<lparr>sr_ln_payment_id := Some (pay_payment_id pay), sr_ln_preimage_hex := Some (ev_hex_encode ev (pay_preimage pay)),
        sr_status := Paid\<rparr>)"
    and "length (pay_preimage pay) = 32"
    and "ev_hex_decode ev (sr_payment_hash r) = Inr (sha256_preimage (ev_crypto ev) (pay_preimage pay))"
    using p(1-3) upsert_swap_payment_ok [OF ok, of v "sr_swap_id r" "pay_payment_id pay" "ev_hex_encode ev preimage" Paid] r
    by (auto simp: update_result_def split: option.splits)
qed

text \<open>The two ways a payment is answered.\<close>

lemma gate_Inr:
  assumes "bind_run (load_swap ev cfg request k) (\<lambda>(caller, r). bind_run (authorized (q caller r)) (\<lambda>_. rest r)) s = Some (Inr x, s')"
  obtains caller r s1 where "load_swap ev cfg request k s = Some (Inr (caller, r), s1)" and "rest r s1 = Some (Inr x, s')"
proof -
  from assms obtain a s1 where load: "load_swap ev cfg request k s = Some (Inr a, s1)"
    and k: "(case a of (caller, r) \<Rightarrow> bind_run (authorized (q caller r)) (\<lambda>_. rest r)) s1 = Some (Inr x, s')"
    unfolding bind_run_Inr by blast
  obtain caller r where a: "a = (caller, r)" by (cases a)
  from k have "rest r s1 = Some (Inr x, s')" unfolding a prod.case by (cases "q caller r") (auto simp: bind_run_Some)
  then show thesis using that load [unfolded a] by blast
qed

lemma create_lightning_payment_Inr:
  assumes "create_lightning_payment ev cfg request s = Some (Inr pay, s')" and "store_ok (sy_db s)"
  obtains (again) r h where "swaps (sy_db s) (lp_swap_id (rq_message request)) = Some r" "sy_db s' = sy_db s"
      "sr_ln_payment_id r = Some (pay_payment_id pay)" "sr_ln_preimage_hex r = Some h"
      "ev_hex_decode ev h = Inr (pay_preimage pay)"
  | (paid) r s1 where "swaps (sy_db s) (lp_swap_id (rq_message request)) = Some r" "sr_status r = Funded"
      "sr_ln_payment_id r = None \<or> sr_ln_preimage_hex r = None" "sy_db s1 = sy_db s"
      "pay_swap ev r (lp_payment_timeout_secs (rq_message request)) s1 = Some (Inr pay, s')"
proof -
  obtain caller r s1 where load: "load_swap ev cfg request (lp_swap_id (rq_message request)) s = Some (Inr (caller, r), s1)"
    and rest: "(case (sr_ln_payment_id r, sr_ln_preimage_hex r) of
        (Some payment_id, Some preimage_hex) \<Rightarrow>
          bind_run (internal ''decode preimage_hex: '' (lib_run (ev_hex_decode ev preimage_hex))) (\<lambda>preimage.
          return_run \<lparr>pay_payment_id = payment_id, pay_preimage = preimage\<rparr>)
      | _ \<Rightarrow>
          bind_run (require (sr_status r = Funded) FailedPrecondition ''swap is not funded'') (\<lambda>_.
          pay_swap ev r (lp_payment_timeout_secs (rq_message request)))) s1 = Some (Inr pay, s')"
    by (rule gate_Inr [OF assms(1) [unfolded create_lightning_payment_unfold Let_def]]) (rule that)
  note l = load_swap_Inr(2,3) [OF load]
  show thesis
  proof (cases "\<exists>pid h. sr_ln_payment_id r = Some pid \<and> sr_ln_preimage_hex r = Some h")
    case True
    then show thesis using rest again [of r] l assms(2) by (auto simp: bind_run_Inr)
  next
    case False
    then have "sr_status r = Funded" "pay_swap ev r (lp_payment_timeout_secs (rq_message request)) s1 = Some (Inr pay, s')"
      using rest by (auto simp: bind_run_Inr split: option.splits)
    then show thesis using paid [of r s1] l assms(2) False by auto
  qed
qed

text \<open>
  C5. An answered Lightning payment is on record: the swap carries the answered payment id and
  the preimage, 32 bytes whose SHA-256 is the swap's payment hash. Either they already were
  there and the store is untouched, or the swap was funded and is now paid; no other swap and
  no other field changes.
\<close>

theorem payment_on_record:
  assumes "codecs_ok ev" and "service_inv ev cfg (sy_db s)"
    and "create_lightning_payment ev cfg request s = Some (Inr pay, s')"
  shows "\<exists>r r'. swaps (sy_db s) (lp_swap_id (rq_message request)) = Some r \<and>
    swaps (sy_db s') = (swaps (sy_db s))(lp_swap_id (rq_message request) \<mapsto> r') \<and>
    sr_ln_payment_id r' = Some (pay_payment_id pay) \<and>
    sr_ln_preimage_hex r' = Some (ev_hex_encode ev (pay_preimage pay)) \<and> length (pay_preimage pay) = 32 \<and>
    ev_hex_decode ev (sr_payment_hash r) = Inr (sha256_preimage (ev_crypto ev) (pay_preimage pay)) \<and>
    (r' = r \<or> sr_status r = Funded \<and>
       r' = r\<lparr>sr_ln_payment_id := sr_ln_payment_id r', sr_ln_preimage_hex := sr_ln_preimage_hex r', sr_status := Paid\<rparr>)"
proof -
  have ok: "store_ok (sy_db s)" using assms(2) by (simp add: service_inv_def)
  from assms(3) ok show ?thesis
  proof (cases rule: create_lightning_payment_Inr)
    case (again r h)
    then have "preimage_for ev r h" using assms(2) unfolding service_inv_def swap_wf_def by blast
    then obtain p where "h = ev_hex_encode ev p" "length p = 32"
      "ev_hex_decode ev (sr_payment_hash r) = Inr (sha256_preimage (ev_crypto ev) p)"
      unfolding preimage_for_def by blast
    moreover have "p = pay_preimage pay" using again(5) calculation(1) codecs_okD(1) [OF assms(1), of p] by simp
    ultimately show ?thesis using again by (intro exI [of _ r] exI [of _ r]) (simp add: fun_upd_idem)
  next
    case (paid r s1)
    have id: "sr_swap_id r = lp_swap_id (rq_message request)" using swaps_id [OF ok paid(1)] .
    have "store_ok (sy_db s1)" "swaps (sy_db s1) (sr_swap_id r) = Some r" using ok paid(1,4) id by simp_all
    note stored = pay_swap_stored [OF assms(1) this paid(5)]
    show ?thesis using stored paid(1,2,4) id
      by (intro exI [of _ r] exI [of _ "r\<lparr>sr_ln_payment_id := Some (pay_payment_id pay),
          sr_ln_preimage_hex := Some (ev_hex_encode ev (pay_preimage pay)), sr_status := Paid\<rparr>"]) simp
  qed
qed

theorem payment_on_record_witness:
  "\<exists>s s' r'. create_lightning_payment demo_env demo_cfg demo_pay_request s =
      Some (Inr \<lparr>pay_payment_id = ''p1'', pay_preimage = replicate 32 7\<rparr>, s') \<and>
    swaps (sy_db s) ''s1'' = Some (demo_record Funded) \<and> swaps (sy_db s') ''s1'' = Some r' \<and>
    sr_ln_preimage_hex r' = Some (demo_text (replicate 32 7))"
proof -
  have "swap_storable (demo_record Funded)" by (simp add: swap_storable_def demo_record_def)
  then obtain s :: "nat sys" where s: "store_ok (sy_db s)" "quotes (sy_db s) = Map.empty"
    "swaps (sy_db s) = [''s1'' \<mapsto> demo_record Funded]"
    using recorded_state [of "demo_record Funded"] by auto
  then obtain s' where run: "create_lightning_payment demo_env demo_cfg demo_pay_request s =
      Some (Inr \<lparr>pay_payment_id = ''p1'', pay_preimage = replicate 32 7\<rparr>, s')"
    using demo_pay [of s] by auto
  have inv: "service_inv demo_env demo_cfg (sy_db s)"
    using s demo_wf by (auto simp: service_inv_def quotes_linked_def split: if_splits)
  have id: "lp_swap_id (rq_message demo_pay_request) = ''s1''" "ev_hex_encode demo_env = demo_text"
    by (simp_all add: demo_pay_request_def demo_request_def demo_env_def)
  show ?thesis
    using payment_on_record [OF demo_codecs inv run] run s(3)
    by (intro exI [of _ s] exI [of _ s']) (auto simp: id)
qed

section \<open>Claiming\<close>

lemma claim_task_stored:
  assumes ok: "store_ok (sy_db s)" and r: "swaps (sy_db s) (sr_swap_id r) = Some r"
    and run: "claim_task ev cfg r preimage fee s = Some (Inr txid, s')"
  shows "swaps (sy_db s') = (swaps (sy_db s))(sr_swap_id r \<mapsto> r\<lparr>sr_claim_txid := Some txid, sr_status := Claimed\<rparr>)"
proof -
  from run obtain v where "upsert_swap_claim v (sr_swap_id r) txid Claimed (sy_db s) = Some (Inr (), sy_db s')"
    by (cases "sr_direction r")
      (auto simp: claim_task_def bind_run_Inr Let_def sync_def broadcast_transaction_def address_at_eq derive_eq
        ctx_effect ctx_Some store_run_Some)
  then show ?thesis
    using upsert_swap_claim_ok [OF ok, of v "sr_swap_id r" txid Claimed] r
    by (auto simp: update_result_def split: option.splits)
qed

lemma create_asset_claim_Inr:
  assumes "create_asset_claim ev cfg request s = Some (Inr claim, s')" and ok: "store_ok (sy_db s)"
  obtains (again) r where "swaps (sy_db s) (ac_swap_id (rq_message request)) = Some r" "sy_db s' = sy_db s"
      "sr_claim_txid r = Some (ac_claim_txid claim)"
  | (claimed) r h preimage fee s1 where "swaps (sy_db s) (ac_swap_id (rq_message request)) = Some r"
      "sr_claim_txid r = None" "sr_ln_preimage_hex r = Some h" "ev_hex_decode ev h = Inr preimage"
      "length preimage = 32" "sy_db s1 = sy_db s"
      "claim_task ev cfg r preimage fee s1 = Some (Inr (ac_claim_txid claim), s')"
proof -
  let ?fee = "if ac_claim_fee_sats (rq_message request) = 0 then DEFAULT_CLAIM_FEE_SATS else ac_claim_fee_sats (rq_message request)"
  obtain caller r s1 where load: "load_swap ev cfg request (ac_swap_id (rq_message request)) s = Some (Inr (caller, r), s1)"
    and rest: "(case sr_claim_txid r of
          None \<Rightarrow> bind_run (lift_run (ok_or (Status FailedPrecondition (Text ''swap has not been paid yet'')) (sr_ln_preimage_hex r)))
            (\<lambda>preimage_hex. bind_run (internal ''decode preimage_hex: '' (lib_run (ev_hex_decode ev preimage_hex)))
            (\<lambda>preimage. bind_run (require (length preimage = 32) Internal ''preimage must be 32 bytes'')
            (\<lambda>_. bind_run (internal ''claim asset: '' (claim_task ev cfg r preimage ?fee))
            (\<lambda>claim_txid. return_run \<lparr>ac_claim_txid = claim_txid\<rparr>))))
        | Some claim_txid \<Rightarrow> return_run \<lparr>ac_claim_txid = claim_txid\<rparr>) s1 = Some (Inr claim, s')"
    by (rule gate_Inr [OF assms(1) [unfolded create_asset_claim_unfold Let_def]]) (rule that)
  note l = load_swap_Inr(2,3) [OF load]
  show thesis
  proof (cases "sr_claim_txid r")
    case (Some c)
    then show thesis using rest again [of r] l ok by auto
  next
    case None
    then obtain h preimage where "sr_ln_preimage_hex r = Some h" "ev_hex_decode ev h = Inr preimage" "length preimage = 32"
      "claim_task ev cfg r preimage ?fee s1 = Some (Inr (ac_claim_txid claim), s')"
      using rest by (cases "sr_ln_preimage_hex r") (auto simp: bind_run_Inr)
    then show thesis using claimed [of r h preimage s1 ?fee] None l ok by auto
  qed
qed

text \<open>
  C6. An answered claim either repeats the transaction id already on record and changes
  nothing, or the swap had been paid, a transaction was broadcast that satisfies every script
  of the swap's HTLC with the outputs on record, the answer is its id, and the swap is now
  Claimed; no other swap and no other field changes.
\<close>

theorem claim_spends_htlc:
  assumes libs: "libraries_ok ev" and inv: "service_inv ev cfg (sy_db s)"
    and run: "create_asset_claim ev cfg request s = Some (Inr claim, s')"
  shows "\<exists>r. swaps (sy_db s) (ac_swap_id (rq_message request)) = Some r \<and>
    (sr_claim_txid r = Some (ac_claim_txid claim) \<and> sy_db s' = sy_db s \<or>
     sr_claim_txid r = None \<and> sr_ln_preimage_hex r \<noteq> None \<and>
     swaps (sy_db s') = (swaps (sy_db s))(ac_swap_id (rq_message request) \<mapsto>
       r\<lparr>sr_claim_txid := Some (ac_claim_txid claim), sr_status := Claimed\<rparr>) \<and>
     (\<exists>seller buyer spec funding tx t w. swap_terms ev cfg r seller buyer spec \<and> recorded_funding ev r funding \<and>
        spends_htlc (ev_script ev) (ev_crypto ev) funding (witness_script (ev_script ev) spec) tx \<and>
        fst (ev_broadcast ev tx w) = Inr t \<and> ac_claim_txid claim = ev_txid_to_string ev t))"
proof -
  have ok: "store_ok (sy_db s)" using inv by (simp add: service_inv_def)
  from run ok show ?thesis
  proof (cases rule: create_asset_claim_Inr)
    case (again r)
    then show ?thesis by blast
  next
    case (claimed r h preimage fee s1)
    let ?k = "ac_swap_id (rq_message request)"
    have id: "sr_swap_id r = ?k" using swaps_id [OF ok claimed(1)] .
    have wf: "swap_wf ev cfg r" using inv claimed(1) unfolding service_inv_def by blast
    then obtain seller buyer spec where terms: "swap_terms ev cfg r seller buyer spec" unfolding swap_wf_def by blast
    obtain p where "h = ev_hex_encode ev p" "ev_hex_decode ev (sr_payment_hash r) = Inr (sha256_preimage (ev_crypto ev) p)"
      using wf claimed(3) unfolding swap_wf_def preimage_for_def by blast
    moreover have "p = preimage"
      using calculation(1) claimed(4) codecs_okD(1) [OF libraries_okD(3) [OF libs], of p] by simp
    ultimately have "ev_hex_decode ev (sr_payment_hash r) = Inr (sha256_preimage (ev_crypto ev) preimage)" by simp
    from claim_task_spends [OF libs terms claimed(5) this claimed(7)] terms
    have "\<exists>seller buyer spec funding tx t w. swap_terms ev cfg r seller buyer spec \<and> recorded_funding ev r funding \<and>
        spends_htlc (ev_script ev) (ev_crypto ev) funding (witness_script (ev_script ev) spec) tx \<and>
        fst (ev_broadcast ev tx w) = Inr t \<and> ac_claim_txid claim = ev_txid_to_string ev t" by blast
    moreover have "swaps (sy_db s') = (swaps (sy_db s))(?k \<mapsto> r\<lparr>sr_claim_txid := Some (ac_claim_txid claim), sr_status := Claimed\<rparr>)"
      using claim_task_stored [of s1 r] ok claimed(1,6,7) id by simp
    ultimately show ?thesis using claimed(1-3) by (intro exI [of _ r]) simp
  qed
qed

theorem claim_spends_htlc_witness:
  "\<exists>s s' tx w. create_asset_claim demo_env demo_cfg demo_claim_request s = Some (Inr \<lparr>ac_claim_txid = demo_text [1]\<rparr>, s') \<and>
    swaps (sy_db s) ''s1'' = Some paid_record \<and> fst (ev_broadcast demo_env tx w) = Inr [1] \<and>
    map_option sr_status (swaps (sy_db s') ''s1'') = Some Claimed"
proof -
  have "swap_storable paid_record" by (simp add: swap_storable_def paid_record_def demo_record_def)
  then obtain s :: "nat sys" where s: "store_ok (sy_db s)" "quotes (sy_db s) = Map.empty"
    "swaps (sy_db s) = [''s1'' \<mapsto> paid_record]"
    using recorded_state [of paid_record] by (auto simp: paid_record_def)
  then obtain s' where run: "create_asset_claim demo_env demo_cfg demo_claim_request s =
      Some (Inr \<lparr>ac_claim_txid = demo_text [1]\<rparr>, s')"
    using demo_claim [of s] by auto
  have inv: "service_inv demo_env demo_cfg (sy_db s)"
    using s demo_wf by (auto simp: service_inv_def quotes_linked_def split: if_splits)
  have id: "ac_swap_id (rq_message demo_claim_request) = ''s1''"
    by (simp add: demo_claim_request_def demo_request_def)
  have "sr_claim_txid paid_record = None" by (simp add: paid_record_def)
  moreover have "fst (ev_broadcast demo_env tx w) = Inr t \<Longrightarrow> t = [1]" for tx w t by (simp add: demo_env_def)
  ultimately show ?thesis
    using claim_spends_htlc [OF demo_libraries inv run] run s(3) id by fastforce
qed

section \<open>Payments that fail\<close>

lemma Inl_map_err: "Inl e = map_err f r \<longleftrightarrow> (\<exists>x. r = Inl x \<and> e = f x)"
  by (cases r) auto

lemma pay_swap_Inl:
  assumes codecs: "codecs_ok ev" and ok: "store_ok (sy_db s)" and run: "pay_swap ev r t s = Some (Inl e, s')"
  shows "swaps (sy_db s') = swaps (sy_db s) \<and> quotes (sy_db s') = quotes (sy_db s)"
proof -
  let ?h = "ev_hex_encode ev"
  let ?fin = "\<lambda>pid preimage. bind_run (internal ''persist payment: ''
      (store_run ev (\<lambda>v. upsert_swap_payment v (sr_swap_id r) pid (?h preimage) Paid))) (\<lambda>_.
    lift_run (case ev_hex_decode ev (?h preimage) of
         Inl _ \<Rightarrow> Inl (Panicked ''hex encoding/decoding of preimage must roundtrip'')
       | Inr bs \<Rightarrow> Inr \<lparr>pay_payment_id = pid, pay_preimage = bs\<rparr>))"
  have "sy_db s' = sy_db s \<or> (\<exists>pid preimage s3. sy_db s3 = sy_db s \<and> ?fin pid preimage s3 = Some (Inl e, s'))"
  proof -
    have quiet: "preserves (on_db X) (internal ''pay invoice: '' (pay_invoice ev (sr_bolt11_invoice r)))"
      "preserves (on_db X) (internal ''wait preimage: '' (wait_preimage ev pid (payment_timeout t)))"
      "preserves (on_db X) (hash_matches ev r preimage)" for X pid preimage by (intro preserve_intros)+
    from quiet(1) run [unfolded pay_swap_def Let_def] show ?thesis
    proof (cases rule: bind_quiet_cases)
      case (2 pid s1)
      from quiet(2) 2(3) show ?thesis
      proof (cases rule: bind_quiet_cases)
        case got: (2 preimage s2)
        from quiet(3) got(3) show ?thesis
        proof (cases rule: bind_quiet_cases)
          case checked: (2 u s3)
          then show ?thesis using 2(2) got(2) by auto
        qed (use 2 got in simp)
      qed (use 2 in simp)
    qed simp
  qed
  then show ?thesis
  proof (elim disjE exE conjE)
    fix pid preimage s3 assume db: "sy_db s3 = sy_db s" and fin: "?fin pid preimage s3 = Some (Inl e, s')"
    obtain v x where up: "upsert_swap_payment v (sr_swap_id r) pid (?h preimage) Paid (sy_db s) = Some (x, sy_db s')"
      and x: "\<exists>e. x = Inl e"
      using fin codecs_okD(1) [OF codecs, of preimage]
      by (auto simp: bind_run_Some internal_Some store_run_Some db Inl_map_err)
    then show ?thesis
      using upsert_swap_payment_ok [OF ok, of v "sr_swap_id r" pid "?h preimage" Paid]
      by (cases v; cases "swaps (sy_db s) (sr_swap_id r)") (auto simp: update_result_def)
  qed simp
qed

text \<open>
  C36. A Lightning payment that is answered with an error leaves swaps and quotes as they were,
  also when the node had already taken the payment and only its preimage is late: the
  payment's id is not kept, and the next request asks the node to pay the invoice again.
\<close>

theorem failed_payment_forgotten:
  assumes codecs: "codecs_ok ev" and ok: "store_ok (sy_db s)"
    and run: "create_lightning_payment ev cfg request s = Some (Inl e, s')"
  shows "swaps (sy_db s') = swaps (sy_db s) \<and> quotes (sy_db s') = quotes (sy_db s)"
  using preserves_load_swap run [unfolded create_lightning_payment_unfold Let_def]
proof (cases rule: bind_quiet_cases)
  case (2 a s1)
  obtain caller r where a: "a = (caller, r)" by (cases a)
  from preserves_authorized 2(3) [unfolded a prod.case] show ?thesis
  proof (cases rule: bind_quiet_cases)
    case gate: (2 u s2)
    show ?thesis
    proof (cases "\<exists>pid h. sr_ln_payment_id r = Some pid \<and> sr_ln_preimage_hex r = Some h")
      case True
      then have "sy_db s' = sy_db s2" using gate(3) by (auto simp: bind_run_Some internal_Some)
      then show ?thesis using gate(2) 2(2) by simp
    next
      case False
      then have "bind_run (require (sr_status r = Funded) FailedPrecondition ''swap is not funded'')
          (\<lambda>_. pay_swap ev r (lp_payment_timeout_secs (rq_message request))) s2 = Some (Inl e, s')"
        using gate(3) by (auto split: option.splits)
      with preserves_require show ?thesis
      proof (cases rule: bind_quiet_cases)
        case pay: (2 v s3)
        have "store_ok (sy_db s3)" using ok pay(2) gate(2) 2(2) by simp
        from pay_swap_Inl [OF codecs this pay(3)] show ?thesis using pay(2) gate(2) 2(2) by simp
      qed (use gate 2 in simp)
    qed
  qed (use 2 in simp)
qed simp

text \<open>A node that takes every payment and never lists it; the world counts the payments.\<close>

definition stuck_env :: "nat env" where
  "stuck_env = demo_env\<lparr>ev_bolt11_send := (\<lambda>i a w. (Inr ''p1'', w + 1)), ev_list_payments := (\<lambda>p w. (Inl ''unavailable'', w))\<rparr>"

lemma stuck_load:
  assumes "store_ok (sy_db s)" and "swaps (sy_db s) ''s1'' = Some r"
  shows "load_swap stuck_env demo_cfg (demo_request ''b'' m) ''s1'' s = Some (Inr (BuyerCaller, r), s)"
proof -
  have "load_swap stuck_env = (load_swap demo_env :: _ \<Rightarrow> 'a request \<Rightarrow> _)"
    by (simp add: load_swap_def store_run_def stuck_env_def require_authenticated_def authorization_bearer_token_def fun_eq_iff)
  then show ?thesis using demo_load [OF assms, of m] by simp
qed

lemma stuck_pay:
  assumes ok: "store_ok (sy_db s)" and r: "swaps (sy_db s) ''s1'' = Some (demo_record Funded)"
  shows "\<exists>e. create_lightning_payment stuck_env demo_cfg demo_pay_request s =
    Some (Inl e, s\<lparr>sy_world := sy_world s + 1\<rparr>)"
proof -
  have env: "ev_bolt11_send stuck_env = (\<lambda>i a w. (Inr ''p1'', w + 1))"
    "ev_list_payments stuck_env = (\<lambda>p w. (Inl ''unavailable'', w))" by (simp_all add: stuck_env_def)
  let ?e = "Context ''ListPayments'' (CLib ''unavailable'')"
  have "try_preimage stuck_env ''p1'' s1 = Some (Inl ?e, s1)" for s1
    by (simp add: try_preimage_def run_defs env)
  then have wait: "wait_preimage stuck_env ''p1'' t s1 = Some (Inl ?e, s1)" for t s1
    by (simp add: wait_preimage_def run_defs poll_loop_step(1))
  have pay: "\<exists>e. pay_swap stuck_env (demo_record Funded) t s = Some (Inl e, s\<lparr>sy_world := sy_world s + 1\<rparr>)" for t
    by (simp add: pay_swap_def pay_invoice_def run_defs env wait)
  have msg: "rq_message demo_pay_request = \<lparr>lp_swap_id = ''s1'', lp_payment_timeout_secs = 0\<rparr>"
    by (simp add: demo_pay_request_def demo_request_def)
  have load: "load_swap stuck_env demo_cfg demo_pay_request ''s1'' s = Some (Inr (BuyerCaller, demo_record Funded), s)"
    unfolding demo_pay_request_def by (rule stuck_load [OF ok r])
  show ?thesis using demo_roles pay [of 0]
    by (simp add: create_lightning_payment_unfold Let_def bind_run_def msg load)
qed

theorem failed_payment_forgotten_witness:
  "\<exists>s s1 s2 e1 e2. create_lightning_payment stuck_env demo_cfg demo_pay_request s = Some (Inl e1, s1) \<and>
    create_lightning_payment stuck_env demo_cfg demo_pay_request s1 = Some (Inl e2, s2) \<and>
    swaps (sy_db s2) ''s1'' = Some (demo_record Funded) \<and> sy_world s2 = sy_world s + 2"
proof -
  obtain s :: "nat sys" where s: "store_ok (sy_db s)" "swaps (sy_db s) = [''s1'' \<mapsto> demo_record Funded]"
    using recorded_state [of "demo_record Funded"] by (auto simp: swap_storable_def demo_record_def)
  then obtain e1 where run1: "create_lightning_payment stuck_env demo_cfg demo_pay_request s =
      Some (Inl e1, s\<lparr>sy_world := sy_world s + 1\<rparr>)" (is "_ = Some (_, ?s1)")
    using stuck_pay [of s] by auto
  obtain e2 where run2: "create_lightning_payment stuck_env demo_cfg demo_pay_request ?s1 =
      Some (Inl e2, ?s1\<lparr>sy_world := sy_world ?s1 + 1\<rparr>)"
    using stuck_pay [of ?s1] s by auto
  have codecs: "codecs_ok stuck_env" using demo_codecs by (simp add: codecs_ok_def stuck_env_def)
  have ok: "store_ok (sy_db ?s1)" using s(1) by simp
  have "swaps (sy_db (?s1\<lparr>sy_world := sy_world ?s1 + 1\<rparr>)) ''s1'' = Some (demo_record Funded)"
    using failed_payment_forgotten [OF codecs ok run2] s(2) by simp
  then show ?thesis using run1 run2
    by (intro exI [of _ s] exI [of _ ?s1] exI [of _ "?s1\<lparr>sy_world := sy_world ?s1 + 1\<rparr>"] exI [of _ e1] exI [of _ e2])
      simp
qed

end
