(* ===== verification/Refund_Properties.thy ===== *)
theory Refund_Properties
  imports Payment_Properties
begin

text \<open>
  The refund worker (\<open>src/bin/swap_server.rs\<close>): what one round may change, what it must have
  broadcast, and what stops it.
\<close>

section \<open>One swap\<close>

lemma refund_swap_reached:
  assumes run: "refund_swap ev (cf_seller_key_index cfg) (cf_buyer_key_index cfg) fee r s = Some (res, s')"
    and script: "ev_script_from_str ev (sr_witness_script_hex r) = Inr script"
    and reached: "res = Inr () \<or> sy_db s' \<noteq> sy_db s"
  obtains a key funding tx where
    "address_at ev (refunder_index cfg (sr_direction r)) s = Some (Inr a, s)"
    and "sr_direction r = LiquidToLn \<longrightarrow> ad_string a = sr_buyer_liquid_address r"
    and "derive_secret_key ev (refunder_index cfg (sr_direction r)) s = Some (Inr key, s)"
    and "recorded_funding ev r funding"
    and "refund_tx_from_witness_script (ev_crypto ev) script (sr_refund_lock_height r) funding a key fee = Inr tx"
    and "(\<exists>e. fst (ev_broadcast ev tx (sy_world s)) = Inl e) \<and> sy_db s' = sy_db s \<or>
      (\<exists>t v q. fst (ev_broadcast ev tx (sy_world s)) = Inr t \<and>
         update_swap_status v (sr_swap_id r) Refunded (sy_db s) = Some (q, sy_db s') \<and> (res = Inr () \<longrightarrow> q = Inr ()))"
proof -
  let ?funding = "\<lambda>ftxid asset. \<lparr>hf_funding_txid = ftxid, hf_asset_vout = sr_asset_vout r, hf_lbtc_vout = sr_lbtc_vout r,
    hf_asset_id = asset, hf_asset_amount = sr_asset_amount r, hf_policy_asset = ev_policy_asset ev,
    hf_fee_subsidy_sats = sr_fee_subsidy_sats r\<rparr>"
  obtain a child key ftxid asset tx where
    raw: "ev_wallet_address ev (sy_world s) (refunder_index cfg (sr_direction r)) = Inr a"
    "sr_direction r = LiquidToLn \<longrightarrow> ad_string a = sr_buyer_liquid_address r"
    "ev_child_from_normal_idx ev (refunder_index cfg (sr_direction r)) = Inr child"
    "ev_derive_xprv ev [child] = Inr key"
    "ev_txid_from_str ev (sr_funding_txid r) = Inr ftxid" "ev_asset_from_str ev (sr_asset_id r) = Inr asset"
    "refund_tx_from_witness_script (ev_crypto ev) script (sr_refund_lock_height r) (?funding ftxid asset) a key fee = Inr tx"
    and last: "(case broadcast_transaction ev tx s of
         None \<Rightarrow> None
       | Some (Inr _, st') \<Rightarrow>
           ctx ''update swap status (refunded)''
             (store_run ev (\<lambda>v. update_swap_status v (sr_swap_id r) Refunded)) st'
       | Some (Inl _, st') \<Rightarrow> Some (Inr (), st')) = Some (res, s')"
    using run script reached by (cases "sr_direction r")
      (auto simp: refund_swap_def bind_run_Some Let_def refunder_index_def
        address_at_eq derive_eq ctx_Some map_err_not_Inl)
  have b: "(\<exists>e. fst (ev_broadcast ev tx (sy_world s)) = Inl e) \<and> sy_db s' = sy_db s \<or>
      (\<exists>t v q. fst (ev_broadcast ev tx (sy_world s)) = Inr t \<and>
         update_swap_status v (sr_swap_id r) Refunded (sy_db s) = Some (q, sy_db s') \<and> (res = Inr () \<longrightarrow> q = Inr ()))"
    using last by (cases "fst (ev_broadcast ev tx (sy_world s))")
      (auto simp: broadcast_transaction_def ctx_effect ctx_Some store_run_Some, metis)
  have "recorded_funding ev r (?funding ftxid asset)" using raw by (simp add: recorded_funding_def)
  then show thesis using raw b
    by (intro that [of a key "?funding ftxid asset" tx]) (simp_all add: address_at_eq derive_eq)
qed

text \<open>A refund transaction for a swap: it spends the swap's HTLC, at its refund height.\<close>

definition refunds :: "'w env \<Rightarrow> swap_service_config \<Rightarrow> swap_record \<Rightarrow> tx \<Rightarrow> bool" where
  "refunds ev cfg r tx \<longleftrightarrow>
     (\<exists>seller buyer spec funding. swap_terms ev cfg r seller buyer spec \<and> recorded_funding ev r funding \<and>
        spends_htlc (ev_script ev) (ev_crypto ev) funding (witness_script (ev_script ev) spec) tx \<and>
        tx_lock_time tx = sr_refund_lock_height r)"

lemma refund_swap_effect:
  assumes libs: "libraries_ok ev" and wf: "swap_wf ev cfg r"
    and ok: "store_ok (sy_db s)" and r: "swaps (sy_db s) (sr_swap_id r) = Some r"
    and run: "refund_swap ev (cf_seller_key_index cfg) (cf_buyer_key_index cfg) fee r s = Some (res, s')"
  shows "store_ok (sy_db s') \<and> quotes (sy_db s') = quotes (sy_db s) \<and>
    (swaps (sy_db s') = swaps (sy_db s) \<and>
       (res = Inr () \<longrightarrow> (\<exists>tx w e. refunds ev cfg r tx \<and> fst (ev_broadcast ev tx w) = Inl e)) \<or>
     swaps (sy_db s') = (swaps (sy_db s))(sr_swap_id r \<mapsto> r\<lparr>sr_status := Refunded\<rparr>) \<and>
       (\<exists>tx w t. refunds ev cfg r tx \<and> fst (ev_broadcast ev tx w) = Inr t))"
proof (cases "res = Inr () \<or> sy_db s' \<noteq> sy_db s")
  case True
  let ?cl = "ev_crypto ev"
  obtain seller buyer spec where terms: "swap_terms ev cfg r seller buyer spec" using wf unfolding swap_wf_def by blast
  note spec = swap_terms_spec [OF terms]
  have script: "ev_script_from_str ev (sr_witness_script_hex r) = Inr (witness_script (ev_script ev) spec)"
    using terms codecs_okD(4) [OF libraries_okD(3) [OF libs]] by (simp add: swap_terms_def)
  obtain a key funding tx where addr: "address_at ev (refunder_index cfg (sr_direction r)) s = Some (Inr a, s)"
    and same: "sr_direction r = LiquidToLn \<longrightarrow> ad_string a = sr_buyer_liquid_address r"
    and key: "derive_secret_key ev (refunder_index cfg (sr_direction r)) s = Some (Inr key, s)"
    and funding: "recorded_funding ev r funding"
    and tx: "refund_tx_from_witness_script ?cl (witness_script (ev_script ev) spec) (sr_refund_lock_height r)
      funding a key fee = Inr tx"
    and b: "(\<exists>e. fst (ev_broadcast ev tx (sy_world s)) = Inl e) \<and> sy_db s' = sy_db s \<or>
      (\<exists>t v q. fst (ev_broadcast ev tx (sy_world s)) = Inr t \<and>
         update_swap_status v (sr_swap_id r) Refunded (sy_db s) = Some (q, sy_db s') \<and> (res = Inr () \<longrightarrow> q = Inr ()))"
    by (rule refund_swap_reached [OF run script True]) (rule that)
  have "cl_hash160 ?cl (cl_public_key ?cl key) = hs_refunder_pubkey_hash160 spec"
    using spec(4) same buyer_key [OF libs terms addr key] seller_key [OF libs terms, of s key s] key
    by (cases "sr_direction r") (auto simp: refunder_index_def)
  from refund_tx_spends [OF libraries_okD(1,2) [OF libs] spec(5) this] tx spec(1)
  have refunds: "refunds ev cfg r tx" using terms funding unfolding refunds_def by metis
  from b show ?thesis
  proof (elim disjE exE conjE)
    fix e assume "fst (ev_broadcast ev tx (sy_world s)) = Inl e" and db: "sy_db s' = sy_db s"
    then show ?thesis using refunds ok unfolding db by blast
  next
    fix t v q assume t: "fst (ev_broadcast ev tx (sy_world s)) = Inr t" and q: "res = Inr () \<longrightarrow> q = Inr ()"
      and up: "update_swap_status v (sr_swap_id r) Refunded (sy_db s) = Some (q, sy_db s')"
    note st = update_swap_status_ok [OF ok, of v "sr_swap_id r" Refunded]
    show ?thesis
    proof (cases v)
      case None
      then have "store_ok (sy_db s')" "quotes (sy_db s') = quotes (sy_db s)"
        "swaps (sy_db s') = (swaps (sy_db s))(sr_swap_id r \<mapsto> r\<lparr>sr_status := Refunded\<rparr>)"
        using st up r by auto
      then show ?thesis using refunds t by blast
    next
      case (Some e)
      then have "store_ok (sy_db s')" "quotes (sy_db s') = quotes (sy_db s)" "swaps (sy_db s') = swaps (sy_db s)"
        "q = Inl (EngineError e)"
        using st up by (auto simp: update_result_def)
      then show ?thesis using q by simp
    qed
  qed
qed (use ok in simp)

section \<open>A round\<close>

definition round_effect :: "'w env \<Rightarrow> swap_service_config \<Rightarrow> u32 \<Rightarrow> swap_record list \<Rightarrow> database \<Rightarrow> database \<Rightarrow> bool" where
  "round_effect ev cfg tip rs db db' \<longleftrightarrow>
     store_ok db' \<and> quotes db' = quotes db \<and>
     (\<forall>k. swaps db' k = swaps db k \<or>
        (\<exists>r\<in>set rs. sr_swap_id r = k \<and> refundable tip r \<and> swaps db' k = Some (r\<lparr>sr_status := Refunded\<rparr>) \<and>
           (\<exists>tx w t. refunds ev cfg r tx \<and> fst (ev_broadcast ev tx w) = Inr t)))"

definition round_done :: "'w env \<Rightarrow> swap_service_config \<Rightarrow> u32 \<Rightarrow> swap_record list \<Rightarrow> database \<Rightarrow> bool" where
  "round_done ev cfg tip rs db' \<longleftrightarrow>
     (\<forall>r\<in>set rs. refundable tip r \<longrightarrow> swaps db' (sr_swap_id r) = Some (r\<lparr>sr_status := Refunded\<rparr>) \<or>
        (\<exists>tx w e. refunds ev cfg r tx \<and> fst (ev_broadcast ev tx w) = Inl e))"

lemma refund_all_effect:
  assumes "libraries_ok ev"
    and "store_ok (sy_db s)" and "distinct (map sr_swap_id rs)"
    and "\<forall>r\<in>set rs. swaps (sy_db s) (sr_swap_id r) = Some r \<and> swap_wf ev cfg r"
    and "refund_all ev (cf_seller_key_index cfg) (cf_buyer_key_index cfg) fee tip rs s = Some (res, s')"
  shows "round_effect ev cfg tip rs (sy_db s) (sy_db s') \<and> (res = Inr () \<longrightarrow> round_done ev cfg tip rs (sy_db s'))"
  using assms(2-5)
proof (induction rs arbitrary: s)
  case Nil
  then show ?case by (auto simp: round_effect_def round_done_def)
next
  case (Cons r rs)
  let ?m = "if refundable tip r then refund_swap ev (cf_seller_key_index cfg) (cf_buyer_key_index cfg) fee r else return_run ()"
  have r: "swaps (sy_db s) (sr_swap_id r) = Some r" "swap_wf ev cfg r" using Cons.prems(3) by auto
  obtain x s1 where m: "?m s = Some (x, s1)"
    using Cons.prems(4) by (auto simp: bind_run_Some simp del: return_run_simp)
  have one: "store_ok (sy_db s1) \<and> quotes (sy_db s1) = quotes (sy_db s) \<and>
    (swaps (sy_db s1) = swaps (sy_db s) \<and>
       (x = Inr () \<and> refundable tip r \<longrightarrow> (\<exists>tx w e. refunds ev cfg r tx \<and> fst (ev_broadcast ev tx w) = Inl e)) \<or>
     refundable tip r \<and> swaps (sy_db s1) = (swaps (sy_db s))(sr_swap_id r \<mapsto> r\<lparr>sr_status := Refunded\<rparr>) \<and>
       (\<exists>tx w t. refunds ev cfg r tx \<and> fst (ev_broadcast ev tx w) = Inr t))"
  proof (cases "refundable tip r")
    case True
    then have "refund_swap ev (cf_seller_key_index cfg) (cf_buyer_key_index cfg) fee r s = Some (x, s1)" using m by simp
    from refund_swap_effect [OF assms(1) r(2) Cons.prems(1) r(1) this] True show ?thesis by simp
  next
    case False
    then show ?thesis using m Cons.prems(1) by simp
  qed
  show ?case
  proof (cases x)
    case (Inl e)
    then have "s' = s1" "res = Inl e" using m Cons.prems(4) by (auto simp: bind_run_Some simp del: return_run_simp)
    moreover have "round_effect ev cfg tip (r # rs) (sy_db s) (sy_db s1)"
      using one unfolding round_effect_def by auto
    ultimately show ?thesis by simp
  next
    case (Inr u)
    then have rest: "refund_all ev (cf_seller_key_index cfg) (cf_buyer_key_index cfg) fee tip rs s1 = Some (res, s')"
      using m Cons.prems(4) by (auto simp: bind_run_Some simp del: return_run_simp)
    have other: "sr_swap_id q \<noteq> sr_swap_id r" if "q \<in> set rs" for q
      using Cons.prems(2) imageI [OF that, of sr_swap_id] by (metis distinct.simps(2) list.simps(9) set_map)
    then have "\<forall>q\<in>set rs. swaps (sy_db s1) (sr_swap_id q) = Some q \<and> swap_wf ev cfg q"
      using one Cons.prems(3) by auto
    then have IH: "round_effect ev cfg tip rs (sy_db s1) (sy_db s')" "res = Inr () \<Longrightarrow> round_done ev cfg tip rs (sy_db s')"
      using Cons.IH [OF _ _ _ rest] one Cons.prems(2) by auto
    have keep: "swaps (sy_db s') (sr_swap_id r) = swaps (sy_db s1) (sr_swap_id r)"
      using IH(1) other unfolding round_effect_def by metis
    have "round_effect ev cfg tip (r # rs) (sy_db s) (sy_db s')"
      using IH(1) one keep unfolding round_effect_def by (auto split: if_splits) (metis fun_upd_other)+
    moreover have "round_done ev cfg tip (r # rs) (sy_db s')" if "res = Inr ()"
      using IH(2) [OF that] one keep Inr unfolding round_done_def by auto
    ultimately show ?thesis by blast
  qed
qed

section \<open>The worker\<close>

lemma refund_once_parts:
  assumes "refund_once ev ks kb fee s = Some (res, s')"
  obtains (early) e where "res = Inl e" "sy_db s' = sy_db s"
  | (listed) w s2 s3 rs where "sy_db s2 = sy_db s" "store_run ev list_swaps s2 = Some (Inr rs, s3)"
      "refund_all ev ks kb fee (ev_tip_height ev w) rs s3 = Some (res, s')"
proof -
  have quiet: "preserves (on_db X) (ctx ''sync wallet'' (sync ev))" "preserves (on_db X) (tip_height ev)"
    "preserves (on_db X) (ctx ''list swaps'' (store_run ev list_swaps))" for X by (intro preserve_intros)+
  from quiet(1) assms [unfolded refund_once_unfold] show thesis
  proof (cases rule: bind_quiet_cases)
    case (2 u s1)
    from quiet(2) 2(3) show thesis
    proof (cases rule: bind_quiet_cases)
      case tip: (2 tip s2)
      then have "tip = ev_tip_height ev (sy_world s1)" by (auto simp: tip_height_def)
      from quiet(3) tip(3) show thesis
      proof (cases rule: bind_quiet_cases)
        case list: (2 rs s3)
        from list(1) have "store_run ev list_swaps s2 = Some (Inr rs, s3)" by simp
        then show thesis using listed [of s2 rs s3 "sy_world s1"] list(3) tip 2(2) \<open>tip = _\<close> by simp
      qed (use early tip 2 in simp)
    qed (use early 2 in simp)
  qed (use early in simp)
qed

lemma refund_round:
  assumes libs: "libraries_ok ev" and inv: "service_inv ev cfg (sy_db s)"
    and run: "refund_once ev (cf_seller_key_index cfg) (cf_buyer_key_index cfg) fee s = Some (res, s')"
  shows "sy_db s' = sy_db s \<and> res \<noteq> Inr () \<or>
    (\<exists>w rs. set rs = ran (swaps (sy_db s)) \<and> round_effect ev cfg (ev_tip_height ev w) rs (sy_db s) (sy_db s') \<and>
      (res = Inr () \<longrightarrow> round_done ev cfg (ev_tip_height ev w) rs (sy_db s')))"
  using run
proof (cases rule: refund_once_parts)
  case (listed w s2 s3 rs)
  have ok: "store_ok (sy_db s2)" using inv listed(1) by (simp add: service_inv_def)
  note l = store_run_list_swaps [OF ok listed(2)] and d = store_run_list_distinct [OF ok listed(2)]
  have "\<forall>r\<in>set rs. swaps (sy_db s3) (sr_swap_id r) = Some r \<and> swap_wf ev cfg r"
    using d(2) l(2) inv listed(1) by (auto simp: service_inv_def)
  with refund_all_effect [OF libs _ d(1) _ listed(3)] ok l listed(1) show ?thesis by auto
qed simp

text \<open>
  C7. A round of the refund worker touches no quote and no swap but the refundable ones: a
  swap that differs afterwards was Created or Funded and due at the tip the round read, is now
  Refunded and nothing else, and a transaction was broadcast for it that satisfies the scripts
  of its HTLC outputs at exactly its refund height.
\<close>

theorem refund_only_due:
  assumes libs: "libraries_ok ev" and inv: "service_inv ev cfg (sy_db s)"
    and run: "refund_once ev (cf_seller_key_index cfg) (cf_buyer_key_index cfg) fee s = Some (res, s')"
    and r: "swaps (sy_db s) k = Some r" and changed: "swaps (sy_db s') k \<noteq> Some r"
  shows "swaps (sy_db s') k = Some (r\<lparr>sr_status := Refunded\<rparr>) \<and> quotes (sy_db s') = quotes (sy_db s) \<and>
    sr_status r \<in> {Created, Funded} \<and> (\<exists>w. sr_refund_lock_height r \<le> ev_tip_height ev w) \<and>
    (\<exists>tx w t. refunds ev cfg r tx \<and> fst (ev_broadcast ev tx w) = Inr t)"
proof -
  obtain w rs where "set rs = ran (swaps (sy_db s))"
    and eff: "round_effect ev cfg (ev_tip_height ev w) rs (sy_db s) (sy_db s')"
    using refund_round [OF libs inv run] r changed by auto
  then obtain q where "q \<in> set rs" "sr_swap_id q = k" and q: "refundable (ev_tip_height ev w) q"
    "swaps (sy_db s') k = Some (q\<lparr>sr_status := Refunded\<rparr>)" "\<exists>tx w t. refunds ev cfg q tx \<and> fst (ev_broadcast ev tx w) = Inr t"
    using r changed unfolding round_effect_def by metis
  moreover have "store_ok (sy_db s)" using inv by (simp add: service_inv_def)
  ultimately have "q = r" using \<open>set rs = _\<close> r swaps_id by (fastforce simp: ran_def)
  moreover have "sr_status q \<in> {Created, Funded} \<and> sr_refund_lock_height q \<le> ev_tip_height ev w"
    using q(1) by (auto simp: refundable_def)
  ultimately show ?thesis using q eff unfolding round_effect_def by blast
qed

theorem refund_only_due_witness:
  "\<exists>s s'. refund_once late_env 0 0 500 s = Some (Inr (), s') \<and> swaps (sy_db s) ''s1'' = Some (demo_record Funded) \<and>
    swaps (sy_db s') ''s1'' = Some (demo_record Refunded) \<and>
    (\<exists>tx w t. refunds late_env demo_cfg (demo_record Funded) tx \<and> fst (ev_broadcast late_env tx w) = Inr t)"
proof -
  obtain s :: "nat sys" where s: "store_ok (sy_db s)" "quotes (sy_db s) = Map.empty"
    "swaps (sy_db s) = [''s1'' \<mapsto> demo_record Funded]"
    using recorded_state [of "demo_record Funded"] by (auto simp: swap_storable_def demo_record_def)
  then obtain s' where run: "refund_once late_env 0 0 500 s = Some (Inr (), s')"
    and done': "swaps (sy_db s') = [''s1'' \<mapsto> demo_record Refunded]"
    using demo_refund [of s Funded] by auto
  have inv: "service_inv late_env demo_cfg (sy_db s)"
    using s demo_wf(2) by (auto simp: service_inv_def quotes_linked_def split: if_splits)
  have idx: "cf_seller_key_index demo_cfg = 0" "cf_buyer_key_index demo_cfg = 0" by (simp_all add: demo_cfg_def)
  have "swaps (sy_db s') ''s1'' \<noteq> Some (demo_record Funded)" using done' by (simp add: demo_record_def)
  from refund_only_due [OF late_libraries inv, unfolded idx, OF run _ this] s(3) done' run show ?thesis by fastforce
qed

text \<open>
  C20. A round that ends without an error has seen to every swap that was due: it is Refunded,
  or the network refused a transaction that satisfies its HTLC at the refund height.
\<close>

theorem refund_round_complete:
  assumes libs: "libraries_ok ev" and inv: "service_inv ev cfg (sy_db s)"
    and run: "refund_once ev (cf_seller_key_index cfg) (cf_buyer_key_index cfg) fee s = Some (Inr (), s')"
  shows "\<exists>w. \<forall>k r. swaps (sy_db s) k = Some r \<longrightarrow> sr_status r \<in> {Created, Funded} \<longrightarrow>
    sr_refund_lock_height r \<le> ev_tip_height ev w \<longrightarrow>
    swaps (sy_db s') k = Some (r\<lparr>sr_status := Refunded\<rparr>) \<or>
    (\<exists>tx w e. refunds ev cfg r tx \<and> fst (ev_broadcast ev tx w) = Inl e)"
proof -
  obtain w rs where rs: "set rs = ran (swaps (sy_db s))"
    and fin: "round_done ev cfg (ev_tip_height ev w) rs (sy_db s')"
    using refund_round [OF libs inv run] by auto
  have ok: "store_ok (sy_db s)" using inv by (simp add: service_inv_def)
  show ?thesis
  proof (intro exI [of _ w] allI impI)
    fix k r assume "swaps (sy_db s) k = Some r" and due: "sr_status r \<in> {Created, Funded}"
      "sr_refund_lock_height r \<le> ev_tip_height ev w"
    moreover from due have "refundable (ev_tip_height ev w) r" by (simp add: refundable_def not_less)
    moreover have "r \<in> set rs" "sr_swap_id r = k" using calculation(1) rs swaps_id [OF ok] by (auto simp: ran_def)
    ultimately show "swaps (sy_db s') k = Some (r\<lparr>sr_status := Refunded\<rparr>) \<or>
      (\<exists>tx w e. refunds ev cfg r tx \<and> fst (ev_broadcast ev tx w) = Inl e)"
      using fin unfolding round_done_def by blast
  qed
qed

theorem refund_round_complete_witness:
  "\<exists>s s'. refund_once late_env 0 0 500 s = Some (Inr (), s') \<and> swaps (sy_db s) ''s1'' = Some (demo_record Funded) \<and>
    swaps (sy_db s') ''s1'' = Some (demo_record Refunded)"
proof -
  obtain s :: "nat sys" where s: "store_ok (sy_db s)" "quotes (sy_db s) = Map.empty"
    "swaps (sy_db s) = [''s1'' \<mapsto> demo_record Funded]"
    using recorded_state [of "demo_record Funded"] by (auto simp: swap_storable_def demo_record_def)
  then obtain s' where run: "refund_once late_env 0 0 500 s = Some (Inr (), s')"
    using demo_refund [of s Funded] by auto
  have inv: "service_inv late_env demo_cfg (sy_db s)"
    using s demo_wf(2) by (auto simp: service_inv_def quotes_linked_def split: if_splits)
  have idx: "cf_seller_key_index demo_cfg = 0" "cf_buyer_key_index demo_cfg = 0" by (simp_all add: demo_cfg_def)
  have "154 \<le> ev_tip_height late_env w" for w by (simp add: late_env_def)
  moreover have "fst (ev_broadcast late_env tx w) \<noteq> Inl e" for tx w e by (simp add: late_env_def demo_env_def)
  moreover have "(demo_record Funded)\<lparr>sr_status := Refunded\<rparr> = demo_record Refunded" by (simp add: demo_record_def)
  ultimately show ?thesis
    using refund_round_complete [OF late_libraries inv, unfolded idx, OF run] s(3) run
    by (intro exI [of _ s] exI [of _ s']) auto
qed

section \<open>A swap that stops the worker\<close>

lemma refund_swap_low_fee:
  assumes "\<not> fee < sr_fee_subsidy_sats r" and "refund_swap ev ks kb fee r s = Some (res, s')"
  shows "\<exists>e. res = Inl e" and "sy_db s' = sy_db s"
proof -
  have tx: "refund_tx_from_witness_script cl script h funding a key fee \<noteq> Inr t"
    if "hf_fee_subsidy_sats funding = sr_fee_subsidy_sats r" for cl script h funding a key t
    using assms(1) that by (simp add: refund_tx_Inr)
  have "(\<exists>e. res = Inl e) \<and> sy_db s' = sy_db s"
    using assms(2) by (cases "sr_direction r")
      (auto simp: refund_swap_def bind_run_Some Let_def address_at_eq derive_eq ctx_Some tx)
  then show "\<exists>e. res = Inl e" and "sy_db s' = sy_db s" by auto
qed

lemma refund_all_stops:
  assumes "\<forall>x\<in>set xs. \<not> refundable tip x" and "refundable tip r" and "\<not> fee < sr_fee_subsidy_sats r"
    and "refund_all ev ks kb fee tip (xs @ r # ys) s = Some (res, s')"
  shows "(\<exists>e. res = Inl e) \<and> sy_db s' = sy_db s"
  using assms(1,4)
proof (induction xs)
  case Nil
  then show ?case using assms(2) by (auto simp: bind_run_Some dest: refund_swap_low_fee [OF assms(3)])
next
  case (Cons x xs)
  then show ?case by (auto simp: bind_run_Some)
qed

text \<open>A swap that is due, cannot pay the refund fee, and is the first of the due ones.\<close>

definition blocks_refunds :: "'w env \<Rightarrow> u64 \<Rightarrow> (string \<Rightarrow> swap_record option) \<Rightarrow> swap_record \<Rightarrow> bool" where
  "blocks_refunds ev fee m r \<longleftrightarrow>
     m (sr_swap_id r) = Some r \<and> \<not> fee < sr_fee_subsidy_sats r \<and>
     (\<forall>w. refundable (ev_tip_height ev w) r) \<and>
     (\<forall>k q w. k < sr_swap_id r \<longrightarrow> m k = Some q \<longrightarrow> \<not> refundable (ev_tip_height ev w) q)"

lemma refund_once_blocked:
  assumes ok: "store_ok (sy_db s)" and blocks: "blocks_refunds ev fee (swaps (sy_db s)) r"
    and run: "refund_once ev ks kb fee s = Some (res, s')"
  shows "(\<exists>e. res = Inl e) \<and> sy_db s' = sy_db s"
  using run
proof (cases rule: refund_once_parts)
  case (listed w s2 s3 rs)
  have ok2: "store_ok (sy_db s2)" using ok listed(1) by simp
  note l = store_run_list_swaps [OF ok2 listed(2)] and d = store_run_list_distinct [OF ok2 listed(2)]
  have "r \<in> set rs" using blocks l(1) listed(1) by (auto simp: blocks_refunds_def ran_def)
  then obtain xs ys where rs: "rs = xs @ r # ys" by (meson split_list)
  have "\<forall>x\<in>set xs. \<not> refundable (ev_tip_height ev w) x"
  proof
    fix x assume x: "x \<in> set xs"
    then have "sr_swap_id x < sr_swap_id r"
      using d(3) by (auto simp: rs sorted_wrt_append)
    moreover have "swaps (sy_db s) (sr_swap_id x) = Some x" using d(2) x listed(1) by (simp add: rs)
    ultimately show "\<not> refundable (ev_tip_height ev w) x" using blocks unfolding blocks_refunds_def by blast
  qed
  from refund_all_stops [OF this _ _ listed(3) [unfolded rs]] blocks l(2) listed(1)
  show ?thesis by (simp add: blocks_refunds_def)
qed auto

text \<open>
  C37. As long as a due swap whose subsidy does not exceed the refund fee comes first in the
  list, the worker refunds nothing at all, however many rounds it makes: each round ends with
  that swap's error before the other swaps are looked at.
\<close>

theorem refund_blocked:
  assumes "store_ok (sy_db s)" and "blocks_refunds ev fee (swaps (sy_db s)) r"
    and "refund_rounds n ev ks kb t fee s = Some (res, s')"
  shows "swaps (sy_db s') = swaps (sy_db s) \<and> quotes (sy_db s') = quotes (sy_db s)"
  using assms
proof (induction n arbitrary: s)
  case (Suc n)
  from Suc.prems(3) obtain x s1 where once: "refund_once ev ks kb fee s = Some (x, s1)"
    and rest: "refund_rounds n ev ks kb t fee (s1\<lparr>sy_world := ev_sleep ev t (sy_world s1)\<rparr>) = Some (res, s')"
    by (auto split: option.splits)
  have "sy_db s1 = sy_db s" using refund_once_blocked [OF Suc.prems(1,2) once] by simp
  then show ?case using Suc.IH [OF _ _ rest] Suc.prems(1,2) by simp
qed simp

definition small_record :: swap_record where
  "small_record = (demo_record Funded)\<lparr>sr_fee_subsidy_sats := 500\<rparr>"

definition later_record :: swap_record where
  "later_record = (demo_record Funded)\<lparr>sr_swap_id := ''s2''\<rparr>"

theorem refund_blocked_witness:
  "\<exists>s s' :: nat sys. \<exists>res. refund_rounds 3 late_env 0 0 60 500 s = Some (res :: unit + unit, s') \<and>
    swaps (sy_db s') = [''s1'' \<mapsto> small_record, ''s2'' \<mapsto> later_record] \<and> refundable 200 later_record \<and>
    500 < sr_fee_subsidy_sats later_record"
proof -
  have st: "swap_storable small_record" "swap_storable later_record"
    by (simp_all add: swap_storable_def small_record_def later_record_def demo_record_def)
  obtain s0 :: "nat sys" where s0: "store_ok (sy_db s0)" "swaps (sy_db s0) = [''s1'' \<mapsto> small_record]"
    using recorded_state [OF st(1)] by (auto simp: small_record_def)
  have id: "sr_swap_id later_record = ''s2''" "sr_swap_id small_record = ''s1''"
    by (simp_all add: later_record_def small_record_def)
  obtain db where "store_ok db" "swaps db = [''s1'' \<mapsto> small_record, ''s2'' \<mapsto> later_record]"
    using insert_swap_ok [OF s0(1), of None later_record] s0(2) st(2) id
    by (auto simp: insert_result_def)
  then have "\<exists>s :: nat sys. store_ok (sy_db s) \<and> swaps (sy_db s) = [''s1'' \<mapsto> small_record, ''s2'' \<mapsto> later_record]"
    by (intro exI [of _ "\<lparr>sy_db = db, sy_world = 0\<rparr>"]) simp
  then obtain s :: "nat sys" where s: "store_ok (sy_db s)" "swaps (sy_db s) = [''s1'' \<mapsto> small_record, ''s2'' \<mapsto> later_record]"
    by blast
  have due: "refundable 200 small_record" "refundable 200 later_record"
    by (simp_all add: refundable_def small_record_def later_record_def)
  have tip: "ev_tip_height late_env w = 200" for w by (simp add: late_env_def)
  have blocks: "blocks_refunds late_env 500 (swaps (sy_db s)) small_record"
  proof -
    have "\<not> ''s2'' < ''s1''" "\<not> ''s1'' < ''s1''" by code_simp+
    then have "k = ''s1'' \<or> k = ''s2'' \<Longrightarrow> \<not> k < sr_swap_id small_record" for k unfolding id by blast
    then have "\<forall>k q w. k < sr_swap_id small_record \<longrightarrow> swaps (sy_db s) k = Some q \<longrightarrow> \<not> refundable (ev_tip_height late_env w) q"
      unfolding s(2) by (metis fun_upd_apply option.distinct(1))
    moreover have "sr_fee_subsidy_sats small_record = 500" by (simp add: small_record_def)
    ultimately show ?thesis unfolding blocks_refunds_def using due s(2) by (simp add: id tip)
  qed
  have "\<exists>r s'. refund_rounds n late_env 0 0 60 500 s = Some (r :: unit + unit, s')" for n :: nat and s :: "nat sys"
  proof (induction n arbitrary: s)
    case (Suc n)
    obtain x s1 where "refund_once late_env 0 0 500 s = Some (x, s1)"
      using returnsD [OF refund_once_returns] by blast
    then show ?case using Suc by simp
  qed simp
  then obtain res :: "unit + unit" and s' where run: "refund_rounds 3 late_env 0 0 60 500 s = Some (res, s')" by blast
  have "500 < sr_fee_subsidy_sats later_record" by (simp add: later_record_def)
  then show ?thesis using refund_blocked [OF s(1) blocks run] run s(2) due(2) by auto
qed

end
