(* ===== verification/Concurrency.thy ===== *)
theory Concurrency
  imports Handler_Facts "HOL-Library.Multiset"
begin

text \<open>
  Handlers and the refund worker run at the same time and share the store through its mutex.
  Here a handler is a task that is run phase by phase: a phase ends where the code lets go of
  the store, that is after the checks that read it or after the write a decision leads to. The
  phases are the parts \<open>Swap_Service\<close> and \<open>Refund_Worker\<close> compose the handlers of, so every
  check and every write is the code's own. Between two phases of one task all others may run,
  and the outside world may change in any way.

  A phase touches the store in one place, its first or its last, and what it does outside before
  a write does not depend on the store: what other tasks do meanwhile is for it a change of the
  outside world. The wallet's mutex, which forbids some of these interleavings, is left out.
\<close>

section \<open>Interleaving\<close>

text \<open>
  A configuration is a state and the tasks that are under way. A new task arrives, a task runs
  its next phase and leaves the tasks that are to follow, a task is given up (a panic, or its
  client goes away), or the outside changes.
\<close>

inductive interleave ::
  "('t \<Rightarrow> bool) \<Rightarrow> ('t \<Rightarrow> 's \<Rightarrow> ('t list \<times> 's) option) \<Rightarrow> ('s \<Rightarrow> 's \<Rightarrow> bool)
     \<Rightarrow> 's \<times> 't multiset \<Rightarrow> 's \<times> 't multiset \<Rightarrow> bool"
  for fresh phase outside where
  arrive: "fresh t \<Longrightarrow> interleave fresh phase outside (s, tasks) (s, add_mset t tasks)"
| advance: "phase t s = Some (rest, s') \<Longrightarrow>
    interleave fresh phase outside (s, add_mset t tasks) (s', mset rest + tasks)"
| give_up: "interleave fresh phase outside (s, add_mset t tasks) (s, tasks)"
| elsewhere: "outside s s' \<Longrightarrow> interleave fresh phase outside (s, tasks) (s', tasks)"

inductive_cases interleaveE: "interleave fresh phase outside x y"

text \<open>
  \<open>decided s t\<close>: what the task \<open>t\<close> goes by is exactly so in the state \<open>s\<close>. \<open>rests s t\<close>: enough
  of it still holds for the rest of the task. The laws say that a phase decides on the state it
  leaves, or hands on what was decided, and that no phase of a task takes away what another
  rests on.
\<close>

locale task_system =
  fixes fresh :: "'t \<Rightarrow> bool" and phase :: "'t \<Rightarrow> 's \<Rightarrow> ('t list \<times> 's) option" and outside :: "'s \<Rightarrow> 's \<Rightarrow> bool"
    and inv' :: "'s \<Rightarrow> bool" and decided :: "'s \<Rightarrow> 't \<Rightarrow> bool" and rests :: "'s \<Rightarrow> 't \<Rightarrow> bool"
  assumes fresh_decided: "fresh t \<Longrightarrow> decided s t"
    and decided_rests: "inv' s \<Longrightarrow> decided s t \<Longrightarrow> rests s t"
    and phase_keeps: "inv' s \<Longrightarrow> rests s t \<Longrightarrow> phase t s = Some (rest, s') \<Longrightarrow> inv' s'"
    and phase_stable: "inv' s \<Longrightarrow> rests s t \<Longrightarrow> phase t s = Some (rest, s') \<Longrightarrow> rests s t' \<Longrightarrow> rests s' t'"
    and phase_decides: "inv' s \<Longrightarrow> rests s t \<Longrightarrow> phase t s = Some (rest, s') \<Longrightarrow> t' \<in> set rest \<Longrightarrow>
      decided s' t' \<or> (\<forall>x. (decided x t \<longrightarrow> decided x t') \<and> (rests x t \<longrightarrow> rests x t'))"
    and outside_keeps: "outside s s' \<Longrightarrow> inv' s \<Longrightarrow> inv' s'"
    and outside_stable: "outside s s' \<Longrightarrow> rests s t \<Longrightarrow> rests s' t"
begin

abbreviation step where "step \<equiv> interleave fresh phase outside"

definition history_ok :: "'s \<times> 't multiset \<Rightarrow> 's \<times> 't multiset \<Rightarrow> bool" where
  "history_ok x y \<longleftrightarrow> inv' (fst y) \<and>
     (\<forall>t\<in>#snd y. rests (fst y) t \<and> (\<exists>z. step\<^sup>*\<^sup>* x z \<and> step\<^sup>*\<^sup>* z y \<and> inv' (fst z) \<and> decided (fst z) t))"

lemma history_step:
  assumes ok: "history_ok x y" and reach: "step\<^sup>*\<^sup>* x y" and last: "step y y'"
  shows "history_ok x y'"
proof -
  have old: "\<exists>z. step\<^sup>*\<^sup>* x z \<and> step\<^sup>*\<^sup>* z y' \<and> inv' (fst z) \<and> decided (fst z) t" if "t \<in># snd y" for t
    using ok that last unfolding history_ok_def by (meson rtranclp.rtrancl_into_rtrancl)
  have now: "step\<^sup>*\<^sup>* x y'" using reach last by (rule rtranclp.rtrancl_into_rtrancl)
  from last show ?thesis
  proof cases
    case (arrive t s tasks)
    have "decided s t" using arrive(3) by (rule fresh_decided)
    moreover have "inv' s" using ok arrive(1) by (simp add: history_ok_def)
    ultimately show ?thesis using ok old now decided_rests arrive unfolding history_ok_def by auto
  next
    case (advance t s rest s' tasks)
    have s: "inv' s" "rests s t" using ok advance(1) by (simp_all add: history_ok_def)
    note inv = phase_keeps [OF s advance(3)] and stable = phase_stable [OF s advance(3)]
    have "rests s' q \<and> (\<exists>z. step\<^sup>*\<^sup>* x z \<and> step\<^sup>*\<^sup>* z y' \<and> inv' (fst z) \<and> decided (fst z) q)" if q: "q \<in> set rest" for q
      using phase_decides [OF s advance(3) q]
    proof
      assume "decided s' q"
      then show ?thesis using now inv decided_rests advance(2) by (intro conjI exI [of _ y']) simp_all
    next
      assume "\<forall>z. (decided z t \<longrightarrow> decided z q) \<and> (rests z t \<longrightarrow> rests z q)"
      then show ?thesis using old [of t] stable [OF s(2)] advance(1) by auto
    qed
    then show ?thesis using ok old inv stable advance unfolding history_ok_def by auto
  next
    case (give_up s t tasks)
    then show ?thesis using ok old unfolding history_ok_def by auto
  next
    case (elsewhere s s' tasks)
    then show ?thesis using ok old outside_keeps outside_stable unfolding history_ok_def by auto
  qed
qed

lemma safe: "step\<^sup>*\<^sup>* (s, {#}) y \<Longrightarrow> inv' s \<Longrightarrow> history_ok (s, {#}) y"
proof (induction rule: rtranclp_induct)
  case (step y z)
  then show ?case using history_step by blast
qed (simp add: history_ok_def)

end

section \<open>The tasks of the service\<close>

text \<open>
  The requests as they arrive, a round of the refund worker, and what is left to do after a
  phase: fund and record a checked request, wait and mark a recorded swap, pay, claim, refund
  the rest of a list.
\<close>

datatype task =
    NewQuote "create_quote_request request"
  | ShowQuote "get_quote_request request"
  | ShowSwap "get_swap_request request"
  | NewSwap "create_swap_request request"
  | NewPayment "create_lightning_payment_request request"
  | NewClaim "create_asset_claim_request request"
  | NewRound
  | Funding create_swap_request swap_plan
  | Confirming swap_record bytes txid u32
  | Paying swap_record u32
  | Claiming swap_record bytes u64
  | Refunding u32 "swap_record list"

fun fresh :: "task \<Rightarrow> bool" where
  "fresh (Funding req plan) = False"
| "fresh (Confirming r spk txid confs) = False"
| "fresh (Paying r secs) = False"
| "fresh (Claiming r preimage fee) = False"
| "fresh (Refunding tip rs) = False"
| "fresh _ = True"

text \<open>A program as a phase: an error ends the task, an answer says what is left.\<close>

definition then_tasks :: "('s, 'e, 'a) run \<Rightarrow> ('a \<Rightarrow> task list) \<Rightarrow> 's \<Rightarrow> (task list \<times> 's) option" where
  "then_tasks m rest s = (case m s of
       None \<Rightarrow> None
     | Some (Inl _, s') \<Rightarrow> Some ([], s')
     | Some (Inr a, s') \<Rightarrow> Some (rest a, s'))"

definition fund_checked :: "'w env \<Rightarrow> swap_service_config \<Rightarrow> create_swap_request \<Rightarrow> swap_plan \<Rightarrow> ('w, swap_record \<times> bytes \<times> txid) handler" where
  "fund_checked ev cfg req plan =
     bind_run (uuid_run ev) (\<lambda>swap_id.
     bind_run (swap_invoice ev req (sp_quote plan) swap_id) (\<lambda>(invoice, payment_hash).
     internal ''create swap: '' (fund_and_record ev cfg plan swap_id invoice payment_hash)))"

fun task_phase :: "'w env \<Rightarrow> swap_service_config \<Rightarrow> u64 \<Rightarrow> task \<Rightarrow> 'w sys \<Rightarrow> (task list \<times> 'w sys) option" where
  "task_phase ev cfg fee (NewQuote request) = then_tasks (create_quote ev cfg request) (\<lambda>_. [])"
| "task_phase ev cfg fee (ShowQuote request) = then_tasks (get_quote_rpc ev cfg request) (\<lambda>_. [])"
| "task_phase ev cfg fee (ShowSwap request) = then_tasks (get_swap_rpc ev cfg request) (\<lambda>_. [])"
| "task_phase ev cfg fee (NewSwap request) = then_tasks (check_create_swap ev cfg request)
     (\<lambda>checked. case checked of Inl swap \<Rightarrow> [] | Inr plan \<Rightarrow> [Funding (rq_message request) plan])"
| "task_phase ev cfg fee (Funding req plan) = then_tasks (fund_checked ev cfg req plan)
     (\<lambda>(r, spk, txid). [Confirming r spk txid (qr_min_funding_confs (sp_quote plan))])"
| "task_phase ev cfg fee (Confirming r spk txid confs) = then_tasks (confirm_funded ev r spk txid confs) (\<lambda>_. [])"
| "task_phase ev cfg fee (NewPayment request) = then_tasks (check_payment ev cfg request)
     (\<lambda>checked. case checked of Inl payment \<Rightarrow> [] | Inr r \<Rightarrow> [Paying r (lp_payment_timeout_secs (rq_message request))])"
| "task_phase ev cfg fee (Paying r secs) = then_tasks (pay_swap ev r secs) (\<lambda>_. [])"
| "task_phase ev cfg fee (NewClaim request) = then_tasks (check_claim ev cfg request)
     (\<lambda>checked. case checked of Inl claim \<Rightarrow> [] | Inr (r, preimage) \<Rightarrow> [Claiming r preimage (claim_fee (rq_message request))])"
| "task_phase ev cfg fee (Claiming r preimage claim_fee_sats) = then_tasks (claim_task ev cfg r preimage claim_fee_sats) (\<lambda>_. [])"
| "task_phase ev cfg fee NewRound = then_tasks (round_records ev) (\<lambda>(tip, rs). [Refunding tip rs])"
| "task_phase ev cfg fee (Refunding tip []) = (\<lambda>s. Some ([], s))"
| "task_phase ev cfg fee (Refunding tip (r # rs)) =
     then_tasks (refund_all ev (cf_seller_key_index cfg) (cf_buyer_key_index cfg) fee tip [r]) (\<lambda>_. [Refunding tip rs])"

definition outside_change :: "'w sys \<Rightarrow> 'w sys \<Rightarrow> bool" where
  "outside_change s s' \<longleftrightarrow> sy_db s' = sy_db s"

abbreviation interleaved where
  "interleaved ev cfg fee \<equiv> interleave fresh (task_phase ev cfg fee) outside_change"

section \<open>A handler is its phases\<close>

lemma then_tasks_Some:
  "then_tasks m rest s = Some (ts, s') \<longleftrightarrow>
     (\<exists>e. m s = Some (Inl e, s') \<and> ts = []) \<or> (\<exists>a. m s = Some (Inr a, s') \<and> ts = rest a)"
  by (auto simp: then_tasks_def split: option.splits sum.splits)

abbreviation runs_to where
  "runs_to ev cfg fee s tasks s' tasks' \<equiv> (interleaved ev cfg fee)\<^sup>*\<^sup>* (s, tasks) (s', tasks')"

lemma runs_trans: "runs_to ev cfg fee s ts s1 ts1 \<Longrightarrow> runs_to ev cfg fee s1 ts1 s2 ts2 \<Longrightarrow> runs_to ev cfg fee s ts s2 ts2"
  by (rule rtranclp_trans)

lemma runs_arrive: "fresh t \<Longrightarrow> runs_to ev cfg fee s tasks s (add_mset t tasks)"
  by (rule r_into_rtranclp) (rule interleave.arrive)

lemma runs_phase:
  "task_phase ev cfg fee t s = Some (rest, s') \<Longrightarrow> runs_to ev cfg fee s (add_mset t tasks) s' (mset rest + tasks)"
  by (rule r_into_rtranclp) (rule interleave.advance)

text \<open>A program that is one phase, with the task gone or with its rest run to the end.\<close>

lemma runs_last:
  assumes "task_phase ev cfg fee t = then_tasks m (\<lambda>_. [])" and "m s = Some (r, s')"
  shows "runs_to ev cfg fee s (add_mset t tasks) s' tasks"
proof -
  have "task_phase ev cfg fee t s = Some ([], s')" using assms by (cases r) (simp_all add: then_tasks_def)
  from runs_phase [OF this] show ?thesis by simp
qed

lemma runs_bind:
  assumes phase: "task_phase ev cfg fee t = then_tasks m rest" and run: "bind_run m f s = Some (r, s')"
    and rest: "\<And>a s1. m s = Some (Inr a, s1) \<Longrightarrow> f a s1 = Some (r, s') \<Longrightarrow> runs_to ev cfg fee s1 (mset (rest a) + tasks) s' tasks"
  shows "runs_to ev cfg fee s (add_mset t tasks) s' tasks"
  using run unfolding bind_run_Some
proof (elim disjE exE conjE)
  fix e assume "m s = Some (Inl e, s')"
  then have "task_phase ev cfg fee t s = Some ([], s')" using phase by (simp add: then_tasks_def)
  from runs_phase [OF this] show ?thesis by simp
next
  fix a s1 assume m: "m s = Some (Inr a, s1)" and f: "f a s1 = Some (r, s')"
  then have "task_phase ev cfg fee t s = Some (rest a, s1)" using phase by (simp add: then_tasks_def)
  from runs_trans [OF runs_phase [OF this] rest [OF m f]] show ?thesis .
qed

lemma create_swap_phases:
  assumes "create_swap ev cfg request s = Some (r, s')"
  shows "runs_to ev cfg fee s (add_mset (NewSwap request) tasks) s' tasks"
proof (rule runs_bind [OF task_phase.simps(4) assms [unfolded create_swap_def]])
  fix checked s1
  assume rest: "(case checked of Inl swap \<Rightarrow> return_run swap
     | Inr plan \<Rightarrow> bind_run (uuid_run ev) (\<lambda>swap_id.
         bind_run (swap_invoice ev (rq_message request) (sp_quote plan) swap_id) (\<lambda>(invoice, payment_hash).
         bind_run (internal ''create swap: '' (create_swap_task ev cfg plan swap_id invoice payment_hash)) (\<lambda>record.
         internal ''encode swap: '' (lift_run (swap_record_to_proto ev record)))))) s1 = Some (r, s')"
  show "runs_to ev cfg fee s1 (mset (case checked of Inl swap \<Rightarrow> [] | Inr plan \<Rightarrow> [Funding (rq_message request) plan]) + tasks) s' tasks"
  proof (cases checked)
    case (Inl swap)
    then show ?thesis using rest by simp
  next
    case (Inr plan)
    let ?n = "qr_min_funding_confs (sp_quote plan)"
    have split: "bind_run (fund_checked ev cfg (rq_message request) plan) (\<lambda>(record, spk, txid).
        bind_run (internal ''create swap: '' (confirm_funded ev record spk txid ?n)) (\<lambda>record.
        internal ''encode swap: '' (lift_run (swap_record_to_proto ev record)))) s1 = Some (r, s')"
      using rest unfolding Inr sum.case fund_checked_def create_swap_task_def
      by (fastforce simp: bind_run_def internal_def map_err_run_def split: option.splits sum.splits prod.splits)
    have "runs_to ev cfg fee s1 (add_mset (Funding (rq_message request) plan) tasks) s' tasks"
    proof (rule runs_bind [OF task_phase.simps(5) split])
      fix a :: "swap_record \<times> bytes \<times> txid" and s2
      obtain "record" spk txid where a: "a = (record, spk, txid)" by (cases a) auto
      assume "(case a of (record, spk, txid) \<Rightarrow> bind_run (internal ''create swap: '' (confirm_funded ev record spk txid ?n)) (\<lambda>record.
        internal ''encode swap: '' (lift_run (swap_record_to_proto ev record)))) s2 = Some (r, s')"
      then obtain x where "confirm_funded ev record spk txid ?n s2 = Some (x, s')"
        by (auto simp: a bind_run_Some internal_Some)
      from runs_last [OF task_phase.simps(6) this]
      show "runs_to ev cfg fee s2 (mset (case a of (r, spk, txid) \<Rightarrow> [Confirming r spk txid ?n]) + tasks) s' tasks"
        by (simp add: a)
    qed
    then show ?thesis by (simp add: Inr)
  qed
qed

lemma create_lightning_payment_phases:
  assumes "create_lightning_payment ev cfg request s = Some (r, s')"
  shows "runs_to ev cfg fee s (add_mset (NewPayment request) tasks) s' tasks"
proof (rule runs_bind [OF task_phase.simps(7) assms [unfolded create_lightning_payment_def]])
  fix checked s1
  assume rest: "(case checked of Inl payment \<Rightarrow> return_run payment
     | Inr record \<Rightarrow> pay_swap ev record (lp_payment_timeout_secs (rq_message request))) s1 = Some (r, s')"
  show "runs_to ev cfg fee s1 (mset (case checked of Inl payment \<Rightarrow> []
      | Inr r \<Rightarrow> [Paying r (lp_payment_timeout_secs (rq_message request))]) + tasks) s' tasks"
  proof (cases checked)
    case (Inr q)
    then have "pay_swap ev q (lp_payment_timeout_secs (rq_message request)) s1 = Some (r, s')" using rest by simp
    from runs_last [OF task_phase.simps(8) this] show ?thesis by (simp add: Inr)
  qed (use rest in simp)
qed

lemma create_asset_claim_phases:
  assumes "create_asset_claim ev cfg request s = Some (r, s')"
  shows "runs_to ev cfg fee s (add_mset (NewClaim request) tasks) s' tasks"
proof (rule runs_bind [OF task_phase.simps(9) assms [unfolded create_asset_claim_def]])
  fix checked s1
  assume rest: "(case checked of Inl claim \<Rightarrow> return_run claim
     | Inr (record, preimage) \<Rightarrow> bind_run (internal ''claim asset: '' (claim_task ev cfg record preimage (claim_fee (rq_message request))))
         (\<lambda>claim_txid. return_run \<lparr>ac_claim_txid = claim_txid\<rparr>)) s1 = Some (r, s')"
  show "runs_to ev cfg fee s1 (mset (case checked of Inl claim \<Rightarrow> []
      | Inr (r, preimage) \<Rightarrow> [Claiming r preimage (claim_fee (rq_message request))]) + tasks) s' tasks"
  proof (cases checked)
    case (Inr x)
    obtain "record" preimage where x: "x = (record, preimage)" by (cases x) auto
    obtain y where "claim_task ev cfg record preimage (claim_fee (rq_message request)) s1 = Some (y, s')"
      using rest by (auto simp: Inr x bind_run_Some internal_Some)
    from runs_last [OF task_phase.simps(10) this] show ?thesis by (simp add: Inr x)
  qed (use rest in simp)
qed

lemma refund_all_first: "refund_all ev ks kb fee tip (r # rs) = bind_run (refund_all ev ks kb fee tip [r]) (\<lambda>_. refund_all ev ks kb fee tip rs)"
  by (rule ext) (auto simp: bind_run_def split: option.split sum.split prod.split)

lemma refund_all_phases:
  "refund_all ev (cf_seller_key_index cfg) (cf_buyer_key_index cfg) fee tip rs s = Some (r, s') \<Longrightarrow>
     runs_to ev cfg fee s (add_mset (Refunding tip rs) tasks) s' tasks"
proof (induction rs arbitrary: s)
  case Nil
  then have "task_phase ev cfg fee (Refunding tip []) s = Some ([], s')" by simp
  from runs_phase [OF this] show ?case by simp
next
  case (Cons q rs)
  show ?case
    by (rule runs_bind [OF task_phase.simps(13) Cons.prems [unfolded refund_all_first [of _ _ _ _ _ q rs]]]) (simp add: Cons.IH)
qed

lemma refund_once_phases:
  assumes "refund_once ev (cf_seller_key_index cfg) (cf_buyer_key_index cfg) fee s = Some (r, s')"
  shows "runs_to ev cfg fee s (add_mset NewRound tasks) s' tasks"
  by (rule runs_bind [OF task_phase.simps(11) assms [unfolded refund_once_def]])
    (auto intro: refund_all_phases split: prod.splits)

text \<open>So a request that is answered in one piece is a run of the machine, whatever else is under way.\<close>

lemma runs_from_arrival:
  assumes "fresh t" and "runs_to ev cfg fee s (add_mset t tasks) s' tasks'"
  shows "runs_to ev cfg fee s tasks s' tasks'"
  by (rule runs_trans [OF runs_arrive [OF assms(1)] assms(2)])

lemma service_step_interleaved:
  assumes "service_step ev cfg fee s s'"
  shows "runs_to ev cfg fee s tasks s' tasks"
  using assms
proof cases
  case (step_create_quote rq r)
  from runs_last [OF task_phase.simps(1) this] show ?thesis by (rule runs_from_arrival [rotated]) simp
next
  case (step_get_quote rq r)
  from runs_last [OF task_phase.simps(2) this] show ?thesis by (rule runs_from_arrival [rotated]) simp
next
  case (step_create_swap rq r)
  from create_swap_phases [OF this] show ?thesis by (rule runs_from_arrival [rotated]) simp
next
  case (step_get_swap rq r)
  from runs_last [OF task_phase.simps(3) this] show ?thesis by (rule runs_from_arrival [rotated]) simp
next
  case (step_pay rq r)
  from create_lightning_payment_phases [OF this] show ?thesis by (rule runs_from_arrival [rotated]) simp
next
  case (step_claim rq r)
  from create_asset_claim_phases [OF this] show ?thesis by (rule runs_from_arrival [rotated]) simp
next
  case (step_refund r)
  from refund_once_phases [OF this] show ?thesis by (rule runs_from_arrival [rotated]) simp
next
  case (step_world w)
  then have "interleaved ev cfg fee (s, tasks) (s', tasks)" by (intro interleave.elsewhere) (simp add: outside_change_def)
  then show ?thesis by (rule r_into_rtranclp)
qed

end
