(* ===== verification/Task_Decisions.thy ===== *)
theory Task_Decisions
  imports Concurrency
begin

text \<open>
  What the tasks of \<open>Concurrency\<close> go by and what their phases write: every pending task took
  its decision on the store as it was, no other task takes away what it needs of it, and a
  phase changes the store only as its task's decision says.
\<close>

section \<open>Decisions\<close>

text \<open>What a task has checked of the records it holds, whatever the store says now.\<close>

fun grounds :: "'w env \<Rightarrow> swap_service_config \<Rightarrow> task \<Rightarrow> bool" where
  "grounds ev cfg (Funding req plan) \<longleftrightarrow> plan_ok ev cfg req plan \<and> qr_swap_id (sp_quote plan) = None"
| "grounds ev cfg (Confirming r spk txid confs) \<longleftrightarrow>
     sr_status r = Created \<and> sr_min_funding_confs r = confs \<and> sr_funding_txid r = ev_txid_to_string ev txid \<and>
     (\<exists>seller buyer spec. swap_terms ev cfg r seller buyer spec \<and>
        spk = ad_script_pubkey (p2wsh_address ev spec (ev_address_params ev)))"
| "grounds ev cfg (Paying r secs) \<longleftrightarrow>
     sr_status r = Funded \<and> (sr_ln_payment_id r = None \<or> sr_ln_preimage_hex r = None)"
| "grounds ev cfg (Claiming r preimage fee) \<longleftrightarrow>
     sr_claim_txid r = None \<and> length preimage = 32 \<and>
     (\<exists>h. sr_ln_preimage_hex r = Some h \<and> ev_hex_decode ev h = Inr preimage)"
| "grounds ev cfg (Refunding tip rs) \<longleftrightarrow> distinct (map sr_swap_id rs)"
| "grounds ev cfg _ \<longleftrightarrow> True"

text \<open>The store has these very records.\<close>

fun as_stored :: "database \<Rightarrow> task \<Rightarrow> bool" where
  "as_stored db (Funding req plan) \<longleftrightarrow> quotes db (cs_quote_id req) = Some (sp_quote plan)"
| "as_stored db (Confirming r spk txid confs) \<longleftrightarrow> stored r db"
| "as_stored db (Paying r secs) \<longleftrightarrow> stored r db"
| "as_stored db (Claiming r preimage fee) \<longleftrightarrow> stored r db"
| "as_stored db (Refunding tip rs) \<longleftrightarrow> (\<forall>r\<in>set rs. stored r db)"
| "as_stored db _ \<longleftrightarrow> True"

text \<open>The store still has the same agreements: status, preimage and claim may have moved on.\<close>

definition agreed :: "swap_record \<Rightarrow> database \<Rightarrow> bool" where
  "agreed r db \<longleftrightarrow> (\<exists>r'. swaps db (sr_swap_id r) = Some r' \<and> same_terms r r')"

fun still_agreed :: "database \<Rightarrow> task \<Rightarrow> bool" where
  "still_agreed db (Funding req plan) \<longleftrightarrow>
     (\<exists>q. quotes db (cs_quote_id req) = Some q \<and> same_quote (sp_quote plan) q)"
| "still_agreed db (Confirming r spk txid confs) \<longleftrightarrow> agreed r db"
| "still_agreed db (Paying r secs) \<longleftrightarrow> agreed r db"
| "still_agreed db (Claiming r preimage fee) \<longleftrightarrow> agreed r db"
| "still_agreed db (Refunding tip rs) \<longleftrightarrow> (\<forall>r\<in>set rs. agreed r db)"
| "still_agreed db _ \<longleftrightarrow> True"

lemma stored_agreed: "stored r db \<Longrightarrow> agreed r db"
  by (auto simp: stored_def agreed_def)

lemma as_stored_agreed: "as_stored db t \<Longrightarrow> still_agreed db t"
  by (cases t) (auto simp: stored_agreed same_quote_def)

lemma agreed_kept:
  assumes "(store_write ev cfg)\<^sup>*\<^sup>* db db'" and "store_ok db" and "agreed r db"
  shows "agreed r db'"
  using assms(3) store_writes_terms [OF assms(1,2)] same_terms_trans unfolding agreed_def by blast

lemma still_agreed_kept:
  assumes "(store_write ev cfg)\<^sup>*\<^sup>* db db'" and "store_ok db" and "still_agreed db t"
  shows "still_agreed db' t"
  using assms(3) agreed_kept [OF assms(1,2)] store_writes_quotes [OF assms(1,2)] same_quote_trans
  by (cases t) (simp_all, blast)

section \<open>What a phase writes\<close>

definition makes_write :: "(write_request \<Rightarrow> bool) \<Rightarrow> ('w sys, 'e, 'a) run \<Rightarrow> bool" where
  "makes_write Q m \<longleftrightarrow> (\<forall>s r s'. m s = Some (r, s') \<longrightarrow> sy_db s' = sy_db s \<or>
     (\<exists>v req res. Q req \<and> exec_write v req (sy_db s) = Some (res, sy_db s')))"

lemma makes_writeD:
  "makes_write Q m \<Longrightarrow> m s = Some (r, s') \<Longrightarrow>
     sy_db s' = sy_db s \<or> (\<exists>v req res. Q req \<and> exec_write v req (sy_db s) = Some (res, sy_db s'))"
  unfolding makes_write_def by blast

named_theorems write_intros \<open>which single write a program makes\<close>

lemma makes_quiet: "(\<And>X. preserves (on_db X) m) \<Longrightarrow> makes_write Q m"
  unfolding makes_write_def using quiet_db by blast

lemma makes_bind:
  assumes quiet: "\<And>X. preserves (on_db X) m"
    and rest: "\<And>a s s1. m s = Some (Inr a, s1) \<Longrightarrow> makes_write Q (f a)"
  shows "makes_write Q (bind_run m f)"
  unfolding makes_write_def bind_run_Some using quiet_db [OF quiet] makes_writeD [OF rest] by metis

lemma makes_done:
  assumes "makes_write Q m" and "\<And>a X. preserves (on_db X) (f a)"
  shows "makes_write Q (bind_run m f)"
  unfolding makes_write_def bind_run_Some using makes_writeD [OF assms(1)] quiet_db [OF assms(2)] by metis

lemma makes_ctx [write_intros]: "makes_write Q m \<Longrightarrow> makes_write Q (ctx c m)"
  unfolding makes_write_def by (auto simp: ctx_Some)

lemma makes_internal [write_intros]: "makes_write Q m \<Longrightarrow> makes_write Q (internal c m)"
  unfolding makes_write_def by (auto simp: internal_Some)

lemma makes_store: "Q req \<Longrightarrow> makes_write Q (store_run ev (\<lambda>v. exec_write v req))"
  unfolding makes_write_def by (auto simp: store_run_Some)

lemmas makes_stores [write_intros] =
  makes_store [where req = "WriteQuote q" for q, unfolded exec_write.simps]
  makes_store [where req = "MarkFunded k" for k, unfolded exec_write.simps]
  makes_store [where req = "WritePayment k pid h" for k pid h, unfolded exec_write.simps]
  makes_store [where req = "WriteClaim k t" for k t, unfolded exec_write.simps]
  makes_store [where req = "MarkRefunded k" for k, unfolded exec_write.simps]

lemma create_quote_makes: "makes_write (\<lambda>req. \<exists>q. req = WriteQuote q \<and> qr_swap_id q = None) (create_quote ev cfg request)"
  unfolding create_quote_def Let_def
  by (intro makes_bind makes_done write_intros preserve_intros) auto

lemma confirm_funded_makes:
  "makes_write (\<lambda>req. req = MarkFunded (sr_swap_id r) \<and> (\<exists>c w w'. confirmed_at ev spk txid c w w' \<and> confs \<le> c))
     (confirm_funded ev r spk txid confs)"
  unfolding confirm_funded_def
proof (rule makes_bind)
  fix n and s s1 :: "'a sys"
  assume "ctx ''wait funding confirmations'' (wait_for_funding_confirmations ev spk txid confs (300 * SECOND)) s = Some (Inr n, s1)"
  then have "wait_confirmations ''get funding tx confirmations'' ''timeout waiting funding confirmations: txid='' ev spk txid confs (300 * SECOND) s =
      Some (Inr n, s1)"
    by (simp add: wait_for_funding_confirmations_def)
  from wait_confirmations_found [OF this] have "\<exists>c w w'. confirmed_at ev spk txid c w w' \<and> confs \<le> c" by blast
  then show "makes_write (\<lambda>req. req = MarkFunded (sr_swap_id r) \<and> (\<exists>c w w'. confirmed_at ev spk txid c w w' \<and> confs \<le> c))
      (mark_funded ev r)"
    unfolding mark_funded_def by (intro makes_done write_intros preserve_intros) simp
qed (intro preserve_intros)

lemma pay_swap_makes:
  "makes_write (\<lambda>req. \<exists>pid h. req = WritePayment (sr_swap_id r) pid h \<and> preimage_for ev r h) (pay_swap ev r secs)"
  unfolding pay_swap_def Let_def
proof (rule makes_bind, rule preserves_internal, rule preserves_pay_invoice,
    rule makes_bind, rule preserves_internal, rule preserves_wait_preimage,
    rule makes_bind, rule preserves_hash_matches)
  fix pid preimage and u :: unit and s1 s1' s2 s2' :: "'a sys"
  assume wait: "internal ''wait preimage: '' (wait_preimage ev pid (payment_timeout secs)) s1 = Some (Inr preimage, s1')"
    and matches: "hash_matches ev r preimage s2 = Some (Inr u, s2')"
  have "length preimage = 32" using wait_preimage_found(1) wait by simp
  then have "preimage_for ev r (ev_hex_encode ev preimage)"
    using hash_matches_Inr [OF matches] unfolding preimage_for_def by blast
  then show "makes_write (\<lambda>req. \<exists>pid h. req = WritePayment (sr_swap_id r) pid h \<and> preimage_for ev r h)
      (bind_run (internal ''persist payment: ''
         (store_run ev (\<lambda>v. upsert_swap_payment v (sr_swap_id r) pid (ev_hex_encode ev preimage) Paid)))
       (\<lambda>_. lift_run (case ev_hex_decode ev (ev_hex_encode ev preimage) of
          Inl _ \<Rightarrow> Inl (Panicked ''hex encoding/decoding of preimage must roundtrip'')
        | Inr bs \<Rightarrow> Inr \<lparr>pay_payment_id = pid, pay_preimage = bs\<rparr>)))"
    by (intro makes_done write_intros preserves_lift) blast
qed

lemma claim_task_makes:
  "makes_write (\<lambda>req. \<exists>txid. req = WriteClaim (sr_swap_id r) txid) (claim_task ev cfg r preimage fee)"
proof -
  have claimed: "makes_write (\<lambda>req. \<exists>txid. req = WriteClaim (sr_swap_id r) txid)
     (bind_run (ctx ''persist claim'' (store_run ev (\<lambda>v. upsert_swap_claim v (sr_swap_id r) txid Claimed)))
        (\<lambda>_. return_run txid'))" for txid txid' :: string
    by (intro makes_done write_intros preserves_return) blast
  show ?thesis
    unfolding claim_task_def Let_def
    by (cases "sr_direction r"; simp; intro makes_bind claimed preserve_intros)
qed

lemma refund_swap_makes: "makes_write (\<lambda>req. req = MarkRefunded (sr_swap_id r)) (refund_swap ev ks kb fee r)"
proof -
  have last: "makes_write (\<lambda>req. req = MarkRefunded (sr_swap_id r)) (\<lambda>st. case broadcast_transaction ev tx st of
         None \<Rightarrow> None
       | Some (Inr _, st') \<Rightarrow>
           ctx c (store_run ev (\<lambda>v. update_swap_status v (sr_swap_id r) Refunded)) st'
       | Some (Inl _, st') \<Rightarrow> Some (Inr (), st'))" for tx c
  proof -
    let ?mark = "ctx c (store_run ev (\<lambda>v. update_swap_status v (sr_swap_id r) Refunded)) :: ('a, unit) io"
    have "makes_write (\<lambda>req. req = MarkRefunded (sr_swap_id r)) ?mark" by (intro write_intros) simp
    then show ?thesis
      using quiet_db [OF preserves_broadcast [of _ ev tx]] unfolding makes_write_def
      by (auto split: option.splits sum.splits) metis
  qed
  show ?thesis
    unfolding refund_swap_def Let_def
    by (cases "sr_direction r"; simp; intro makes_bind last preserve_intros)
qed

section \<open>The funding phase\<close>

text \<open>What funding leaves besides the record: the script its outputs pay to.\<close>

lemma fund_swap_script:
  assumes plan: "plan_ok ev cfg req plan" and hash: "length hash = 32"
    and run: "fund_swap ev cfg plan sid invoice hash s = Some (Inr (r, spk, txid), s')"
  shows "sr_funding_txid r = ev_txid_to_string ev txid \<and>
    (\<exists>seller buyer spec. swap_terms ev cfg r seller buyer spec \<and>
       spk = ad_script_pubkey (p2wsh_address ev spec (ev_address_params ev)))"
  using run plan hash
  by (auto simp: fund_swap_def bind_run_Inr Let_def address_at_def swap_terms_def plan_ok_def split: prod.splits)
    blast

text \<open>The record of a new swap, and the two writes: the swap, then the link of its quote.\<close>

definition new_record :: "'w env \<Rightarrow> swap_service_config \<Rightarrow> quote_record \<Rightarrow> swap_record \<Rightarrow> bool" where
  "new_record ev cfg quote r \<longleftrightarrow> swap_wf ev cfg r \<and> sr_status r = Created \<and> sr_ln_preimage_hex r = None \<and>
     sr_claim_txid r = None \<and> sr_quote_id r = qr_quote_id quote"

definition records_swap :: "'w env \<Rightarrow> swap_service_config \<Rightarrow> quote_record \<Rightarrow> database \<Rightarrow> database \<Rightarrow> bool" where
  "records_swap ev cfg quote db db' \<longleftrightarrow> db' = db \<or>
     (\<exists>r v res db1. new_record ev cfg quote r \<and> exec_write v (WriteSwap r) db = Some (res, db1) \<and>
        (db' = db1 \<or> res = Inr () \<and>
           (\<exists>v' res'. exec_write v' (LinkQuote (qr_quote_id quote) (sr_swap_id r)) db1 = Some (res', db'))))"

lemma fund_and_record_records:
  assumes plan: "plan_ok ev cfg req plan" and hash: "length hash = 32"
    and run: "fund_and_record ev cfg plan sid invoice hash s = Some (x, s')"
  shows "records_swap ev cfg (sp_quote plan) (sy_db s) (sy_db s')"
proof -
  from run obtain y s1 where fund: "fund_swap ev cfg plan sid invoice hash s = Some (y, s1)"
    unfolding fund_and_record_def bind_run_Some by blast
  have db1: "sy_db s1 = sy_db s" by (rule quiet_db [OF preserves_fund_swap fund])
  show ?thesis
  proof (cases y)
    case (Inl e)
    then show ?thesis using run fund db1 by (simp add: fund_and_record_def bind_run_def records_swap_def)
  next
    case (Inr z)
    obtain r spk txid where z: "z = (r, spk, txid)" by (cases z) auto
    note fund = fund [unfolded Inr z]
    have new: "new_record ev cfg (sp_quote plan) r" and id: "sr_swap_id r = sid"
      using fund_swap_record [OF plan hash fund] by (simp_all add: new_record_def)
    let ?insert = "ctx ''persist swap'' (store_run ev (\<lambda>v. insert_swap v r)) :: ('a, unit) io"
      and ?link = "ctx ''link quote to swap'' (store_run ev (\<lambda>v. set_quote_swap_id v (qr_quote_id (sp_quote plan)) sid)) :: ('a, unit) io"
    have rest: "bind_run ?insert (\<lambda>_. bind_run ?link (\<lambda>_. return_run (r, spk, txid))) s1 = Some (x, s')"
      using run fund by (simp add: fund_and_record_def bind_run_def)
    obtain i s2 where i: "?insert s1 = Some (i, s2)"
      using rest by (cases "?insert s1") (auto simp: bind_run_def)
    then obtain v res where ins: "exec_write v (WriteSwap r) (sy_db s) = Some (res, sy_db s2)" and res: "i = Inr () \<Longrightarrow> res = Inr ()"
      by (fastforce simp: ctx_Some store_run_Some db1)
    show ?thesis
    proof (cases i)
      case (Inl e)
      then have "s' = s2" using rest i by (simp add: bind_run_def)
      then show ?thesis using new ins unfolding records_swap_def by blast
    next
      case (Inr u)
      then have "bind_run ?link (\<lambda>_. return_run (r, spk, txid)) s2 = Some (x, s')" using rest i by (simp add: bind_run_def)
      then obtain l where "?link s2 = Some (l, s')" unfolding bind_run_Some by (auto simp del: ctx_Inr)
      then have "\<exists>v' res'. exec_write v' (LinkQuote (qr_quote_id (sp_quote plan)) (sr_swap_id r)) (sy_db s2) = Some (res', sy_db s')"
        by (fastforce simp: ctx_Some store_run_Some id)
      moreover have "res = Inr ()" using res Inr by simp
      ultimately show ?thesis using new ins unfolding records_swap_def by blast
    qed
  qed
qed

lemma fund_checked_parts:
  assumes invoices: "invoices_ok ev" and run: "fund_checked ev cfg req plan s = Some (x, s')"
  obtains (early) e where "x = Inl e" "sy_db s' = sy_db s"
  | (funded) sid invoice hash y s1 where "sy_db s1 = sy_db s" "length hash = 32"
      "fund_and_record ev cfg plan sid invoice hash s1 = Some (y, s')" "\<And>a. x = Inr a \<Longrightarrow> y = Inr a"
proof -
  from run obtain sid s0 where u: "uuid_run ev s = Some (Inr sid, s0)"
    and rest: "bind_run (swap_invoice ev req (sp_quote plan) sid) (\<lambda>(invoice, payment_hash).
       internal ''create swap: '' (fund_and_record ev cfg plan sid invoice payment_hash)) s0 = Some (x, s')"
    unfolding fund_checked_def bind_run_Some by auto
  have db0: "sy_db s0 = sy_db s" using u by auto
  from rest show thesis
  proof (unfold bind_run_Some, elim disjE exE conjE)
    fix e assume "swap_invoice ev req (sp_quote plan) sid s0 = Some (Inl e, s')" and "x = Inl e"
    then show thesis using early quiet_db [OF preserves_swap_invoice] db0 by metis
  next
    fix a :: "string \<times> bytes" and s1
    obtain invoice hash where a: "a = (invoice, hash)" by (cases a) auto
    assume i: "swap_invoice ev req (sp_quote plan) sid s0 = Some (Inr a, s1)"
      and "(case a of (invoice, payment_hash) \<Rightarrow>
         internal ''create swap: '' (fund_and_record ev cfg plan sid invoice payment_hash)) s1 = Some (x, s')"
    then obtain y where f: "fund_and_record ev cfg plan sid invoice hash s1 = Some (y, s')"
      and x: "x = map_err (\<lambda>e. Status Internal (Caused ''create swap: '' e)) y"
      by (auto simp: a internal_Some)
    have "sy_db s1 = sy_db s" using quiet_db [OF preserves_swap_invoice i] db0 by simp
    moreover have "length hash = 32" using swap_invoice_hash [OF invoices i [unfolded a]] by blast
    moreover have "x = Inr b \<Longrightarrow> y = Inr b" for b using x by (cases y) auto
    ultimately show thesis using funded f by blast
  qed
qed

lemma records_swap_writes:
  assumes "records_swap ev cfg quote db db'" and ok: "store_ok db"
  shows "(store_write ev cfg)\<^sup>*\<^sup>* db db'"
  using assms(1) unfolding records_swap_def
proof (elim disjE exE conjE)
  fix r v res db1
  assume new: "new_record ev cfg quote r" and ins: "exec_write v (WriteSwap r) db = Some (res, db1)"
  have first: "store_write ev cfg db db1" using new ins by (intro store_writeI [OF _ ins]) (simp add: new_record_def)
  then show "db' = db1 \<Longrightarrow> ?thesis" by blast
  fix v' res'
  assume "res = Inr ()" and link: "exec_write v' (LinkQuote (qr_quote_id quote) (sr_swap_id r)) db1 = Some (res', db')"
  then have "swaps db1 (sr_swap_id r) = Some r" using insert_swap_ok [OF ok, of v r] ins by auto
  then have "store_write ev cfg db1 db'" using new by (intro store_writeI [OF _ link]) (simp add: new_record_def)
  with first show ?thesis by auto
qed simp

text \<open>What funding changes: one swap that was not there, and the link of one quote.\<close>

lemma records_swap_changes:
  assumes rec: "records_swap ev cfg quote db db'" and ok: "store_ok db"
  shows "(\<forall>k. swaps db' k \<noteq> swaps db k \<longrightarrow>
      swaps db k = None \<and> (\<exists>r. swaps db' k = Some r \<and> new_record ev cfg quote r)) \<and>
    (\<forall>k. quotes db' k \<noteq> quotes db k \<longrightarrow> k = qr_quote_id quote \<and>
      (\<exists>sid. quotes db' k = map_option (\<lambda>q. q\<lparr>qr_swap_id := Some sid\<rparr>) (quotes db k)))"
  using rec unfolding records_swap_def
proof (elim disjE exE conjE)
  fix r v res db1
  assume new: "new_record ev cfg quote r" and ins: "exec_write v (WriteSwap r) db = Some (res, db1)"
  note i = exec_write_effect [OF ok ins]
  show ?thesis if "db' = db1" using i(2) new unfolding that by (auto split: if_splits)
  fix v' res'
  assume link: "exec_write v' (LinkQuote (qr_quote_id quote) (sr_swap_id r)) db1 = Some (res', db')"
  show ?thesis using i(2) exec_write_effect(2) [OF i(1) link] new by (auto split: if_splits)
qed simp

section \<open>The checks\<close>

lemma load_swap_stored:
  assumes ok: "store_ok (sy_db s)" and "load_swap ev cfg request k s = Some (Inr (caller, r), s')"
  shows "stored r (sy_db s')"
  using load_swap_Inr(2) [OF assms(2)] load_swap_Inr(3,4) [OF assms(2) ok] by (simp add: stored_def)

lemma check_payment_Inr:
  assumes ok: "store_ok (sy_db s)" and "check_payment ev cfg request s = Some (Inr (Inr r), s')"
  shows "stored r (sy_db s')" and "grounds ev cfg (Paying r secs)"
proof -
  from assms(2) obtain caller q s1 where load: "load_swap ev cfg request (lp_swap_id (rq_message request)) s = Some (Inr (caller, q), s1)"
    and rest: "(case (sr_ln_payment_id q, sr_ln_preimage_hex q) of
        (Some payment_id, Some preimage_hex) \<Rightarrow>
          bind_run (internal ''decode preimage_hex: '' (lib_run (ev_hex_decode ev preimage_hex))) (\<lambda>preimage.
          return_run (Inl \<lparr>pay_payment_id = payment_id, pay_preimage = preimage\<rparr>))
      | _ \<Rightarrow>
          bind_run (require (sr_status q = Funded) FailedPrecondition ''swap is not funded'') (\<lambda>_.
          return_run (Inr q))) s1 = Some (Inr (Inr r), s')"
    by (auto simp: check_payment_def bind_run_Inr Let_def)
  have "s' = s1 \<and> q = r \<and> grounds ev cfg (Paying r secs)"
    using rest by (cases "sr_ln_payment_id q"; cases "sr_ln_preimage_hex q") (auto simp: bind_run_Inr)
  then show "stored r (sy_db s')" and "grounds ev cfg (Paying r secs)" using load_swap_stored [OF ok load] by auto
qed

lemma check_claim_Inr:
  assumes ok: "store_ok (sy_db s)" and "check_claim ev cfg request s = Some (Inr (Inr (r, preimage)), s')"
  shows "stored r (sy_db s')" and "grounds ev cfg (Claiming r preimage fee)"
proof -
  from assms(2) obtain caller q s1 where load: "load_swap ev cfg request (ac_swap_id (rq_message request)) s = Some (Inr (caller, q), s1)"
    and rest: "(case sr_claim_txid q of
        Some claim_txid \<Rightarrow> return_run (Inl \<lparr>ac_claim_txid = claim_txid\<rparr>)
      | None \<Rightarrow>
          bind_run (lift_run (ok_or (Status FailedPrecondition (Text ''swap has not been paid yet''))
                      (sr_ln_preimage_hex q))) (\<lambda>preimage_hex.
          bind_run (internal ''decode preimage_hex: '' (lib_run (ev_hex_decode ev preimage_hex))) (\<lambda>preimage.
          bind_run (require (length preimage = 32) Internal ''preimage must be 32 bytes'') (\<lambda>_.
          return_run (Inr (q, preimage)))))) s1 = Some (Inr (Inr (r, preimage)), s')"
    by (auto simp: check_claim_def bind_run_Inr Let_def)
  have "s' = s1 \<and> q = r \<and> grounds ev cfg (Claiming r preimage fee)"
    using rest by (cases "sr_claim_txid q") (auto simp: bind_run_Inr lib_run_def)
  then show "stored r (sy_db s')" and "grounds ev cfg (Claiming r preimage fee)" using load_swap_stored [OF ok load] by auto
qed

lemma round_records_Inr:
  fixes ev :: "'w env"
  assumes ok: "store_ok (sy_db s)" and "round_records ev s = Some (Inr (tip, rs), s')"
  shows "sy_db s' = sy_db s" and "distinct (map sr_swap_id rs)" and "\<forall>r\<in>set rs. stored r (sy_db s')"
    and "set rs = ran (swaps (sy_db s))"
proof -
  from assms(2) obtain s1 s2 where sync: "sync ev s = Some (Inr (), s1)"
    and tip: "(tip_height ev :: ('w, u32) io) s1 = Some (Inr tip, s2)" and list: "store_run ev list_swaps s2 = Some (Inr rs, s')"
    by (auto simp: round_records_def bind_run_Inr)
  have quiet: "preserves (on_db X) (sync ev)" "preserves (on_db X) (tip_height ev :: ('w, u32) io)" for X
    by (intro preserve_intros)+
  have db: "sy_db s2 = sy_db s" using quiet_db [OF quiet(1) sync] quiet_db [OF quiet(2) tip] by simp
  have ok2: "store_ok (sy_db s2)" using ok db by simp
  note l = store_run_list_distinct [OF ok2 list] store_run_list_swaps [OF ok2 list]
  show "sy_db s' = sy_db s" "distinct (map sr_swap_id rs)" "\<forall>r\<in>set rs. stored r (sy_db s')" "set rs = ran (swaps (sy_db s))"
    using l db by (simp_all add: stored_def)
qed

section \<open>The phases\<close>

text \<open>The write a phase may end with; only funding makes two (\<open>records_swap\<close>).\<close>

fun phase_write :: "'w env \<Rightarrow> task \<Rightarrow> write_request \<Rightarrow> bool" where
  "phase_write ev (NewQuote request) req \<longleftrightarrow> (\<exists>q. req = WriteQuote q \<and> qr_swap_id q = None)"
| "phase_write ev (Confirming r spk txid confs) req \<longleftrightarrow>
     req = MarkFunded (sr_swap_id r) \<and> (\<exists>c w w'. confirmed_at ev spk txid c w w' \<and> confs \<le> c)"
| "phase_write ev (Paying r secs) req \<longleftrightarrow> (\<exists>pid h. req = WritePayment (sr_swap_id r) pid h \<and> preimage_for ev r h)"
| "phase_write ev (Claiming r preimage fee) req \<longleftrightarrow> (\<exists>txid. req = WriteClaim (sr_swap_id r) txid)"
| "phase_write ev (Refunding tip (r # rs)) req \<longleftrightarrow>
     req = MarkRefunded (sr_swap_id r) \<and> sr_status r \<in> {Created, Funded} \<and> sr_refund_lock_height r \<le> tip"
| "phase_write ev _ req \<longleftrightarrow> False"

lemma then_tasks_db:
  assumes "then_tasks m rest s = Some (ts, s')" and "makes_write Q m"
  shows "sy_db s' = sy_db s \<or> (\<exists>v req res. Q req \<and> exec_write v req (sy_db s) = Some (res, sy_db s'))"
  using assms(1) makes_writeD [OF assms(2)] unfolding then_tasks_Some by blast

lemma refund_first_makes:
  "makes_write (\<lambda>req. req = MarkRefunded (sr_swap_id r) \<and> sr_status r \<in> {Created, Funded} \<and> sr_refund_lock_height r \<le> tip)
     (refund_all ev ks kb fee tip [r])"
proof -
  let ?Q = "\<lambda>req. req = MarkRefunded (sr_swap_id r) \<and> sr_status r \<in> {Created, Funded} \<and> sr_refund_lock_height r \<le> tip"
  have "makes_write ?Q (if refundable tip r then refund_swap ev ks kb fee r else return_run ())"
  proof (cases "refundable tip r")
    case True
    then have "(\<lambda>req. req = MarkRefunded (sr_swap_id r)) = ?Q" by (auto simp: refundable_def fun_eq_iff)
    with refund_swap_makes [of r ev ks kb fee] True show ?thesis by simp
  next
    case False
    then show ?thesis by (simp add: makes_quiet preserves_return)
  qed
  then show ?thesis unfolding refund_all.simps by (rule makes_done) (rule preserves_return)
qed

lemma preserves_check_payment: "preserves (on_db X) (check_payment ev cfg request)"
  unfolding check_payment_def by (intro preserve_intros)

lemma preserves_check_claim: "preserves (on_db X) (check_claim ev cfg request)"
  unfolding check_claim_def by (intro preserve_intros)

lemma preserves_round_records: "preserves (on_db X) (round_records ev)"
  unfolding round_records_def by (intro preserve_intros)

lemma phase_db:
  assumes "task_phase ev cfg fee t s = Some (rest, s')" and "\<nexists>req plan. t = Funding req plan"
  shows "sy_db s' = sy_db s \<or> (\<exists>v req res. phase_write ev t req \<and> exec_write v req (sy_db s) = Some (res, sy_db s'))"
proof (cases t)
  case (NewQuote request)
  from assms(1) [unfolded NewQuote task_phase.simps] show ?thesis unfolding NewQuote phase_write.simps
    by (rule then_tasks_db) (rule create_quote_makes)
next
  case (ShowQuote request)
  from assms(1) [unfolded ShowQuote task_phase.simps] show ?thesis unfolding ShowQuote phase_write.simps
    by (rule then_tasks_db) (rule makes_quiet, rule preserves_get_quote_rpc)
next
  case (ShowSwap request)
  from assms(1) [unfolded ShowSwap task_phase.simps] show ?thesis unfolding ShowSwap phase_write.simps
    by (rule then_tasks_db) (rule makes_quiet, rule preserves_get_swap_rpc)
next
  case (NewSwap request)
  from assms(1) [unfolded NewSwap task_phase.simps] show ?thesis unfolding NewSwap phase_write.simps
    by (rule then_tasks_db) (rule makes_quiet, rule preserves_check_create_swap)
next
  case (NewPayment request)
  from assms(1) [unfolded NewPayment task_phase.simps] show ?thesis unfolding NewPayment phase_write.simps
    by (rule then_tasks_db) (rule makes_quiet, rule preserves_check_payment)
next
  case (NewClaim request)
  from assms(1) [unfolded NewClaim task_phase.simps] show ?thesis unfolding NewClaim phase_write.simps
    by (rule then_tasks_db) (rule makes_quiet, rule preserves_check_claim)
next
  case NewRound
  from assms(1) [unfolded NewRound task_phase.simps] show ?thesis unfolding NewRound phase_write.simps
    by (rule then_tasks_db) (rule makes_quiet, rule preserves_round_records)
next
  case (Confirming r spk txid confs)
  from assms(1) [unfolded Confirming task_phase.simps] show ?thesis unfolding Confirming phase_write.simps
    by (rule then_tasks_db) (rule confirm_funded_makes)
next
  case (Paying r secs)
  from assms(1) [unfolded Paying task_phase.simps] show ?thesis unfolding Paying phase_write.simps
    by (rule then_tasks_db) (rule pay_swap_makes)
next
  case (Claiming r preimage fee)
  from assms(1) [unfolded Claiming task_phase.simps] show ?thesis unfolding Claiming phase_write.simps
    by (rule then_tasks_db) (rule claim_task_makes)
next
  case (Funding req plan)
  with assms(2) show ?thesis by blast
next
  case (Refunding tip rs)
  show ?thesis
  proof (cases rs)
    case Nil
    then show ?thesis using assms(1) Refunding by simp
  next
    case (Cons r rs')
    from assms(1) [unfolded Refunding Cons task_phase.simps] show ?thesis unfolding Refunding Cons phase_write.simps
      by (rule then_tasks_db) (rule refund_first_makes)
  qed
qed

text \<open>With its decision still standing, what a phase writes is a guarded write.\<close>

definition task_rests :: "'w env \<Rightarrow> swap_service_config \<Rightarrow> 'w sys \<Rightarrow> task \<Rightarrow> bool" where
  "task_rests ev cfg s t \<longleftrightarrow> grounds ev cfg t \<and> still_agreed (sy_db s) t"

definition task_decided :: "'w env \<Rightarrow> swap_service_config \<Rightarrow> 'w sys \<Rightarrow> task \<Rightarrow> bool" where
  "task_decided ev cfg s t \<longleftrightarrow> grounds ev cfg t \<and> as_stored (sy_db s) t"

lemma phase_write_guard:
  assumes "phase_write ev t req" and "task_rests ev cfg s t"
  shows "guard ev cfg (sy_db s) req"
  using assms
  by (cases "(ev, t, req)" rule: phase_write.cases)
    (auto simp: task_rests_def agreed_def preimage_for_same dest: same_termsD(3))

lemma funding_phase:
  assumes invoices: "invoices_ok ev" and plan: "plan_ok ev cfg req plan"
    and run: "task_phase ev cfg fee (Funding req plan) s = Some (rest, s')"
  shows "records_swap ev cfg (sp_quote plan) (sy_db s) (sy_db s')"
proof -
  obtain x where "fund_checked ev cfg req plan s = Some (x, s')"
    using run unfolding task_phase.simps then_tasks_Some by blast
  from invoices this show ?thesis
  proof (cases rule: fund_checked_parts)
    case (early e)
    then show ?thesis by (simp add: records_swap_def)
  next
    case (funded sid invoice hash y s1)
    from fund_and_record_records [OF plan funded(2,3)] show ?thesis by (simp add: funded(1))
  qed
qed

lemma phase_writes:
  assumes invoices: "invoices_ok ev" and ok: "store_ok (sy_db s)" and rests: "task_rests ev cfg s t"
    and run: "task_phase ev cfg fee t s = Some (rest, s')"
  shows "(store_write ev cfg)\<^sup>*\<^sup>* (sy_db s) (sy_db s')"
proof (cases "\<exists>req plan. t = Funding req plan")
  case True
  then obtain req plan where t: "t = Funding req plan" by blast
  then have "plan_ok ev cfg req plan" using rests by (simp add: task_rests_def)
  from records_swap_writes [OF funding_phase [OF invoices this run [unfolded t]] ok] show ?thesis .
next
  case False
  from phase_db [OF run False] show ?thesis
  proof (elim disjE exE conjE)
    fix v req res
    assume "phase_write ev t req" and "exec_write v req (sy_db s) = Some (res, sy_db s')"
    then have "store_write ev cfg (sy_db s) (sy_db s')"
      using phase_write_guard [OF _ rests] by (intro store_writeI) blast+
    then show ?thesis by blast
  qed simp
qed

lemma then_tasks_left:
  assumes "then_tasks m rest s = Some (ts, s')" and "t' \<in> set ts"
  obtains a where "m s = Some (Inr a, s')" and "t' \<in> set (rest a)"
  using assms unfolding then_tasks_Some by auto

text \<open>What a phase leaves to be done was decided on the store it leaves, or before it.\<close>

lemma phase_decides:
  assumes invoices: "invoices_ok ev" and ok: "store_ok (sy_db s)" and rests: "task_rests ev cfg s t"
    and run: "task_phase ev cfg fee t s = Some (rest, s')" and left: "t' \<in> set rest"
  shows "task_decided ev cfg s' t' \<or> (\<forall>x. (task_decided ev cfg x t \<longrightarrow> task_decided ev cfg x t') \<and>
    (task_rests ev cfg x t \<longrightarrow> task_rests ev cfg x t'))"
proof (cases t)
  case (NewSwap request)
  with run left obtain plan where check: "check_create_swap ev cfg request s = Some (Inr (Inr plan), s')"
    and t': "t' = Funding (rq_message request) plan"
    by (auto elim!: then_tasks_left split: sum.splits)
  note c = check_create_swap_plan [OF check]
  have "sy_db s' = sy_db s" by (rule quiet_db [OF preserves_check_create_swap check])
  then have "task_decided ev cfg s' t'" using c(2,3,4) ok by (simp add: t' task_decided_def)
  then show ?thesis ..
next
  case (Funding req plan)
  then have plan: "plan_ok ev cfg req plan" using rests by (simp add: task_rests_def)
  from run left Funding obtain r spk txid where x: "fund_checked ev cfg req plan s = Some (Inr (r, spk, txid), s')"
    and t': "t' = Confirming r spk txid (qr_min_funding_confs (sp_quote plan))"
    by (auto simp: then_tasks_Some)
  from invoices x have "task_decided ev cfg s' t'"
  proof (cases rule: fund_checked_parts)
    case (funded sid invoice hash y s1)
    have f: "fund_and_record ev cfg plan sid invoice hash s1 = Some (Inr (r, spk, txid), s')" using funded(3,4) by simp
    have ok1: "store_ok (sy_db s1)" using ok funded(1) by simp
    note done' = fund_and_record_done [OF plan funded(2) ok1 f]
    obtain s2 where fund: "fund_swap ev cfg plan sid invoice hash s1 = Some (Inr (r, spk, txid), s2)" using done'(5) by blast
    note rec = fund_swap_record [OF plan funded(2) fund] and script = fund_swap_script [OF plan funded(2) fund]
    show ?thesis using done'(2) rec(2,4,12) script by (auto simp: t' task_decided_def stored_def)
  qed simp
  then show ?thesis ..
next
  case (NewPayment request)
  with run left obtain r where check: "check_payment ev cfg request s = Some (Inr (Inr r), s')"
    and t': "t' = Paying r (lp_payment_timeout_secs (rq_message request))"
    by (auto elim!: then_tasks_left split: sum.splits)
  from check_payment_Inr [OF ok check] have "task_decided ev cfg s' t'" by (simp add: t' task_decided_def)
  then show ?thesis ..
next
  case (NewClaim request)
  with run left obtain r preimage where check: "check_claim ev cfg request s = Some (Inr (Inr (r, preimage)), s')"
    and t': "t' = Claiming r preimage (claim_fee (rq_message request))"
    by (auto elim!: then_tasks_left split: sum.splits)
  from check_claim_Inr [OF ok check] have "task_decided ev cfg s' t'" by (simp add: t' task_decided_def)
  then show ?thesis ..
next
  case NewRound
  with run left obtain tip rs where list: "round_records ev s = Some (Inr (tip, rs), s')" and t': "t' = Refunding tip rs"
    by (auto simp: then_tasks_Some)
  from round_records_Inr [OF ok list] have "task_decided ev cfg s' t'" by (simp add: t' task_decided_def)
  then show ?thesis ..
next
  case (Refunding tip rs)
  show ?thesis
  proof (cases rs)
    case Nil
    then show ?thesis using run left Refunding by simp
  next
    case (Cons r rs')
    then have "t' = Refunding tip rs'" using run left Refunding by (auto simp: then_tasks_Some simp del: refund_all.simps)
    then show ?thesis using Refunding Cons by (simp add: task_decided_def task_rests_def)
  qed
qed (use run left in \<open>auto simp: then_tasks_Some\<close>)

text \<open>The service is such a system, whatever the libraries answer.\<close>

interpretation tasks: task_system fresh "task_phase ev cfg fee" outside_change
    "\<lambda>s. store_ok (sy_db s) \<and> invoices_ok ev" "task_decided ev cfg" "task_rests ev cfg" for ev cfg fee
proof unfold_locales
  fix t and s :: "'a sys" assume "fresh t"
  then show "task_decided ev cfg s t" by (cases t) (simp_all add: task_decided_def)
next
  fix t and s :: "'a sys" assume "task_decided ev cfg s t"
  then show "task_rests ev cfg s t" by (simp add: task_decided_def task_rests_def as_stored_agreed)
next
  fix s s' :: "'a sys" and t t' rest
  assume inv: "store_ok (sy_db s) \<and> invoices_ok ev" and rests: "task_rests ev cfg s t"
    and run: "task_phase ev cfg fee t s = Some (rest, s')"
  then have ok: "store_ok (sy_db s)" by simp
  note writes = phase_writes [OF conjunct2 [OF inv] ok rests run]
  show "store_ok (sy_db s') \<and> invoices_ok ev" using store_writes_ok [OF writes] inv by blast
  show "task_rests ev cfg s t' \<Longrightarrow> task_rests ev cfg s' t'"
    using still_agreed_kept [OF writes ok] by (simp add: task_rests_def)
  show "t' \<in> set rest \<Longrightarrow> task_decided ev cfg s' t' \<or> (\<forall>x. (task_decided ev cfg x t \<longrightarrow> task_decided ev cfg x t') \<and>
    (task_rests ev cfg x t \<longrightarrow> task_rests ev cfg x t'))"
    by (rule phase_decides [OF conjunct2 [OF inv] ok rests run])
qed (simp_all add: outside_change_def task_rests_def)

section \<open>What a phase changes\<close>

text \<open>
  The only ways a task changes a swap, and a quote: \<open>old\<close> is what the store had under the key
  \<open>k\<close> right before, \<open>new\<close> what it has right after.
\<close>

fun swap_change :: "'w env \<Rightarrow> task \<Rightarrow> string \<Rightarrow> swap_record option \<Rightarrow> swap_record option \<Rightarrow> bool" where
  "swap_change ev (Funding req plan) k old new \<longleftrightarrow>
     old = None \<and> (\<exists>r. new = Some r \<and> sr_status r = Created \<and> sr_quote_id r = qr_quote_id (sp_quote plan))"
| "swap_change ev (Confirming r spk txid confs) k old new \<longleftrightarrow>
     k = sr_swap_id r \<and> (\<exists>c w w'. confirmed_at ev spk txid c w w' \<and> confs \<le> c) \<and>
     new = map_option (\<lambda>q. q\<lparr>sr_status := Funded\<rparr>) old"
| "swap_change ev (Paying r secs) k old new \<longleftrightarrow>
     k = sr_swap_id r \<and> (\<exists>pid h. preimage_for ev r h \<and>
       new = map_option (\<lambda>q. q\<lparr>sr_ln_payment_id := Some pid, sr_ln_preimage_hex := Some h, sr_status := Paid\<rparr>) old)"
| "swap_change ev (Claiming r preimage fee) k old new \<longleftrightarrow>
     k = sr_swap_id r \<and> (\<exists>txid. new = map_option (\<lambda>q. q\<lparr>sr_claim_txid := Some txid, sr_status := Claimed\<rparr>) old)"
| "swap_change ev (Refunding tip rs) k old new \<longleftrightarrow>
     (\<exists>r rs'. rs = r # rs' \<and> k = sr_swap_id r \<and> sr_status r \<in> {Created, Funded} \<and> sr_refund_lock_height r \<le> tip) \<and>
     new = map_option (\<lambda>q. q\<lparr>sr_status := Refunded\<rparr>) old"
| "swap_change ev _ k old new \<longleftrightarrow> False"

fun quote_change :: "task \<Rightarrow> string \<Rightarrow> quote_record option \<Rightarrow> quote_record option \<Rightarrow> bool" where
  "quote_change (NewQuote request) k old new \<longleftrightarrow> old = None \<and> (\<exists>q. new = Some q \<and> qr_swap_id q = None)"
| "quote_change (Funding req plan) k old new \<longleftrightarrow>
     k = qr_quote_id (sp_quote plan) \<and> (\<exists>sid. new = map_option (\<lambda>q. q\<lparr>qr_swap_id := Some sid\<rparr>) old)"
| "quote_change _ k old new \<longleftrightarrow> False"

lemma phase_write_changes:
  assumes "phase_write ev t req" and "write_effect req db db'"
  shows "swaps db' k \<noteq> swaps db k \<Longrightarrow> swap_change ev t k (swaps db k) (swaps db' k)"
    and "quotes db' k \<noteq> quotes db k \<Longrightarrow> quote_change t k (quotes db k) (quotes db' k)"
  using assms by (cases "(ev, t, req)" rule: phase_write.cases; auto split: if_splits)+

lemma phase_changes:
  assumes invoices: "invoices_ok ev" and ok: "store_ok (sy_db s)" and rests: "task_rests ev cfg s t"
    and run: "task_phase ev cfg fee t s = Some (rest, s')"
  shows "swaps (sy_db s') k \<noteq> swaps (sy_db s) k \<Longrightarrow> swap_change ev t k (swaps (sy_db s) k) (swaps (sy_db s') k)"
    and "quotes (sy_db s') k \<noteq> quotes (sy_db s) k \<Longrightarrow> quote_change t k (quotes (sy_db s) k) (quotes (sy_db s') k)"
proof -
  have "(swaps (sy_db s') k \<noteq> swaps (sy_db s) k \<longrightarrow> swap_change ev t k (swaps (sy_db s) k) (swaps (sy_db s') k)) \<and>
    (quotes (sy_db s') k \<noteq> quotes (sy_db s) k \<longrightarrow> quote_change t k (quotes (sy_db s) k) (quotes (sy_db s') k))"
  proof (cases "\<exists>req plan. t = Funding req plan")
    case True
    then obtain req plan where t: "t = Funding req plan" by blast
    then have "plan_ok ev cfg req plan" using rests by (simp add: task_rests_def)
    from records_swap_changes [OF funding_phase [OF invoices this run [unfolded t]] ok]
    show ?thesis by (auto simp: t new_record_def)
  next
    case False
    from phase_db [OF run False] show ?thesis
    proof (elim disjE exE conjE)
      fix v req res assume q: "phase_write ev t req" and e: "exec_write v req (sy_db s) = Some (res, sy_db s')"
      from exec_write_effect(2) [OF ok e] show ?thesis using phase_write_changes [OF q] by auto
    qed simp
  qed
  then show "swaps (sy_db s') k \<noteq> swaps (sy_db s) k \<Longrightarrow> swap_change ev t k (swaps (sy_db s) k) (swaps (sy_db s') k)"
    and "quotes (sy_db s') k \<noteq> quotes (sy_db s) k \<Longrightarrow> quote_change t k (quotes (sy_db s) k) (quotes (sy_db s') k)"
    by blast+
qed

text \<open>A step of the machine that changes the store is a phase of a pending task.\<close>

lemma interleaved_changes:
  assumes invoices: "invoices_ok ev" and ok: "store_ok (sy_db s)" and rests: "\<forall>t\<in>#tasks. task_rests ev cfg s t"
    and step: "interleaved ev cfg fee (s, tasks) (s', tasks')"
  shows "swaps (sy_db s') k \<noteq> swaps (sy_db s) k \<Longrightarrow>
      \<exists>t\<in>#tasks. swap_change ev t k (swaps (sy_db s) k) (swaps (sy_db s') k)"
    and "quotes (sy_db s') k \<noteq> quotes (sy_db s) k \<Longrightarrow>
      \<exists>t\<in>#tasks. quote_change t k (quotes (sy_db s) k) (quotes (sy_db s') k)"
proof -
  have "sy_db s' = sy_db s \<or> (\<exists>t rest. t \<in># tasks \<and> task_phase ev cfg fee t s = Some (rest, s'))"
    using step by (cases rule: interleave.cases) (auto simp: outside_change_def)
  then show "swaps (sy_db s') k \<noteq> swaps (sy_db s) k \<Longrightarrow>
      \<exists>t\<in>#tasks. swap_change ev t k (swaps (sy_db s) k) (swaps (sy_db s') k)"
    and "quotes (sy_db s') k \<noteq> quotes (sy_db s) k \<Longrightarrow>
      \<exists>t\<in>#tasks. quote_change t k (quotes (sy_db s) k) (quotes (sy_db s') k)"
    using phase_changes [OF invoices ok] rests by metis+
qed

lemma interleaved_history:
  assumes "invoices_ok ev" and "store_ok (sy_db s)" and "runs_to ev cfg fee s {#} s' tasks"
  shows "store_ok (sy_db s')" and "\<And>t. t \<in># tasks \<Longrightarrow> task_rests ev cfg s' t"
    and "\<And>t. t \<in># tasks \<Longrightarrow> \<exists>s1 ts1. runs_to ev cfg fee s {#} s1 ts1 \<and> runs_to ev cfg fee s1 ts1 s' tasks \<and>
      task_decided ev cfg s1 t"
proof -
  have h: "tasks.history_ok ev cfg fee (s, {#}) (s', tasks)" using assms by (intro tasks.safe) simp_all
  then show "store_ok (sy_db s')" and "\<And>t. t \<in># tasks \<Longrightarrow> task_rests ev cfg s' t"
    unfolding tasks.history_ok_def by simp_all
  show "\<exists>s1 ts1. runs_to ev cfg fee s {#} s1 ts1 \<and> runs_to ev cfg fee s1 ts1 s' tasks \<and> task_decided ev cfg s1 t"
    if "t \<in># tasks" for t
    using h that unfolding tasks.history_ok_def by fastforce
qed

text \<open>All it writes are guarded writes.\<close>

lemma interleaved_writes:
  assumes invoices: "invoices_ok ev" and ok: "store_ok (sy_db s)" and run: "runs_to ev cfg fee s {#} s' tasks"
  shows "(store_write ev cfg)\<^sup>*\<^sup>* (sy_db s) (sy_db s')"
proof -
  have "(store_write ev cfg)\<^sup>*\<^sup>* (sy_db s) (sy_db (fst y))" if "(interleaved ev cfg fee)\<^sup>*\<^sup>* (s, {#}) y" for y
    using that
  proof (induction rule: rtranclp_induct)
    case (step y z)
    obtain s1 ts where y: "y = (s1, ts)" by (cases y)
    note h = interleaved_history [OF invoices ok step.hyps(1) [unfolded y]]
    have "(store_write ev cfg)\<^sup>*\<^sup>* (sy_db s1) (sy_db (fst z))"
      using step.hyps(2) unfolding y
    proof cases
      case (advance t rest s2 tasks)
      then show ?thesis using phase_writes [OF invoices h(1) h(2)] by auto
    qed (auto simp: outside_change_def)
    then show ?case using step.IH by (simp add: y)
  qed simp
  from this [OF run] show ?thesis by simp
qed

end
