(* ===== verification/Demo_Race.thy ===== *)
theory Demo_Race
  imports Demo_Runs Task_Decisions
begin

text \<open>
  A concrete run of \<open>Concurrency\<close>: a buyer's swap is funded and recorded, the chain passes its
  refund height while the task still waits for confirmations, and a round of the refund worker
  comes in between. The world of this environment is 0 before that and anything else after.
\<close>

definition race_env :: "nat env" where
  "race_env = demo_env\<lparr>ev_tip_height := (\<lambda>w. if w = 0 then 10 else 200)\<rparr>"

lemma race_env_fields:
  "ev_full_scan race_env = (\<lambda>w. (Inr (), w))" "ev_sql race_env = (\<lambda>w. (None, w))"
  "ev_tip_height race_env = (\<lambda>w. if w = 0 then 10 else 200)" "ev_scripts_history race_env = ev_scripts_history demo_env"
  by (simp_all add: race_env_def demo_env_def)

lemma late_env_fields:
  "ev_full_scan late_env = (\<lambda>w. (Inr (), w))" "ev_sql late_env = (\<lambda>w. (None, w))" "ev_tip_height late_env = (\<lambda>w. 200)"
  by (simp_all add: late_env_def demo_env_def)

lemma race_libraries: "libraries_ok race_env"
proof -
  have "codecs_ok race_env = codecs_ok demo_env" "keys_ok race_env = keys_ok demo_env"
    "addresses_ok race_env = addresses_ok demo_env"
    by (simp_all add: codecs_ok_def keys_ok_def addresses_ok_def race_env_def)
  then show ?thesis using demo_libraries by (simp add: libraries_ok_def) (simp add: race_env_def)
qed

lemma race_invoices: "invoices_ok race_env"
  using demo_invoices by (simp add: invoices_ok_def race_env_def)

text \<open>What does not look at the tip runs as in the environment it is made from.\<close>

lemma race_store: "store_run race_env = store_run demo_env"
  by (simp add: fun_eq_iff store_run_def race_env_def)

lemma race_store_late: "store_run race_env = store_run late_env"
  by (simp add: fun_eq_iff store_run_def race_env_def late_env_def)

lemma race_buyer: "require_buyer race_env cfg request = require_buyer demo_env cfg request"
  by (simp add: require_buyer_def require_authenticated_def authorization_bearer_token_def race_env_def)

lemma race_unused: "check_unused_quote race_env cfg req quote = check_unused_quote demo_env cfg req quote"
  by (simp add: check_unused_quote_def offer_id_def current_offer_def race_env_def)

lemma race_existing: "existing_swap race_env sid = existing_swap demo_env sid"
  by (simp add: existing_swap_def race_store swap_record_to_proto_def) (simp add: race_env_def)

lemma race_check: "check_create_swap race_env cfg request = check_create_swap demo_env cfg request"
  unfolding check_create_swap_def race_buyer race_unused race_existing race_store by (rule refl)

lemma race_invoice: "swap_invoice race_env = swap_invoice demo_env"
  by (intro ext) (simp add: swap_invoice_def create_invoice_def payment_hash_from_bolt11_def parse_bolt11_def
      amount_msat_from_bolt11_def is_expired_bolt11_def race_env_def split: swap_direction.split)

lemma race_fund:
  assumes "sy_world s = 0"
  shows "fund_swap race_env demo_cfg demo_plan ''s1'' ''lnbc1'' (replicate 32 7) s =
     Some (Inr (demo_record Created, [0, 0x20], [1]), s)"
proof -
  have build: "build_and_broadcast_funding race_env = build_and_broadcast_funding demo_env"
    by (intro ext) (simp add: build_and_broadcast_funding_def sync_def race_env_def)
  have env: "ev_wallet_address race_env = (\<lambda>w i. Inr (demo_wallet_address ''el1demo''))"
    "ev_script race_env = bytes_script_lib" "ev_hex_encode race_env = demo_text"
    "ev_asset_to_string race_env = demo_text" "ev_txid_to_string race_env = demo_text"
    "p2wsh_address race_env spec x = \<lparr>ad_params = x, ad_script_pubkey = [0, 0x20], ad_string = ''el1htlc''\<rparr>"
    "p2wsh_address demo_env spec x = \<lparr>ad_params = x, ad_script_pubkey = [0, 0x20], ad_string = ''el1htlc''\<rparr>" for spec x
    by (simp_all add: race_env_def demo_env_def p2wsh_address_def)
  have height: "saturating_add 10 144 = (154 :: u32)" by (simp add: saturating_add_def)
  have spec: "swap_htlc LnToLiquid (replicate 32 7) (replicate 20 2) (replicate 20 2) 154 = swap_spec"
    by (simp add: swap_htlc_def swap_spec_def demo_spec_def)
  show ?thesis
    using assms demo_broadcast_funding [of swap_spec "ev_address_params race_env" s]
    by (simp add: fund_swap_def sync_def tip_height_def address_at_def run_defs env race_env_fields build demo_plan_def demo_quote_fields
        demo_address_hash height spec demo_quote_storable demo_record_def)
      (simp add: demo_wallet_address_def)
qed

lemma race_refund_all: "refund_all race_env ks kb fee tip rs = refund_all late_env ks kb fee tip rs"
proof (induction rs)
  case (Cons r rs)
  have "refund_swap race_env ks kb fee r = refund_swap late_env ks kb fee r"
    unfolding refund_swap_def race_store_late
    by (simp add: address_at_def derive_secret_key_def broadcast_transaction_def) (simp add: race_env_def late_env_def)
  then show ?case using Cons by simp
qed simp

lemma race_round:
  assumes "sy_world s \<noteq> 0"
  shows "round_records race_env s = round_records late_env s"
  using assms unfolding round_records_def race_store_late
  by (simp add: sync_def tip_height_def bind_run_def ctx_def map_err_run_def race_env_fields late_env_fields)

section \<open>The run\<close>

lemma race_start:
  fixes s :: "nat sys"
  assumes ok: "store_ok (sy_db s)" and world: "sy_world s = 0"
    and q: "quotes (sy_db s) ''s1'' = Some demo_quote" and none: "swaps (sy_db s) ''s1'' = None"
  obtains s' where "runs_to race_env demo_cfg 500 s {#} s' {#Confirming (demo_record Created) [0, 0x20] [1] 1#}"
    and "swaps (sy_db s') = (swaps (sy_db s))(''s1'' \<mapsto> demo_record Created)"
proof -
  have id: "sr_swap_id (demo_record st) = ''s1''" "swap_storable (demo_record st)" for st
    by (simp_all add: demo_record_def swap_storable_def)
  obtain db1 where d1: "insert_swap None (demo_record Created) (sy_db s) = Some (Inr (), db1)" "store_ok db1"
    "quotes db1 = quotes (sy_db s)" "swaps db1 = (swaps (sy_db s))(''s1'' \<mapsto> demo_record Created)"
    using insert_swap_ok [OF ok, of None "demo_record Created"] none by (auto simp: id insert_result_def)
  obtain db2 where d2: "set_quote_swap_id None ''s1'' ''s1'' db1 = Some (Inr (), db2)" "swaps db2 = swaps db1"
    using set_quote_swap_id_ok [OF d1(2), of None "''s1''" "''s1''"] q d1(3) by (auto simp: update_result_def)
  have invoice: "swap_invoice demo_env (rq_message demo_swap_request) demo_quote ''s1'' s = Some (Inr (''lnbc1'', replicate 32 7), s)"
    by (simp add: swap_invoice_def create_invoice_def payment_hash_from_bolt11_def parse_bolt11_def run_defs demo_quote_fields
        demo_swap_request_def demo_request_def)
      (simp add: demo_env_def demo_invoice_def)
  have uuid: "ev_uuid race_env = (\<lambda>w. (''s1'', w))"
    by (simp add: race_env_def) (simp add: demo_env_def)
  have plan: "sp_quote demo_plan = demo_quote" "qr_quote_id demo_quote = ''s1''"
    by (simp_all add: demo_plan_def demo_quote_storable)
  have "fund_checked race_env demo_cfg (rq_message demo_swap_request) demo_plan s =
      Some (Inr (demo_record Created, [0, 0x20], [1]), \<lparr>sy_db = db2, sy_world = sy_world s\<rparr>)"
    by (simp add: fund_checked_def fund_and_record_def bind_run_def uuid plan race_invoice invoice race_fund [OF world]
        race_store ctx_def internal_def map_err_run_def store_run_def split_beta Let_def demo_sql d1(1) d2(1)
        lift_run_def return_run_def)
  then have fund: "task_phase race_env demo_cfg 500 (Funding (rq_message demo_swap_request) demo_plan) s =
      Some ([Confirming (demo_record Created) [0, 0x20] [1] 1], \<lparr>sy_db = db2, sy_world = sy_world s\<rparr>)"
    by (simp add: then_tasks_def plan demo_quote_fields)
  have "task_phase race_env demo_cfg 500 (NewSwap demo_swap_request) s = Some ([Funding (rq_message demo_swap_request) demo_plan], s)"
    by (simp add: then_tasks_def race_check demo_check [OF ok q])
  from runs_phase [OF this, of "{#}"] have "runs_to race_env demo_cfg 500 s {#NewSwap demo_swap_request#} s
      {#Funding (rq_message demo_swap_request) demo_plan#}" by simp
  also from runs_phase [OF fund, of "{#}"]
  have "runs_to race_env demo_cfg 500 s {#Funding (rq_message demo_swap_request) demo_plan#}
      \<lparr>sy_db = db2, sy_world = sy_world s\<rparr> {#Confirming (demo_record Created) [0, 0x20] [1] 1#}" by simp
  finally have "runs_to race_env demo_cfg 500 s {#} \<lparr>sy_db = db2, sy_world = sy_world s\<rparr> {#Confirming (demo_record Created) [0, 0x20] [1] 1#}"
    by (rule runs_from_arrival [rotated]) simp
  then show thesis using that d2(2) d1(4) by simp
qed

lemma race_refund:
  fixes s :: "nat sys"
  assumes ok: "store_ok (sy_db s)" and r: "swaps (sy_db s) = [''s1'' \<mapsto> demo_record Created]" and world: "sy_world s \<noteq> 0"
  obtains s1 s2 where "round_records race_env s = Some (Inr (200, [demo_record Created]), s1)"
    and "refund_once race_env 0 0 500 s = Some (Inr (), s2)" and "swaps (sy_db s2) = [''s1'' \<mapsto> demo_record Refunded]"
proof -
  have id: "sr_swap_id (demo_record Created) = ''s1''" by (simp add: demo_record_def)
  have list: "round_records late_env s = Some (Inr (200, [demo_record Created]), s)"
    by (simp add: round_records_def sync_def tip_height_def bind_run_def ctx_def map_err_run_def store_run_def split_beta Let_def late_env_fields
        demo_list [OF ok r id])
  obtain s2 where s2: "refund_once late_env 0 0 500 s = Some (Inr (), s2)" "swaps (sy_db s2) = [''s1'' \<mapsto> demo_record Refunded]"
    using demo_refund [OF ok r] by auto
  have "refund_once race_env 0 0 500 s = refund_once late_env 0 0 500 s"
    by (simp add: refund_once_def bind_run_def race_round [OF world] race_refund_all)
  then show thesis using that list s2 race_round [OF world] by simp
qed

lemma race_wait:
  fixes s :: "nat sys"
  assumes "sy_world s \<noteq> 0"
  shows "wait_for_funding_confirmations race_env [0, 0x20] [1] 1 t s = Some (Inr 196, s)"
proof -
  have "try_confirmations what race_env [0, 0x20] [1] 1 s = Some (Inr (Some 196), s)" for what
    using assms by (simp add: try_confirmations_def tx_confirmations_for_script_def confirmations_def sync_def tip_height_def
        run_defs race_env_fields) (simp add: demo_env_def)
  then show ?thesis
    by (simp add: wait_for_funding_confirmations_def wait_confirmations_def run_defs poll_loop_step(2))
qed

end
