(* ===== verification/System_Properties.thy ===== *)
theory System_Properties
  imports Create_Properties Refund_Properties Demo_Race
begin

text \<open>
  The service as a whole: what every sequence of requests, refund rounds and outside events
  keeps, what they keep and can break when they interleave, and that every call returns.
\<close>

section \<open>Every reachable state\<close>

text \<open>
  C1. The invariant of the store is kept by every sequence of answered requests, refund rounds
  and changes of the outside world, whatever each of them returns: every table holds exactly
  readable records, every quote linked to a swap is linked to its own swap, and every swap is
  well formed: its script is the HTLC of its own terms and a preimage on record opens its hash.
\<close>

theorem service_keeps_invariant:
  assumes "invoices_ok ev" and "service_inv ev cfg (sy_db s)" and "(service_step ev cfg fee)\<^sup>*\<^sup>* s s'"
  shows "service_inv ev cfg (sy_db s')"
  using store_writes_inv [OF service_steps_writes [OF assms(1,3)]] assms(2) by (simp add: service_inv_def)

lemma new_swap_step:
  obtains s s' :: "nat sys" where "service_inv demo_env demo_cfg (sy_db s)" and "swaps (sy_db s) = Map.empty"
    and "quotes (sy_db s) ''s1'' = Some demo_quote" and "(service_step demo_env demo_cfg 500)\<^sup>*\<^sup>* s s'"
    and "swaps (sy_db s') = [''s1'' \<mapsto> demo_record Funded]"
proof -
  obtain s :: "nat sys" where s: "store_ok (sy_db s)" "quotes (sy_db s) = [''s1'' \<mapsto> demo_quote]" "swaps (sy_db s) = Map.empty"
    using quoted_state by blast
  then obtain swap s' where run: "create_swap demo_env demo_cfg demo_swap_request s = Some (Inr swap, s')"
    and "swaps (sy_db s') = [''s1'' \<mapsto> demo_record Funded]"
    using demo_create_swap [of s] by auto
  moreover have "service_inv demo_env demo_cfg (sy_db s)"
    using s by (auto simp: service_inv_def quotes_linked_def demo_quote_fields)
  moreover have "(service_step demo_env demo_cfg 500)\<^sup>*\<^sup>* s s'" using step_create_swap [OF run] by blast
  ultimately show thesis using that [of s s'] s by simp
qed

theorem service_keeps_invariant_witness:
  "\<exists>s s'. (service_step demo_env demo_cfg 500)\<^sup>*\<^sup>* s s' \<and> swaps (sy_db s) = Map.empty \<and> swaps (sy_db s') = [''s1'' \<mapsto> demo_record Funded] \<and>
     service_inv demo_env demo_cfg (sy_db s')"
proof -
  obtain s s' :: "nat sys" where s: "service_inv demo_env demo_cfg (sy_db s)" "swaps (sy_db s) = Map.empty"
    "(service_step demo_env demo_cfg 500)\<^sup>*\<^sup>* s s'" "swaps (sy_db s') = [''s1'' \<mapsto> demo_record Funded]"
    by (rule new_swap_step)
  show ?thesis using service_keeps_invariant [OF demo_invoices s(1,3)] s(2-4) by (intro exI [of _ s] exI [of _ s']) simp
qed

text \<open>
  C10. No such sequence ever forgets or rewrites an agreement: a quote keeps every field, and
  its swap once it has one; a swap keeps all its terms, and a preimage or claim once on record.
\<close>

theorem agreements_never_change:
  assumes "invoices_ok ev" and "store_ok (sy_db s)" and "(service_step ev cfg fee)\<^sup>*\<^sup>* s s'"
  shows "(\<forall>k r. swaps (sy_db s) k = Some r \<longrightarrow> (\<exists>r'. swaps (sy_db s') k = Some r' \<and> same_terms r r')) \<and>
    (\<forall>k q. quotes (sy_db s) k = Some q \<longrightarrow> (\<exists>q'. quotes (sy_db s') k = Some q' \<and> same_quote q q'))"
  using store_writes_terms [OF service_steps_writes [OF assms(1,3,2)] assms(2)]
    store_writes_quotes [OF service_steps_writes [OF assms(1,3,2)] assms(2)] by blast

theorem agreements_never_change_witness:
  "\<exists>s s' q. (service_step demo_env demo_cfg 500)\<^sup>*\<^sup>* s s' \<and> quotes (sy_db s) ''s1'' = Some demo_quote \<and> quotes (sy_db s') ''s1'' = Some q \<and> same_quote demo_quote q \<and>
     swaps (sy_db s') = [''s1'' \<mapsto> demo_record Funded]"
proof -
  obtain s s' :: "nat sys" where s: "service_inv demo_env demo_cfg (sy_db s)" "swaps (sy_db s) = Map.empty"
    "quotes (sy_db s) ''s1'' = Some demo_quote" "(service_step demo_env demo_cfg 500)\<^sup>*\<^sup>* s s'"
    "swaps (sy_db s') = [''s1'' \<mapsto> demo_record Funded]"
    by (rule new_swap_step)
  then have "store_ok (sy_db s)" by (simp add: service_inv_def)
  from agreements_never_change [OF demo_invoices this s(4)] s(3) obtain q
    where "quotes (sy_db s') ''s1'' = Some q" "same_quote demo_quote q" by blast
  then show ?thesis using s(3-5) by (intro exI [of _ s] exI [of _ s'] exI [of _ q]) simp
qed

section \<open>Tasks side by side\<close>

text \<open>
  C8. The same when handlers and refund rounds run at the same time and their phases interleave
  in any order. The invariant holds throughout. Every pending task acts on records that passed
  its handler's checks and that the store had, just so, at an earlier moment of this run: a
  quote without a swap to fund; a Created swap, with the script and the transaction it waits
  for; a Funded swap that is not paid yet; a preimage on record and no claim; a list that has
  each swap once. The store still has these agreements, though their status may have moved on.
  And whatever changes next is done by such a task: it adds a Created swap for a checked quote
  and links that quote; or it marks Funded the swap whose script shows enough confirmations of
  its transaction; or Paid, with a preimage of its hash, the swap it found Funded; or Claimed
  the swap whose preimage it found; or Refunded a swap that was Created or Funded and due at
  the tip when it was listed; or it adds a new quote.
\<close>

theorem concurrent_tasks_safe:
  assumes "invoices_ok ev" and "service_inv ev cfg (sy_db s0)"
    and "(interleaved ev cfg fee)\<^sup>*\<^sup>* (s0, {#}) (s, tasks)"
  shows "service_inv ev cfg (sy_db s) \<and>
    (\<forall>t\<in>#tasks. grounds ev cfg t \<and> still_agreed (sy_db s) t \<and>
       (\<exists>s1 tasks1. (interleaved ev cfg fee)\<^sup>*\<^sup>* (s0, {#}) (s1, tasks1) \<and>
          (interleaved ev cfg fee)\<^sup>*\<^sup>* (s1, tasks1) (s, tasks) \<and> as_stored (sy_db s1) t)) \<and>
    (\<forall>s' tasks' k. interleaved ev cfg fee (s, tasks) (s', tasks') \<longrightarrow>
       (swaps (sy_db s') k \<noteq> swaps (sy_db s) k \<longrightarrow>
          (\<exists>t\<in>#tasks. swap_change ev t k (swaps (sy_db s) k) (swaps (sy_db s') k))) \<and>
       (quotes (sy_db s') k \<noteq> quotes (sy_db s) k \<longrightarrow>
          (\<exists>t\<in>#tasks. quote_change t k (quotes (sy_db s) k) (quotes (sy_db s') k))))"
proof -
  have ok: "store_ok (sy_db s0)" using assms(2) by (simp add: service_inv_def)
  note h = interleaved_history [OF assms(1) ok assms(3)]
  have "service_inv ev cfg (sy_db s)" using store_writes_inv [OF interleaved_writes [OF assms(1) ok assms(3)] assms(2)] .
  moreover have "\<forall>t\<in>#tasks. grounds ev cfg t \<and> still_agreed (sy_db s) t \<and>
       (\<exists>s1 tasks1. (interleaved ev cfg fee)\<^sup>*\<^sup>* (s0, {#}) (s1, tasks1) \<and>
          (interleaved ev cfg fee)\<^sup>*\<^sup>* (s1, tasks1) (s, tasks) \<and> as_stored (sy_db s1) t)"
    using h(2,3) unfolding task_rests_def task_decided_def by blast
  moreover have "\<forall>t\<in>#tasks. task_rests ev cfg s t" using h(2) by blast
  note interleaved_changes [OF assms(1) h(1) this]
  ultimately show ?thesis by blast
qed

text \<open>
  An instance where it matters: a swap is recorded and waits for its confirmations, and before
  they are seen a refund round has found it due and marked it.
\<close>

lemma raced_refund:
  obtains s0 s s1 s2 :: "nat sys" where "service_inv race_env demo_cfg (sy_db s0)"
    and "runs_to race_env demo_cfg 500 s0 {#} s {#Confirming (demo_record Created) [0, 0x20] [1] 1#}"
    and "swaps (sy_db s) = [''s1'' \<mapsto> demo_record Created]"
    and "round_records race_env s = Some (Inr (200, [demo_record Created]), s1)"
    and "refund_once race_env 0 0 500 s = Some (Inr (), s2)" and "swaps (sy_db s2) = [''s1'' \<mapsto> demo_record Refunded]"
proof -
  obtain s' :: "nat sys" where s': "store_ok (sy_db s')" "quotes (sy_db s') = [''s1'' \<mapsto> demo_quote]" "swaps (sy_db s') = Map.empty"
    using quoted_state by blast
  let ?start = "s'\<lparr>sy_world := 0\<rparr>"
  have inv: "service_inv race_env demo_cfg (sy_db ?start)"
    using s' by (auto simp: service_inv_def quotes_linked_def demo_quote_fields)
  obtain s where run: "runs_to race_env demo_cfg 500 ?start {#} s {#Confirming (demo_record Created) [0, 0x20] [1] 1#}"
    and s: "swaps (sy_db s) = [''s1'' \<mapsto> demo_record Created]"
    using race_start [of ?start] s' by auto
  let ?later = "s\<lparr>sy_world := 1\<rparr>"
  have "interleaved race_env demo_cfg 500 (s, {#Confirming (demo_record Created) [0, 0x20] [1] 1#})
      (?later, {#Confirming (demo_record Created) [0, 0x20] [1] 1#})"
    by (rule interleave.elsewhere) (simp add: outside_change_def)
  with run have run: "runs_to race_env demo_cfg 500 ?start {#} ?later {#Confirming (demo_record Created) [0, 0x20] [1] 1#}"
    by (rule rtranclp.rtrancl_into_rtrancl)
  moreover have "store_ok (sy_db ?later)" using interleaved_history(1) [OF race_invoices _ run] s'(1) by simp
  ultimately show thesis using race_refund [of ?later] inv s that [of ?start ?later] by auto
qed

theorem concurrent_tasks_safe_witness:
  "\<exists>s0 s. (interleaved race_env demo_cfg 500)\<^sup>*\<^sup>* (s0, {#}) (s, {#Confirming (demo_record Created) [0, 0x20] [1] 1#}) \<and>
     swaps (sy_db s) = [''s1'' \<mapsto> demo_record Refunded] \<and> service_inv race_env demo_cfg (sy_db s) \<and>
     (\<exists>s1 tasks1. (interleaved race_env demo_cfg 500)\<^sup>*\<^sup>* (s0, {#}) (s1, tasks1) \<and>
        (interleaved race_env demo_cfg 500)\<^sup>*\<^sup>* (s1, tasks1) (s, {#Confirming (demo_record Created) [0, 0x20] [1] 1#}) \<and>
        swaps (sy_db s1) ''s1'' = Some (demo_record Created))"
proof -
  obtain s0 s s1 s2 :: "nat sys" where inv: "service_inv race_env demo_cfg (sy_db s0)"
    and run: "runs_to race_env demo_cfg 500 s0 {#} s {#Confirming (demo_record Created) [0, 0x20] [1] 1#}"
    and "round_records race_env s = Some (Inr (200, [demo_record Created]), s1)"
    and round: "refund_once race_env 0 0 500 s = Some (Inr (), s2)" and s2: "swaps (sy_db s2) = [''s1'' \<mapsto> demo_record Refunded]"
    by (rule raced_refund)
  have "service_step race_env demo_cfg 500 s s2" using round by (intro step_refund) simp
  from runs_trans [OF run service_step_interleaved [OF this]]
  have reach: "runs_to race_env demo_cfg 500 s0 {#} s2 {#Confirming (demo_record Created) [0, 0x20] [1] 1#}" .
  have "sr_swap_id (demo_record Created) = ''s1''" by (simp add: demo_record_def)
  with concurrent_tasks_safe [OF race_invoices inv reach] reach s2 show ?thesis
    by (intro exI [of _ s0] exI [of _ s2]) (simp add: stored_def)
qed

text \<open>
  C38. What interleaving can break. A swap that \<open>create_swap\<close> has recorded waits for its
  confirmations; a refund round that comes in between, at or after its refund height, refunds
  it; when the wait then ends with enough confirmations, the task marks the swap Funded and
  answers it as Funded, because neither it nor the update looks at the status it replaces. The
  swap's outputs are spent, and it reads as payable again.
\<close>

theorem refunded_swap_funded_again:
  assumes libs: "libraries_ok ev" and invoices: "invoices_ok ev" and inv: "service_inv ev cfg (sy_db s0)"
    and reach: "(interleaved ev cfg fee)\<^sup>*\<^sup>* (s0, {#}) (s, add_mset (Confirming r spk txid confs) tasks)"
    and here: "swaps (sy_db s) (sr_swap_id r) = Some r"
    and due: "round_records ev s = Some (Inr (tip, rs), s1)" "sr_refund_lock_height r \<le> tip"
    and round: "refund_once ev (cf_seller_key_index cfg) (cf_buyer_key_index cfg) fee s = Some (Inr (), s2)"
    and accepted: "\<forall>tx w e. refunds ev cfg r tx \<longrightarrow> fst (ev_broadcast ev tx w) \<noteq> Inl e"
    and wait: "wait_for_funding_confirmations ev spk txid confs (300 * SECOND) (s2\<lparr>sy_world := w\<rparr>) = Some (Inr c, s3)"
    and sql: "fst (ev_sql ev (sy_world s3)) = None"
  shows "sr_status r = Created \<and> swaps (sy_db s2) (sr_swap_id r) = Some (r\<lparr>sr_status := Refunded\<rparr>) \<and>
    (\<exists>s4. confirm_funded ev r spk txid confs (s2\<lparr>sy_world := w\<rparr>) = Some (Inr (r\<lparr>sr_status := Funded\<rparr>), s4) \<and>
       (interleaved ev cfg fee)\<^sup>*\<^sup>* (s0, {#}) (s4, tasks) \<and>
       swaps (sy_db s4) (sr_swap_id r) = Some (r\<lparr>sr_status := Funded\<rparr>))"
proof -
  let ?t = "Confirming r spk txid confs" and ?w = "s2\<lparr>sy_world := w\<rparr>"
  have ok0: "store_ok (sy_db s0)" using inv by (simp add: service_inv_def)
  note h = interleaved_history [OF invoices ok0 reach]
  have created: "sr_status r = Created" using h(2) [of ?t] by (simp add: task_rests_def)
  have now: "service_inv ev cfg (sy_db s)" using store_writes_inv [OF interleaved_writes [OF invoices ok0 reach] inv] .
  note l = round_records_Inr [OF h(1) due(1)]
  have "refund_all ev (cf_seller_key_index cfg) (cf_buyer_key_index cfg) fee tip rs s1 = Some (Inr (), s2)"
    using round due(1) by (simp add: refund_once_def bind_run_def)
  from refund_all_effect [OF libs _ l(2) _ this] h(1) l(1,3) now
  have fin: "round_done ev cfg tip rs (sy_db s2)" by (auto simp: stored_def service_inv_def)
  have "r \<in> set rs" using here l(4) by (auto simp: ran_def)
  moreover have "refundable tip r" using created due(2) by (simp add: refundable_def)
  ultimately have refunded: "swaps (sy_db s2) (sr_swap_id r) = Some (r\<lparr>sr_status := Refunded\<rparr>)"
    using fin accepted unfolding round_done_def by blast
  have reach2: "runs_to ev cfg fee s0 {#} ?w (add_mset ?t tasks)"
  proof -
    have "service_step ev cfg fee s s2" "service_step ev cfg fee s2 ?w" using step_refund [OF round] step_world by auto
    then show ?thesis using runs_trans [OF reach] runs_trans service_step_interleaved by blast
  qed
  have ok2: "store_ok (sy_db s3)" "sy_db s3 = sy_db s2"
    using interleaved_history(1) [OF invoices ok0 reach2] quiet_db [OF preserves_wait_funding wait] by simp_all
  have "swaps (sy_db s3) (sr_swap_id r) = Some (r\<lparr>sr_status := Refunded\<rparr>)" using refunded ok2(2) by simp
  then obtain db where up: "update_swap_status None (sr_swap_id r) Funded (sy_db s3) = Some (Inr (), db)"
    and db: "swaps db (sr_swap_id r) = Some (r\<lparr>sr_status := Funded\<rparr>)"
    using update_swap_status_ok [OF ok2(1), of None "sr_swap_id r" Funded] by (auto simp: update_result_def)
  let ?s4 = "\<lparr>sy_db = db, sy_world = snd (ev_sql ev (sy_world s3))\<rparr>"
  have confirm: "confirm_funded ev r spk txid confs ?w = Some (Inr (r\<lparr>sr_status := Funded\<rparr>), ?s4)"
    by (simp add: confirm_funded_def mark_funded_def bind_run_def ctx_def map_err_run_def wait store_run_def split_beta Let_def sql up)
  from runs_trans [OF reach2 runs_last [OF task_phase.simps(6) confirm]]
  show ?thesis using created refunded confirm db by (intro conjI exI [of _ ?s4]) simp_all
qed

theorem refunded_swap_funded_again_witness:
  "\<exists>s0 s2 s4. (interleaved race_env demo_cfg 500)\<^sup>*\<^sup>* (s0, {#}) (s2, {#Confirming (demo_record Created) [0, 0x20] [1] 1#}) \<and>
     swaps (sy_db s2) ''s1'' = Some (demo_record Refunded) \<and>
     confirm_funded race_env (demo_record Created) [0, 0x20] [1] 1 (s2\<lparr>sy_world := 1\<rparr>) = Some (Inr (demo_record Funded), s4) \<and>
     (interleaved race_env demo_cfg 500)\<^sup>*\<^sup>* (s0, {#}) (s4, {#}) \<and> swaps (sy_db s4) ''s1'' = Some (demo_record Funded)"
proof -
  obtain s0 s s1 s2 :: "nat sys" where inv: "service_inv race_env demo_cfg (sy_db s0)"
    and run: "runs_to race_env demo_cfg 500 s0 {#} s {#Confirming (demo_record Created) [0, 0x20] [1] 1#}"
    and here: "swaps (sy_db s) = [''s1'' \<mapsto> demo_record Created]"
    and list: "round_records race_env s = Some (Inr (200, [demo_record Created]), s1)"
    and round: "refund_once race_env 0 0 500 s = Some (Inr (), s2)"
    by (rule raced_refund)
  have id: "sr_swap_id (demo_record Created) = ''s1''" "sr_refund_lock_height (demo_record Created) \<le> 200"
    "(demo_record Created)\<lparr>sr_status := st\<rparr> = demo_record st" for st
    by (simp_all add: demo_record_def)
  have round': "refund_once race_env (cf_seller_key_index demo_cfg) (cf_buyer_key_index demo_cfg) 500 s = Some (Inr (), s2)"
    using round by simp
  have accepted: "\<forall>tx w e. refunds race_env demo_cfg (demo_record Created) tx \<longrightarrow> fst (ev_broadcast race_env tx w) \<noteq> Inl e"
    by (simp add: race_env_def) (simp add: demo_env_def)
  have here': "swaps (sy_db s) (sr_swap_id (demo_record Created)) = Some (demo_record Created)" using here id by simp
  have wait: "wait_for_funding_confirmations race_env [0, 0x20] [1] 1 (300 * SECOND) (s2\<lparr>sy_world := 1\<rparr>) = Some (Inr 196, s2\<lparr>sy_world := 1\<rparr>)"
    by (rule race_wait) simp
  have sql: "fst (ev_sql race_env (sy_world (s2\<lparr>sy_world := 1\<rparr>))) = None" by (simp add: race_env_fields)
  from refunded_swap_funded_again [OF race_libraries race_invoices inv run here' list id(2) round' accepted wait sql]
  obtain s4 where "swaps (sy_db s2) ''s1'' = Some (demo_record Refunded)"
    "confirm_funded race_env (demo_record Created) [0, 0x20] [1] 1 (s2\<lparr>sy_world := 1\<rparr>) = Some (Inr (demo_record Funded), s4)"
    "runs_to race_env demo_cfg 500 s0 {#} s4 {#}" "swaps (sy_db s4) ''s1'' = Some (demo_record Funded)"
    unfolding id by blast
  moreover have "runs_to race_env demo_cfg 500 s0 {#} s2 {#Confirming (demo_record Created) [0, 0x20] [1] 1#}"
    using runs_trans [OF run service_step_interleaved [OF step_refund [OF round']]] .
  ultimately show ?thesis by blast
qed

section \<open>Every call returns\<close>

text \<open>
  C15. With a clock that runs and naps that last, every handler and every refund round returns,
  whatever the Lightning node, the chain, the wallet and the engine answer: the two polling
  loops are the only loops, and both have a deadline.
\<close>

theorem service_returns:
  assumes "clock_ok ev"
  shows "(\<exists>r s'. create_quote ev cfg rq1 s = Some (r, s')) \<and> (\<exists>r s'. get_quote_rpc ev cfg rq2 s = Some (r, s')) \<and>
    (\<exists>r s'. create_swap ev cfg rq3 s = Some (r, s')) \<and> (\<exists>r s'. get_swap_rpc ev cfg rq4 s = Some (r, s')) \<and>
    (\<exists>r s'. create_lightning_payment ev cfg rq5 s = Some (r, s')) \<and>
    (\<exists>r s'. create_asset_claim ev cfg rq6 s = Some (r, s')) \<and> (\<exists>r s'. refund_once ev ks kb fee s = Some (r, s'))"
  using handlers_returns [OF assms] refund_once_returns [of ev ks kb fee] by (simp add: returns_def)

theorem service_returns_witness:
  "\<exists>r s'. create_swap demo_env demo_cfg demo_swap_request demo_sys = Some (r, s')"
  using service_returns [OF demo_clock, of demo_cfg _ demo_sys _ demo_swap_request] by blast

end
