(* ===== verification/Startup_Properties.thy ===== *)
theory Startup_Properties
  imports Store_Properties Demo_Runs Task_Decisions
begin

text \<open>
  What a server starts with (\<open>main\<close> of \<open>src/bin/swap_server.rs\<close>): the store an earlier life
  left, and the configuration of its arguments.
\<close>

section \<open>Start\<close>

lemma open_store_Inr:
  assumes "open_store has_parent os engine db = Some (Inr (), db')"
  shows "migrate engine db = Some (Inr (), db')"
  using assms
  by (auto simp: open_store_def os_step_def bind_run_Inr lift_run_def return_run_def split: option.splits if_splits)

lemma migrate_empty:
  assumes "migrate engine empty_database = Some (Inr (), db')"
  shows "db' = demo_db"
proof -
  have names: "column_names \<lparr>tb_columns = quotes_decls, tb_rows = []\<rparr> = quote_cols"
    "column_names \<lparr>tb_columns = swaps_decls, tb_rows = []\<rparr> = swap_cols"
    by (simp_all add: column_names_def quotes_decls_names swaps_decls_names)
  have cols: "''swap_id'' \<in> set quote_cols" "''status'' \<in> set swap_cols" by (simp_all add: quote_cols_def swap_cols_def)
  show ?thesis
    using assms
    by (cases "engine 0"; cases "engine 1"; cases "engine 2"; cases "engine 3"; cases "engine 4"; cases "engine 12")
      (simp_all add: migrate_def ensure_columns_def bind_run_def on_quotes_def on_swaps_def empty_database_def
        create_table_def executed_def create_if_missing_def create_index_def table_columns_def names cols
        ensure_each_present migrated_names demo_db_def)
qed

lemma migrate_same:
  assumes ok: "store_ok db" and ix: "{''quotes_swap_id_idx'', ''swaps_status_idx''} \<subseteq> set (db_indexes db)"
    and run: "migrate engine db = Some (Inr (), db')"
  shows "db' = db"
proof -
  from ok obtain q s where q: "db_quotes db = Some q" and s: "db_swaps db = Some s"
    and sub: "set quote_cols \<subseteq> set (column_names q)" "set swap_cols \<subseteq> set (column_names s)"
    by (rule store_ok_tables)
      (simp add: quote_rows.table_ok_def swap_rows.table_ok_def table_fits_def)
  have "db\<lparr>db_quotes := Some q\<rparr> = db" "db\<lparr>db_swaps := Some s\<rparr> = db" using q s by simp_all
  moreover note list_all_subset [OF migrated_names(1) sub(2)] list_all_subset [OF migrated_names(2) sub(1)]
  ultimately show ?thesis using ix run
    by (cases "engine 0"; cases "engine 2"; cases "engine 4"; cases "engine 12")
      (simp_all add: migrate_def ensure_columns_def bind_run_def on_quotes_def on_swaps_def q s
        create_table_def executed_def create_if_missing_def create_index_def table_columns_def
        ensure_each_present)
qed

lemma start_server_parts:
  assumes "start_server ev parse mk_wallet mk_store has_parent os engine args s = Some (Inr cfg, s')"
  obtains a where "ev_asset_from_str ev (sa_sell_asset_id args) = Inr a" and "cfg = service_config a args"
    and "check_tokens args = Inr ()" and "migrate engine (sy_db s) = Some (Inr (), sy_db s')"
proof -
  let ?dirs = "case mk_store of None \<Rightarrow> return_run () | Some make_dir \<Rightarrow> ctx ''create store parent dir'' (effect_run make_dir)"
  let ?wallet = "ctx ''create liquid wallet'' (wallet_new ev (sa_mnemonic args) (sa_slip77 args) (sa_liquid_electrum_url args)
    (sa_wallet_dir args))"
  from assms obtain a s1 s2 w1 w2 w3 w4 s3 s4 where
    a: "ev_asset_from_str ev (sa_sell_asset_id args) = Inr a" "cfg = service_config a args" "check_tokens args = Inr ()"
    and dirs: "?dirs (s\<lparr>sy_world := w1\<rparr>) = Some (Inr (), s1)" and wallet: "?wallet s1 = Some (Inr w2, s2)"
    and r1: "address_at ev (sa_seller_key_index args) s2 = Some (Inr w3, s3)"
    and r2: "address_at ev (sa_buyer_key_index args) s3 = Some (Inr w4, s4)"
    and db: "ctx ''open sqlite store'' (db_run (open_store has_parent os engine)) s4 = Some (Inr (), s')"
    unfolding start_server_def bind_run_Inr by (auto simp: ctx_effect)
  have quiet: "preserves (on_db X) ?dirs" "preserves (on_db X) ?wallet" for X
    by (cases mk_store; simp; intro preserve_intros)
      (unfold wallet_new_def electrum_client_def Let_def, intro preserve_intros)
  from quiet_db [OF quiet(1) dirs] quiet_db [OF quiet(2) wallet] quiet_db [OF preserves_address_at r1]
    quiet_db [OF preserves_address_at r2] have "sy_db s4 = sy_db s" by simp
  moreover have "open_store has_parent os engine (sy_db s4) = Some (Inr (), sy_db s')"
    using db by (auto simp: db_run_def split: option.splits)
  ultimately show thesis using that a open_store_Inr by simp
qed

section \<open>The life of a store\<close>

text \<open>
  Everything a store can have seen under this version of the program: it is a new file, or an
  earlier server started on it and served, with whatever arguments, until it stopped, between
  two steps of whatever was under way. \<open>configs\<close> are the configurations that served. A start
  that failed and files of older versions (\<open>Store_Properties\<close>) are not among them.
\<close>

inductive server_life :: "'w env \<Rightarrow> swap_service_config set \<Rightarrow> database \<Rightarrow> bool" for ev where
  new_file: "server_life ev {} empty_database"
| served: "server_life ev configs (sy_db s) \<Longrightarrow>
    start_server ev parse mk_wallet mk_store has_parent os engine args s = Some (Inr cfg, s1) \<Longrightarrow>
    runs_to ev cfg fee s1 {#} s2 tasks \<Longrightarrow> server_life ev (insert cfg configs) (sy_db s2)"

inductive_cases server_lifeE: "server_life ev configs db"

lemma exec_write_indexes: "exec_write v req db = Some (r, db') \<Longrightarrow> db_indexes db' = db_indexes db"
  by (cases req)
    (auto simp: insert_quote_def set_quote_swap_id_def insert_swap_def update_swap_status_def upsert_swap_payment_def
      upsert_swap_claim_def bind_run_def lift_run_def dest: on_tables_indexes split: option.splits prod.splits sum.splits)

lemma store_writes_indexes: "(store_write ev cfg)\<^sup>*\<^sup>* db db' \<Longrightarrow> db_indexes db' = db_indexes db"
  by (induction rule: rtranclp_induct) (auto elim!: store_writeE dest: exec_write_indexes)

abbreviation any_config where
  "any_config ev configs \<equiv> \<lambda>r. \<exists>cfg\<in>configs. swap_wf ev cfg r"

abbreviation indexed where
  "indexed db \<equiv> {''quotes_swap_id_idx'', ''swaps_status_idx''} \<subseteq> set (db_indexes db)"

lemma new_indexes: "db_indexes empty_database = []"
  by (simp add: empty_database_def)

text \<open>What a start makes of a store of this life.\<close>

lemma start_server_store:
  assumes "db = empty_database \<and> configs = {} \<or> records_sound (any_config ev configs) db \<and> indexed db"
    and "migrate engine db = Some (Inr (), db')"
  shows "records_sound (any_config ev configs) db' \<and> indexed db' \<and>
    (db = empty_database \<and> quotes db' = Map.empty \<and> swaps db' = Map.empty \<or> db' = db)"
proof (cases "db = empty_database")
  case True
  then have db': "db' = demo_db" using migrate_empty assms(2) by blast
  have "indexed demo_db" by (simp add: demo_db_def)
  then show ?thesis using True demo_db_ok demo_db_empty by (simp add: db' records_sound_def quotes_linked_def)
next
  case False
  then have "records_sound (any_config ev configs) db" "indexed db" using assms(1) by simp_all
  moreover from this have "db' = db" using migrate_same [OF _ _ assms(2)] by (simp add: records_sound_def)
  ultimately show ?thesis by simp
qed

lemma server_life_sound:
  assumes invoices: "invoices_ok ev" and "server_life ev configs db"
  shows "db = empty_database \<and> configs = {} \<or> configs \<noteq> {} \<and> records_sound (any_config ev configs) db \<and> indexed db"
  using assms(2)
proof (induction rule: server_life.induct)
  case (served configs s parse mk_wallet mk_store has_parent os engine args cfg s1 fee s2 tasks)
  from served.hyps(2) have "migrate engine (sy_db s) = Some (Inr (), sy_db s1)" by (rule start_server_parts) simp
  with start_server_store [of "sy_db s" configs ev engine "sy_db s1"] served.IH
  have s1: "records_sound (any_config ev configs) (sy_db s1)" "indexed (sy_db s1)" by auto
  then have "records_sound (any_config ev (insert cfg configs)) (sy_db s1)" by (auto simp: records_sound_def)
  moreover have "store_ok (sy_db s1)" using s1(1) by (simp add: records_sound_def)
  moreover note writes = interleaved_writes [OF invoices this served.hyps(3)]
  ultimately have "records_sound (any_config ev (insert cfg configs)) (sy_db s2)"
    using some_config.writes_kept [OF writes, of "insert cfg configs"] by blast
  then show ?case using store_writes_indexes [OF writes] s1(2) by simp
qed simp

lemma swap_wf_same_keys:
  "cf_seller_key_index c = cf_seller_key_index cfg \<Longrightarrow> cf_sell_asset_id c = cf_sell_asset_id cfg \<Longrightarrow>
     swap_wf ev c r = swap_wf ev cfg r"
  by (simp add: swap_wf_def swap_terms_def)

text \<open>
  C22. A server that starts on a new file, or on one that earlier servers left, in the middle
  of whatever they did, with the same or other arguments, finds a sound store: a new file has
  become the empty store, any other is exactly as it was; quotes are linked to their own swaps,
  and every swap is well formed under a configuration that has served it; when the seller's key
  index and the asset are those of all earlier servers, that is the invariant the service keeps
  for its new configuration. Its tokens are not blank and differ, and its configuration is what
  the arguments say.
\<close>

theorem start_server_state:
  assumes "invoices_ok ev" and "server_life ev configs (sy_db s)"
    and "start_server ev parse mk_wallet mk_store has_parent os engine args s = Some (Inr cfg, s')"
  shows "(if configs = {} then quotes (sy_db s') = Map.empty \<and> swaps (sy_db s') = Map.empty else sy_db s' = sy_db s) \<and>
    store_ok (sy_db s') \<and> quotes_linked (sy_db s') \<and>
    (\<forall>k r. swaps (sy_db s') k = Some r \<longrightarrow> (\<exists>c\<in>configs. swap_wf ev c r)) \<and>
    ((\<forall>c\<in>configs. cf_seller_key_index c = sa_seller_key_index args \<and> cf_sell_asset_id c = cf_sell_asset_id cfg) \<longrightarrow>
       service_inv ev cfg (sy_db s')) \<and>
    trim (cf_seller_token cfg) \<noteq> [] \<and> trim (cf_buyer_token cfg) \<noteq> [] \<and> cf_seller_token cfg \<noteq> cf_buyer_token cfg \<and>
    (\<exists>a. ev_asset_from_str ev (sa_sell_asset_id args) = Inr a \<and> cfg = service_config a args)"
proof (rule start_server_parts [OF assms(3)])
  fix a assume a: "ev_asset_from_str ev (sa_sell_asset_id args) = Inr a" "cfg = service_config a args"
    and tokens: "check_tokens args = Inr ()" and run: "migrate engine (sy_db s) = Some (Inr (), sy_db s')"
  note life = server_life_sound [OF assms(1,2)]
  have "sy_db s = empty_database \<and> configs = {} \<or> records_sound (any_config ev configs) (sy_db s) \<and> indexed (sy_db s)"
    using life by blast
  note start = start_server_store [OF this run]
  have "sy_db s \<noteq> empty_database" if "configs \<noteq> {}"
  proof
    assume "sy_db s = empty_database"
    then have "store_ok empty_database" using life that by (simp add: records_sound_def)
    then show False by (simp add: store_ok_def empty_database_def quote_rows.table_ok_def)
  qed
  then have same: "if configs = {} then quotes (sy_db s') = Map.empty \<and> swaps (sy_db s') = Map.empty else sy_db s' = sy_db s"
    using start life by (auto simp: new_indexes)
  have "cf_seller_key_index cfg = sa_seller_key_index args" by (simp add: a(2) service_config_def)
  then have "service_inv ev cfg (sy_db s')"
    if "\<forall>c\<in>configs. cf_seller_key_index c = sa_seller_key_index args \<and> cf_sell_asset_id c = cf_sell_asset_id cfg"
    using start that swap_wf_same_keys [of _ cfg ev] unfolding service_inv_def records_sound_def by metis
  moreover have "trim (cf_seller_token cfg) \<noteq> [] \<and> trim (cf_buyer_token cfg) \<noteq> [] \<and> cf_seller_token cfg \<noteq> cf_buyer_token cfg"
    using tokens by (simp add: check_tokens_def a(2) service_config_def)
  ultimately show ?thesis using a same start unfolding records_sound_def by blast
qed

definition demo_args :: server_args where
  "demo_args =
     \<lparr>sa_listen_addr = ''127.0.0.1:50051'', sa_ldk_rest_addr = ''127.0.0.1:3002'', sa_liquid_electrum_url = ''tcp://localhost:1'',
      sa_wallet_dir = ''w'', sa_store_path = ''s'', sa_mnemonic = ''m'', sa_slip77 = ''k'', sa_sell_asset_id = demo_text [10],
      sa_price_msat_per_asset_unit = 5, sa_fee_subsidy_sats = 10000, sa_refund_delta_blocks = 144,
      sa_invoice_expiry_secs = 3600, sa_seller_key_index = 0, sa_buyer_key_index = 0, sa_refund_poll_interval_secs = 5,
      sa_refund_fee_sats = 500, sa_seller_token = ''s'', sa_buyer_token = ''b''\<rparr>"

lemma start_env:
  "ev_asset_from_str demo_env = Inr \<circ> demo_bytes" "ev_wallet_address demo_env = (\<lambda>w i. Inr (demo_wallet_address ''el1demo''))"
  "ev_signer_xpub demo_env = (\<lambda>m. Inr ''xpub'')" "ev_parse_descriptor demo_env = Inr \<circ> demo_bytes"
  "ev_wollet_with_persist demo_env = (\<lambda>d p w. (Inr (), w))" "ev_electrum_url demo_env = Inr \<circ> demo_bytes"
  "ev_electrum_connect demo_env = (\<lambda>u w. (Inr (), w))" "ev_full_scan demo_env = (\<lambda>w. (Inr (), w))"
  by (simp_all add: demo_env_def)

lemma demo_start:
  "start_server demo_env (\<lambda>_. Inr ()) (\<lambda>w. (Inr (), w)) None False (\<lambda>_. None) (\<lambda>_. None) demo_args
     \<lparr>sy_db = empty_database, sy_world = 0\<rparr> = Some (Inr demo_cfg, \<lparr>sy_db = demo_db, sy_world = 0\<rparr>)"
proof -
  have opened: "open_store False (\<lambda>_. None) (\<lambda>_. None) empty_database = Some (Inr (), demo_db)"
    using migrate_fresh_db [of "\<lambda>_. None"] open_store_migrates [of "\<lambda>_. None" False "\<lambda>_. None"]
    by (simp add: demo_db_def)
  have tokens: "check_tokens demo_args = Inr ()"
    using trim_plain [of "''s''"] trim_plain [of "''b''"] by (simp add: check_tokens_def demo_args_def)
  have cfg: "service_config [10] demo_args = demo_cfg" by (simp add: service_config_def demo_args_def demo_cfg_def)
  have args: "sa_sell_asset_id demo_args = demo_text [10]" by (simp add: demo_args_def)
  show ?thesis
    by (simp add: start_server_def wallet_new_def electrum_client_def sync_def address_at_def db_run_def run_defs tokens start_env args
        cfg opened)
qed

definition later_args :: server_args where
  "later_args = demo_args\<lparr>sa_price_msat_per_asset_unit := 9, sa_buyer_token := ''c''\<rparr>"

text \<open>A restart on a store that is as a server left it.\<close>

lemma later_start:
  assumes "store_ok db" and "indexed db"
  shows "start_server demo_env (\<lambda>_. Inr ()) (\<lambda>w. (Inr (), w)) None False (\<lambda>_. None) (\<lambda>_. None) later_args
     \<lparr>sy_db = db, sy_world = 0\<rparr> = Some (Inr (demo_cfg\<lparr>cf_price_msat_per_asset_unit := 9, cf_buyer_token := ''c''\<rparr>),
       \<lparr>sy_db = db, sy_world = 0\<rparr>)"
proof -
  have opened: "open_store False (\<lambda>_. None) (\<lambda>_. None) db = Some (Inr (), db)"
    using migrate_current [OF assms, of "\<lambda>_. None"] open_store_migrates [of "\<lambda>_. None" False "\<lambda>_. None"] by simp
  have tokens: "check_tokens later_args = Inr ()"
    using trim_plain [of "''s''"] trim_plain [of "''c''"] by (simp add: check_tokens_def later_args_def demo_args_def)
  have cfg: "service_config [10] later_args = demo_cfg\<lparr>cf_price_msat_per_asset_unit := 9, cf_buyer_token := ''c''\<rparr>"
    by (simp add: service_config_def later_args_def demo_args_def demo_cfg_def)
  have args: "sa_sell_asset_id later_args = demo_text [10]" by (simp add: later_args_def demo_args_def)
  show ?thesis
    by (simp add: start_server_def wallet_new_def electrum_client_def sync_def address_at_def db_run_def run_defs tokens
        start_env args cfg opened)
qed

text \<open>A first server quotes and makes a swap; a second one starts with another price and token.\<close>

theorem start_server_state_witness:
  "\<exists>db cfg' s'. server_life demo_env {demo_cfg} db \<and> swaps db = [''s1'' \<mapsto> demo_record Funded] \<and>
     start_server demo_env (\<lambda>_. Inr ()) (\<lambda>w. (Inr (), w)) None False (\<lambda>_. None) (\<lambda>_. None) later_args
       \<lparr>sy_db = db, sy_world = 0\<rparr> = Some (Inr cfg', s') \<and>
     cf_price_msat_per_asset_unit cfg' = 9 \<and> sy_db s' = db \<and> service_inv demo_env cfg' (sy_db s')"
proof -
  obtain db1 where q: "create_quote demo_env demo_cfg (demo_request ''s'' (demo_quote_request 1000)) demo_sys =
     Some (Inr (quote_record_to_proto demo_quote), \<lparr>sy_db = db1, sy_world = 0\<rparr>)"
    and db1: "store_ok db1" "quotes db1 = [''s1'' \<mapsto> demo_quote]" "swaps db1 = Map.empty"
    using demo_create_quote by blast
  obtain swap s2 where c: "create_swap demo_env demo_cfg demo_swap_request \<lparr>sy_db = db1, sy_world = 0\<rparr> = Some (Inr swap, s2)"
    and s2: "swaps (sy_db s2) = [''s1'' \<mapsto> demo_record Funded]"
    using demo_create_swap [of "\<lparr>sy_db = db1, sy_world = 0\<rparr>"] db1 by auto
  have "runs_to demo_env demo_cfg 500 demo_sys {#} s2 {#}"
    using runs_trans [OF service_step_interleaved [OF step_create_quote [OF q]] service_step_interleaved [OF step_create_swap [OF c]]] .
  moreover have "demo_sys = \<lparr>sy_db = demo_db, sy_world = 0\<rparr>" by (simp add: demo_sys_def)
  moreover have "server_life demo_env {} (sy_db \<lparr>sy_db = empty_database, sy_world = 0 :: nat\<rparr>)" by (simp add: server_life.new_file)
  ultimately have life: "server_life demo_env {demo_cfg} (sy_db s2)"
    using server_life.served [OF _ demo_start] by metis
  then have "store_ok (sy_db s2)" "indexed (sy_db s2)"
    using server_life_sound [OF demo_invoices life] by (auto simp: records_sound_def)
  note start = later_start [OF this]
  have "server_life demo_env {demo_cfg} (sy_db \<lparr>sy_db = sy_db s2, sy_world = 0 :: nat\<rparr>)" using life by simp
  from start_server_state [OF demo_invoices this start]
  have "service_inv demo_env (demo_cfg\<lparr>cf_price_msat_per_asset_unit := 9, cf_buyer_token := ''c''\<rparr>) (sy_db s2)"
    by (simp add: later_args_def demo_args_def)
  then show ?thesis using life s2 start
    by (intro exI [of _ "sy_db s2"] exI [of _ "demo_cfg\<lparr>cf_price_msat_per_asset_unit := 9, cf_buyer_token := ''c''\<rparr>"]
        exI [of _ "\<lparr>sy_db = sy_db s2, sy_world = 0\<rparr>"]) simp
qed

end
