(* ===== verification/Client_Properties.thy ===== *)
theory Client_Properties
  imports Swap_Properties
begin

text \<open>
  The command line client talking to the service (\<open>src/bin/swap_cli.rs\<close> against
  \<open>src/swap/service.rs\<close>): the generated client delivers each request to the handler of the
  same name.
\<close>

definition service_client :: "'w env \<Rightarrow> swap_service_config \<Rightarrow> 'w sys swap_client" where
  "service_client ev cfg =
     \<lparr>cl_create_quote = create_quote ev cfg, cl_get_quote = get_quote_rpc ev cfg, cl_create_swap = create_swap ev cfg,
      cl_get_swap = get_swap_rpc ev cfg, cl_create_lightning_payment = create_lightning_payment ev cfg,
      cl_create_asset_claim = create_asset_claim ev cfg\<rparr>"

text \<open>The fields of a printed object.\<close>

fun field :: "json \<Rightarrow> string \<Rightarrow> json option" where
  "field (JsonObject entries) k = map_of entries k"
| "field _ k = None"

text \<open>
  What a user should see of a swap on record, written out from the stored record alone: its
  names in words, its numbers, and who plays which part in either direction.
\<close>

fun status_name :: "swap_status \<Rightarrow> string" where
  "status_name Created = ''Created''"
| "status_name Funded = ''Funded''"
| "status_name Paid = ''Paid''"
| "status_name Claimed = ''Claimed''"
| "status_name Refunded = ''Refunded''"
| "status_name Failed = ''Failed''"

fun direction_name :: "swap_direction \<Rightarrow> string" where
  "direction_name LnToLiquid = ''LnToLiquid''"
| "direction_name LiquidToLn = ''LiquidToLn''"

fun shown_parties :: "swap_direction \<Rightarrow> json" where
  "shown_parties LnToLiquid = JsonObject
     [(''ln_payer'', JsonString ''Buyer''), (''ln_payee'', JsonString ''Seller''),
      (''liquid_funder'', JsonString ''Seller''), (''liquid_claimer'', JsonString ''Buyer''),
      (''liquid_refunder'', JsonString ''Seller'')]"
| "shown_parties LiquidToLn = JsonObject
     [(''ln_payer'', JsonString ''Seller''), (''ln_payee'', JsonString ''Buyer''),
      (''liquid_funder'', JsonString ''Buyer''), (''liquid_claimer'', JsonString ''Seller''),
      (''liquid_refunder'', JsonString ''Buyer'')]"

definition shown_swap :: "swap_record \<Rightarrow> json" where
  "shown_swap r = JsonObject
     [(''swap_id'', JsonString (sr_swap_id r)), (''quote_id'', JsonString (sr_quote_id r)),
      (''status'', JsonString (status_name (sr_status r))),
      (''direction'', JsonString (direction_name (sr_direction r))),
      (''parties'', shown_parties (sr_direction r)),
      (''bolt11_invoice'', JsonString (sr_bolt11_invoice r)),
      (''payment_hash'', JsonString (sr_payment_hash r)),
      (''liquid'', JsonObject
        [(''asset_id'', JsonString (sr_asset_id r)), (''asset_amount'', JsonNumber (unat (sr_asset_amount r))),
         (''fee_subsidy_sats'', JsonNumber (unat (sr_fee_subsidy_sats r))),
         (''refund_lock_height'', JsonNumber (unat (sr_refund_lock_height r))),
         (''p2wsh_address'', JsonString (sr_p2wsh_address r)),
         (''funding_txid'', JsonString (sr_funding_txid r)),
         (''asset_vout'', JsonNumber (unat (sr_asset_vout r))),
         (''lbtc_vout'', JsonNumber (unat (sr_lbtc_vout r))),
         (''min_funding_confs'', JsonNumber (unat (sr_min_funding_confs r)))])]"

lemma role_json_i32: "role_json (role_i32 r) = JsonString (role_debug r)"
  by (simp add: role_json_def json_option_def del: role_i32.simps)

lemma parties_json_shown: "parties_json (parties_for_direction (direction_to_proto d)) = shown_parties d"
  by (cases d) (simp_all add: parties_json_def role_json_i32 del: role_i32.simps)

lemma status_shown: "status_debug (status_to_proto st) = status_name st"
  by (cases st) simp_all

lemma direction_shown: "direction_debug (direction_to_proto d) = direction_name d"
  by (cases d) simp_all

lemma swap_json_shown:
  assumes "swap_record_to_proto ev r = Inr swap"
  shows "swap_json swap = shown_swap r"
  using assms
  by (auto simp: swap_record_to_proto_def swap_json_def liquid_json_def json_word_def json_option_def Let_def shown_swap_def
      parties_json_shown status_shown direction_shown simp del: parties_for_direction.simps direction_i32.simps status_i32.simps)

text \<open>
  C23. \<open>get-swap\<close> with either party's token prints the stored swap, whole: every member of the
  object is the record's field of that name, status, direction and the five parties in words,
  never as \<open>UNKNOWN\<close> or null; and all that happens is one read of the store.
\<close>

theorem client_prints_stored_swap:
  assumes "headers_ok ev" and "codecs_ok ev" and "visible_ascii token" and "trim k \<noteq> []"
    and "token \<in> {cf_seller_token cfg, cf_buyer_token cfg}" and "cf_seller_token cfg \<noteq> cf_buyer_token cfg"
    and "service_inv ev cfg (sy_db s)" and "swaps (sy_db s) k = Some r" and "fst (ev_sql ev (sy_world s)) = None"
  shows "cli_main ev (\<lambda>_. return_run (service_client ev cfg)) \<lparr>ca_grpc_url = url, ca_auth_token = token, ca_command = GetSwapCommand k\<rparr> s =
      Some (Inr (shown_swap r), looked_up ev s) \<and> sr_swap_id r = k"
proof -
  have ok: "store_ok (sy_db s)" and wf: "swap_wf ev cfg r" using assms(7,8) by (auto simp: service_inv_def)
  obtain swap where swap: "swap_record_to_proto ev r = Inr swap" using encodable_swap [OF wf assms(2)] by blast
  obtain request where rq: "with_auth ev token \<lparr>gs_swap_id = k\<rparr> = Inr request" "rq_message request = \<lparr>gs_swap_id = k\<rparr>"
    "require_authenticated ev cfg request = Inr SellerCaller \<or> require_authenticated ev cfg request = Inr BuyerCaller"
    using with_auth_role [OF assms(1,3,6), of "\<lparr>gs_swap_id = k\<rparr>"] assms(5) by (auto split: if_splits)
  have "get_swap_rpc ev cfg request s = Some (Inr swap, looked_up ev s)"
    using rq(2,3) assms(4,8,9) swap
    by (auto simp: get_swap_rpc_def run_defs get_swap_ok [OF ok] looked_up_def)
  then have "cli_main ev (\<lambda>_. return_run (service_client ev cfg)) \<lparr>ca_grpc_url = url, ca_auth_token = token, ca_command = GetSwapCommand k\<rparr> s =
      Some (Inr (swap_json swap), looked_up ev s)"
    by (simp add: cli_main_def send_def service_client_def bind_run_def map_err_run_def rq(1))
  then show ?thesis using swaps_id [OF ok assms(8)] swap_json_shown [OF swap] by simp
qed

theorem client_prints_stored_swap_witness:
  "\<exists>s json. swaps (sy_db s) ''s1'' = Some paid_record \<and>
     cli_main demo_env (\<lambda>_. return_run (service_client demo_env demo_cfg))
       \<lparr>ca_grpc_url = ''u'', ca_auth_token = ''b'', ca_command = GetSwapCommand ''s1''\<rparr> s = Some (Inr json, s) \<and>
     field json ''status'' = Some (JsonString ''Paid'') \<and> field json ''parties'' = Some (shown_parties LnToLiquid) \<and>
     Option.bind (field json ''liquid'') (\<lambda>l. field l ''asset_vout'') = Some (JsonNumber 0) \<and>
     Option.bind (field json ''liquid'') (\<lambda>l. field l ''lbtc_vout'') = Some (JsonNumber 1)"
proof -
  have "swap_storable paid_record" "sr_swap_id paid_record = ''s1''"
    by (simp_all add: swap_storable_def paid_record_def demo_record_def)
  then obtain s :: "nat sys" where s: "store_ok (sy_db s)" "quotes (sy_db s) = Map.empty"
    "swaps (sy_db s) = [''s1'' \<mapsto> paid_record]"
    using recorded_state by blast
  have inv: "service_inv demo_env demo_cfg (sy_db s)"
    using s demo_wf(3) by (auto simp: service_inv_def quotes_linked_def split: if_splits)
  have here: "swaps (sy_db s) ''s1'' = Some paid_record" using s(3) by simp
  have same: "looked_up demo_env s = s" by (simp add: looked_up_def demo_sql)
  have "visible_ascii ''b''" "trim ''s1'' \<noteq> []" by (simp_all add: visible_ascii_def trim_plain)
  with client_prints_stored_swap [OF demo_headers demo_codecs this _ _ inv here, where url = "''u''"]
  have "cli_main demo_env (\<lambda>_. return_run (service_client demo_env demo_cfg))
       \<lparr>ca_grpc_url = ''u'', ca_auth_token = ''b'', ca_command = GetSwapCommand ''s1''\<rparr> s = Some (Inr (shown_swap paid_record), s)"
    by (simp add: same demo_sql)
  moreover have "field (shown_swap paid_record) ''status'' = Some (JsonString ''Paid'')"
    "field (shown_swap paid_record) ''parties'' = Some (shown_parties LnToLiquid)"
    "Option.bind (field (shown_swap paid_record) ''liquid'') (\<lambda>l. field l ''asset_vout'') = Some (JsonNumber 0)"
    "Option.bind (field (shown_swap paid_record) ''liquid'') (\<lambda>l. field l ''lbtc_vout'') = Some (JsonNumber 1)"
    by (simp_all add: shown_swap_def paid_record_def demo_record_def)
  ultimately show ?thesis using here by blast
qed

section \<open>A swap from the command line\<close>

abbreviation demo_cli :: "string \<Rightarrow> command \<Rightarrow> (nat sys, cli_error, json) run" where
  "demo_cli \<equiv> run_command demo_env (service_client demo_env demo_cfg)"

lemma demo_with_auth: "with_auth demo_env token m = Inr (demo_request token m)"
  by (simp add: with_auth_def demo_request_def demo_env_def)

text \<open>
  What the program is for, once through: in the concrete environment the seller's command
  quotes, the buyer's commands create the swap, pay it and claim it, every one of them prints
  an answer, and the store ends with the swap claimed and its preimage on record.
\<close>

theorem demo_swap_completes:
  "\<exists>j1 s1 j2 s2 j3 s3 j4 s4.
     demo_cli ''s'' (CreateQuoteCommand ArgLnToLiquid (demo_text [10]) 1000 1) demo_sys = Some (Inr j1, s1) \<and>
     field j1 ''quote_id'' = Some (JsonString ''s1'') \<and>
     demo_cli ''b'' (CreateSwapCommand ''s1'' ''el1demo'' []) s1 = Some (Inr j2, s2) \<and>
     field j2 ''status'' = Some (JsonString ''Funded'') \<and>
     demo_cli ''b'' (CreateLightningPaymentCommand ''s1'' 0) s2 = Some (Inr j3, s3) \<and>
     field j3 ''preimage_hex'' = Some (JsonString (demo_text (replicate 32 7))) \<and>
     demo_cli ''b'' (CreateAssetClaimCommand ''s1'' 0) s3 = Some (Inr j4, s4) \<and>
     field j4 ''claim_txid'' = Some (JsonString (demo_text [1])) \<and>
     swaps (sy_db s4) = [''s1'' \<mapsto> paid_record\<lparr>sr_claim_txid := Some (demo_text [1]), sr_status := Claimed\<rparr>]"
proof -
  obtain db where q: "create_quote demo_env demo_cfg (demo_request ''s'' (demo_quote_request 1000)) demo_sys =
     Some (Inr (quote_record_to_proto demo_quote), \<lparr>sy_db = db, sy_world = 0\<rparr>)"
    and db: "store_ok db" "quotes db = [''s1'' \<mapsto> demo_quote]" "swaps db = Map.empty"
    using demo_create_quote by blast
  let ?s1 = "\<lparr>sy_db = db, sy_world = 0\<rparr> :: nat sys"
  obtain swap s2 where c: "create_swap demo_env demo_cfg demo_swap_request ?s1 = Some (Inr swap, s2)"
    and swap: "swap_record_to_proto demo_env (demo_record Funded) = Inr swap"
    and s2: "store_ok (sy_db s2)" "swaps (sy_db s2) = [''s1'' \<mapsto> demo_record Funded]"
    using demo_create_swap [of ?s1] db by auto
  obtain s3 where p: "create_lightning_payment demo_env demo_cfg demo_pay_request s2 =
      Some (Inr \<lparr>pay_payment_id = ''p1'', pay_preimage = replicate 32 7\<rparr>, s3)"
    and s3: "store_ok (sy_db s3)" "swaps (sy_db s3) = [''s1'' \<mapsto> paid_record]"
    using demo_pay [of s2] s2 by auto
  obtain s4 where a: "create_asset_claim demo_env demo_cfg demo_claim_request s3 =
      Some (Inr \<lparr>ac_claim_txid = demo_text [1]\<rparr>, s4)"
    and s4: "swaps (sy_db s4) = [''s1'' \<mapsto> paid_record\<lparr>sr_claim_txid := Some (demo_text [1]), sr_status := Claimed\<rparr>]"
    using demo_claim [of s3] s3 by auto
  have q': "demo_cli ''s'' (CreateQuoteCommand ArgLnToLiquid (demo_text [10]) 1000 1) demo_sys =
      Some (Inr (quote_json (JsonString ''LnToLiquid'') (quote_record_to_proto demo_quote)), ?s1)"
    using q by (simp add: send_def demo_with_auth service_client_def bind_run_def map_err_run_def demo_quote_request_def)
  have c': "demo_cli ''b'' (CreateSwapCommand ''s1'' ''el1demo'' []) ?s1 = Some (Inr (swap_json swap), s2)"
    using c by (simp add: send_def demo_with_auth service_client_def bind_run_def map_err_run_def demo_swap_request_def)
  obtain j3 where p': "demo_cli ''b'' (CreateLightningPaymentCommand ''s1'' 0) s2 = Some (Inr j3, s3)"
      "field j3 ''preimage_hex'' = Some (JsonString (demo_text (replicate 32 7)))"
    using p by (simp add: send_def demo_with_auth service_client_def bind_run_def map_err_run_def demo_pay_request_def) (simp add: demo_env_def)
  obtain j4 where a': "demo_cli ''b'' (CreateAssetClaimCommand ''s1'' 0) s3 = Some (Inr j4, s4)"
      "field j4 ''claim_txid'' = Some (JsonString (demo_text [1]))"
    using a by (simp add: send_def demo_with_auth service_client_def bind_run_def map_err_run_def demo_claim_request_def)
  have "field (quote_json (JsonString ''LnToLiquid'') (quote_record_to_proto demo_quote)) ''quote_id'' = Some (JsonString ''s1'')"
    by (simp add: quote_json_def quote_record_to_proto_def Let_def demo_quote_storable)
  moreover have "field (swap_json swap) ''status'' = Some (JsonString ''Funded'')"
    by (simp add: swap_json_shown [OF swap] shown_swap_def demo_record_def)
  ultimately show ?thesis using q' c' p' a' s4 by blast
qed

end
