(* ===== verification/Liveness_Properties.thy ===== *)
theory Liveness_Properties
  imports Payment_Properties Access_Properties
begin

text \<open>
  What the service owes to the party that paid: whenever a swap is paid, its claimer's request
  is answered, provided the wallet, the database and the chain do their part.
\<close>

section \<open>A claim that can be made is made\<close>

text \<open>The wallet syncs and has the claimer's key and address; the database does not fail.\<close>

definition claim_side_up :: "'w env \<Rightarrow> swap_service_config \<Rightarrow> swap_record \<Rightarrow> bool" where
  "claim_side_up ev cfg r \<longleftrightarrow>
     (\<forall>w. fst (ev_full_scan ev w) = Inr ()) \<and> (\<forall>w. fst (ev_sql ev w) = None) \<and>
     (\<exists>child key. ev_child_from_normal_idx ev (claimer_index cfg (sr_direction r)) = Inr child \<and>
        ev_derive_xprv ev [child] = Inr key) \<and>
     (\<forall>w. \<exists>a. ev_wallet_address ev w (claimer_index cfg (sr_direction r)) = Inr a \<and>
        (sr_direction r = LnToLiquid \<longrightarrow> ad_string a = sr_buyer_liquid_address r))"

text \<open>The chain takes a transaction that satisfies the scripts of the HTLC on record.\<close>

definition accepts_spends :: "'w env \<Rightarrow> swap_service_config \<Rightarrow> swap_record \<Rightarrow> bool" where
  "accepts_spends ev cfg r \<longleftrightarrow>
     (\<forall>seller buyer spec funding tx w. swap_terms ev cfg r seller buyer spec \<longrightarrow> recorded_funding ev r funding \<longrightarrow>
        spends_htlc (ev_script ev) (ev_crypto ev) funding (witness_script (ev_script ev) spec) tx \<longrightarrow>
        (\<exists>t. fst (ev_broadcast ev tx w) = Inr t))"

lemma recorded_funding_exists:
  assumes "codecs_ok ev" and "swap_terms ev cfg r seller buyer spec"
  shows "\<exists>txid asset. ev_txid_from_str ev (sr_funding_txid r) = Inr txid \<and> ev_asset_from_str ev (sr_asset_id r) = Inr asset"
  using assms(2) codecs_okD(2,3) [OF assms(1)] by (auto simp: swap_terms_def)

lemma claim_task_answers:
  assumes libs: "libraries_ok ev" and terms: "swap_terms ev cfg r seller buyer spec"
    and preimage: "length preimage = 32" "ev_hex_decode ev (sr_payment_hash r) = Inr (sha256_preimage (ev_crypto ev) preimage)"
    and up: "claim_side_up ev cfg r" and accepts: "accepts_spends ev cfg r"
    and ok: "store_ok (sy_db s)" and r: "swaps (sy_db s) (sr_swap_id r) \<noteq> None" and fee: "fee < sr_fee_subsidy_sats r"
  shows "\<exists>txid s'. claim_task ev cfg r preimage fee s = Some (Inr txid, s')"
proof -
  let ?i = "claimer_index cfg (sr_direction r)" and ?w = "snd (ev_full_scan ev (sy_world s))"
  obtain child key a where side: "ev_child_from_normal_idx ev ?i = Inr child" "ev_derive_xprv ev [child] = Inr key"
    "ev_wallet_address ev ?w ?i = Inr a" "sr_direction r = LnToLiquid \<longrightarrow> ad_string a = sr_buyer_liquid_address r"
    using up unfolding claim_side_up_def by blast
  have quiet: "fst (ev_full_scan ev (sy_world s)) = Inr ()" "\<And>w. fst (ev_sql ev w) = None"
    using up by (simp_all add: claim_side_up_def)
  obtain txid asset where ids: "ev_txid_from_str ev (sr_funding_txid r) = Inr txid" "ev_asset_from_str ev (sr_asset_id r) = Inr asset"
    using recorded_funding_exists [OF libraries_okD(3) [OF libs] terms] by blast
  let ?funding = "\<lparr>hf_funding_txid = txid, hf_asset_vout = sr_asset_vout r, hf_lbtc_vout = sr_lbtc_vout r,
    hf_asset_id = asset, hf_asset_amount = sr_asset_amount r, hf_policy_asset = ev_policy_asset ev,
    hf_fee_subsidy_sats = sr_fee_subsidy_sats r\<rparr>"
  have "fee < hf_fee_subsidy_sats ?funding" using fee by simp
  then obtain tx where tx: "claim_tx_from_witness_script (ev_crypto ev) (witness_script (ev_script ev) spec) ?funding a key preimage fee = Inr tx"
    using claim_tx_total [OF libraries_okD(2) [OF libs]] by blast
  have "spends_htlc (ev_script ev) (ev_crypto ev) ?funding (witness_script (ev_script ev) spec) tx"
    by (rule claim_tx_unlocks [OF libs terms preimage _ side(4) _ tx, of "s\<lparr>sy_world := ?w\<rparr>" "s\<lparr>sy_world := ?w\<rparr>" s s])
      (simp_all add: address_at_eq derive_eq side)
  moreover have "recorded_funding ev r ?funding" using ids by (simp add: recorded_funding_def)
  ultimately obtain t where t: "fst (ev_broadcast ev tx ?w) = Inr t"
    using accepts terms unfolding accepts_spends_def by blast
  obtain db where db: "upsert_swap_claim None (sr_swap_id r) (ev_txid_to_string ev t) Claimed (sy_db s) = Some (Inr (), db)"
    using upsert_swap_claim_ok [OF ok, of None "sr_swap_id r" "ev_txid_to_string ev t" Claimed] r
    by (auto simp: update_result_def)
  show ?thesis
    using side quiet ids tx t db swap_script [OF libs terms]
    by (cases "sr_direction r")
      (simp_all add: claim_task_def claimer_index_def sync_def broadcast_transaction_def address_at_eq derive_eq run_defs)
qed

section \<open>The claimer is answered\<close>

lemma load_swap_found:
  assumes "store_ok (sy_db s)" and "swaps (sy_db s) k = Some r" and "trim k \<noteq> []"
    and "require_authenticated ev cfg request = Inr caller" and "fst (ev_sql ev (sy_world s)) = None"
  shows "load_swap ev cfg request k s = Some (Inr (caller, r), looked_up ev s)"
  using assms by (simp add: load_swap_def run_defs get_swap_ok [OF assms(1)] looked_up_def)

lemma paying_party_passes:
  assumes "presents_token ev request (paying_token cfg d)" and "cf_seller_token cfg \<noteq> cf_buyer_token cfg"
    and "party = pa_ln_payer \<or> party = pa_liquid_claimer"
  shows "\<exists>caller. require_authenticated ev cfg request = Inr caller \<and>
    require_swap_role caller (role_or_unspecified (party (parties_for_direction (direction_to_proto d)))) what = Inr ()"
proof -
  have roles: "role_or_unspecified 1 = PbBuyer" "role_or_unspecified 2 = PbSeller"
    using role_or_unspecified_roundtrip [of PbBuyer] role_or_unspecified_roundtrip [of PbSeller] by simp_all
  show ?thesis
  proof (cases d)
    case LnToLiquid
    with assms roles show ?thesis
      by (intro exI [of _ BuyerCaller]) (auto simp: require_swap_role_iff require_authenticated_iff paying_token_def)
  next
    case LiquidToLn
    with assms roles show ?thesis
      by (intro exI [of _ SellerCaller]) (auto simp: require_swap_role_iff require_authenticated_iff paying_token_def)
  qed
qed

text \<open>
  C14. Whoever paid gets the assets: while the wallet, the database and the chain do their
  part, a claimer's request for a swap with a recorded preimage and no claim yet is answered
  with a transaction id, and the swap becomes Claimed, whatever its status was. The fee asked
  for (500 satoshis if none) must be below the subsidy of the HTLC.
\<close>

theorem paid_swap_claimable:
  assumes libs: "libraries_ok ev" and inv: "service_inv ev cfg (sy_db s)"
    and r: "swaps (sy_db s) (ac_swap_id (rq_message request)) = Some r" "trim (ac_swap_id (rq_message request)) \<noteq> []"
    and paid: "sr_ln_preimage_hex r \<noteq> None" "sr_claim_txid r = None"
    and token: "presents_token ev request (paying_token cfg (sr_direction r))" "cf_seller_token cfg \<noteq> cf_buyer_token cfg"
    and up: "claim_side_up ev cfg r" "accepts_spends ev cfg r"
    and fee: "(if ac_claim_fee_sats (rq_message request) = 0 then 500 else ac_claim_fee_sats (rq_message request)) < sr_fee_subsidy_sats r"
  shows "\<exists>claim s'. create_asset_claim ev cfg request s = Some (Inr claim, s') \<and>
    swaps (sy_db s') = (swaps (sy_db s))(ac_swap_id (rq_message request) \<mapsto>
      r\<lparr>sr_claim_txid := Some (ac_claim_txid claim), sr_status := Claimed\<rparr>)"
proof -
  let ?k = "ac_swap_id (rq_message request)" and ?s = "looked_up ev s"
  let ?fee = "if ac_claim_fee_sats (rq_message request) = 0 then DEFAULT_CLAIM_FEE_SATS else ac_claim_fee_sats (rq_message request)"
  have ok: "store_ok (sy_db ?s)" "swaps (sy_db ?s) (sr_swap_id r) = Some r" "sr_swap_id r = ?k"
    using inv r(1) swaps_id [OF _ r(1)] by (auto simp: service_inv_def looked_up_def)
  obtain seller buyer spec h p where terms: "swap_terms ev cfg r seller buyer spec"
    and h: "sr_ln_preimage_hex r = Some h" "h = ev_hex_encode ev p" "length p = 32"
      "ev_hex_decode ev (sr_payment_hash r) = Inr (sha256_preimage (ev_crypto ev) p)"
    using inv r(1) paid(1) unfolding service_inv_def swap_wf_def preimage_for_def by blast
  have decoded: "ev_hex_decode ev h = Inr p" using h(2) codecs_okD(1) [OF libraries_okD(3) [OF libs]] by simp
  have "?fee < sr_fee_subsidy_sats r" using fee by (simp add: DEFAULT_CLAIM_FEE_SATS_def split: if_splits)
  then obtain txid s' where task: "claim_task ev cfg r p ?fee ?s = Some (Inr txid, s')"
    using claim_task_answers [OF libs terms h(3,4) up ok(1)] ok(2) by blast
  obtain caller where caller: "require_authenticated ev cfg request = Inr caller"
    "require_swap_role caller (role_or_unspecified (pa_liquid_claimer (parties_for_direction (direction_to_proto (sr_direction r)))))
       ''liquid_claimer'' = Inr ()"
    using paying_party_passes [OF token] by blast
  have "load_swap ev cfg request ?k s = Some (Inr (caller, r), ?s)"
    using load_swap_found [OF _ r caller(1)] inv up(1) by (simp add: service_inv_def claim_side_up_def)
  then have "create_asset_claim ev cfg request s = Some (Inr \<lparr>ac_claim_txid = txid\<rparr>, s')"
    using task by (simp add: create_asset_claim_unfold Let_def bind_run_def caller(2) paid(2) h(1,3) decoded internal_def map_err_run_def)
  moreover have "swaps (sy_db s') = (swaps (sy_db s))(?k \<mapsto> r\<lparr>sr_claim_txid := Some txid, sr_status := Claimed\<rparr>)"
    using claim_task_stored [OF ok(1,2) task] ok(3) by (simp add: looked_up_def)
  ultimately show ?thesis by (intro exI [of _ "\<lparr>ac_claim_txid = txid\<rparr>"] exI [of _ s']) simp
qed

theorem paid_swap_claimable_witness:
  "\<exists>s claim s'. swaps (sy_db s) ''s1'' = Some paid_record \<and>
     create_asset_claim demo_env demo_cfg demo_claim_request s = Some (Inr claim, s') \<and>
     map_option sr_status (swaps (sy_db s') ''s1'') = Some Claimed"
proof -
  have "swap_storable paid_record" by (simp add: swap_storable_def paid_record_def demo_record_def)
  then obtain s :: "nat sys" where s: "store_ok (sy_db s)" "quotes (sy_db s) = Map.empty"
    "swaps (sy_db s) = [''s1'' \<mapsto> paid_record]"
    using recorded_state [of paid_record] by (auto simp: paid_record_def)
  have inv: "service_inv demo_env demo_cfg (sy_db s)"
    using s demo_wf by (auto simp: service_inv_def quotes_linked_def split: if_splits)
  have msg: "rq_message demo_claim_request = \<lparr>ac_swap_id = ''s1'', ac_claim_fee_sats = 0\<rparr>"
    by (simp add: demo_claim_request_def demo_request_def)
  have paid: "sr_ln_preimage_hex paid_record \<noteq> None" "sr_claim_txid paid_record = None" "sr_direction paid_record = LnToLiquid"
    "sr_fee_subsidy_sats paid_record = 10000" "sr_buyer_liquid_address paid_record = ''el1demo''"
    by (simp_all add: paid_record_def demo_record_def)
  have up: "claim_side_up demo_env demo_cfg paid_record" "accepts_spends demo_env demo_cfg paid_record"
    by (simp_all add: claim_side_up_def accepts_spends_def paid demo_env_def demo_wallet_address_def)
  have token: "presents_token demo_env demo_claim_request (paying_token demo_cfg (sr_direction paid_record))"
    "cf_seller_token demo_cfg \<noteq> cf_buyer_token demo_cfg"
    by (simp_all add: paid paying_token_def demo_token demo_claim_request_def demo_cfg_def)
  obtain claim s' where "create_asset_claim demo_env demo_cfg demo_claim_request s = Some (Inr claim, s')"
    "swaps (sy_db s') ''s1'' = Some (paid_record\<lparr>sr_claim_txid := Some (ac_claim_txid claim), sr_status := Claimed\<rparr>)"
    using paid_swap_claimable [OF demo_libraries inv _ _ paid(1,2) token up] s(3) msg paid(4) trim_plain [of "''s1''"] by auto
  then show ?thesis using s(3) by (intro exI [of _ s] exI [of _ claim] exI [of _ s']) simp
qed

section \<open>What a payment does not look at\<close>

lemma payment_env_height:
  "require_authenticated (ev\<lparr>ev_tip_height := h\<rparr>) = require_authenticated ev"
  "store_run (ev\<lparr>ev_tip_height := h\<rparr>) = store_run ev"
  "pay_invoice (ev\<lparr>ev_tip_height := h\<rparr>) = pay_invoice ev"
  "try_preimage (ev\<lparr>ev_tip_height := h\<rparr>) = try_preimage ev"
  by (simp_all add: fun_eq_iff require_authenticated_def authorization_bearer_token_def store_run_def pay_invoice_def
      try_preimage_def settled_payment_def read_preimage_def cong: option.case_cong)

lemma wait_env_height: "wait_preimage (ev\<lparr>ev_tip_height := h\<rparr>) = wait_preimage ev"
  by (intro ext) (simp add: wait_preimage_def payment_env_height)

text \<open>
  Paying does not depend on the height of the chain: a swap is payable the same way before and
  after its refund height, when the refund worker may already spend its HTLC.
\<close>

theorem payment_ignores_height:
  "create_lightning_payment (ev\<lparr>ev_tip_height := h\<rparr>) = create_lightning_payment ev"
  by (intro ext) (simp add: create_lightning_payment_unfold load_swap_def pay_swap_def hash_matches_def payment_env_height wait_env_height
      cong: option.case_cong)

end
