(* ===== verification/Spec2Isabelle.thy ===== *)
theory Spec2Isabelle
  imports System_Properties Startup_Properties Client_Properties Liveness_Properties
begin

text \<open>
  A verification library for the swap service between Lightning and Liquid
  (\<open>src/src\<close>, Rust): the HTLC scripts and transactions, the SQLite store with its migration,
  the gRPC handlers, the refund worker and the command line client.

  The program. A seller quotes a price for a Liquid asset; a buyer turns the quote into a swap:
  the server funds a P2WSH output pair (asset and L-BTC subsidy) locked to the payment hash of
  a Lightning invoice, records the swap and waits for confirmations. Paying the invoice reveals
  the preimage, which is recorded and later spends the outputs (claim). From the refund height
  on, the refund worker spends them back. The handlers (\<open>swap/service.rs\<close>) share the store
  (\<open>swap/store.rs\<close>), the wallet (\<open>liquid/wallet.rs\<close>) and the LDK client
  (\<open>lightning/ldk.rs\<close>); the worker (\<open>bin/swap_server.rs\<close>) shares the first two; the
  client (\<open>bin/swap_cli.rs\<close>) calls the handlers.

  How it is modelled. A program over state \<open>'s\<close> with errors \<open>'e\<close> is a function
  \<open>'s \<Rightarrow> (('e + 'a) \<times> 's) option\<close> (\<open>Swap_Prelude\<close>): \<open>Inl\<close> is an \<open>Err\<close>, \<open>bind_run\<close>
  is \<open>?\<close>, and \<open>None\<close> is a program that does not return, which only the polling loops can
  be (\<open>partial_function (option)\<close>). The state is the database and the outside world
  (\<open>sys\<close> in \<open>Swap_Env\<close>); every call to a library is a field of the record \<open>env\<close>:
  pure ones are functions, the others act on the world. \<open>u8\<close>, \<open>u32\<close> and \<open>u64\<close> are
  words of their width; the \<open>i32\<close> a message carries for an enum is an \<open>int\<close>, as nothing is
  computed with it; durations are nanoseconds.

  Data and scripts.
  \<open>Swap_Types\<close>: the records of \<open>swap/mod.rs\<close> and the messages and enums of \<open>swap.proto\<close>.
  \<open>Script_Num\<close>, \<open>Htlc_Script\<close>: \<open>HtlcSpec\<close>, its witness script and the parser of
  \<open>liquid/htlc.rs\<close>; \<open>Script_Vm\<close> gives scripts their meaning, \<open>Script_Bytes\<close> is a concrete
  script library. \<open>Elements_Data\<close>, \<open>Htlc_Tx\<close>: the claim and refund transactions.
  \<open>Htlc_Properties\<close>: what unlocks an HTLC, that both transactions do, what they pay, when they
  can be built.

  Store.
  \<open>Sql_Tables\<close>, \<open>Sql_Records\<close>: rows of SQL values, the statements the store uses, and
  locales for a record kept as rows (\<open>row_codec\<close>, \<open>row_update\<close>), interpreted on the two
  tables in \<open>Swap_Store\<close>, the calls of \<open>SqliteStore\<close>. \<open>Store_Schema\<close>: \<open>open\<close> and
  \<open>migrate\<close>. \<open>Store_Refinement\<close>: the rows implement two finite maps.
  \<open>Store_Properties\<close>: that refinement, the round trip, opening new and old files.

  Outside and handlers.
  \<open>Polling\<close>: the polling loop and its deadline (locale \<open>deadline_loop\<close>, interpreted on the
  waits of \<open>Lightning\<close> and \<open>Liquid_Wallet\<close>). \<open>Service_Auth\<close>: tokens, roles, offers, the
  encoding of records. \<open>Quote_Service\<close>, \<open>Swap_Service\<close>: the six handlers.
  \<open>Refund_Worker\<close>: start-up and the worker. \<open>Swap_Cli\<close>: the client.

  Reasoning.
  \<open>Store_Writes\<close>: each write as a request with the guard its caller has established, and the
  invariant \<open>service_inv\<close> (locale \<open>sound_records\<close>, for one configuration and for all a file has
  seen). \<open>Service_Facts\<close>, \<open>Service_Steps\<close>: every handler only makes guarded writes.
  \<open>Service_Machine\<close>: the service as a step relation, one request or round per step.
  \<open>Concurrency\<close>: the same with handlers and refund rounds as tasks whose phases interleave
  (\<open>interleave\<close>, \<open>task_phase\<close>; locale \<open>task_system\<close>). The phases are the parts \<open>Swap_Service\<close>
  and \<open>Refund_Worker\<close> compose the handlers of, cut where the code lets go of the store: checking
  a swap request, funding and recording it, waiting and marking it; checking and making a payment
  or a claim; listing the swaps of a round, and each refund. \<open>Task_Decisions\<close>: what a pending
  task has decided on, and that its phases write nothing else; it interprets \<open>task_system\<close>.
  \<open>Handler_Facts\<close>, \<open>Spend_Facts\<close>: what handlers return, and which transactions they broadcast.

  Properties.
  \<open>Quote_Properties\<close>, \<open>Access_Properties\<close>, \<open>Swap_Properties\<close>, \<open>Create_Properties\<close>,
  \<open>Payment_Properties\<close>, \<open>Refund_Properties\<close>, \<open>Wallet_Properties\<close>,
  \<open>System_Properties\<close>, \<open>Startup_Properties\<close> (what a server starts with, over the life of a
  file), \<open>Client_Properties\<close>, \<open>Liveness_Properties\<close> (a paid swap can be claimed), each with an
  instance on the concrete environment of \<open>Demo_Env\<close> (\<open>Demo_Runs\<close> and, for interleaved tasks,
  \<open>Demo_Race\<close> have its runs).

  Hypotheses on libraries, as they document themselves: \<open>script_lib_ok\<close> (building and reading
  scripts), \<open>crypto_lib_ok\<close> (hash lengths, own signatures verify, \<open>LockTime::from_height\<close>),
  \<open>codecs_ok\<close> (printed values parse back), \<open>invoices_ok\<close> (payment hashes have 32 bytes),
  \<open>keys_ok\<close> and \<open>addresses_ok\<close> (the key at an index belongs to the address there),
  \<open>clock_ok\<close> (the clock does not run back, sleeps last), \<open>headers_ok\<close>. \<open>Demo_Env\<close> and
  \<open>Demo_Runs\<close> satisfy all of them.

  Bounds. No proof uses fuel: the two polling loops end by their deadline, all other loops are
  over finite lists. \<open>refund_rounds n\<close> are the first \<open>n\<close> rounds of the endless worker.

  Not modelled: argument parsing, the gRPC listener, TLS and connections, logging, pretty
  printing, the generated prost code (its schema is), mutex poisoning and task join errors,
  the wallet's mutex (\<open>Concurrency\<close> allows more interleavings than it does),
  the accessors \<open>network\<close>, \<open>policy_asset\<close> and \<open>signer\<close> beyond the values they return.
  The libraries themselves (LWK, rust-elements, secp256k1, rusqlite, tonic, LDK,
  lightning-invoice) are not in the repository and stay parameters; SQLite is modelled by the
  statements the store uses, with a free verdict for each execution.
\<close>

end
